(* ===== verification/Prelude.thy ===== *)
theory Prelude
  imports Main "HOL-Library.List_Lexorder" "HOL-Library.Char_ord" "HOL-Library.Product_Lexorder"
begin

text \<open>
  What every component shares: the exceptions of the services, the fallible state passing in which
  the handlers are written, the Python string and dictionary operations the source uses, and lists
  of rows addressed by a key, which is how the database tables are kept.

  A Python string is a list of characters whose code points are below 256. On that range
  \<open>str_strip\<close> and \<open>str_lower\<close> follow Python's tables of white space and of lower case letters.
  A dictionary is an association list in insertion order.
\<close>

named_theorems op_simps \<open>evaluation of the fallible state passing\<close>
named_theorems keeps_intros \<open>what keeps an invariant of the state\<close>

section \<open>Exceptions\<close>

datatype exn =
    NotFoundError string
  | ConflictError string
  | InvalidStateError string
  | ValidationError string
  | ValueError string
  | ConfigValidationError string
  | SubmissionError string
  | RegistrationError string
  | RegistrationClosedError string
  | ZipValidationError string
  | ArtifactError string
  | GitError string
  | SecurityConfigurationError string
  | RuntimeError string
  | HTTPException nat string
  | DBAPIError string
  | MultipleResultsFound
  | KeyError string
  | TypeError string
  | AttributeError string
  | IndexError string
  | OSError string
  | ResponseError string
  | BadZipFile string
  | StructError string
  | HTTPStatusError nat
  | HTTPError string

text \<open>The classes of \<open>services/errors.py\<close>: every one derives from \<open>RegistryError\<close>.\<close>

fun is_registry_error :: "exn \<Rightarrow> bool" where
  "is_registry_error (NotFoundError _) = True"
| "is_registry_error (ConflictError _) = True"
| "is_registry_error (InvalidStateError _) = True"
| "is_registry_error (ValidationError _) = True"
| "is_registry_error _ = False"

fun error_status_code :: "exn \<Rightarrow> nat" where
  "error_status_code (NotFoundError _) = 404"
| "error_status_code (ConflictError _) = 409"
| "error_status_code (InvalidStateError _) = 400"
| "error_status_code (ValidationError _) = 400"
| "error_status_code _ = 400"

definition error_retryable :: "exn \<Rightarrow> bool" where
  "error_retryable e = False"

text \<open>\<open>str(exc)\<close>.\<close>

fun exn_message :: "exn \<Rightarrow> string" where
  "exn_message (NotFoundError s) = s"
| "exn_message (ConflictError s) = s"
| "exn_message (InvalidStateError s) = s"
| "exn_message (ValidationError s) = s"
| "exn_message (ValueError s) = s"
| "exn_message (ConfigValidationError s) = s"
| "exn_message (SubmissionError s) = s"
| "exn_message (RegistrationError s) = s"
| "exn_message (RegistrationClosedError s) = s"
| "exn_message (ZipValidationError s) = s"
| "exn_message (ArtifactError s) = s"
| "exn_message (GitError s) = s"
| "exn_message (SecurityConfigurationError s) = s"
| "exn_message (RuntimeError s) = s"
| "exn_message (HTTPException n s) = s"
| "exn_message (DBAPIError s) = s"
| "exn_message MultipleResultsFound = ''Multiple rows were found when one or none was required''"
| "exn_message (KeyError s) = s"
| "exn_message (TypeError s) = s"
| "exn_message (AttributeError s) = s"
| "exn_message (OSError s) = s"
| "exn_message (ResponseError s) = s"
| "exn_message (IndexError s) = s"
| "exn_message (BadZipFile s) = s"
| "exn_message (StructError s) = s"
| "exn_message (HTTPStatusError n) = ''HTTP status error''"
| "exn_message (HTTPError s) = s"

section \<open>Fallible values\<close>

definition bind_res :: "exn + 'a \<Rightarrow> ('a \<Rightarrow> exn + 'b) \<Rightarrow> exn + 'b" where
  "bind_res m f = (case m of Inl e \<Rightarrow> Inl e | Inr x \<Rightarrow> f x)"

fun map_res :: "('a \<Rightarrow> exn + 'b) \<Rightarrow> 'a list \<Rightarrow> exn + 'b list" where
  "map_res f [] = Inr []"
| "map_res f (x # xs) = bind_res (f x) (\<lambda>y. bind_res (map_res f xs) (\<lambda>ys. Inr (y # ys)))"

lemma bind_res_simps [simp]:
  "bind_res (Inl e) f = Inl e" "bind_res (Inr x) f = f x"
  by (simp_all add: bind_res_def)

lemma bind_res_Inr_iff: "bind_res m f = Inr y \<longleftrightarrow> (\<exists>x. m = Inr x \<and> f x = Inr y)"
  by (cases m) auto

lemma bind_res_Inl_iff: "bind_res m f = Inl e \<longleftrightarrow> m = Inl e \<or> (\<exists>x. m = Inr x \<and> f x = Inl e)"
  by (cases m) auto

section \<open>Fallible state passing\<close>

type_synonym ('w, 'a) op = "'w \<Rightarrow> (exn + 'a) \<times> 'w"

definition ret :: "'a \<Rightarrow> ('w, 'a) op" where
  "ret x = (\<lambda>w. (Inr x, w))"

definition raise :: "exn \<Rightarrow> ('w, 'a) op" where
  "raise e = (\<lambda>w. (Inl e, w))"

definition bind_op :: "('w, 'a) op \<Rightarrow> ('a \<Rightarrow> ('w, 'b) op) \<Rightarrow> ('w, 'b) op" where
  "bind_op m f = (\<lambda>w. case m w of (Inl e, v) \<Rightarrow> (Inl e, v) | (Inr x, v) \<Rightarrow> f x v)"

definition gets :: "('w \<Rightarrow> 'a) \<Rightarrow> ('w, 'a) op" where
  "gets f = (\<lambda>w. (Inr (f w), w))"

definition modify :: "('w \<Rightarrow> 'w) \<Rightarrow> ('w, unit) op" where
  "modify f = (\<lambda>w. (Inr (), f w))"

definition guard_op :: "bool \<Rightarrow> exn \<Rightarrow> ('w, unit) op" where
  "guard_op b e = (if b then ret () else raise e)"

definition when_op :: "bool \<Rightarrow> ('w, unit) op \<Rightarrow> ('w, unit) op" where
  "when_op b m = (if b then m else ret ())"

definition lift_res :: "exn + 'a \<Rightarrow> ('w, 'a) op" where
  "lift_res r = (\<lambda>w. (r, w))"

text \<open>\<open>try: m except ...: h\<close>, where \<open>h\<close> re-raises what its clause does not name.\<close>

definition try_op :: "('w, 'a) op \<Rightarrow> (exn \<Rightarrow> ('w, 'a) op) \<Rightarrow> ('w, 'a) op" where
  "try_op m h = (\<lambda>w. case m w of (Inl e, v) \<Rightarrow> h e v | (Inr x, v) \<Rightarrow> (Inr x, v))"

fun foreach :: "('a \<Rightarrow> ('w, unit) op) \<Rightarrow> 'a list \<Rightarrow> ('w, unit) op" where
  "foreach f [] = ret ()"
| "foreach f (x # xs) = bind_op (f x) (\<lambda>_. foreach f xs)"

lemmas op_defs = ret_def raise_def bind_op_def gets_def modify_def guard_op_def when_op_def
  lift_res_def try_op_def

lemma ret_apply [simp, op_simps]: "ret x w = (Inr x, w)"
  by (simp add: ret_def)

lemma raise_apply [simp, op_simps]: "raise e w = (Inl e, w)"
  by (simp add: raise_def)

lemma gets_apply [simp, op_simps]: "gets f w = (Inr (f w), w)"
  by (simp add: gets_def)

lemma modify_apply [simp, op_simps]: "modify f w = (Inr (), f w)"
  by (simp add: modify_def)

lemma lift_res_apply [simp, op_simps]: "lift_res r w = (r, w)"
  by (simp add: lift_res_def)

lemma guard_op_apply [simp, op_simps]: "guard_op b e w = (if b then Inr () else Inl e, w)"
  by (simp add: guard_op_def)

lemma when_op_apply [simp, op_simps]: "when_op b m w = (if b then m w else (Inr (), w))"
  by (simp add: when_op_def)

lemma bind_op_Inl [simp, op_simps]: "m w = (Inl e, v) \<Longrightarrow> bind_op m f w = (Inl e, v)"
  by (simp add: bind_op_def)

lemma bind_op_Inr [simp, op_simps]: "m w = (Inr x, v) \<Longrightarrow> bind_op m f w = f x v"
  by (simp add: bind_op_def)

lemma bind_op_eq_Inr_iff:
  "bind_op m f w = (Inr y, u) \<longleftrightarrow> (\<exists>x v. m w = (Inr x, v) \<and> f x v = (Inr y, u))"
  by (auto simp: bind_op_def split: prod.splits sum.splits)

lemma bind_op_eq_Inl_iff:
  "bind_op m f w = (Inl e, u) \<longleftrightarrow>
     m w = (Inl e, u) \<or> (\<exists>x v. m w = (Inr x, v) \<and> f x v = (Inl e, u))"
  by (auto simp: bind_op_def split: prod.splits sum.splits)

lemma bind_op_cases:
  obtains (Inl) e v where "m w = (Inl e, v)" "bind_op m f w = (Inl e, v)"
  | (Inr) x v where "m w = (Inr x, v)" "bind_op m f w = f x v"
  by (cases "m w"; cases "fst (m w)") (auto simp: bind_op_def)

text \<open>An invariant that an operation keeps whether it returns or raises.\<close>

definition keeps :: "('w \<Rightarrow> bool) \<Rightarrow> ('w, 'a) op \<Rightarrow> bool" where
  "keeps I m \<longleftrightarrow> (\<forall>w. I w \<longrightarrow> I (snd (m w)))"

lemma keepsI: "(\<And>w. I w \<Longrightarrow> I (snd (m w))) \<Longrightarrow> keeps I m"
  by (simp add: keeps_def)

lemma keepsD: "keeps I m \<Longrightarrow> I w \<Longrightarrow> m w = (r, v) \<Longrightarrow> I v"
  by (metis keeps_def snd_conv)

lemma keeps_ret [simp, keeps_intros]: "keeps I (ret x)"
  and keeps_raise [simp, keeps_intros]: "keeps I (raise e)"
  and keeps_gets [simp, keeps_intros]: "keeps I (gets f)"
  and keeps_lift_res [simp, keeps_intros]: "keeps I (lift_res r)"
  and keeps_guard_op [simp, keeps_intros]: "keeps I (guard_op b e)"
  by (simp_all add: keeps_def)

lemma keeps_modify [keeps_intros]: "(\<And>w. I w \<Longrightarrow> I (f w)) \<Longrightarrow> keeps I (modify f)"
  by (simp add: keeps_def)

lemma keeps_when_op [keeps_intros]: "(b \<Longrightarrow> keeps I m) \<Longrightarrow> keeps I (when_op b m)"
  by (auto simp: keeps_def)

lemma keeps_bind_op [keeps_intros]:
  assumes "keeps I m" and "\<And>x. keeps I (f x)"
  shows "keeps I (bind_op m f)"
proof (rule keepsI)
  fix w assume "I w"
  with assms show "I (snd (bind_op m f w))"
    by (cases rule: bind_op_cases [of m w f]) (metis keeps_def snd_conv)+
qed

lemma keeps_try_op [keeps_intros]:
  assumes "keeps I m" and "\<And>e. keeps I (h e)"
  shows "keeps I (try_op m h)"
proof (rule keepsI)
  fix w assume "I w"
  with assms(1) have "I (snd (m w))" by (simp add: keeps_def)
  with assms(2) show "I (snd (try_op m h w))"
    by (auto simp: try_op_def keeps_def split: prod.splits sum.splits)
qed

lemma keeps_if [keeps_intros]: "(b \<Longrightarrow> keeps I m) \<Longrightarrow> (\<not> b \<Longrightarrow> keeps I n) \<Longrightarrow> keeps I (if b then m else n)"
  by simp

lemma keeps_case_option [keeps_intros]:
  "(z = None \<Longrightarrow> keeps I m) \<Longrightarrow> (\<And>x. z = Some x \<Longrightarrow> keeps I (f x)) \<Longrightarrow>
   keeps I (case z of None \<Rightarrow> m | Some x \<Rightarrow> f x)"
  by (cases z) auto

lemma keeps_case_prod [keeps_intros]:
  "(\<And>a b. z = (a, b) \<Longrightarrow> keeps I (f a b)) \<Longrightarrow> keeps I (case z of (a, b) \<Rightarrow> f a b)"
  by (cases z) auto

lemma keeps_Let [keeps_intros]: "(\<And>x. x = t \<Longrightarrow> keeps I (f x)) \<Longrightarrow> keeps I (Let t f)"
  by (simp add: Let_def)

lemma keeps_foreach [keeps_intros]: "(\<And>x. keeps I (f x)) \<Longrightarrow> keeps I (foreach f xs)"
  by (induction xs) (auto intro: keeps_intros)

lemma frame_eqD: "m w = (r, v) \<Longrightarrow> (\<And>x. keeps (\<lambda>w. p w = x) m) \<Longrightarrow> p v = p w"
  unfolding keeps_def by (metis snd_conv)

text \<open>An operation that reads and never writes the part of the state that \<open>p\<close> shows.\<close>

definition frames :: "('w \<Rightarrow> 'p) \<Rightarrow> ('w, 'a) op \<Rightarrow> bool" where
  "frames p m \<longleftrightarrow> (\<forall>w. p (snd (m w)) = p w)"

lemma frames_keeps: "frames p m \<longleftrightarrow> (\<forall>x. keeps (\<lambda>w. p w = x) m)"
  by (auto simp: frames_def keeps_def)

lemma framesD: "frames p m \<Longrightarrow> m w = (r, v) \<Longrightarrow> p v = p w"
  by (metis frames_def snd_conv)

end
