(* ===== verification/PyStrings.thy ===== *)
theory PyStrings
  imports Prelude
begin

text \<open>
  The string operations of Python that the services use, on code points below 256: white space,
  case, splitting and joining, searching, lines, decimal integers.
\<close>

named_theorems str_eval \<open>definitions that evaluate string operations\<close>

section \<open>White space and case\<close>

definition ascii_space :: "char \<Rightarrow> bool" where
  "ascii_space c \<longleftrightarrow> of_char c \<in> {9, 10, 11, 12, 13, 32 :: nat}"

definition is_space :: "char \<Rightarrow> bool" where
  "is_space c \<longleftrightarrow> ascii_space c \<or> of_char c \<in> {28, 29, 30, 31, 133, 160 :: nat}"

definition strip_by :: "(char \<Rightarrow> bool) \<Rightarrow> string \<Rightarrow> string" where
  "strip_by P s = rev (dropWhile P (rev (dropWhile P s)))"

definition str_strip :: "string \<Rightarrow> string" where
  "str_strip s = strip_by is_space s"

definition strip_char :: "char \<Rightarrow> string \<Rightarrow> string" where
  "strip_char c s = strip_by (\<lambda>x. x = c) s"

definition rstrip_char :: "char \<Rightarrow> string \<Rightarrow> string" where
  "rstrip_char c s = rev (dropWhile (\<lambda>x. x = c) (rev s))"

definition lstrip_char :: "char \<Rightarrow> string \<Rightarrow> string" where
  "lstrip_char c s = dropWhile (\<lambda>x. x = c) s"

definition lower_char :: "char \<Rightarrow> char" where
  "lower_char c =
     (let n = of_char c :: nat
      in if (65 \<le> n \<and> n \<le> 90) \<or> (192 \<le> n \<and> n \<le> 222 \<and> n \<noteq> 215) then char_of (n + 32) else c)"

definition str_lower :: "string \<Rightarrow> string" where
  "str_lower s = map lower_char s"

section \<open>Searching, splitting, joining\<close>

definition starts_with :: "string \<Rightarrow> string \<Rightarrow> bool" where
  "starts_with s p \<longleftrightarrow> take (length p) s = p"

definition ends_with :: "string \<Rightarrow> string \<Rightarrow> bool" where
  "ends_with s p \<longleftrightarrow> starts_with (rev s) (rev p)"

definition remove_suffix :: "string \<Rightarrow> string \<Rightarrow> string" where
  "remove_suffix s p = (if p \<noteq> [] \<and> ends_with s p then take (length s - length p) s else s)"

fun str_contains :: "string \<Rightarrow> string \<Rightarrow> bool" where
  "str_contains [] p = (p = [])"
| "str_contains (c # s) p = (starts_with (c # s) p \<or> str_contains s p)"

text \<open>\<open>s.split(sep, 1)\<close>: the text before and after the first occurrence of \<open>sep\<close>.\<close>

fun split_once :: "string \<Rightarrow> string \<Rightarrow> (string \<times> string) option" where
  "split_once sep [] = (if sep = [] then Some ([], []) else None)"
| "split_once sep (c # s) =
     (if starts_with (c # s) sep then Some ([], drop (length sep) (c # s))
      else map_option (\<lambda>(a, b). (c # a, b)) (split_once sep s))"

fun str_split :: "char \<Rightarrow> string \<Rightarrow> string list" where
  "str_split c [] = [[]]"
| "str_split c (x # xs) =
     (if x = c then [] # str_split c xs
      else (case str_split c xs of [] \<Rightarrow> [[x]] | y # ys \<Rightarrow> (x # y) # ys))"

fun str_join :: "string \<Rightarrow> string list \<Rightarrow> string" where
  "str_join sep [] = []"
| "str_join sep [x] = x"
| "str_join sep (x # y # xs) = x @ sep @ str_join sep (y # xs)"

definition replace_char :: "char \<Rightarrow> char \<Rightarrow> string \<Rightarrow> string" where
  "replace_char a b s = map (\<lambda>c. if c = a then b else c) s"

text \<open>\<open>s.replace(old, new)\<close> for a non-empty \<open>old\<close>.\<close>

function str_replace :: "string \<Rightarrow> string \<Rightarrow> string \<Rightarrow> string" where
  "str_replace old new s =
     (if old = [] \<or> s = [] then s
      else if starts_with s old then new @ str_replace old new (drop (length old) s)
      else hd s # str_replace old new (tl s))"
  by pat_completeness auto
termination
  by (relation "measure (\<lambda>(old, new, s). length s)") auto

declare str_replace.simps [simp del]

definition is_line_break :: "char \<Rightarrow> bool" where
  "is_line_break c \<longleftrightarrow> of_char c \<in> {10, 11, 12, 13, 28, 29, 30, 133 :: nat}"

text \<open>\<open>s.splitlines()\<close>: a carriage return and the line feed after it are one break, and a break at
  the end starts no further line. \<open>cur\<close> is the line read so far, reversed.\<close>

fun splitlines_from :: "string \<Rightarrow> string \<Rightarrow> string list" where
  "splitlines_from cur [] = (if cur = [] then [] else [rev cur])"
| "splitlines_from cur [c] = (if is_line_break c then [rev cur] else [rev (c # cur)])"
| "splitlines_from cur (c # d # s) =
     (if c = CHR 0x0D \<and> d = CHR 0x0A then rev cur # splitlines_from [] s
      else if is_line_break c then rev cur # splitlines_from [] (d # s)
      else splitlines_from (c # cur) (d # s))"

definition splitlines :: "string \<Rightarrow> string list" where
  "splitlines s = splitlines_from [] s"

text \<open>\<open>s.encode("utf-8")\<close>, a byte as the character with its code.\<close>

definition utf8 :: "string \<Rightarrow> string" where
  "utf8 s = concat (map (\<lambda>c. let n = of_char c :: nat in
     if n < 128 then [c] else [char_of (192 + n div 64), char_of (128 + n mod 64)]) s)"

section \<open>Truth of optional strings\<close>

definition truthy :: "string option \<Rightarrow> bool" where
  "truthy x \<longleftrightarrow> (case x of None \<Rightarrow> False | Some s \<Rightarrow> s \<noteq> [])"

definition or_str :: "string option \<Rightarrow> string \<Rightarrow> string" where
  "or_str x d = (case x of None \<Rightarrow> d | Some s \<Rightarrow> if s = [] then d else s)"

definition or_opt :: "string option \<Rightarrow> string option \<Rightarrow> string option" where
  "or_opt x y = (if truthy x then x else y)"

section \<open>Decimal integers\<close>

definition is_digit :: "char \<Rightarrow> bool" where
  "is_digit c \<longleftrightarrow> 48 \<le> (of_char c :: nat) \<and> (of_char c :: nat) \<le> 57"

definition digit_val :: "char \<Rightarrow> nat" where
  "digit_val c = of_char c - 48"

definition digit_char :: "nat \<Rightarrow> char" where
  "digit_char n = char_of (48 + n)"

fun str_nat :: "nat \<Rightarrow> string" where
  "str_nat n = (if n < 10 then [digit_char n] else str_nat (n div 10) @ [digit_char (n mod 10)])"

declare str_nat.simps [simp del]

definition str_int :: "int \<Rightarrow> string" where
  "str_int i = (if i < 0 then CHR ''-'' # str_nat (nat (- i)) else str_nat (nat i))"

definition str_bool :: "bool \<Rightarrow> string" where
  "str_bool b = (if b then ''True'' else ''False'')"

text \<open>\<open>int(text)\<close>: surrounding white space, a sign, digits with single underscores between them, at
  most 4300 digits. For a text of ASCII characters only ASCII white space is skipped.\<close>

fun digits_val :: "nat \<Rightarrow> string \<Rightarrow> nat option" where
  "digits_val n [] = Some n"
| "digits_val n (c # cs) =
     (if is_digit c then digits_val (n * 10 + digit_val c) cs
      else if c = CHR ''_'' then
        (case cs of
          [] \<Rightarrow> None
        | d # ds \<Rightarrow> if is_digit d then digits_val (n * 10 + digit_val d) ds else None)
      else None)"

definition nat_of_str :: "string \<Rightarrow> nat option" where
  "nat_of_str s =
     (case s of
       [] \<Rightarrow> None
     | c # cs \<Rightarrow> if is_digit c \<and> length (filter is_digit s) \<le> 4300 then digits_val 0 s else None)"

definition py_int :: "string \<Rightarrow> int option" where
  "py_int raw =
     (let space = (if list_all (\<lambda>c. (of_char c :: nat) < 128) raw then ascii_space else is_space);
          s = strip_by space raw
      in case s of
           [] \<Rightarrow> None
         | c # cs \<Rightarrow>
             if c = CHR ''-'' then map_option (\<lambda>n. - int n) (nat_of_str cs)
             else if c = CHR ''+'' then map_option int (nat_of_str cs)
             else map_option int (nat_of_str s))"

section \<open>Rounding\<close>

text \<open>A quotient rounded to the nearest integer, ties to even; and a non-negative quotient as the nearest
  double precision number, again as a quotient.\<close>

definition round_half_even :: "int \<Rightarrow> int \<Rightarrow> int" where
  "round_half_even n d =
     (let q = n div d; r = n mod d
      in if 2 * r < d then q else if d < 2 * r then q + 1 else if even q then q else q + 1)"

fun bit_len :: "nat \<Rightarrow> nat" where
  "bit_len n = (if n = 0 then 0 else Suc (bit_len (n div 2)))"

declare bit_len.simps [simp del]

definition f64_quotient :: "nat \<Rightarrow> nat \<Rightarrow> int \<times> int" where
  "f64_quotient n d =
     (if n = 0 then (0, 1)
      else
        (let scaled = (\<lambda>s :: int. if 0 \<le> s then (int n * 2 ^ nat s, int d) else (int n, int d * 2 ^ nat (- s)));
             s0 = 53 - (int (bit_len n) - int (bit_len d));
             s = (case scaled s0 of (a, b) \<Rightarrow> if 2 ^ 53 * b \<le> a then s0 - 1 else s0);
             m = (case scaled s of (a, b) \<Rightarrow> round_half_even a b)
         in if 0 \<le> s then (m, 2 ^ nat s) else (m * 2 ^ nat (- s), 1)))"

lemmas [str_eval] = ascii_space_def is_space_def strip_by_def str_strip_def strip_char_def
  rstrip_char_def lstrip_char_def lower_char_def str_lower_def starts_with_def ends_with_def
  remove_suffix_def replace_char_def truthy_def or_str_def or_opt_def splitlines_def

section \<open>Lemmas\<close>

lemma truthy_simps [simp]:
  "truthy None = False" "truthy (Some s) = (s \<noteq> [])"
  by (simp_all add: truthy_def)

lemma truthyD: "truthy x \<Longrightarrow> \<exists>s. x = Some s \<and> s \<noteq> []"
  by (cases x) auto

lemma dropWhile_idem_hd: "dropWhile P (dropWhile P s) = dropWhile P s"
  by (induction s) auto

lemma strip_by_hd: "strip_by P s = a # as \<Longrightarrow> \<not> P a"
proof -
  assume r: "strip_by P s = a # as"
  let ?d = "dropWhile P s"
  have split: "?d = strip_by P s @ rev (takeWhile P (rev ?d))"
    unfolding strip_by_def by (metis rev_append rev_rev_ident takeWhile_dropWhile_id)
  with r have d: "?d = a # (as @ rev (takeWhile P (rev ?d)))" by (metis append_Cons)
  then show ?thesis by (metis hd_dropWhile list.distinct(1) list.sel(1))
qed

lemma strip_by_idem: "strip_by P (strip_by P s) = strip_by P s"
proof -
  have front: "dropWhile P (strip_by P s) = strip_by P s"
    using strip_by_hd[of P s] by (cases "strip_by P s") auto
  have "strip_by P (strip_by P s) = rev (dropWhile P (rev (strip_by P s)))"
    unfolding strip_by_def[of P "strip_by P s"] front ..
  also have "\<dots> = strip_by P s"
    by (simp add: strip_by_def dropWhile_idem_hd)
  finally show ?thesis .
qed

lemma str_strip_idem [simp]: "str_strip (str_strip s) = str_strip s"
  by (simp add: str_strip_def strip_by_idem)

lemma strip_by_no_space: "list_all (\<lambda>c. \<not> P c) s \<Longrightarrow> strip_by P s = s"
proof -
  assume a: "list_all (\<lambda>c. \<not> P c) s"
  have d: "dropWhile P t = t" if "list_all (\<lambda>c. \<not> P c) t" for t
    using that by (cases t) auto
  from a have "list_all (\<lambda>c. \<not> P c) (rev s)" by (simp add: list_all_iff)
  with a show ?thesis by (simp add: strip_by_def d)
qed

lemma of_char_less_256: "(of_char (c :: char) :: nat) < 256"
  by (metis of_char_mod_256 mod_less_divisor zero_less_numeral)

lemma of_char_char_of_nat: "n < 256 \<Longrightarrow> (of_char (char_of (n :: nat)) :: nat) = n"
  by simp

lemma lower_char_idem [simp]: "lower_char (lower_char c) = lower_char c"
  by (auto simp: lower_char_def Let_def)

lemma str_lower_idem [simp]: "str_lower (str_lower s) = str_lower s"
  by (simp add: str_lower_def)

lemma length_str_lower [simp]: "length (str_lower s) = length s"
  by (simp add: str_lower_def)

lemma is_space_lower [simp]: "is_space (lower_char c) = is_space c"
  by (auto simp: lower_char_def is_space_def ascii_space_def Let_def)

lemma dropWhile_space_map_lower: "dropWhile is_space (map lower_char s) = map lower_char (dropWhile is_space s)"
  by (induction s) auto

lemma str_strip_lower: "str_strip (str_lower s) = str_lower (str_strip s)"
  by (simp add: str_strip_def strip_by_def str_lower_def dropWhile_space_map_lower rev_map)

lemma str_split_nonempty [simp]: "str_split c s \<noteq> []"
  by (induction s) (auto split: list.splits)

lemma str_split_append:
  "c \<notin> set x \<Longrightarrow> str_split c (x @ c # s) = x # str_split c s"
  by (induction x) auto

lemma str_split_single: "c \<notin> set x \<Longrightarrow> str_split c x = [x]"
  by (induction x) auto

lemma str_split_join:
  "xs \<noteq> [] \<Longrightarrow> \<forall>x \<in> set xs. c \<notin> set x \<Longrightarrow> str_split c (str_join [c] xs) = xs"
proof (induction xs)
  case (Cons x xs)
  then show ?case
    by (cases xs) (simp_all add: str_split_single str_split_append)
qed simp

lemma starts_with_append [simp]: "starts_with (p @ s) p"
  by (simp add: starts_with_def)

lemma starts_with_iff: "starts_with s p \<longleftrightarrow> (\<exists>t. s = p @ t)"
  by (metis append_take_drop_id append_eq_conv_conj starts_with_def)

lemma ends_with_iff: "ends_with s p \<longleftrightarrow> (\<exists>t. s = t @ p)"
  unfolding ends_with_def starts_with_iff
  by (metis rev_append rev_rev_ident)

lemma str_contains_iff: "str_contains s p \<longleftrightarrow> (\<exists>a b. s = a @ p @ b)"
proof (induction s)
  case (Cons c s)
  have "(\<exists>a b. c # s = a @ p @ b) \<longleftrightarrow> (\<exists>b. c # s = p @ b) \<or> (\<exists>a b. s = a @ p @ b)"
    (is "?L \<longleftrightarrow> ?R")
  proof
    assume ?L
    then obtain a b where "c # s = a @ p @ b" by blast
    then show ?R by (cases a) auto
  next
    assume ?R
    then show ?L
    proof
      assume "\<exists>b. c # s = p @ b"
      then obtain b where "c # s = [] @ p @ b" by auto
      then show ?L by blast
    next
      assume "\<exists>a b. s = a @ p @ b"
      then obtain a b where "c # s = (c # a) @ p @ b" by auto
      then show ?L by blast
    qed
  qed
  with Cons.IH show ?case by (simp add: starts_with_iff)
qed auto

lemma digit_char_val: "n < 10 \<Longrightarrow> digit_val (digit_char n) = n"
  and digit_char_digit: "n < 10 \<Longrightarrow> is_digit (digit_char n)"
  by (simp_all add: digit_val_def digit_char_def is_digit_def)

lemma str_nat_nonempty [simp]: "str_nat n \<noteq> []"
  by (subst str_nat.simps) simp

lemma str_nat_digits: "list_all is_digit (str_nat n)"
proof (induction n rule: str_nat.induct)
  case (1 n)
  then show ?case by (subst str_nat.simps) (simp add: digit_char_digit)
qed

lemma digits_val_append:
  "list_all is_digit a \<Longrightarrow> digits_val n (a @ b) = digits_val (foldl (\<lambda>m c. m * 10 + digit_val c) n a) b"
  by (induction a arbitrary: n) auto

lemma foldl_str_nat: "foldl (\<lambda>m c. m * 10 + digit_val c) 0 (str_nat n) = n"
proof (induction n rule: str_nat.induct)
  case (1 n)
  show ?case
  proof (cases "n < 10")
    case True then show ?thesis by (subst str_nat.simps) (simp add: digit_char_val)
  next
    case False with 1 show ?thesis by (subst str_nat.simps) (simp add: digit_char_val)
  qed
qed

lemma digits_val_str_nat: "digits_val 0 (str_nat n) = Some n"
  using digits_val_append[of "str_nat n" 0 "[]"] by (simp add: str_nat_digits foldl_str_nat)

lemma length_str_nat: "n < 10 ^ k \<Longrightarrow> 0 < k \<Longrightarrow> length (str_nat n) \<le> k"
proof (induction n arbitrary: k rule: str_nat.induct)
  case (1 n)
  show ?case
  proof (cases "n < 10")
    case True with 1 show ?thesis by (subst str_nat.simps) simp
  next
    case False
    with "1.prems" obtain j where k: "k = Suc j" and "0 < j"
      by (cases k; cases "k - 1") auto
    have "n div 10 < 10 ^ j" using "1.prems" k by (simp add: div_less_iff_less_mult mult.commute)
    with 1(1)[OF False this \<open>0 < j\<close>] False k show ?thesis
      by (subst str_nat.simps) simp
  qed
qed

lemma nat_of_str_str_nat:
  assumes "length (str_nat n) \<le> 4300"
  shows "nat_of_str (str_nat n) = Some n"
proof -
  have "length (filter is_digit (str_nat n)) \<le> 4300"
    using assms length_filter_le order_trans by blast
  moreover obtain c cs where "str_nat n = c # cs" by (cases "str_nat n") auto
  moreover from this have "is_digit c" using str_nat_digits[of n] by simp
  ultimately show ?thesis
    using digits_val_str_nat[of n] by (simp add: nat_of_str_def del: digits_val.simps)
qed

lemma digit_not_space: "is_digit c \<Longrightarrow> \<not> is_space c"
  by (auto simp: is_digit_def is_space_def ascii_space_def)

lemma digit_not_sign: "is_digit c \<Longrightarrow> c \<noteq> CHR ''-'' \<and> c \<noteq> CHR ''+''"
  by (auto simp: is_digit_def)

lemma minus_not_space: "\<not> is_space (CHR ''-'')"
  by (simp add: is_space_def ascii_space_def)

lemma str_int_no_space: "list_all (\<lambda>c. \<not> is_space c) (str_int i)"
proof -
  have "list_all (\<lambda>c. \<not> is_space c) (str_nat m)" for m
    using str_nat_digits[of m] digit_not_space by (auto simp: list_all_iff)
  with minus_not_space show ?thesis by (simp add: str_int_def)
qed

lemma strip_str_int [simp]: "str_strip (str_int i) = str_int i"
  "strip_by ascii_space (str_int i) = str_int i" "strip_by is_space (str_int i) = str_int i"
proof -
  have "list_all (\<lambda>c. \<not> ascii_space c) (str_int i)"
    using str_int_no_space[of i] by (auto simp: list_all_iff is_space_def)
  with str_int_no_space[of i]
  show "str_strip (str_int i) = str_int i"
    "strip_by ascii_space (str_int i) = str_int i" "strip_by is_space (str_int i) = str_int i"
    by (simp_all add: strip_by_no_space str_strip_def)
qed

lemma py_int_str_int:
  assumes "length (str_int i) \<le> 4300"
  shows "py_int (str_int i) = Some i"
proof -
  have len: "length (str_nat (nat \<bar>i\<bar>)) \<le> 4300"
    using assms by (auto simp: str_int_def split: if_splits)
  obtain c cs where c: "str_nat (nat i) = c # cs" by (cases "str_nat (nat i)") auto
  then have d: "is_digit c" using str_nat_digits[of "nat i"] by simp
  show ?thesis
  proof (cases "i < 0")
    case True
    then have "nat \<bar>i\<bar> = nat (- i)" by simp
    with len have "nat_of_str (str_nat (nat (- i))) = Some (nat (- i))"
      by (simp add: nat_of_str_str_nat)
    moreover from True have eq: "str_int i = CHR ''-'' # str_nat (nat (- i))" by (simp add: str_int_def)
    moreover have "strip_by ascii_space (CHR ''-'' # str_nat (nat (- i))) = CHR ''-'' # str_nat (nat (- i))"
      "strip_by is_space (CHR ''-'' # str_nat (nat (- i))) = CHR ''-'' # str_nat (nat (- i))"
      unfolding eq[symmetric] by simp_all
    ultimately show ?thesis using True by (simp add: py_int_def Let_def)
  next
    case False
    then have "nat \<bar>i\<bar> = nat i" by simp
    with len have "nat_of_str (str_nat (nat i)) = Some (nat i)"
      by (simp add: nat_of_str_str_nat)
    moreover from False have "str_int i = str_nat (nat i)" by (simp add: str_int_def)
    moreover note c digit_not_sign[OF d] strip_str_int(2,3)[of i]
    ultimately show ?thesis using False by (simp add: py_int_def Let_def)
  qed
qed

end
