(* ===== verification/Rows.thy ===== *)
theory Rows
  imports PyStrings
begin

text \<open>
  Tables and dictionaries. A table is the list of its rows in the order of their insertion; a row is
  addressed by a key. \<open>row_get\<close> is \<open>session.get\<close> and a SELECT by a unique column, \<open>row_put\<close> writes a
  row under its key, \<open>row_del\<close> a DELETE by key, \<open>rows_update\<close> and \<open>rows_delete\<close> the bulk UPDATE and
  DELETE statements. The locale \<open>keyed_store\<close> is what the services rely on; every table interprets
  it. A Python dictionary is an association list.
\<close>

section \<open>Rows\<close>

definition row_get :: "('r \<Rightarrow> 'k) \<Rightarrow> 'k \<Rightarrow> 'r list \<Rightarrow> 'r option" where
  "row_get key k rs = find (\<lambda>r. key r = k) rs"

definition row_put :: "('r \<Rightarrow> 'k) \<Rightarrow> 'r \<Rightarrow> 'r list \<Rightarrow> 'r list" where
  "row_put key r rs =
     (if row_get key (key r) rs = None then rs @ [r]
      else map (\<lambda>x. if key x = key r then r else x) rs)"

definition row_del :: "('r \<Rightarrow> 'k) \<Rightarrow> 'k \<Rightarrow> 'r list \<Rightarrow> 'r list" where
  "row_del key k rs = filter (\<lambda>r. key r \<noteq> k) rs"

definition rows_update :: "('r \<Rightarrow> bool) \<Rightarrow> ('r \<Rightarrow> 'r) \<Rightarrow> 'r list \<Rightarrow> 'r list" where
  "rows_update P f rs = map (\<lambda>r. if P r then f r else r) rs"

definition rows_delete :: "('r \<Rightarrow> bool) \<Rightarrow> 'r list \<Rightarrow> 'r list" where
  "rows_delete P rs = filter (\<lambda>r. \<not> P r) rs"

text \<open>\<open>result.scalar_one_or_none()\<close>.\<close>

definition scalar_one_or_none :: "'r list \<Rightarrow> exn + 'r option" where
  "scalar_one_or_none rs =
     (case rs of [] \<Rightarrow> Inr None | [r] \<Rightarrow> Inr (Some r) | _ \<Rightarrow> Inl MultipleResultsFound)"

lemma find_SomeD: "find P xs = Some x \<Longrightarrow> x \<in> set xs \<and> P x"
  by (induction xs) (auto split: if_splits)

lemma row_get_simps [simp]:
  "row_get key k [] = None"
  "row_get key k (r # rs) = (if key r = k then Some r else row_get key k rs)"
  by (simp_all add: row_get_def)

lemma row_get_None_iff: "row_get key k rs = None \<longleftrightarrow> k \<notin> key ` set rs"
  by (induction rs) auto

lemma row_get_SomeD: "row_get key k rs = Some r \<Longrightarrow> r \<in> set rs \<and> key r = k"
  by (induction rs) (auto split: if_splits)

lemma row_get_distinct:
  "distinct (map key rs) \<Longrightarrow> r \<in> set rs \<Longrightarrow> row_get key (key r) rs = Some r"
  by (induction rs) (auto simp: image_iff)

lemma row_get_append:
  "row_get key k (xs @ ys) = (case row_get key k xs of None \<Rightarrow> row_get key k ys | Some r \<Rightarrow> Some r)"
  by (induction xs) auto

lemma row_get_put: "row_get key k (row_put key r rs) = (if k = key r then Some r else row_get key k rs)"
proof (cases "row_get key (key r) rs")
  case None
  then show ?thesis by (auto simp: row_put_def row_get_append split: option.splits)
next
  case (Some x)
  have "row_get key k (map (\<lambda>x. if key x = key r then r else x) xs) =
      (if k = key r \<and> row_get key (key r) xs \<noteq> None then Some r else row_get key k xs)" for xs
    by (induction xs) auto
  with Some show ?thesis by (simp add: row_put_def)
qed

lemma row_get_del: "row_get key k (row_del key j rs) = (if k = j then None else row_get key k rs)"
  by (induction rs) (auto simp: row_del_def)

lemma row_get_update:
  assumes "\<And>r. key (f r) = key r"
  shows "row_get key k (rows_update P f rs) = map_option (\<lambda>r. if P r then f r else r) (row_get key k rs)"
  by (induction rs) (auto simp: rows_update_def assms)

lemma row_get_filter:
  "distinct (map key rs) \<Longrightarrow>
   row_get key k (filter P rs) = (case row_get key k rs of None \<Rightarrow> None | Some r \<Rightarrow> if P r then Some r else None)"
proof (induction rs)
  case (Cons r rs)
  show ?case
  proof (cases "key r = k")
    case True
    with Cons.prems have "row_get key k rs = None" by (auto simp: row_get_None_iff)
    with Cons True show ?thesis by simp
  qed (use Cons in simp)
qed simp

lemma map_key_put: "map key (row_put key r rs) =
  (if key r \<in> key ` set rs then map key rs else map key rs @ [key r])"
  by (auto simp: row_put_def row_get_None_iff)

lemma distinct_row_put: "distinct (map key (row_put key r rs)) = distinct (map key rs)"
  by (auto simp: map_key_put)

lemma distinct_row_del: "distinct (map key rs) \<Longrightarrow> distinct (map key (row_del key k rs))"
  by (simp add: row_del_def distinct_map_filter)

lemma map_key_update: "(\<And>r. key (f r) = key r) \<Longrightarrow> map key (rows_update P f rs) = map key rs"
  by (simp add: rows_update_def)

lemma distinct_rows_delete: "distinct (map key rs) \<Longrightarrow> distinct (map key (rows_delete P rs))"
  by (simp add: rows_delete_def distinct_map_filter)

lemma set_row_put: "set (row_put key r rs) = insert r {x \<in> set rs. key x \<noteq> key r}"
proof (cases "row_get key (key r) rs")
  case None
  then have "\<forall>x \<in> set rs. key x \<noteq> key r" by (metis row_get_None_iff imageI)
  with None show ?thesis by (auto simp: row_put_def)
next
  case (Some q)
  then have "q \<in> set rs" "key q = key r" by (auto dest: row_get_SomeD)
  with Some show ?thesis by (force simp: row_put_def)
qed

lemma set_rows_update: "set (rows_update P f rs) = (\<lambda>r. if P r then f r else r) ` set rs"
  by (auto simp: rows_update_def)

lemma set_rows_delete [simp]: "set (rows_delete P rs) = {r \<in> set rs. \<not> P r}"
  by (auto simp: rows_delete_def)

lemma set_row_del [simp]: "set (row_del key k rs) = {r \<in> set rs. key r \<noteq> k}"
  by (auto simp: row_del_def)

lemma filter_row_put_other:
  assumes "\<not> P r" "\<And>x. key x = key r \<Longrightarrow> \<not> P x"
  shows "filter P (row_put key r rs) = filter P rs"
proof -
  have "filter P (map (\<lambda>x. if key x = key r then r else x) xs) = filter P xs" for xs
    using assms by (induction xs) auto
  with assms(1) show ?thesis by (simp add: row_put_def)
qed

lemma rows_update_id: "(\<And>r. r \<in> set rs \<Longrightarrow> \<not> P r) \<Longrightarrow> rows_update P f rs = rs"
  unfolding rows_update_def by (induction rs) auto

section \<open>The interface of a keyed store\<close>

locale keyed_store =
  fixes key :: "'r \<Rightarrow> 'k"
    and get :: "'k \<Rightarrow> 's \<Rightarrow> 'r option"
    and put :: "'r \<Rightarrow> 's \<Rightarrow> 's"
    and del :: "'k \<Rightarrow> 's \<Rightarrow> 's"
  assumes get_put: "get k (put r s) = (if k = key r then Some r else get k s)"
    and get_del: "get k (del j s) = (if k = j then None else get k s)"
    and get_key: "get k s = Some r \<Longrightarrow> key r = k"
begin

lemma get_put_same [simp]: "get (key r) (put r s) = Some r"
  by (simp add: get_put)

lemma get_put_other: "k \<noteq> key r \<Longrightarrow> get k (put r s) = get k s"
  by (simp add: get_put)

lemma put_put_same: "key r = key q \<Longrightarrow> get k (put q (put r s)) = get k (put q s)"
  by (simp add: get_put)

lemma put_swap: "key r \<noteq> key q \<Longrightarrow> get k (put r (put q s)) = get k (put q (put r s))"
  by (auto simp: get_put)

text \<open>Writing a list of rows one after the other: the last row under a key is read back.\<close>

lemma get_fold_put:
  "get k (fold put rs s) = (case find (\<lambda>r. key r = k) (rev rs) of None \<Rightarrow> get k s | Some r \<Rightarrow> Some r)"
proof (induction rs arbitrary: s)
  case (Cons r rs)
  have "find (\<lambda>r. key r = k) (xs @ [r]) =
      (case find (\<lambda>r. key r = k) xs of None \<Rightarrow> if key r = k then Some r else None | Some q \<Rightarrow> Some q)" for xs
    by (induction xs) auto
  with Cons.IH[of "put r s"] show ?case by (auto simp: get_put split: option.splits)
qed simp

lemma get_fold_put_untouched: "k \<notin> key ` set rs \<Longrightarrow> get k (fold put rs s) = get k s"
  by (induction rs arbitrary: s) (auto simp: get_put)

end

lemma row_store: "keyed_store key (row_get key) (row_put key) (row_del key)"
  by unfold_locales (auto simp: row_get_put row_get_del dest: row_get_SomeD)

section \<open>Dictionaries\<close>

type_synonym 'v dict = "(string \<times> 'v) list"

definition dict_get :: "string \<Rightarrow> 'v dict \<Rightarrow> 'v option" where
  "dict_get k d = map_of d k"

definition dict_set :: "string \<Rightarrow> 'v \<Rightarrow> 'v dict \<Rightarrow> 'v dict" where
  "dict_set k v d = row_put fst (k, v) d"

definition dict_setdefault :: "string \<Rightarrow> 'v \<Rightarrow> 'v dict \<Rightarrow> 'v dict" where
  "dict_setdefault k v d = (if dict_get k d = None then d @ [(k, v)] else d)"

definition dict_del :: "string \<Rightarrow> 'v dict \<Rightarrow> 'v dict" where
  "dict_del k d = row_del fst k d"

text \<open>A dictionary comprehension: a later entry overwrites an earlier one in its place.\<close>

definition dict_of :: "(string \<times> 'v) list \<Rightarrow> 'v dict" where
  "dict_of kvs = fold (\<lambda>(k, v) d. dict_set k v d) kvs []"

lemma map_of_row_get: "map_of d k = map_option snd (row_get fst k d)"
  by (induction d) auto

lemma dict_get_simps [simp]:
  "dict_get k [] = None"
  "dict_get k ((j, v) # d) = (if j = k then Some v else dict_get k d)"
  by (simp_all add: dict_get_def)

lemma dict_get_None_iff: "dict_get k d = None \<longleftrightarrow> k \<notin> fst ` set d"
  by (simp add: dict_get_def map_of_eq_None_iff)

lemma dict_get_set [simp]: "dict_get k (dict_set j v d) = (if k = j then Some v else dict_get k d)"
  by (simp add: dict_get_def dict_set_def map_of_row_get row_get_put)

lemma dict_get_del [simp]: "dict_get k (dict_del j d) = (if k = j then None else dict_get k d)"
  by (simp add: dict_get_def dict_del_def map_of_row_get row_get_del)

lemma dict_get_append:
  "dict_get k (a @ b) = (case dict_get k a of None \<Rightarrow> dict_get k b | Some v \<Rightarrow> Some v)"
  by (induction a) auto

lemma dict_get_setdefault [simp]:
  "dict_get k (dict_setdefault j v d) =
     (case dict_get k d of Some x \<Rightarrow> Some x | None \<Rightarrow> if k = j then Some v else None)"
  by (auto simp: dict_setdefault_def dict_get_append split: option.splits)

lemma distinct_dict_set: "distinct (map fst (dict_set k v d)) = distinct (map fst d)"
  by (simp add: dict_set_def distinct_row_put)

lemma distinct_dict_setdefault: "distinct (map fst d) \<Longrightarrow> distinct (map fst (dict_setdefault k v d))"
  by (auto simp: dict_setdefault_def dict_get_None_iff)

lemma fold_dict_set_distinct:
  "distinct (map fst d) \<Longrightarrow> distinct (map fst (fold (\<lambda>(k, v) d. dict_set k v d) kvs d))"
  by (induction kvs arbitrary: d) (auto simp: distinct_dict_set)

lemma distinct_dict_of [simp]: "distinct (map fst (dict_of kvs))"
  by (simp add: dict_of_def fold_dict_set_distinct)

lemma fold_dict_set_get:
  "distinct (map fst kvs) \<Longrightarrow>
   dict_get k (fold (\<lambda>(k, v) d. dict_set k v d) kvs d) =
     (case dict_get k kvs of None \<Rightarrow> dict_get k d | Some v \<Rightarrow> Some v)"
proof (induction kvs arbitrary: d)
  case (Cons kv kvs)
  obtain j v where kv: "kv = (j, v)" by (cases kv)
  with Cons.prems have "dict_get j kvs = None" by (auto simp: dict_get_None_iff)
  with Cons kv show ?case by (auto split: option.splits)
qed simp

lemma dict_get_dict_of: "distinct (map fst kvs) \<Longrightarrow> dict_get k (dict_of kvs) = dict_get k kvs"
  by (simp add: dict_of_def fold_dict_set_get split: option.splits)

interpretation dicts: keyed_store fst "row_get fst" "row_put fst" "row_del fst"
  by (rule row_store)

lemma filter_key:
  "distinct (map key rs) \<Longrightarrow> filter (\<lambda>r. key r = k) rs = (case row_get key k rs of None \<Rightarrow> [] | Some r \<Rightarrow> [r])"
proof (induction rs)
  case (Cons r rs)
  show ?case
  proof (cases "key r = k")
    case True
    with Cons.prems have "filter (\<lambda>r. key r = k) rs = []" by (auto simp: filter_empty_conv image_iff)
    with True show ?thesis by simp
  qed (use Cons in simp)
qed simp

lemma scalar_one_or_none_distinct:
  "distinct (map key rs) \<Longrightarrow> scalar_one_or_none (filter (\<lambda>r. key r = k) rs) = Inr (row_get key k rs)"
  by (simp add: filter_key scalar_one_or_none_def split: option.splits)

end
