(* ===== verification/Json.thy ===== *)
theory Json
  imports Rows
begin

text \<open>
  JSON values as \<open>json.loads\<close> returns them (no floating point numbers occur in what the services
  write), their text as \<open>json.dumps\<close> writes it with the separators "," and ":", the recursive key
  sorting of \<open>sort_keys=True\<close>, and the text of a UTC datetime as \<open>isoformat()\<close> writes it. A point in
  time is the number of microseconds since 1970-01-01T00:00:00Z, the resolution of \<open>datetime\<close>.
\<close>

datatype json =
    JNull
  | JBool bool
  | JInt int
  | JStr string
  | JList "json list"
  | JObj "(string \<times> json) list"

fun json_truthy :: "json \<Rightarrow> bool" where
  "json_truthy JNull = False"
| "json_truthy (JBool b) = b"
| "json_truthy (JInt i) = (i \<noteq> 0)"
| "json_truthy (JStr s) = (s \<noteq> [])"
| "json_truthy (JList xs) = (xs \<noteq> [])"
| "json_truthy (JObj d) = (d \<noteq> [])"

definition json_opt_str :: "string option \<Rightarrow> json" where
  "json_opt_str x = (case x of None \<Rightarrow> JNull | Some s \<Rightarrow> JStr s)"

definition json_opt_bool :: "bool option \<Rightarrow> json" where
  "json_opt_bool x = (case x of None \<Rightarrow> JNull | Some b \<Rightarrow> JBool b)"

section \<open>Text\<close>

definition hex_char :: "nat \<Rightarrow> char" where
  "hex_char n = (if n < 10 then char_of (48 + n) else char_of (87 + n))"

definition json_escape :: "bool \<Rightarrow> char \<Rightarrow> string" where
  "json_escape ascii c =
     (let n = of_char c :: nat
      in if c = CHR 0x22 then [CHR 0x5C, CHR 0x22]
         else if c = CHR 0x5C then [CHR 0x5C, CHR 0x5C]
         else if n = 8 then [CHR 0x5C, CHR ''b'']
         else if n = 9 then [CHR 0x5C, CHR ''t'']
         else if n = 10 then [CHR 0x5C, CHR ''n'']
         else if n = 12 then [CHR 0x5C, CHR ''f'']
         else if n = 13 then [CHR 0x5C, CHR ''r'']
         else if n < 32 \<or> (ascii \<and> 126 < n)
           then [CHR 0x5C, CHR ''u'', CHR ''0'', CHR ''0'', hex_char (n div 16), hex_char (n mod 16)]
         else [c])"

definition json_string :: "bool \<Rightarrow> string \<Rightarrow> string" where
  "json_string ascii s = CHR 0x22 # concat (map (json_escape ascii) s) @ [CHR 0x22]"

fun json_dumps :: "bool \<Rightarrow> json \<Rightarrow> string" where
  "json_dumps a JNull = ''null''"
| "json_dumps a (JBool b) = (if b then ''true'' else ''false'')"
| "json_dumps a (JInt i) = str_int i"
| "json_dumps a (JStr s) = json_string a s"
| "json_dumps a (JList xs) = ''['' @ str_join '','' (map (json_dumps a) xs) @ '']''"
| "json_dumps a (JObj d) =
     ''{'' @ str_join '','' (map (\<lambda>kv. json_string a (fst kv) @ '':'' @ json_dumps a (snd kv)) d) @ ''}''"

section \<open>Python's view of a value\<close>

text \<open>\<open>str(x)\<close> and \<open>repr(x)\<close>.\<close>

definition repr_quote :: "string \<Rightarrow> char" where
  "repr_quote s = (if CHR 0x27 \<in> set s \<and> CHR 0x22 \<notin> set s then CHR 0x22 else CHR 0x27)"

definition repr_char :: "char \<Rightarrow> char \<Rightarrow> string" where
  "repr_char q c =
     (let n = of_char c :: nat
      in if c = q \<or> c = CHR 0x5C then [CHR 0x5C, c]
         else if n = 10 then [CHR 0x5C, CHR ''n'']
         else if n = 13 then [CHR 0x5C, CHR ''r'']
         else if n = 9 then [CHR 0x5C, CHR ''t'']
         else if n < 32 \<or> (127 \<le> n \<and> n \<le> 160) \<or> n = 173
           then [CHR 0x5C, CHR ''x'', hex_char (n div 16), hex_char (n mod 16)]
         else [c])"

definition repr_str :: "string \<Rightarrow> string" where
  "repr_str s = (let q = repr_quote s in q # concat (map (repr_char q) s) @ [q])"

fun py_repr :: "json \<Rightarrow> string" where
  "py_repr JNull = ''None''"
| "py_repr (JBool b) = str_bool b"
| "py_repr (JInt i) = str_int i"
| "py_repr (JStr s) = repr_str s"
| "py_repr (JList xs) = ''['' @ str_join '', '' (map py_repr xs) @ '']''"
| "py_repr (JObj d) = ''{'' @ str_join '', '' (map (\<lambda>kv. repr_str (fst kv) @ '': '' @ py_repr (snd kv)) d) @ ''}''"

fun py_str :: "json \<Rightarrow> string" where
  "py_str (JStr s) = s"
| "py_str j = py_repr j"

text \<open>\<open>x.get(key)\<close>, \<open>x[key]\<close>, \<open>x[0]\<close>, \<open>int(x)\<close> and \<open>x or y\<close> on a value that may have any JSON type.\<close>

fun json_get :: "string \<Rightarrow> json \<Rightarrow> exn + json" where
  "json_get k (JObj d) = Inr (case dict_get k d of None \<Rightarrow> JNull | Some v \<Rightarrow> v)"
| "json_get k _ = Inl (AttributeError ''object has no attribute get'')"

fun json_item :: "string \<Rightarrow> json \<Rightarrow> exn + json" where
  "json_item k (JObj d) = (case dict_get k d of None \<Rightarrow> Inl (KeyError (repr_str k)) | Some v \<Rightarrow> Inr v)"
| "json_item k _ = Inl (TypeError ''object is not subscriptable by str'')"

fun json_first :: "json \<Rightarrow> exn + json" where
  "json_first (JList []) = Inl (IndexError ''list index out of range'')"
| "json_first (JList (x # xs)) = Inr x"
| "json_first (JStr []) = Inl (IndexError ''string index out of range'')"
| "json_first (JStr (c # s)) = Inr (JStr [c])"
| "json_first (JObj d) = Inl (KeyError ''0'')"
| "json_first _ = Inl (TypeError ''object is not subscriptable'')"

fun json_int :: "json \<Rightarrow> exn + int" where
  "json_int (JInt i) = Inr i"
| "json_int (JBool b) = Inr (if b then 1 else 0)"
| "json_int (JStr s) = (case py_int s of None \<Rightarrow> Inl (ValueError ''invalid literal for int() with base 10'') | Some i \<Rightarrow> Inr i)"
| "json_int _ = Inl (TypeError ''int() argument must be a string or a real number'')"

text \<open>\<open>d.get(key)\<close> on a dictionary.\<close>

definition get_or_null :: "string \<Rightarrow> json dict \<Rightarrow> json" where
  "get_or_null k d = (case dict_get k d of None \<Rightarrow> JNull | Some v \<Rightarrow> v)"

definition json_or :: "json \<Rightarrow> json \<Rightarrow> json" where
  "json_or a b = (if json_truthy a then a else b)"

section \<open>Sorted keys\<close>

fun json_sort :: "json \<Rightarrow> json" where
  "json_sort (JList xs) = JList (map json_sort xs)"
| "json_sort (JObj d) = JObj (sort_key fst (map (\<lambda>kv. (fst kv, json_sort (snd kv))) d))"
| "json_sort j = j"

lemma sort_key_map_snd:
  "sort_key fst (map (\<lambda>kv. (fst kv, f (snd kv))) d) = map (\<lambda>kv. (fst kv, f (snd kv))) (sort_key fst d)"
proof (induction d)
  case (Cons kv d)
  have "insort_key fst (fst kv, f (snd kv)) (map (\<lambda>kv. (fst kv, f (snd kv))) e) =
      map (\<lambda>kv. (fst kv, f (snd kv))) (insort_key fst kv e)" for e
    by (induction e) auto
  with Cons show ?case by simp
qed simp

lemma json_sort_idem [simp]: "json_sort (json_sort j) = json_sort j"
proof (induction j rule: json_sort.induct)
  case (2 d)
  have "map (\<lambda>kv. (fst kv, json_sort (snd kv))) (map (\<lambda>kv. (fst kv, json_sort (snd kv))) d)
      = map (\<lambda>kv. (fst kv, json_sort (snd kv))) d"
    using 2 by auto
  moreover have "sort_key fst (sort_key fst e) = sort_key fst e" for e :: "(string \<times> json) list"
    by (rule sort_key_id_if_sorted) simp
  ultimately show ?case by (simp only: json_sort.simps sort_key_map_snd[symmetric])
qed simp_all

section \<open>Time\<close>

definition us_per_second :: int where
  "us_per_second = 1000000"

definition civil_from_days :: "int \<Rightarrow> int \<times> int \<times> int" where
  "civil_from_days days =
     (let z = days + 719468;
          era = z div 146097;
          doe = z mod 146097;
          yoe = (doe - doe div 1460 + doe div 36524 - doe div 146096) div 365;
          doy = doe - (365 * yoe + yoe div 4 - yoe div 100);
          mp = (5 * doy + 2) div 153;
          d = doy - (153 * mp + 2) div 5 + 1;
          m = (if mp < 10 then mp + 3 else mp - 9);
          y = yoe + era * 400 + (if m \<le> 2 then 1 else 0)
      in (y, m, d))"

definition pad_int :: "nat \<Rightarrow> int \<Rightarrow> string" where
  "pad_int n i = (let s = str_int i in replicate (n - length s) (CHR ''0'') @ s)"

definition isoformat :: "int \<Rightarrow> string" where
  "isoformat t =
     (let us = t mod us_per_second;
          secs = t div us_per_second;
          days = secs div 86400;
          sod = secs mod 86400
      in case civil_from_days days of (y, m, d) \<Rightarrow>
           pad_int 4 y @ ''-'' @ pad_int 2 m @ ''-'' @ pad_int 2 d @ ''T''
           @ pad_int 2 (sod div 3600) @ '':'' @ pad_int 2 (sod mod 3600 div 60) @ '':'' @ pad_int 2 (sod mod 60)
           @ (if us = 0 then [] else ''.'' @ pad_int 6 us) @ ''+00:00'')"

end
