(* ===== verification/Models.thy ===== *)
theory Models
  imports Json
begin

text \<open>
  The tables of \<open>models/*.py\<close>. A column with a CHECK constraint on its values is a datatype of these
  values; the other constraints (NOT NULL, CHECK, unique indexes, foreign keys, the widths of the
  columns) are the predicate \<open>db_ok\<close>, which the database checks at a flush and at a commit. Rows carry
  the columns the services read; surrogate keys that no service reads are left out, and such a row is
  addressed by its natural key (a scan by its version, a provider result by version and provider, a
  translation by plugin and locale, a tag by its name). Times are microseconds since 1970. Deleting a
  plugin, version or user follows the ON DELETE rules of the foreign keys.
\<close>

type_synonym uuid = string
type_synonym time = int

section \<open>Column values\<close>

datatype plugin_status = PPending | PActive | PDisabled | PDeleted
datatype review_status = RPending | RApproved | RSkipped | RRejected
datatype source_type = GitAuto | ManualUpload
datatype build_status = BPending | BBuilding | BSuccess | BFailed | BScanning
datatype version_status = VDraft | VActive | VDeprecated | VDeleted
datatype scan_mode = MPending | MReal | MSkipped | MError
datatype result_kind = KScan | KHuman
datatype task_status = TQueued | TDelayed | TRunning | TRetrying | TSucceeded | TFailed | TDead | TCancelled
datatype user_role = RoleAdmin | RoleReviewer | RoleUser
datatype user_status = UPendingApproval | UActive | UDisabled
datatype invite_status = IActive | IDisabled
datatype submission_status = SPendingReview | SAccepted | SRejected | SDuplicate
datatype ref_type = RefDefault | RefBranch | RefTag | RefCommit
datatype webhook_type = WPush | WRelease | WTag | WManual
datatype webhook_status = WPending | WSuccess | WFailed | WIgnored

fun plugin_status_str :: "plugin_status \<Rightarrow> string" where
  "plugin_status_str PPending = ''pending''"
| "plugin_status_str PActive = ''active''"
| "plugin_status_str PDisabled = ''disabled''"
| "plugin_status_str PDeleted = ''deleted''"

fun source_type_str :: "source_type \<Rightarrow> string" where
  "source_type_str GitAuto = ''git_auto''"
| "source_type_str ManualUpload = ''manual_upload''"

fun build_status_str :: "build_status \<Rightarrow> string" where
  "build_status_str BPending = ''pending''"
| "build_status_str BBuilding = ''building''"
| "build_status_str BSuccess = ''success''"
| "build_status_str BFailed = ''failed''"
| "build_status_str BScanning = ''scanning''"

fun scan_mode_str :: "scan_mode \<Rightarrow> string" where
  "scan_mode_str MPending = ''pending''"
| "scan_mode_str MReal = ''real''"
| "scan_mode_str MSkipped = ''skipped''"
| "scan_mode_str MError = ''error''"

fun task_status_str :: "task_status \<Rightarrow> string" where
  "task_status_str TQueued = ''queued''"
| "task_status_str TDelayed = ''delayed''"
| "task_status_str TRunning = ''running''"
| "task_status_str TRetrying = ''retrying''"
| "task_status_str TSucceeded = ''succeeded''"
| "task_status_str TFailed = ''failed''"
| "task_status_str TDead = ''dead''"
| "task_status_str TCancelled = ''cancelled''"

section \<open>Rows\<close>

record plugin =
  p_id :: uuid
  p_plugin_key :: string
  p_display_name :: "string option"
  p_description :: "string option"
  p_author :: string
  p_repo_url :: "string option"
  p_social_link :: "string option"
  p_category :: "string option"
  p_logo_s3_key :: "string option"
  p_stars :: int
  p_pinned :: bool
  p_support_platforms :: "string list option"
  p_astrbot_version :: "string option"
  p_status :: plugin_status
  p_review_status :: review_status
  p_created_at :: time

record version =
  v_id :: uuid
  v_plugin_id :: uuid
  v_version :: string
  v_commit_sha :: "string option"
  v_source_ref :: "string option"
  v_source_type :: source_type
  v_download_url :: "string option"
  v_s3_key :: "string option"
  v_file_size :: "int option"
  v_metadata_raw :: "string option"
  v_changelog :: "string option"
  v_build_status :: build_status
  v_build_log :: "string option"
  v_version_status :: version_status
  v_is_latest :: bool
  v_created_by :: "uuid option"
  v_created_at :: time

record scan =
  s_version_id :: uuid
  s_virustotal_pass :: "bool option"
  s_virustotal_msg :: "string option"
  s_virustotal_mode :: scan_mode
  s_virustotal_analysis_id :: "string option"
  s_virustotal_file_sha256 :: "string option"
  s_virustotal_submitted_at :: "time option"
  s_virustotal_deadline_at :: "time option"
  s_virustotal_next_poll_at :: "time option"
  s_virustotal_poll_attempts :: int
  s_llm_agent_pass :: "bool option"
  s_llm_agent_msg :: "string option"
  s_llm_agent_mode :: scan_mode
  s_scanned_at :: time

record provider_result =
  pr_version_id :: uuid
  pr_provider :: string
  pr_kind :: result_kind
  pr_passed :: "bool option"
  pr_message :: "string option"
  pr_mode :: scan_mode
  pr_details_json :: "json option"
  pr_external_id :: "string option"
  pr_submitted_at :: "time option"
  pr_deadline_at :: "time option"
  pr_next_poll_at :: "time option"
  pr_attempts :: int
  pr_completed_at :: "time option"
  pr_updated_at :: time

record i18n =
  i_plugin_id :: uuid
  i_locale :: string
  i_data :: json

record worker_task =
  t_id :: uuid
  t_task_type :: string
  t_status :: task_status
  t_plugin_id :: "uuid option"
  t_version_id :: "uuid option"
  t_provider :: "string option"
  t_payload :: "json dict"
  t_attempts :: int
  t_max_attempts :: int
  t_queued_at :: time
  t_started_at :: "time option"
  t_finished_at :: "time option"
  t_next_run_at :: "time option"
  t_worker_id :: "string option"
  t_duration_ms :: "int option"
  t_last_error :: "string option"
  t_created_at :: time

record system_config =
  c_key :: string
  c_value :: string

record user =
  u_id :: uuid
  u_username :: string
  u_email :: "string option"
  u_password_hash :: string
  u_role :: user_role
  u_status :: user_status
  u_is_active :: bool
  u_created_at :: time

record invite =
  n_id :: uuid
  n_code_hash :: string
  n_status :: invite_status
  n_max_uses :: int
  n_used_count :: int
  n_expires_at :: "time option"
  n_note :: "string option"
  n_created_by :: "uuid option"
  n_created_at :: time

record submission =
  q_id :: uuid
  q_user_id :: uuid
  q_repo_url :: string
  q_provider :: string
  q_ref_type :: ref_type
  q_ref :: "string option"
  q_status :: submission_status
  q_resolved_commit_sha :: "string option"
  q_accepted_plugin_id :: "uuid option"
  q_accepted_version_id :: "uuid option"
  q_user_message :: "string option"
  q_admin_message :: "string option"
  q_accepted_by :: "uuid option"
  q_accepted_at :: "time option"
  q_created_at :: time

record stat =
  z_version_id :: uuid
  z_date :: int
  z_download_count :: int
  z_install_count :: int

record webhook_event =
  w_id :: uuid
  w_plugin_id :: "uuid option"
  w_event_type :: webhook_type
  w_payload :: "json option"
  w_triggered_version_id :: "uuid option"
  w_status :: webhook_status
  w_error_message :: "string option"
  w_created_at :: time

record db =
  plugins :: "plugin list"
  versions :: "version list"
  scans :: "scan list"
  results :: "provider_result list"
  tags :: "string list"
  plugin_tags :: "(uuid \<times> string) list"
  i18ns :: "i18n list"
  tasks :: "worker_task list"
  configs :: "system_config list"
  users :: "user list"
  invites :: "invite list"
  submissions :: "submission list"
  stats :: "stat list"
  webhooks :: "webhook_event list"

definition empty_db :: db where
  "empty_db = \<lparr>plugins = [], versions = [], scans = [], results = [], tags = [], plugin_tags = [],
     i18ns = [], tasks = [], configs = [], users = [], invites = [], submissions = [], stats = [],
     webhooks = []\<rparr>"

definition result_key :: "provider_result \<Rightarrow> uuid \<times> string" where
  "result_key r = (pr_version_id r, pr_provider r)"

text \<open>A new scan and a new provider result, with the defaults of their columns.\<close>

definition new_scan :: "uuid \<Rightarrow> time \<Rightarrow> scan" where
  "new_scan vid now = \<lparr>s_version_id = vid, s_virustotal_pass = None, s_virustotal_msg = None,
     s_virustotal_mode = MPending, s_virustotal_analysis_id = None, s_virustotal_file_sha256 = None,
     s_virustotal_submitted_at = None, s_virustotal_deadline_at = None,
     s_virustotal_next_poll_at = None, s_virustotal_poll_attempts = 0, s_llm_agent_pass = None,
     s_llm_agent_msg = None, s_llm_agent_mode = MPending, s_scanned_at = now\<rparr>"

definition new_result :: "uuid \<Rightarrow> string \<Rightarrow> result_kind \<Rightarrow> time \<Rightarrow> provider_result" where
  "new_result vid provider kind now = \<lparr>pr_version_id = vid, pr_provider = provider, pr_kind = kind,
     pr_passed = None, pr_message = None, pr_mode = MPending, pr_details_json = None,
     pr_external_id = None, pr_submitted_at = None, pr_deadline_at = None, pr_next_poll_at = None,
     pr_attempts = 0, pr_completed_at = None, pr_updated_at = now\<rparr>"

section \<open>Constraints\<close>

definition fits :: "nat \<Rightarrow> string \<Rightarrow> bool" where
  "fits n s \<longleftrightarrow> length s \<le> n"

definition fits_opt :: "nat \<Rightarrow> string option \<Rightarrow> bool" where
  "fits_opt n x \<longleftrightarrow> (case x of None \<Rightarrow> True | Some s \<Rightarrow> fits n s)"

definition int4 :: "int \<Rightarrow> bool" where
  "int4 i \<longleftrightarrow> - 2147483648 \<le> i \<and> i \<le> 2147483647"

definition int8 :: "int \<Rightarrow> bool" where
  "int8 i \<longleftrightarrow> - 9223372036854775808 \<le> i \<and> i \<le> 9223372036854775807"

definition some_list :: "'a option list \<Rightarrow> 'a list" where
  "some_list xs = concat (map (\<lambda>x. case x of None \<Rightarrow> [] | Some y \<Rightarrow> [y]) xs)"

definition is_hex_char :: "char \<Rightarrow> bool" where
  "is_hex_char c \<longleftrightarrow> is_digit c \<or> c \<in> set ''abcdefABCDEF''"

definition is_commit_hash :: "string \<Rightarrow> bool" where
  "is_commit_hash s \<longleftrightarrow> 40 \<le> length s \<and> length s \<le> 64 \<and> list_all is_hex_char s"

definition plugin_row_ok :: "plugin \<Rightarrow> bool" where
  "plugin_row_ok p \<longleftrightarrow>
     0 \<le> p_stars p \<and> int4 (p_stars p) \<and> p_description p \<noteq> None
   \<and> fits 255 (p_plugin_key p) \<and> fits_opt 255 (p_display_name p) \<and> fits 255 (p_author p)
   \<and> fits_opt 512 (p_repo_url p) \<and> fits_opt 512 (p_social_link p) \<and> fits_opt 100 (p_category p)
   \<and> fits_opt 512 (p_logo_s3_key p) \<and> fits_opt 100 (p_astrbot_version p)"

definition plugins_ok :: "db \<Rightarrow> bool" where
  "plugins_ok D \<longleftrightarrow> list_all plugin_row_ok (plugins D) \<and> distinct (map p_id (plugins D))
   \<and> distinct (map p_plugin_key (plugins D))"

definition latest_ok :: "version \<Rightarrow> bool" where
  "latest_ok v \<longleftrightarrow> (v_is_latest v \<longrightarrow> v_version_status v = VActive \<and> v_build_status v = BSuccess)"

definition artifact_ok :: "version \<Rightarrow> bool" where
  "artifact_ok v \<longleftrightarrow> (v_build_status v = BSuccess \<longrightarrow> v_s3_key v \<noteq> None \<and> v_download_url v \<noteq> None)"

definition version_row_ok :: "version \<Rightarrow> bool" where
  "version_row_ok v \<longleftrightarrow>
     latest_ok v \<and> artifact_ok v
   \<and> (case v_file_size v of None \<Rightarrow> True | Some n \<Rightarrow> 0 \<le> n \<and> int8 n)
   \<and> fits 50 (v_version v) \<and> fits_opt 64 (v_commit_sha v) \<and> fits_opt 255 (v_source_ref v)
   \<and> fits_opt 512 (v_download_url v) \<and> fits_opt 512 (v_s3_key v)"

definition commit_index :: "version list \<Rightarrow> (uuid \<times> string) list" where
  "commit_index vs = concat (map (\<lambda>v. case v_commit_sha v of
      None \<Rightarrow> []
    | Some c \<Rightarrow> if v_source_type v = GitAuto \<and> is_commit_hash c then [(v_plugin_id v, c)] else []) vs)"

definition ref_ok :: "uuid option \<Rightarrow> uuid list \<Rightarrow> bool" where
  "ref_ok r ids \<longleftrightarrow> (case r of None \<Rightarrow> True | Some i \<Rightarrow> i \<in> set ids)"

definition versions_ok :: "db \<Rightarrow> bool" where
  "versions_ok D \<longleftrightarrow>
     list_all version_row_ok (versions D)
   \<and> distinct (map v_id (versions D))
   \<and> distinct (map v_plugin_id (filter v_is_latest (versions D)))
   \<and> distinct (commit_index (versions D))
   \<and> list_all (\<lambda>v. v_plugin_id v \<in> set (map p_id (plugins D))) (versions D)
   \<and> list_all (\<lambda>v. ref_ok (v_created_by v) (map u_id (users D))) (versions D)"

definition scan_row_ok :: "scan \<Rightarrow> bool" where
  "scan_row_ok s \<longleftrightarrow> fits_opt 64 (s_virustotal_file_sha256 s) \<and> int4 (s_virustotal_poll_attempts s)"

definition scans_ok :: "db \<Rightarrow> bool" where
  "scans_ok D \<longleftrightarrow> list_all scan_row_ok (scans D) \<and> distinct (map s_version_id (scans D))
   \<and> list_all (\<lambda>s. s_version_id s \<in> set (map v_id (versions D))) (scans D)"

definition result_row_ok :: "provider_result \<Rightarrow> bool" where
  "result_row_ok r \<longleftrightarrow> fits 64 (pr_provider r) \<and> int4 (pr_attempts r)"

definition results_ok :: "db \<Rightarrow> bool" where
  "results_ok D \<longleftrightarrow> list_all result_row_ok (results D) \<and> distinct (map result_key (results D))
   \<and> list_all (\<lambda>r. pr_version_id r \<in> set (map v_id (versions D))) (results D)"

definition tags_ok :: "db \<Rightarrow> bool" where
  "tags_ok D \<longleftrightarrow> list_all (fits 100) (tags D) \<and> distinct (tags D) \<and> distinct (plugin_tags D)
   \<and> list_all (\<lambda>(p, t). p \<in> set (map p_id (plugins D)) \<and> t \<in> set (tags D)) (plugin_tags D)"

definition i18n_key :: "i18n \<Rightarrow> uuid \<times> string" where
  "i18n_key i = (i_plugin_id i, i_locale i)"

definition i18ns_ok :: "db \<Rightarrow> bool" where
  "i18ns_ok D \<longleftrightarrow> list_all (\<lambda>i. fits 10 (i_locale i)) (i18ns D) \<and> distinct (map i18n_key (i18ns D))
   \<and> list_all (\<lambda>i. i_plugin_id i \<in> set (map p_id (plugins D))) (i18ns D)"

definition task_row_ok :: "worker_task \<Rightarrow> bool" where
  "task_row_ok t \<longleftrightarrow>
     fits 64 (t_task_type t) \<and> fits_opt 64 (t_provider t) \<and> int4 (t_attempts t) \<and> int4 (t_max_attempts t)
   \<and> fits_opt 128 (t_worker_id t) \<and> (case t_duration_ms t of None \<Rightarrow> True | Some d \<Rightarrow> int4 d)"

definition tasks_ok :: "db \<Rightarrow> bool" where
  "tasks_ok D \<longleftrightarrow> list_all task_row_ok (tasks D) \<and> distinct (map t_id (tasks D))
   \<and> list_all (\<lambda>t. ref_ok (t_plugin_id t) (map p_id (plugins D))
        \<and> ref_ok (t_version_id t) (map v_id (versions D))) (tasks D)"

definition configs_ok :: "db \<Rightarrow> bool" where
  "configs_ok D \<longleftrightarrow> list_all (\<lambda>c. fits 255 (c_key c)) (configs D) \<and> distinct (map c_key (configs D))"

definition users_ok :: "db \<Rightarrow> bool" where
  "users_ok D \<longleftrightarrow>
     list_all (\<lambda>u. fits 100 (u_username u) \<and> fits_opt 255 (u_email u) \<and> fits 255 (u_password_hash u)) (users D)
   \<and> distinct (map u_id (users D)) \<and> distinct (map u_username (users D))
   \<and> distinct (some_list (map u_email (users D)))"

definition invite_row_ok :: "invite \<Rightarrow> bool" where
  "invite_row_ok n \<longleftrightarrow> fits 64 (n_code_hash n) \<and> 0 < n_max_uses n \<and> int4 (n_max_uses n)
   \<and> 0 \<le> n_used_count n \<and> n_used_count n \<le> n_max_uses n"

definition invites_ok :: "db \<Rightarrow> bool" where
  "invites_ok D \<longleftrightarrow> list_all invite_row_ok (invites D) \<and> distinct (map n_id (invites D))
   \<and> distinct (map n_code_hash (invites D))
   \<and> list_all (\<lambda>n. ref_ok (n_created_by n) (map u_id (users D))) (invites D)"

definition submission_row_ok :: "submission \<Rightarrow> bool" where
  "submission_row_ok q \<longleftrightarrow> fits 512 (q_repo_url q) \<and> fits 50 (q_provider q) \<and> fits_opt 255 (q_ref q)
   \<and> fits_opt 64 (q_resolved_commit_sha q)"

definition submissions_ok :: "db \<Rightarrow> bool" where
  "submissions_ok D \<longleftrightarrow>
     list_all submission_row_ok (submissions D) \<and> distinct (map q_id (submissions D))
   \<and> list_all (\<lambda>q. q_user_id q \<in> set (map u_id (users D))
        \<and> ref_ok (q_accepted_plugin_id q) (map p_id (plugins D))
        \<and> ref_ok (q_accepted_version_id q) (map v_id (versions D))
        \<and> ref_ok (q_accepted_by q) (map u_id (users D))) (submissions D)"

definition stats_ok :: "db \<Rightarrow> bool" where
  "stats_ok D \<longleftrightarrow>
     list_all (\<lambda>z. 0 \<le> z_download_count z \<and> int4 (z_download_count z)
        \<and> 0 \<le> z_install_count z \<and> int4 (z_install_count z)) (stats D)
   \<and> distinct (map (\<lambda>z. (z_version_id z, z_date z)) (stats D))
   \<and> list_all (\<lambda>z. z_version_id z \<in> set (map v_id (versions D))) (stats D)"

definition webhooks_ok :: "db \<Rightarrow> bool" where
  "webhooks_ok D \<longleftrightarrow> distinct (map w_id (webhooks D))
   \<and> list_all (\<lambda>w. ref_ok (w_plugin_id w) (map p_id (plugins D))
        \<and> ref_ok (w_triggered_version_id w) (map v_id (versions D))) (webhooks D)"

definition db_ok :: "db \<Rightarrow> bool" where
  "db_ok D \<longleftrightarrow> plugins_ok D \<and> versions_ok D \<and> scans_ok D \<and> results_ok D \<and> tags_ok D \<and> i18ns_ok D
   \<and> tasks_ok D \<and> configs_ok D \<and> users_ok D \<and> invites_ok D \<and> submissions_ok D \<and> stats_ok D
   \<and> webhooks_ok D"

section \<open>Deleting with the ON DELETE rules\<close>

definition clear_ref :: "uuid list \<Rightarrow> uuid option \<Rightarrow> uuid option" where
  "clear_ref ids r = (case r of None \<Rightarrow> None | Some i \<Rightarrow> if i \<in> set ids then None else Some i)"

text \<open>DELETE of versions: scans, provider results and statistics go with them; tasks, submissions and
  webhook events forget them.\<close>

definition delete_versions :: "(version \<Rightarrow> bool) \<Rightarrow> db \<Rightarrow> db" where
  "delete_versions P D =
     (let gone = map v_id (filter P (versions D))
      in D\<lparr>versions := rows_delete P (versions D),
           scans := rows_delete (\<lambda>s. s_version_id s \<in> set gone) (scans D),
           results := rows_delete (\<lambda>r. pr_version_id r \<in> set gone) (results D),
           stats := rows_delete (\<lambda>z. z_version_id z \<in> set gone) (stats D),
           tasks := map (\<lambda>t. t\<lparr>t_version_id := clear_ref gone (t_version_id t)\<rparr>) (tasks D),
           submissions := map (\<lambda>q. q\<lparr>q_accepted_version_id := clear_ref gone (q_accepted_version_id q)\<rparr>)
             (submissions D),
           webhooks := map (\<lambda>w. w\<lparr>w_triggered_version_id := clear_ref gone (w_triggered_version_id w)\<rparr>)
             (webhooks D)\<rparr>)"

definition delete_plugin_row :: "uuid \<Rightarrow> db \<Rightarrow> db" where
  "delete_plugin_row pid D0 =
     (let D = delete_versions (\<lambda>v. v_plugin_id v = pid) D0
      in D\<lparr>plugins := row_del p_id pid (plugins D),
           plugin_tags := filter (\<lambda>(p, t). p \<noteq> pid) (plugin_tags D),
           i18ns := rows_delete (\<lambda>i. i_plugin_id i = pid) (i18ns D),
           webhooks := rows_delete (\<lambda>w. w_plugin_id w = Some pid) (webhooks D),
           tasks := map (\<lambda>t. t\<lparr>t_plugin_id := clear_ref [pid] (t_plugin_id t)\<rparr>) (tasks D),
           submissions := map (\<lambda>q. q\<lparr>q_accepted_plugin_id := clear_ref [pid] (q_accepted_plugin_id q)\<rparr>)
             (submissions D)\<rparr>)"

section \<open>Changing one table\<close>

lemmas table_defs = plugins_ok_def versions_ok_def scans_ok_def results_ok_def tags_ok_def i18ns_ok_def
  tasks_ok_def configs_ok_def users_ok_def invites_ok_def submissions_ok_def stats_ok_def webhooks_ok_def

lemma db_ok_set_plugins:
  assumes "db_ok D" "map p_id ps = map p_id (plugins D)" "plugins_ok (D\<lparr>plugins := ps\<rparr>)"
  shows "db_ok (D\<lparr>plugins := ps\<rparr>)"
proof -
  have "p_id ` set ps = p_id ` set (plugins D)" using assms(2) by (metis list.set_map)
  with assms show ?thesis unfolding db_ok_def by (simp add: table_defs)
qed

lemma db_ok_set_versions:
  assumes "db_ok D" "map v_id vs = map v_id (versions D)" "versions_ok (D\<lparr>versions := vs\<rparr>)"
  shows "db_ok (D\<lparr>versions := vs\<rparr>)"
proof -
  have "v_id ` set vs = v_id ` set (versions D)" using assms(2) by (metis list.set_map)
  with assms show ?thesis unfolding db_ok_def by (simp add: table_defs)
qed

lemma db_ok_set_scans:
  "db_ok D \<Longrightarrow> scans_ok (D\<lparr>scans := x\<rparr>) \<Longrightarrow> db_ok (D\<lparr>scans := x\<rparr>)"
  unfolding db_ok_def by (simp add: table_defs)

lemma db_ok_set_results:
  "db_ok D \<Longrightarrow> results_ok (D\<lparr>results := x\<rparr>) \<Longrightarrow> db_ok (D\<lparr>results := x\<rparr>)"
  unfolding db_ok_def by (simp add: table_defs)

lemma db_ok_set_tasks:
  "db_ok D \<Longrightarrow> tasks_ok (D\<lparr>tasks := x\<rparr>) \<Longrightarrow> db_ok (D\<lparr>tasks := x\<rparr>)"
  unfolding db_ok_def by (simp add: table_defs)

lemma db_ok_set_configs:
  "db_ok D \<Longrightarrow> configs_ok (D\<lparr>configs := x\<rparr>) \<Longrightarrow> db_ok (D\<lparr>configs := x\<rparr>)"
  unfolding db_ok_def by (simp add: table_defs)

text \<open>What an edit of a version leaves alone.\<close>

definition v_core :: "version \<Rightarrow> _" where
  "v_core v = (v_id v, v_plugin_id v, v_version v, v_commit_sha v, v_source_ref v, v_source_type v,
     v_download_url v, v_s3_key v, v_file_size v, v_created_by v)"

lemma v_coreD:
  assumes "v_core u = v_core v"
  shows "v_id u = v_id v" "v_plugin_id u = v_plugin_id v" "v_version u = v_version v"
    "v_commit_sha u = v_commit_sha v" "v_source_ref u = v_source_ref v" "v_source_type u = v_source_type v"
    "v_download_url u = v_download_url v" "v_s3_key u = v_s3_key v" "v_file_size u = v_file_size v"
    "v_created_by u = v_created_by v"
  using assms by (simp_all add: v_core_def)

lemma commit_index_map:
  assumes "\<And>v. v \<in> set vs \<Longrightarrow> v_core (g v) = v_core v"
  shows "commit_index (map g vs) = commit_index vs"
proof -
  have "(case v_commit_sha (g v) of None \<Rightarrow> [] | Some c \<Rightarrow>
        if v_source_type (g v) = GitAuto \<and> is_commit_hash c then [(v_plugin_id (g v), c)] else []) =
      (case v_commit_sha v of None \<Rightarrow> [] | Some c \<Rightarrow>
        if v_source_type v = GitAuto \<and> is_commit_hash c then [(v_plugin_id v, c)] else [])"
    if "v \<in> set vs" for v
    using v_coreD[OF assms[OF that]] by (cases "v_commit_sha v") simp_all
  then show ?thesis by (auto simp: commit_index_def comp_def intro!: arg_cong[of _ _ concat])
qed

lemma distinct_keys_filter:
  assumes "distinct (map k xs)"
  shows "distinct (map f (filter P xs)) \<longleftrightarrow> inj_on f {x \<in> set xs. P x}"
  using assms by (auto simp: distinct_map)

lemma version_row_ok_core:
  assumes "v_core u = v_core v" "version_row_ok v" "latest_ok u" "artifact_ok u"
  shows "version_row_ok u"
  using assms v_coreD[OF assms(1)] by (simp add: version_row_ok_def)

text \<open>Versions after an edit row by row: the rows must still satisfy the two conditions on their status,
  and each plugin must still have at most one latest version.\<close>

lemma db_ok_edit_versions:
  assumes ok: "db_ok D" and core: "\<And>v. v \<in> set (versions D) \<Longrightarrow> v_core (g v) = v_core v"
    and rows: "\<And>v. v \<in> set (versions D) \<Longrightarrow> latest_ok (g v) \<and> artifact_ok (g v)"
    and one: "\<And>u v. u \<in> set (versions D) \<Longrightarrow> v \<in> set (versions D) \<Longrightarrow> v_is_latest (g u) \<Longrightarrow>
      v_is_latest (g v) \<Longrightarrow> v_plugin_id u = v_plugin_id v \<Longrightarrow> v_id u = v_id v"
  shows "db_ok (D\<lparr>versions := map g (versions D)\<rparr>)"
proof (rule db_ok_set_versions[OF ok])
  let ?vs = "versions D"
  have v: "versions_ok D" using ok by (simp add: db_ok_def)
  have ids: "map v_id (map g ?vs) = map v_id ?vs"
    using v_coreD(1)[OF core] by simp
  then show "map v_id (map g ?vs) = map v_id ?vs" .
  have d: "distinct (map v_id ?vs)" using v by (simp add: versions_ok_def)
  have same: "u = w" if "u \<in> set ?vs" "w \<in> set ?vs" "v_id u = v_id w" for u w
    using d that by (auto simp: distinct_map inj_on_def)
  have "inj_on v_plugin_id {x \<in> set (map g ?vs). v_is_latest x}"
  proof (rule inj_onI)
    fix x y
    assume "x \<in> {x \<in> set (map g ?vs). v_is_latest x}" "y \<in> {x \<in> set (map g ?vs). v_is_latest x}"
      and eq: "v_plugin_id x = v_plugin_id y"
    then obtain u w where uw: "u \<in> set ?vs" "w \<in> set ?vs" "x = g u" "y = g w" "v_is_latest x" "v_is_latest y"
      by auto
    have "v_plugin_id u = v_plugin_id w"
      using eq uw v_coreD(2)[OF core[OF uw(1)]] v_coreD(2)[OF core[OF uw(2)]] by simp
    then have "v_id u = v_id w" using one[of u w] uw by simp
    then show "x = y" using same[of u w] uw by simp
  qed
  moreover have d': "distinct (map v_id (map g ?vs))" unfolding ids by (rule d)
  ultimately have lat: "distinct (map v_plugin_id (filter v_is_latest (map g ?vs)))"
    by (simp only: distinct_keys_filter)
  have rs: "list_all version_row_ok (map g ?vs)"
    unfolding list_all_iff
  proof
    fix x assume "x \<in> set (map g ?vs)"
    then obtain u where u: "u \<in> set ?vs" "x = g u" by auto
    moreover have "version_row_ok u" using v u(1) by (simp add: versions_ok_def list_all_iff)
    ultimately show "version_row_ok x" using version_row_ok_core[OF core] rows by simp
  qed
  have fk: "list_all (\<lambda>v. v_plugin_id v \<in> set (map p_id (plugins D))) (map g ?vs)"
    "list_all (\<lambda>v. ref_ok (v_created_by v) (map u_id (users D))) (map g ?vs)"
    using v v_coreD(2,10)[OF core] by (auto simp: versions_ok_def list_all_iff)
  show "versions_ok (D\<lparr>versions := map g ?vs\<rparr>)"
    using lat rs fk d' v commit_index_map[OF core, of ?vs] by (simp add: versions_ok_def)
qed

section \<open>Deleting keeps the constraints\<close>

lemma ref_ok_clear:
  "ref_ok r ids \<Longrightarrow> (\<And>i. i \<in> set ids \<Longrightarrow> i \<notin> set gone \<Longrightarrow> i \<in> set ids') \<Longrightarrow> ref_ok (clear_ref gone r) ids'"
  by (cases r) (auto simp: ref_ok_def clear_ref_def)

lemma ref_ok_other: "ref_ok r ids \<Longrightarrow> r \<noteq> Some x \<Longrightarrow> set ids - {x} \<subseteq> set ids' \<Longrightarrow> ref_ok r ids'"
  by (cases r) (auto simp: ref_ok_def)

lemma commit_index_simps:
  "commit_index [] = []"
  "commit_index (v # vs) = commit_index [v] @ commit_index vs"
  by (simp_all add: commit_index_def)

lemma commit_index_filter: "set (commit_index (filter Q vs)) \<subseteq> set (commit_index vs)"
  by (induction vs) (auto simp: commit_index_simps(2)[of _ "_ # _"] commit_index_def)

lemma distinct_commit_index_filter: "distinct (commit_index vs) \<Longrightarrow> distinct (commit_index (filter Q vs))"
proof (induction vs)
  case (Cons v vs)
  then have "distinct (commit_index [v])" "distinct (commit_index vs)"
    "set (commit_index [v]) \<inter> set (commit_index vs) = {}"
    using commit_index_simps(2)[of v vs] by (auto simp del: distinct.simps)
  with Cons.IH commit_index_filter[of Q vs] commit_index_simps(2)[of v "filter Q vs"]
  show ?case by auto
qed simp

lemma list_all_filter: "list_all Q xs \<Longrightarrow> list_all Q (filter P xs)"
  by (simp add: list_all_iff)

lemma kept_version:
  assumes "i \<in> set (map v_id vs)" "i \<notin> set (map v_id (filter P vs))"
  shows "i \<in> set (map v_id (filter (\<lambda>v. \<not> P v) vs))"
  using assms by force

lemma db_ok_delete_versions:
  assumes ok: "db_ok D"
  shows "db_ok (delete_versions P D)"
proof -
  let ?gone = "map v_id (filter P (versions D))" and ?D = "delete_versions P D"
  have eq: "plugins ?D = plugins D" "users ?D = users D" "tags ?D = tags D" "plugin_tags ?D = plugin_tags D"
    "i18ns ?D = i18ns D" "configs ?D = configs D" "invites ?D = invites D"
    and vs: "versions ?D = filter (\<lambda>v. \<not> P v) (versions D)"
    and sc: "scans ?D = filter (\<lambda>s. s_version_id s \<notin> set ?gone) (scans D)"
    and re: "results ?D = filter (\<lambda>r. pr_version_id r \<notin> set ?gone) (results D)"
    and st: "stats ?D = filter (\<lambda>z. z_version_id z \<notin> set ?gone) (stats D)"
    and ta: "tasks ?D = map (\<lambda>t. t\<lparr>t_version_id := clear_ref ?gone (t_version_id t)\<rparr>) (tasks D)"
    and su: "submissions ?D = map (\<lambda>q. q\<lparr>q_accepted_version_id := clear_ref ?gone (q_accepted_version_id q)\<rparr>) (submissions D)"
    and we: "webhooks ?D = map (\<lambda>w. w\<lparr>w_triggered_version_id := clear_ref ?gone (w_triggered_version_id w)\<rparr>) (webhooks D)"
    by (simp_all add: delete_versions_def Let_def rows_delete_def)
  have V: "set (map v_id (versions ?D)) \<supseteq> set (map v_id (versions D)) - set ?gone"
    unfolding vs using kept_version by blast
  have a: "plugins_ok ?D" "tags_ok ?D" "i18ns_ok ?D" "configs_ok ?D" "users_ok ?D" "invites_ok ?D"
    using ok by (simp_all add: db_ok_def table_defs eq)
  have b: "versions_ok ?D"
    using ok distinct_commit_index_filter[of "versions D"]
      distinct_map_filter[of v_plugin_id "filter v_is_latest (versions D)" "\<lambda>v. \<not> P v"]
    by (simp add: db_ok_def versions_ok_def eq vs list_all_filter distinct_map_filter filter_filter conj_commute)
  have c: "scans_ok ?D" "results_ok ?D" "stats_ok ?D"
    using ok V unfolding db_ok_def scans_ok_def results_ok_def stats_ok_def sc re st list_all_iff
    by (auto simp: distinct_map_filter)
  have d: "tasks_ok ?D"
    using ok V unfolding db_ok_def tasks_ok_def ta eq list_all_iff
    by (auto simp: comp_def task_row_ok_def intro!: ref_ok_clear)
  have e: "submissions_ok ?D"
    using ok V unfolding db_ok_def submissions_ok_def su eq list_all_iff
    by (auto simp: comp_def submission_row_ok_def intro!: ref_ok_clear)
  have f: "webhooks_ok ?D"
    using ok V unfolding db_ok_def webhooks_ok_def we eq list_all_iff
    by (auto simp: comp_def intro!: ref_ok_clear)
  show ?thesis using a b c d e f by (simp add: db_ok_def)
qed

text \<open>A plugin row goes after its versions.\<close>

lemma db_ok_delete_plugin_row:
  assumes "db_ok D0"
  shows "db_ok (delete_plugin_row pid D0)"
proof -
  let ?D = "delete_versions (\<lambda>v. v_plugin_id v = pid) D0" and ?E = "delete_plugin_row pid D0"
  have ok: "db_ok ?D" using assms by (rule db_ok_delete_versions)
  have none: "v_plugin_id v \<noteq> pid" if "v \<in> set (versions ?D)" for v
    using that by (simp add: delete_versions_def Let_def)
  have eq: "versions ?E = versions ?D" "scans ?E = scans ?D" "results ?E = results ?D" "stats ?E = stats ?D"
    "users ?E = users ?D" "tags ?E = tags ?D" "configs ?E = configs ?D" "invites ?E = invites ?D"
    and ps: "plugins ?E = filter (\<lambda>p. p_id p \<noteq> pid) (plugins ?D)"
    and pt: "plugin_tags ?E = filter (\<lambda>(p, t). p \<noteq> pid) (plugin_tags ?D)"
    and il: "i18ns ?E = filter (\<lambda>i. i_plugin_id i \<noteq> pid) (i18ns ?D)"
    and we: "webhooks ?E = filter (\<lambda>w. w_plugin_id w \<noteq> Some pid) (webhooks ?D)"
    and ta: "tasks ?E = map (\<lambda>t. t\<lparr>t_plugin_id := clear_ref [pid] (t_plugin_id t)\<rparr>) (tasks ?D)"
    and su: "submissions ?E = map (\<lambda>q. q\<lparr>q_accepted_plugin_id := clear_ref [pid] (q_accepted_plugin_id q)\<rparr>) (submissions ?D)"
    by (simp_all add: delete_plugin_row_def Let_def rows_delete_def row_del_def)
  have P: "set (map p_id (plugins ?E)) = set (map p_id (plugins ?D)) - {pid}"
    unfolding ps by auto
  have a: "scans_ok ?E" "results_ok ?E" "stats_ok ?E" "configs_ok ?E" "users_ok ?E" "invites_ok ?E"
    using ok by (simp_all add: db_ok_def table_defs eq)
  have b: "plugins_ok ?E"
    using ok by (simp add: db_ok_def plugins_ok_def ps list_all_filter distinct_map_filter)
  have c: "versions_ok ?E"
    using ok none P unfolding db_ok_def versions_ok_def eq list_all_iff by (auto simp del: list.set_map)
  have d: "tags_ok ?E" "i18ns_ok ?E"
    using ok P unfolding db_ok_def tags_ok_def i18ns_ok_def eq pt il list_all_iff
    by (auto simp: distinct_map_filter simp del: list.set_map)
  have e: "tasks_ok ?E"
    using ok P unfolding db_ok_def tasks_ok_def ta eq list_all_iff
    by (auto simp: comp_def task_row_ok_def intro!: ref_ok_clear simp del: list.set_map)
  have f: "submissions_ok ?E"
    using ok P unfolding db_ok_def submissions_ok_def su eq list_all_iff
    by (auto simp: comp_def submission_row_ok_def intro!: ref_ok_clear simp del: list.set_map)
  have g: "webhooks_ok ?E"
    using ok P unfolding db_ok_def webhooks_ok_def we eq list_all_iff
    by (auto simp: distinct_map_filter intro: ref_ok_other simp del: list.set_map)
  show ?thesis using a b c d e f g by (simp add: db_ok_def)
qed

end
