(* ===== verification/World.thy ===== *)
theory World
  imports Settings
begin

text \<open>
  What an operation of the services sees. \<open>env\<close> is what does not change while it runs: one reading of
  the clock, the settings, and the code that is not in the repository (hash functions, object storage,
  the scanners' HTTP and socket answers), given as functions. \<open>world\<close> is the state: the committed
  database, the session's working copy of it, the identifiers drawn so far, Redis when it can be
  reached, and the keys in the object store. A flush checks the constraints of the session's copy, a
  commit checks them and publishes the copy; a constraint that fails raises \<open>DBAPIError\<close> and rolls the
  session back. An operation that ends without a commit leaves the committed database as it was. The
  session flushes before its queries too; a constraint that fails there is reported here at the next
  explicit flush or commit, with the same exception and the same rollback.
\<close>

section \<open>The environment\<close>

text \<open>An HTTP exchange: it fails on the way, or answers with a status and a body, JSON or not.\<close>

datatype http_reply = HttpFailed string | HttpReply nat "json option"

text \<open>A socket exchange with clamd: its reply, a time-out, or an \<open>OSError\<close> with its errno.\<close>

datatype socket_reply = SockReply string | SockTimeout | SockError int string

record zip_entry =
  ze_filename :: string
  ze_is_dir :: bool
  ze_read :: "exn + string"

record env =
  e_now :: time
  e_settings :: settings
  e_uuid :: "nat \<Rightarrow> uuid"
  e_hostname :: string
  e_pid :: int
  e_md5 :: "string \<Rightarrow> string"
  e_sha256 :: "string \<Rightarrow> string"
  e_s3_download :: "string \<Rightarrow> exn + string"
  e_s3_upload :: "string \<Rightarrow> string \<Rightarrow> exn option"
  e_s3_delete :: "string \<Rightarrow> exn option"
  e_unzip :: "string \<Rightarrow> exn + zip_entry list"
  e_vt_get_file :: "string \<Rightarrow> string \<Rightarrow> http_reply"
  e_vt_post_file :: "string \<Rightarrow> string \<Rightarrow> http_reply"
  e_vt_get_file_again :: "string \<Rightarrow> string \<Rightarrow> http_reply"
  e_vt_get_analysis :: "string \<Rightarrow> string \<Rightarrow> http_reply"
  e_clamd_connect :: "string \<Rightarrow> int \<Rightarrow> (int \<times> string) option"
  e_clamd :: "string \<Rightarrow> int \<Rightarrow> string \<Rightarrow> socket_reply"
  e_llm_post :: "string \<Rightarrow> string \<Rightarrow> json \<Rightarrow> http_reply"
  e_json_loads :: "string \<Rightarrow> exn + json"

section \<open>The state\<close>

record redis_db =
  r_registry_json :: "(json \<times> time) option"
  r_registry_md5 :: "(string \<times> time) option"
  r_runtime_config :: "(string dict \<times> time) option"
  r_queue :: "json dict list"
  r_delayed :: "(json dict \<times> time) list"
  r_dead :: "json dict list"
  r_heartbeats :: "(string \<times> json \<times> time) list"
  r_challenges :: "(string \<times> json \<times> time) list"

record world =
  committed :: db
  sess :: db
  uuid_next :: nat
  redis :: "redis_db option"
  s3_keys :: "string list"

type_synonym 'a act = "(world, 'a) op"

definition empty_redis :: redis_db where
  "empty_redis = \<lparr>r_registry_json = None, r_registry_md5 = None, r_runtime_config = None, r_queue = [],
     r_delayed = [], r_dead = [], r_heartbeats = [], r_challenges = []\<rparr>"

section \<open>The session\<close>

definition query :: "(db \<Rightarrow> 'a) \<Rightarrow> 'a act" where
  "query f = gets (\<lambda>w. f (sess w))"

definition stage :: "(db \<Rightarrow> db) \<Rightarrow> unit act" where
  "stage f = modify (\<lambda>w. w\<lparr>sess := f (sess w)\<rparr>)"

definition integrity_error :: exn where
  "integrity_error = DBAPIError ''integrity or data error''"

definition flush :: "unit act" where
  "flush = (\<lambda>w. if db_ok (sess w) then (Inr (), w) else (Inl integrity_error, w\<lparr>sess := committed w\<rparr>))"

definition commit :: "unit act" where
  "commit = (\<lambda>w. if db_ok (sess w) then (Inr (), w\<lparr>committed := sess w\<rparr>)
                 else (Inl integrity_error, w\<lparr>sess := committed w\<rparr>))"

text \<open>\<open>async with async_session() as db\<close>.\<close>

definition in_session :: "'a act \<Rightarrow> 'a act" where
  "in_session m = (\<lambda>w. case m (w\<lparr>sess := committed w\<rparr>) of (r, v) \<Rightarrow> (r, v\<lparr>sess := committed v\<rparr>))"

definition uuid4 :: "env \<Rightarrow> uuid act" where
  "uuid4 env = (\<lambda>w. (Inr (e_uuid env (uuid_next w)), w\<lparr>uuid_next := Suc (uuid_next w)\<rparr>))"

section \<open>Redis\<close>

text \<open>A key whose time to live has passed is gone. \<open>SET key value EX ttl\<close> refuses a time to live that is
  not positive.\<close>

definition alive :: "time \<Rightarrow> ('a \<times> time) option \<Rightarrow> 'a option" where
  "alive now x = (case x of None \<Rightarrow> None | Some (v, expires) \<Rightarrow> if now < expires then Some v else None)"

definition on_redis :: "(redis_db \<Rightarrow> redis_db) \<Rightarrow> unit act" where
  "on_redis f = modify (\<lambda>w. w\<lparr>redis := map_option f (redis w)\<rparr>)"

definition set_ex :: "(('v \<times> time) option \<Rightarrow> redis_db \<Rightarrow> redis_db) \<Rightarrow> time \<Rightarrow> 'v \<Rightarrow> int \<Rightarrow> unit act" where
  "set_ex put now v ttl =
     bind_op (guard_op (0 < ttl) (ResponseError ''invalid expire time''))
       (\<lambda>_. on_redis (put (Some (v, now + ttl * us_per_second))))"

lemma alive_simps [simp]:
  "alive now None = None" "alive now (Some (v, e)) = (if now < e then Some v else None)"
  by (simp_all add: alive_def)

lemma query_apply [simp, op_simps]: "query f w = (Inr (f (sess w)), w)"
  by (simp add: query_def)

lemma stage_apply [simp, op_simps]: "stage f w = (Inr (), w\<lparr>sess := f (sess w)\<rparr>)"
  by (simp add: stage_def)

lemma uuid4_apply [simp, op_simps]:
  "uuid4 env w = (Inr (e_uuid env (uuid_next w)), w\<lparr>uuid_next := Suc (uuid_next w)\<rparr>)"
  by (simp add: uuid4_def)

lemma on_redis_apply [simp, op_simps]: "on_redis f w = (Inr (), w\<lparr>redis := map_option f (redis w)\<rparr>)"
  by (simp add: on_redis_def)

lemma commit_ok: "db_ok (sess w) \<Longrightarrow> commit w = (Inr (), w\<lparr>committed := sess w\<rparr>)"
  and commit_bad: "\<not> db_ok (sess w) \<Longrightarrow> commit w = (Inl integrity_error, w\<lparr>sess := committed w\<rparr>)"
  by (simp_all add: commit_def)

lemma commit_Inr_iff:
  "commit w = (Inr u, v) \<longleftrightarrow> db_ok (sess w) \<and> v = w\<lparr>committed := sess w\<rparr>"
  by (auto simp: commit_def)

lemma commit_Inl_iff:
  "commit w = (Inl e, v) \<longleftrightarrow> \<not> db_ok (sess w) \<and> e = integrity_error \<and> v = w\<lparr>sess := committed w\<rparr>"
  by (auto simp: commit_def)

lemma flush_Inr_iff: "flush w = (Inr u, v) \<longleftrightarrow> db_ok (sess w) \<and> v = w"
  by (auto simp: flush_def)

section \<open>What keeps the committed database\<close>

text \<open>Every commit checks the constraints, so every operation made of these steps keeps them.\<close>

definition world_ok :: "world \<Rightarrow> bool" where
  "world_ok w \<longleftrightarrow> db_ok (committed w)"

lemma keeps_world_ok_basic [keeps_intros, simp]:
  "keeps world_ok (query f)" "keeps world_ok (stage g)" "keeps world_ok flush"
  "keeps world_ok commit" "keeps world_ok (uuid4 env)" "keeps world_ok (on_redis h)"
  by (auto simp: keeps_def world_ok_def flush_def commit_def)

lemma keeps_world_ok_set_ex [keeps_intros, simp]: "keeps world_ok (set_ex put now v ttl)"
  unfolding set_ex_def by (intro keeps_intros)

lemma keeps_world_ok_in_session [keeps_intros]:
  assumes "keeps world_ok m"
  shows "keeps world_ok (in_session m)"
proof (rule keepsI)
  fix w assume "world_ok w"
  then have "world_ok (w\<lparr>sess := committed w\<rparr>)" by (simp add: world_ok_def)
  with assms have "world_ok (snd (m (w\<lparr>sess := committed w\<rparr>)))" by (simp add: keeps_def)
  then show "world_ok (snd (in_session m w))"
    by (auto simp: in_session_def world_ok_def split: prod.splits)
qed

text \<open>An operation that does not commit.\<close>

definition no_commit :: "'a act \<Rightarrow> bool" where
  "no_commit m \<longleftrightarrow> frames committed m"

lemma no_commit_keeps: "no_commit m \<longleftrightarrow> (\<forall>D. keeps (\<lambda>w. committed w = D) m)"
  by (simp add: no_commit_def frames_keeps)

end
