(* ===== verification/Samples.thy ===== *)
theory Samples
  imports World
begin

text \<open>
  Concrete rows, an environment and states at which the properties are applied: a plugin that waits
  for publication, its built and scanned version, and an environment whose outside services answer
  with fixed texts.
\<close>

definition sample_env :: env where
  "sample_env = \<lparr>e_now = 1700000000000000, e_settings = default_settings,
     e_uuid = (\<lambda>n. ''00000000-0000-4000-8000-00000000000'' @ [char_of (48 + n)]),
     e_hostname = ''worker-host'', e_pid = 7, e_md5 = (\<lambda>s. ''9e107d9d372bb6826bd81d3542a419d6''),
     e_sha256 = (\<lambda>s. ''d7a8fbb307d7809469ca9abcb0082e4f8d5651e46d3cdb762d02d0bf37c9e592''),
     e_s3_download = (\<lambda>k. Inr ''PK''), e_s3_upload = (\<lambda>k c. None), e_s3_delete = (\<lambda>k. None),
     e_unzip = (\<lambda>bs. Inr []),
     e_vt_get_file = (\<lambda>key sha. HttpReply 404 None),
     e_vt_post_file = (\<lambda>key bs. HttpReply 200 (Some (JObj [(''data'', JObj [(''id'', JStr ''an-1'')])]))),
     e_vt_get_file_again = (\<lambda>key sha. HttpReply 404 None),
     e_vt_get_analysis = (\<lambda>key i. HttpReply 200 (Some (JObj [(''data'', JObj [(''attributes'',
        JObj [(''status'', JStr ''queued'')])])]))),
     e_clamd_connect = (\<lambda>host port. None), e_clamd = (\<lambda>host port bs. SockReply ''stream: OK''),
     e_llm_post = (\<lambda>url auth body. HttpFailed ''connection refused''),
     e_json_loads = (\<lambda>s. Inl (ValueError ''Expecting value''))\<rparr>"

definition sample_plugin :: plugin where
  "sample_plugin = \<lparr>p_id = ''p1'', p_plugin_key = ''weather'', p_display_name = Some ''Weather'',
     p_description = Some ''Forecasts'', p_author = ''alice'', p_repo_url = Some ''https://github.com/alice/weather'',
     p_social_link = None, p_category = None, p_logo_s3_key = None, p_stars = 3, p_pinned = False,
     p_support_platforms = Some [''qq''], p_astrbot_version = None, p_status = PPending,
     p_review_status = RPending, p_created_at = 1600000000000000\<rparr>"

definition sample_version :: version where
  "sample_version = \<lparr>v_id = ''v1'', v_plugin_id = ''p1'', v_version = ''1.0.0'', v_commit_sha = None,
     v_source_ref = None, v_source_type = ManualUpload, v_download_url = Some ''https://cdn/weather.zip'',
     v_s3_key = Some ''plugins/alice/weather/1.0.0/weather.zip'', v_file_size = Some 2,
     v_metadata_raw = None, v_changelog = None, v_build_status = BSuccess, v_build_log = None,
     v_version_status = VDraft, v_is_latest = False, v_created_by = None, v_created_at = 1600000000000000\<rparr>"

definition sample_scan :: scan where
  "sample_scan = (new_scan ''v1'' 1600000000000000)\<lparr>s_virustotal_pass := Some True, s_virustotal_mode := MReal,
     s_llm_agent_pass := Some True, s_llm_agent_mode := MSkipped\<rparr>"

definition sample_pending_result :: provider_result where
  "sample_pending_result = (new_result ''v1'' ''virustotal'' KScan 1600000000000000)
     \<lparr>pr_external_id := Some ''an-1''\<rparr>"

definition sample_db :: db where
  "sample_db = empty_db\<lparr>plugins := [sample_plugin], versions := [sample_version], scans := [sample_scan]\<rparr>"

text \<open>The same plugin, published.\<close>

definition sample_published :: db where
  "sample_published = sample_db\<lparr>plugins := [sample_plugin\<lparr>p_status := PActive, p_review_status := RApproved\<rparr>],
     versions := [sample_version\<lparr>v_version_status := VActive, v_is_latest := True\<rparr>]\<rparr>"

definition sample_world :: "db \<Rightarrow> redis_db option \<Rightarrow> world" where
  "sample_world D r = \<lparr>committed = D, sess = D, uuid_next = 1, redis = r, s3_keys = []\<rparr>"

lemmas sample_rows = sample_plugin_def sample_version_def sample_scan_def sample_pending_result_def
  new_scan_def new_result_def

lemma sample_world_fields [simp]:
  "committed (sample_world D r) = D" "sess (sample_world D r) = D" "redis (sample_world D r) = r"
  "uuid_next (sample_world D r) = 1" "s3_keys (sample_world D r) = []"
  by (simp_all add: sample_world_def)

lemma sample_env_fields [simp]:
  "e_now sample_env = 1700000000000000" "e_settings sample_env = default_settings"
  "e_s3_delete sample_env k = None" "e_s3_upload sample_env k c = None"
  by (simp_all add: sample_env_def)

lemma db_ok_sample [simp]: "db_ok sample_db" "db_ok sample_published"
  by (simp_all add: db_ok_def table_defs sample_db_def sample_published_def empty_db_def sample_rows
      plugin_row_ok_def version_row_ok_def latest_ok_def artifact_ok_def scan_row_ok_def fits_def fits_opt_def
      int4_def int8_def commit_index_def ref_ok_def some_list_def)

end
