(* ===== verification/RuntimeConfig.thy ===== *)
theory RuntimeConfig
  imports Samples
begin

text \<open>
  \<open>services/runtime_config.py\<close>: the rows of \<open>system_config\<close> read through a hash in Redis, and one typed
  getter per key, whose default is the setting. A read may fill the cache and changes nothing else;
  within the cache's time to live every further read sees the same values.
\<close>

definition RUNTIME_CONFIG_CACHE_TTL_SECONDS :: int where
  "RUNTIME_CONFIG_CACHE_TTL_SECONDS = 30"

definition KNOWN_SCAN_PROVIDER_ORDER :: "string list" where
  "KNOWN_SCAN_PROVIDER_ORDER = [''clamav'', ''virustotal'', ''llm_agent'']"

definition REGISTRATION_MODES :: "string list" where
  "REGISTRATION_MODES = [''disabled'', ''invite'', ''approval'']"

section \<open>Casting\<close>

datatype cfg_type = TBool | TInt | TList | TStr
datatype cfg_value = CBool bool | CInt int | CList "string list" | CStr string

fun type_of_value :: "cfg_value \<Rightarrow> cfg_type" where
  "type_of_value (CBool _) = TBool"
| "type_of_value (CInt _) = TInt"
| "type_of_value (CList _) = TList"
| "type_of_value (CStr _) = TStr"

definition to_bool :: "string \<Rightarrow> bool" where
  "to_bool raw = (str_lower (str_strip raw) \<in> set [''1'', ''true'', ''yes'', ''on''])"

definition cast_runtime_value :: "string \<Rightarrow> cfg_value \<Rightarrow> cfg_type option \<Rightarrow> exn + cfg_value" where
  "cast_runtime_value raw dflt cast =
     (case (case cast of Some t \<Rightarrow> t | None \<Rightarrow> type_of_value dflt) of
       TBool \<Rightarrow> Inr (CBool (to_bool raw))
     | TInt \<Rightarrow> (case py_int raw of
         None \<Rightarrow> Inl (ValueError ''invalid literal for int() with base 10'')
       | Some i \<Rightarrow> Inr (CInt i))
     | TList \<Rightarrow> Inr (CList (map str_strip (filter (\<lambda>i. str_strip i \<noteq> []) (str_split (CHR '','') raw))))
     | TStr \<Rightarrow> Inr (CStr raw))"

section \<open>Reading\<close>

definition config_rows :: "db \<Rightarrow> string dict" where
  "config_rows D = dict_of (map (\<lambda>c. (c_key c, c_value c)) (configs D))"

definition cached_config :: "env \<Rightarrow> redis_db \<Rightarrow> string dict" where
  "cached_config env rd = (case alive (e_now env) (r_runtime_config rd) of None \<Rightarrow> [] | Some d \<Rightarrow> d)"

definition get_runtime_values :: "env \<Rightarrow> string dict act" where
  "get_runtime_values env =
     bind_op (gets redis) (\<lambda>r.
     if r \<noteq> None \<and> cached_config env (the r) \<noteq> [] then ret (cached_config env (the r))
     else
       bind_op (query config_rows) (\<lambda>values.
       bind_op (when_op (r \<noteq> None \<and> values \<noteq> [])
         (on_redis (\<lambda>rd. rd\<lparr>r_runtime_config :=
            Some (values, e_now env + RUNTIME_CONFIG_CACHE_TTL_SECONDS * us_per_second)\<rparr>)))
         (\<lambda>_. ret values)))"

definition clear_runtime_config_cache :: "unit act" where
  "clear_runtime_config_cache = on_redis (\<lambda>rd. rd\<lparr>r_runtime_config := None\<rparr>)"

definition get_runtime_value :: "env \<Rightarrow> string \<Rightarrow> cfg_value \<Rightarrow> cfg_type option \<Rightarrow> cfg_value act" where
  "get_runtime_value env key dflt cast =
     bind_op (get_runtime_values env) (\<lambda>values.
     case dict_get key values of
       None \<Rightarrow> ret dflt
     | Some raw \<Rightarrow> if raw = [] then ret dflt else lift_res (cast_runtime_value raw dflt cast))"

fun the_int :: "cfg_value \<Rightarrow> int" where
  "the_int (CInt i) = i" | "the_int (CBool b) = (if b then 1 else 0)" | "the_int _ = 0"

fun the_str :: "cfg_value \<Rightarrow> string" where
  "the_str (CStr s) = s" | "the_str _ = []"

fun the_bool :: "cfg_value \<Rightarrow> bool" where
  "the_bool (CBool b) = b" | "the_bool _ = False"

fun the_list :: "cfg_value \<Rightarrow> string list" where
  "the_list (CList xs) = xs" | "the_list _ = []"

text \<open>\<open>get_runtime_value\<close> at the four types it is called with.\<close>

definition runtime_int :: "env \<Rightarrow> string \<Rightarrow> int \<Rightarrow> int act" where
  "runtime_int env key dflt =
     bind_op (get_runtime_value env key (CInt dflt) (Some TInt)) (\<lambda>v. ret (the_int v))"

definition runtime_str :: "env \<Rightarrow> string \<Rightarrow> string \<Rightarrow> string act" where
  "runtime_str env key dflt =
     bind_op (get_runtime_value env key (CStr dflt) (Some TStr)) (\<lambda>v. ret (the_str v))"

definition runtime_bool :: "env \<Rightarrow> string \<Rightarrow> bool \<Rightarrow> bool act" where
  "runtime_bool env key dflt =
     bind_op (get_runtime_value env key (CBool dflt) (Some TBool)) (\<lambda>v. ret (the_bool v))"

definition runtime_list :: "env \<Rightarrow> string \<Rightarrow> string list \<Rightarrow> string list act" where
  "runtime_list env key dflt =
     bind_op (get_runtime_value env key (CList dflt) (Some TList)) (\<lambda>v. ret (the_list v))"

section \<open>The getters\<close>

definition runtime_public_cache_max_age :: "env \<Rightarrow> int act" where
  "runtime_public_cache_max_age env =
     runtime_int env ''PUBLIC_CACHE_MAX_AGE'' (public_cache_max_age (e_settings env))"

definition runtime_redis_cache_ttl :: "env \<Rightarrow> int act" where
  "runtime_redis_cache_ttl env = runtime_int env ''REDIS_CACHE_TTL'' (redis_cache_ttl (e_settings env))"

record upload_limits =
  max_upload_bytes_limit :: int
  max_unzip_bytes_limit :: int
  max_zip_entries_limit :: int
  max_single_file_bytes_limit :: int

definition runtime_upload_limits :: "env \<Rightarrow> upload_limits act" where
  "runtime_upload_limits env =
     (let S = e_settings env in
      bind_op (runtime_int env ''MAX_UPLOAD_BYTES'' (max_upload_bytes S)) (\<lambda>a.
      bind_op (runtime_int env ''MAX_UNZIP_BYTES'' (max_unzip_bytes S)) (\<lambda>b.
      bind_op (runtime_int env ''MAX_ZIP_ENTRIES'' (max_zip_entries S)) (\<lambda>c.
      bind_op (runtime_int env ''MAX_SINGLE_FILE_BYTES'' (max_single_file_bytes S)) (\<lambda>d.
      ret \<lparr>max_upload_bytes_limit = a, max_unzip_bytes_limit = b, max_zip_entries_limit = c,
           max_single_file_bytes_limit = d\<rparr>)))))"

definition runtime_git_clone_timeout :: "env \<Rightarrow> int act" where
  "runtime_git_clone_timeout env = runtime_int env ''GIT_CLONE_TIMEOUT'' (git_clone_timeout (e_settings env))"

definition runtime_git_preflight_timeout :: "env \<Rightarrow> int act" where
  "runtime_git_preflight_timeout env =
     runtime_int env ''GIT_PREFLIGHT_TIMEOUT'' (git_preflight_timeout (e_settings env))"

definition runtime_git_max_repo_size_kb :: "env \<Rightarrow> int act" where
  "runtime_git_max_repo_size_kb env =
     runtime_int env ''GIT_MAX_REPO_SIZE_KB'' (git_max_repo_size_kb (e_settings env))"

definition runtime_git_http_proxy :: "env \<Rightarrow> string act" where
  "runtime_git_http_proxy env = runtime_str env ''GIT_HTTP_PROXY'' (git_http_proxy (e_settings env))"

definition runtime_github_token :: "env \<Rightarrow> string act" where
  "runtime_github_token env = runtime_str env ''GITHUB_TOKEN'' (github_token (e_settings env))"

definition runtime_git_allowed_hosts :: "env \<Rightarrow> string list act" where
  "runtime_git_allowed_hosts env =
     runtime_list env ''GIT_ALLOWED_HOSTS'' (git_allowed_hosts (e_settings env))"

definition normalize_registration_mode :: "string \<Rightarrow> string" where
  "normalize_registration_mode mode =
     (let normalized = str_lower (str_strip mode)
      in if normalized \<notin> set REGISTRATION_MODES then ''disabled'' else normalized)"

definition runtime_registration_mode :: "env \<Rightarrow> string act" where
  "runtime_registration_mode env =
     bind_op (runtime_str env ''USER_REGISTRATION_MODE'' (user_registration_mode (e_settings env)))
       (\<lambda>mode. ret (normalize_registration_mode mode))"

record scan_defaults =
  pass_when_unconfigured :: bool
  unconfigured_message :: string

definition runtime_scan_defaults :: "env \<Rightarrow> scan_defaults act" where
  "runtime_scan_defaults env =
     bind_op (runtime_bool env ''SCAN_PASS_WHEN_UNCONFIGURED'' (scan_pass_when_unconfigured (e_settings env)))
       (\<lambda>p. bind_op (runtime_str env ''SCAN_UNCONFIGURED_MESSAGE'' (scan_unconfigured_message (e_settings env)))
       (\<lambda>m. ret \<lparr>pass_when_unconfigured = p, unconfigured_message = m\<rparr>))"

definition normalize_scan_provider_list :: "string list \<Rightarrow> string list" where
  "normalize_scan_provider_list providers =
     (let normalized = map (\<lambda>p. str_lower (str_strip p)) (filter (\<lambda>p. str_strip p \<noteq> []) providers)
      in if list_ex (\<lambda>p. p \<in> set [''none'', ''off'', ''disabled'']) normalized then []
         else filter (\<lambda>p. p \<in> set normalized) KNOWN_SCAN_PROVIDER_ORDER)"

definition runtime_scan_enabled_providers :: "env \<Rightarrow> string list act" where
  "runtime_scan_enabled_providers env =
     bind_op (runtime_list env ''SCAN_ENABLED_PROVIDERS'' (scan_enabled_providers (e_settings env)))
       (\<lambda>providers. ret (normalize_scan_provider_list providers))"

record review_policy =
  require_human_review :: bool
  auto_publish :: bool

definition runtime_review_policy :: "env \<Rightarrow> review_policy act" where
  "runtime_review_policy env =
     bind_op (runtime_bool env ''SCAN_REQUIRE_HUMAN_REVIEW'' (scan_require_human_review (e_settings env)))
       (\<lambda>h. bind_op (runtime_bool env ''SCAN_AUTO_PUBLISH_ENABLED'' (scan_auto_publish_enabled (e_settings env)))
       (\<lambda>a. ret \<lparr>require_human_review = h, auto_publish = a\<rparr>))"

record vt_config =
  vt_api_key :: string
  vt_timeout_seconds :: int
  vt_poll_interval_seconds :: int
  vt_max_poll_interval_seconds :: int
  vt_max_poll_attempts :: int
  vt_max_wait_seconds :: int
  vt_max_direct_upload_bytes :: int

definition runtime_virustotal_config :: "env \<Rightarrow> vt_config act" where
  "runtime_virustotal_config env =
     (let S = e_settings env in
      bind_op (runtime_str env ''VIRUSTOTAL_API_KEY'' (virustotal_api_key S)) (\<lambda>a.
      bind_op (runtime_int env ''VIRUSTOTAL_TIMEOUT_SECONDS'' (virustotal_timeout_seconds S)) (\<lambda>b.
      bind_op (runtime_int env ''VIRUSTOTAL_POLL_INTERVAL_SECONDS'' (virustotal_poll_interval_seconds S)) (\<lambda>c.
      bind_op (runtime_int env ''VIRUSTOTAL_MAX_POLL_INTERVAL_SECONDS'' (virustotal_max_poll_interval_seconds S)) (\<lambda>d.
      bind_op (runtime_int env ''VIRUSTOTAL_MAX_POLL_ATTEMPTS'' (virustotal_max_poll_attempts S)) (\<lambda>e.
      bind_op (runtime_int env ''VIRUSTOTAL_MAX_WAIT_SECONDS'' (virustotal_max_wait_seconds S)) (\<lambda>f.
      bind_op (runtime_int env ''VIRUSTOTAL_MAX_DIRECT_UPLOAD_BYTES'' (virustotal_max_direct_upload_bytes S)) (\<lambda>g.
      ret \<lparr>vt_api_key = a, vt_timeout_seconds = b, vt_poll_interval_seconds = c,
           vt_max_poll_interval_seconds = d, vt_max_poll_attempts = e, vt_max_wait_seconds = f,
           vt_max_direct_upload_bytes = g\<rparr>))))))))"

record clamav_config =
  clam_host :: string
  clam_port :: int
  clam_timeout_seconds :: int
  clam_stream_chunk_bytes :: int
  clam_max_stream_bytes :: int

definition runtime_clamav_config :: "env \<Rightarrow> clamav_config act" where
  "runtime_clamav_config env =
     (let S = e_settings env in
      bind_op (runtime_str env ''CLAMAV_HOST'' (clamav_host S)) (\<lambda>a.
      bind_op (runtime_int env ''CLAMAV_PORT'' (clamav_port S)) (\<lambda>b.
      bind_op (runtime_int env ''CLAMAV_TIMEOUT_SECONDS'' (clamav_timeout_seconds S)) (\<lambda>c.
      bind_op (runtime_int env ''CLAMAV_STREAM_CHUNK_BYTES'' (clamav_stream_chunk_bytes S)) (\<lambda>d.
      bind_op (runtime_int env ''CLAMAV_MAX_STREAM_BYTES'' (clamav_max_stream_bytes S)) (\<lambda>e.
      ret \<lparr>clam_host = a, clam_port = b, clam_timeout_seconds = c, clam_stream_chunk_bytes = d,
           clam_max_stream_bytes = e\<rparr>))))))"

record llm_config =
  llm_base_url :: string
  llm_model :: string
  llm_api_key :: string
  llm_max_context_chars :: int

definition runtime_llm_agent_config :: "env \<Rightarrow> llm_config act" where
  "runtime_llm_agent_config env =
     (let S = e_settings env in
      bind_op (runtime_str env ''LLM_AGENT_BASE_URL'' (llm_agent_base_url S)) (\<lambda>a.
      bind_op (runtime_str env ''LLM_AGENT_MODEL'' (llm_agent_model S)) (\<lambda>b.
      bind_op (runtime_str env ''LLM_AGENT_API_KEY'' (llm_agent_api_key S)) (\<lambda>c.
      bind_op (runtime_int env ''LLM_AGENT_MAX_CONTEXT_CHARS'' (llm_agent_max_context_chars S)) (\<lambda>d.
      ret \<lparr>llm_base_url = a, llm_model = b, llm_api_key = c, llm_max_context_chars = d\<rparr>)))))"

text \<open>The two task getters take an optional session.\<close>

definition runtime_task_max_attempts :: "env \<Rightarrow> bool \<Rightarrow> int act" where
  "runtime_task_max_attempts env has_db =
     (if has_db then runtime_int env ''TASK_MAX_ATTEMPTS'' (task_max_attempts (e_settings env))
      else ret (task_max_attempts (e_settings env)))"

definition runtime_task_retry_delay_seconds :: "env \<Rightarrow> bool \<Rightarrow> int act" where
  "runtime_task_retry_delay_seconds env has_db =
     (if has_db then runtime_int env ''TASK_RETRY_DELAY_SECONDS'' (task_retry_delay_seconds (e_settings env))
      else ret (task_retry_delay_seconds (e_settings env)))"

definition runtime_webhook_secret :: "env \<Rightarrow> string act" where
  "runtime_webhook_secret env = runtime_str env ''GITHUB_WEBHOOK_SECRET'' (github_webhook_secret (e_settings env))"

definition runtime_webhook_auto_version :: "env \<Rightarrow> string act" where
  "runtime_webhook_auto_version env =
     runtime_str env ''WEBHOOK_AUTO_VERSION'' (webhook_auto_version (e_settings env))"

definition runtime_s3_public_url :: "env \<Rightarrow> string act" where
  "runtime_s3_public_url env = runtime_str env ''S3_PUBLIC_URL'' (s3_public_url (e_settings env))"

record s3_layout =
  layout_plugins_prefix :: string
  layout_unknown_author :: string

definition runtime_s3_layout :: "env \<Rightarrow> s3_layout act" where
  "runtime_s3_layout env =
     bind_op (runtime_str env ''S3_PLUGINS_PREFIX'' (s3_plugins_prefix (e_settings env))) (\<lambda>a.
     bind_op (runtime_str env ''S3_UNKNOWN_AUTHOR'' (s3_unknown_author (e_settings env))) (\<lambda>b.
     ret \<lparr>layout_plugins_prefix = a, layout_unknown_author = b\<rparr>))"

definition runtime_max_release_zip_bytes :: "env \<Rightarrow> int act" where
  "runtime_max_release_zip_bytes env =
     runtime_int env ''MAX_RELEASE_ZIP_BYTES'' (max_release_zip_bytes (e_settings env))"

section \<open>What the getters read\<close>

text \<open>The values every getter sees, and the state after it: the cache filled when it was empty.\<close>

definition runtime_values :: "env \<Rightarrow> world \<Rightarrow> string dict" where
  "runtime_values env w =
     (case redis w of
       None \<Rightarrow> config_rows (sess w)
     | Some rd \<Rightarrow> if cached_config env rd \<noteq> [] then cached_config env rd else config_rows (sess w))"

definition fill_config :: "env \<Rightarrow> world \<Rightarrow> world" where
  "fill_config env w =
     (case redis w of
       None \<Rightarrow> w
     | Some rd \<Rightarrow>
         if cached_config env rd \<noteq> [] \<or> config_rows (sess w) = [] then w
         else w\<lparr>redis := Some (rd\<lparr>r_runtime_config :=
           Some (config_rows (sess w), e_now env + RUNTIME_CONFIG_CACHE_TTL_SECONDS * us_per_second)\<rparr>)\<rparr>)"

definition cfg_raw :: "env \<Rightarrow> world \<Rightarrow> string \<Rightarrow> string" where
  "cfg_raw env w key = or_str (dict_get key (runtime_values env w)) []"

definition cfg_str :: "env \<Rightarrow> world \<Rightarrow> string \<Rightarrow> string \<Rightarrow> string" where
  "cfg_str env w key d = (if cfg_raw env w key = [] then d else cfg_raw env w key)"

definition cfg_bool :: "env \<Rightarrow> world \<Rightarrow> string \<Rightarrow> bool \<Rightarrow> bool" where
  "cfg_bool env w key d = (if cfg_raw env w key = [] then d else to_bool (cfg_raw env w key))"

definition cfg_list :: "env \<Rightarrow> world \<Rightarrow> string \<Rightarrow> string list \<Rightarrow> string list" where
  "cfg_list env w key d =
     (if cfg_raw env w key = [] then d
      else map str_strip (filter (\<lambda>i. str_strip i \<noteq> []) (str_split (CHR '','') (cfg_raw env w key))))"

definition cfg_int :: "env \<Rightarrow> world \<Rightarrow> string \<Rightarrow> int \<Rightarrow> exn + int" where
  "cfg_int env w key d =
     (if cfg_raw env w key = [] then Inr d
      else case py_int (cfg_raw env w key) of
        None \<Rightarrow> Inl (ValueError ''invalid literal for int() with base 10'')
      | Some i \<Rightarrow> Inr i)"

lemma fill_config_fields [simp]:
  "committed (fill_config env w) = committed w" "sess (fill_config env w) = sess w"
  "uuid_next (fill_config env w) = uuid_next w" "s3_keys (fill_config env w) = s3_keys w"
  "redis (fill_config env w) = None \<longleftrightarrow> redis w = None"
  by (auto simp: fill_config_def split: option.splits)

lemma get_runtime_values_apply:
  "get_runtime_values env w = (Inr (runtime_values env w), fill_config env w)"
  by (cases "redis w")
     (auto simp: get_runtime_values_def runtime_values_def fill_config_def bind_op_def when_op_def
       ret_def gets_def query_def on_redis_def modify_def)

lemma runtime_values_fill [simp]: "runtime_values env (fill_config env w) = runtime_values env w"
  by (auto simp: runtime_values_def fill_config_def cached_config_def us_per_second_def
      RUNTIME_CONFIG_CACHE_TTL_SECONDS_def split: option.splits)

lemma fill_config_idem [simp]: "fill_config env (fill_config env w) = fill_config env w"
  by (auto simp: fill_config_def cached_config_def us_per_second_def
      RUNTIME_CONFIG_CACHE_TTL_SECONDS_def split: option.splits)

lemma cfg_fill [simp]:
  "cfg_raw env (fill_config env w) = cfg_raw env w" "cfg_str env (fill_config env w) = cfg_str env w"
  "cfg_bool env (fill_config env w) = cfg_bool env w" "cfg_list env (fill_config env w) = cfg_list env w"
  "cfg_int env (fill_config env w) = cfg_int env w"
  by (simp_all add: cfg_raw_def cfg_str_def cfg_bool_def cfg_list_def cfg_int_def fun_eq_iff)

lemma runtime_get_apply [op_simps]:
  "runtime_str env key s w = (Inr (cfg_str env w key s), fill_config env w)"
  "runtime_bool env key b w = (Inr (cfg_bool env w key b), fill_config env w)"
  "runtime_list env key l w = (Inr (cfg_list env w key l), fill_config env w)"
  "runtime_int env key i w = (cfg_int env w key i, fill_config env w)"
  by (auto simp: runtime_str_def runtime_bool_def runtime_list_def runtime_int_def
      get_runtime_value_def get_runtime_values_apply cfg_str_def cfg_bool_def cfg_list_def cfg_int_def
      cfg_raw_def or_str_def cast_runtime_value_def bind_op_def ret_def lift_res_def split: option.splits)

definition enabled_providers :: "env \<Rightarrow> world \<Rightarrow> string list" where
  "enabled_providers env w = normalize_scan_provider_list
     (cfg_list env w ''SCAN_ENABLED_PROVIDERS'' (scan_enabled_providers (e_settings env)))"

lemma runtime_scan_enabled_providers_apply [op_simps]:
  "runtime_scan_enabled_providers env w = (Inr (enabled_providers env w), fill_config env w)"
  by (simp add: runtime_scan_enabled_providers_def enabled_providers_def runtime_get_apply)

lemma enabled_providers_fill [simp]: "enabled_providers env (fill_config env w) = enabled_providers env w"
  by (simp add: enabled_providers_def)

lemma enabled_providers_known: "set (enabled_providers env w) \<subseteq> set KNOWN_SCAN_PROVIDER_ORDER"
  by (auto simp: enabled_providers_def normalize_scan_provider_list_def Let_def)

definition scan_defaults_of :: "env \<Rightarrow> world \<Rightarrow> scan_defaults" where
  "scan_defaults_of env w = \<lparr>
     pass_when_unconfigured = cfg_bool env w ''SCAN_PASS_WHEN_UNCONFIGURED'' (scan_pass_when_unconfigured (e_settings env)),
     unconfigured_message = cfg_str env w ''SCAN_UNCONFIGURED_MESSAGE'' (scan_unconfigured_message (e_settings env))\<rparr>"

lemma runtime_scan_defaults_apply [op_simps]:
  "runtime_scan_defaults env w = (Inr (scan_defaults_of env w), fill_config env w)"
  by (simp add: runtime_scan_defaults_def scan_defaults_of_def runtime_get_apply)

definition review_policy_of :: "env \<Rightarrow> world \<Rightarrow> review_policy" where
  "review_policy_of env w = \<lparr>
     require_human_review = cfg_bool env w ''SCAN_REQUIRE_HUMAN_REVIEW'' (scan_require_human_review (e_settings env)),
     auto_publish = cfg_bool env w ''SCAN_AUTO_PUBLISH_ENABLED'' (scan_auto_publish_enabled (e_settings env))\<rparr>"

lemma runtime_review_policy_apply [op_simps]:
  "runtime_review_policy env w = (Inr (review_policy_of env w), fill_config env w)"
  by (simp add: runtime_review_policy_def review_policy_of_def runtime_get_apply)

lemma runtime_s3_public_url_apply [op_simps]:
  "runtime_s3_public_url env w =
     (Inr (cfg_str env w ''S3_PUBLIC_URL'' (s3_public_url (e_settings env))), fill_config env w)"
  by (simp add: runtime_s3_public_url_def runtime_get_apply)

lemma runtime_redis_cache_ttl_apply [op_simps]:
  "runtime_redis_cache_ttl env w =
     (cfg_int env w ''REDIS_CACHE_TTL'' (redis_cache_ttl (e_settings env)), fill_config env w)"
  by (simp add: runtime_redis_cache_ttl_def runtime_get_apply)

text \<open>A getter changes nothing but the cached configuration.\<close>

lemma keeps_get_runtime_value:
  assumes "\<And>w. I w \<Longrightarrow> I (fill_config env w)"
  shows "keeps I (get_runtime_values env)" "keeps I (get_runtime_value env key d t)"
    "keeps I (runtime_int env key i)" "keeps I (runtime_str env key s)"
    "keeps I (runtime_bool env key b)" "keeps I (runtime_list env key l)"
proof -
  show v: "keeps I (get_runtime_values env)"
    using assms by (simp add: keeps_def get_runtime_values_apply)
  have g: "keeps I (get_runtime_value env key d t)" for d t
    unfolding get_runtime_value_def by (intro keeps_intros v)
  then show "keeps I (get_runtime_value env key d t)" .
  show "keeps I (runtime_int env key i)" "keeps I (runtime_str env key s)"
    "keeps I (runtime_bool env key b)" "keeps I (runtime_list env key l)"
    unfolding runtime_int_def runtime_str_def runtime_bool_def runtime_list_def
    by (intro keeps_bind_op keeps_ret g)+
qed

lemmas getter_defs = runtime_public_cache_max_age_def runtime_redis_cache_ttl_def
  runtime_upload_limits_def runtime_git_clone_timeout_def runtime_git_preflight_timeout_def
  runtime_git_max_repo_size_kb_def runtime_git_http_proxy_def runtime_github_token_def
  runtime_git_allowed_hosts_def runtime_registration_mode_def runtime_scan_defaults_def
  runtime_scan_enabled_providers_def runtime_review_policy_def runtime_virustotal_config_def
  runtime_clamav_config_def runtime_llm_agent_config_def runtime_task_max_attempts_def
  runtime_task_retry_delay_seconds_def runtime_webhook_secret_def runtime_webhook_auto_version_def
  runtime_s3_public_url_def runtime_s3_layout_def runtime_max_release_zip_bytes_def

lemma world_ok_fill [simp]: "world_ok (fill_config env w) = world_ok w"
  by (simp add: world_ok_def)

section \<open>Properties\<close>

text \<open>A number written to the configuration in decimal is the number its getter returns, whatever the
  default is, and a second reading sees the same number in the state the first one leaves.\<close>

theorem int_setting_round_trip:
  assumes "dict_get key (runtime_values env w) = Some (str_int i)" "length (str_int i) \<le> 4300"
  shows "runtime_int env key d w = (Inr i, fill_config env w)
    \<and> runtime_int env key e (fill_config env w) = (Inr i, fill_config env w)"
proof -
  have "str_int i \<noteq> []" by (simp add: str_int_def)
  with assms show ?thesis
    by (simp add: runtime_get_apply cfg_int_def cfg_raw_def or_str_def py_int_str_int)
qed

theorem int_setting_round_trip_witness:
  "fst (runtime_int sample_env ''TASK_MAX_ATTEMPTS'' 3 (sample_world (sample_db\<lparr>configs :=
     [\<lparr>c_key = ''TASK_MAX_ATTEMPTS'', c_value = ''12''\<rparr>]\<rparr>) None)) = Inr 12"
proof -
  have "dict_get ''TASK_MAX_ATTEMPTS'' (runtime_values sample_env (sample_world (sample_db\<lparr>configs :=
     [\<lparr>c_key = ''TASK_MAX_ATTEMPTS'', c_value = ''12''\<rparr>]\<rparr>) None)) = Some (str_int 12)"
    by code_simp
  moreover have "length (str_int 12) \<le> 4300" by code_simp
  ultimately show ?thesis using int_setting_round_trip by fastforce
qed

end
