(* ===== verification/ScanBase.thy ===== *)
theory ScanBase
  imports RuntimeConfig
begin

text \<open>
  \<open>scan_providers/base.py\<close>: the outcome of a scan and the contract of a provider. A provider is a
  record of its name, its configuration, its scan and the two functions that keep its tracking columns
  on the scan row. The locale \<open>scan_tracking\<close> is what the orchestration relies on: tracking touches
  no verdict and no other provider's columns, and clearing it forgets it.
\<close>

record outcome =
  o_passed :: "bool option"
  o_message :: string
  o_mode :: scan_mode
  o_analysis_id :: "string option"
  o_file_sha256 :: "string option"
  o_submitted_at :: "time option"
  o_deadline_at :: "time option"
  o_next_poll_at :: "time option"
  o_poll_attempts :: "int option"

text \<open>\<open>ScanOutcome(passed, message, mode)\<close>.\<close>

definition plain_outcome :: "bool option \<Rightarrow> string \<Rightarrow> scan_mode \<Rightarrow> outcome" where
  "plain_outcome p m mode = \<lparr>o_passed = p, o_message = m, o_mode = mode, o_analysis_id = None,
     o_file_sha256 = None, o_submitted_at = None, o_deadline_at = None, o_next_poll_at = None,
     o_poll_attempts = None\<rparr>"

definition error_outcome :: "string \<Rightarrow> outcome" where
  "error_outcome m = plain_outcome (Some False) m MError"

lemma plain_outcome_simps [simp]:
  "o_passed (plain_outcome p m mode) = p" "o_message (plain_outcome p m mode) = m"
  "o_mode (plain_outcome p m mode) = mode" "o_analysis_id (plain_outcome p m mode) = None"
  "o_file_sha256 (plain_outcome p m mode) = None" "o_submitted_at (plain_outcome p m mode) = None"
  "o_deadline_at (plain_outcome p m mode) = None" "o_next_poll_at (plain_outcome p m mode) = None"
  "o_poll_attempts (plain_outcome p m mode) = None"
  by (simp_all add: plain_outcome_def)

lemma error_outcome_simps [simp]:
  "o_passed (error_outcome m) = Some False" "o_mode (error_outcome m) = MError"
  "o_message (error_outcome m) = m" "o_poll_attempts (error_outcome m) = None"
  "o_analysis_id (error_outcome m) = None" "o_next_poll_at (error_outcome m) = None"
  by (simp_all add: error_outcome_def)

text \<open>A local artifact: its file name and its bytes.\<close>

record artifact =
  a_name :: string
  a_bytes :: string

datatype provider_config = ClamavConfig clamav_config | VirustotalConfig vt_config | LlmConfig llm_config

record scan_provider =
  sp_name :: string
  sp_label :: string
  sp_legacy_public :: bool
  sp_load_config :: "env \<Rightarrow> provider_config act"
  sp_is_configured :: "provider_config \<Rightarrow> bool"
  sp_scan :: "env \<Rightarrow> version \<Rightarrow> provider_config \<Rightarrow> artifact option \<Rightarrow> exn + outcome"
  sp_apply_tracking :: "scan \<Rightarrow> outcome \<Rightarrow> scan"
  sp_clear_tracking :: "scan \<Rightarrow> scan"

text \<open>The defaults of the base class keep the row.\<close>

definition base_apply_tracking :: "scan \<Rightarrow> outcome \<Rightarrow> scan" where
  "base_apply_tracking s oc = s"

definition base_clear_tracking :: "scan \<Rightarrow> scan" where
  "base_clear_tracking s = s"

text \<open>The verdict columns of a scan row.\<close>

definition verdicts :: "scan \<Rightarrow> uuid \<times> (bool option \<times> string option \<times> scan_mode) \<times>
    (bool option \<times> string option \<times> scan_mode) \<times> time" where
  "verdicts s = (s_version_id s, (s_virustotal_pass s, s_virustotal_msg s, s_virustotal_mode s),
     (s_llm_agent_pass s, s_llm_agent_msg s, s_llm_agent_mode s), s_scanned_at s)"

locale scan_tracking =
  fixes apply_t :: "scan \<Rightarrow> outcome \<Rightarrow> scan"
    and clear_t :: "scan \<Rightarrow> scan"
  assumes apply_verdicts: "verdicts (apply_t s oc) = verdicts s"
    and clear_verdicts: "verdicts (clear_t s) = verdicts s"
    and clear_clear: "clear_t (clear_t s) = clear_t s"
    and clear_apply: "clear_t (apply_t s oc) = clear_t s"
    and apply_row_ok: "scan_row_ok s \<Longrightarrow> fits_opt 64 (o_file_sha256 oc) \<Longrightarrow>
      (\<forall>n. o_poll_attempts oc = Some n \<longrightarrow> int4 n) \<Longrightarrow> scan_row_ok (apply_t s oc)"
    and clear_row_ok: "scan_row_ok s \<Longrightarrow> scan_row_ok (clear_t s)"
begin

lemma version_kept: "s_version_id (apply_t s oc) = s_version_id s" "s_version_id (clear_t s) = s_version_id s"
  using apply_verdicts[of s oc] clear_verdicts[of s] by (auto simp: verdicts_def)

text \<open>However often a provider's tracking is written, clearing leaves one row.\<close>

lemma clear_fold: "clear_t (fold (\<lambda>oc s. apply_t s oc) ocs s) = clear_t s"
  by (induction ocs arbitrary: s) (simp_all add: clear_apply)

lemma verdicts_fold: "verdicts (fold (\<lambda>oc s. apply_t s oc) ocs s) = verdicts s"
  by (induction ocs arbitrary: s) (simp_all add: apply_verdicts)

lemma row_ok_fold:
  "scan_row_ok s \<Longrightarrow> list_all (\<lambda>oc. fits_opt 64 (o_file_sha256 oc) \<and>
     (\<forall>n. o_poll_attempts oc = Some n \<longrightarrow> int4 n)) ocs \<Longrightarrow>
   scan_row_ok (fold (\<lambda>oc s. apply_t s oc) ocs s)"
  by (induction ocs arbitrary: s) (simp_all add: apply_row_ok)

end

interpretation base_tracking: scan_tracking base_apply_tracking base_clear_tracking
  by unfold_locales (simp_all add: base_apply_tracking_def base_clear_tracking_def)

section \<open>The artifact of a version\<close>

text \<open>What \<open>scan_virustotal_for_version\<close>, \<open>scan_clamav_for_version\<close> and \<open>scan_llm_for_version\<close> have in
  common: a local file is scanned as it is, otherwise the object is downloaded into a temporary file
  named after the version.\<close>

definition scan_for_version ::
  "env \<Rightarrow> string \<Rightarrow> version \<Rightarrow> artifact option \<Rightarrow> (artifact \<Rightarrow> exn + outcome) \<Rightarrow> exn + outcome" where
  "scan_for_version env label v local_path scan_file =
     (case local_path of
       Some a \<Rightarrow> scan_file a
     | None \<Rightarrow>
         if \<not> truthy (v_s3_key v) then Inr (error_outcome (label @ '' scan failed: version artifact is missing''))
         else (case e_s3_download env (or_str (v_s3_key v) []) of
             Inl exc \<Rightarrow> Inr (error_outcome (label @ '' scan failed: could not download artifact: '' @ exn_message exc))
           | Inr content \<Rightarrow> scan_file \<lparr>a_name = v_id v @ ''.zip'', a_bytes = content\<rparr>))"

end
