(* ===== verification/VirusTotal.thy ===== *)
theory VirusTotal
  imports ScanBase
begin

text \<open>
  \<open>scan_providers/virustotal.py\<close>: upload of an artifact to VirusTotal, one poll of an analysis, the
  delay before the next poll, and the outcome that a result or a time-out gives. The HTTP exchanges are
  functions of the environment; how their answers are read, and which exceptions become an error
  outcome, is the code's.
\<close>

section \<open>Reading answers\<close>

definition http_ok :: "nat \<Rightarrow> bool" where
  "http_ok code \<longleftrightarrow> 200 \<le> code \<and> code \<le> 299"

definition body_json :: "json option \<Rightarrow> exn + json" where
  "body_json b = (case b of None \<Rightarrow> Inl (ValueError ''Expecting value'') | Some j \<Rightarrow> Inr j)"

text \<open>\<open>response.raise_for_status()\<close> and then \<open>response.json()\<close>.\<close>

definition checked_json :: "http_reply \<Rightarrow> exn + json" where
  "checked_json r =
     (case r of
       HttpFailed m \<Rightarrow> Inl (HTTPError m)
     | HttpReply code body \<Rightarrow> if http_ok code then body_json body else Inl (HTTPStatusError code))"

text \<open>\<open>(response.json().get("data") or {}).get("attributes") or {}\<close>.\<close>

definition data_attributes :: "json \<Rightarrow> exn + json" where
  "data_attributes j =
     bind_res (json_get ''data'' j) (\<lambda>data.
     bind_res (json_get ''attributes'' (json_or data (JObj []))) (\<lambda>attributes.
     Inr (json_or attributes (JObj []))))"

definition get_virustotal_file_report :: "http_reply \<Rightarrow> exn + json option" where
  "get_virustotal_file_report response =
     (if (case response of HttpReply code _ \<Rightarrow> code = 404 | HttpFailed _ \<Rightarrow> False) then Inr None
      else
        bind_res (checked_json response) (\<lambda>j.
        bind_res (data_attributes j) (\<lambda>attributes.
        bind_res (json_get ''last_analysis_stats'' attributes) (\<lambda>report.
        case report of JObj d \<Rightarrow> Inr (Some (JObj d)) | _ \<Rightarrow> Inr None))))"

definition upload_to_virustotal :: "http_reply \<Rightarrow> exn + string" where
  "upload_to_virustotal response =
     bind_res (checked_json response) (\<lambda>j.
     bind_res (json_item ''data'' j) (\<lambda>data.
     bind_res (json_item ''id'' data) (\<lambda>i. Inr (py_str i))))"

definition stat_count :: "string \<Rightarrow> json \<Rightarrow> exn + int" where
  "stat_count k report = bind_res (json_get k report) (\<lambda>v. json_int (json_or v (JInt 0)))"

definition virustotal_message :: "bool \<Rightarrow> int \<Rightarrow> int \<Rightarrow> int \<Rightarrow> int \<Rightarrow> string \<Rightarrow> string" where
  "virustotal_message passed malicious suspicious harmless undetected analysis_id =
     ''VirusTotal '' @ (if passed then ''passed'' else ''failed'') @ '': malicious='' @ str_int malicious
     @ '', suspicious='' @ str_int suspicious @ '', harmless='' @ str_int harmless
     @ '', undetected='' @ str_int undetected @ '', analysis_id='' @ analysis_id"

definition format_virustotal_result :: "json \<Rightarrow> string \<Rightarrow> exn + outcome" where
  "format_virustotal_result report analysis_id =
     bind_res (stat_count ''malicious'' report) (\<lambda>malicious.
     bind_res (stat_count ''suspicious'' report) (\<lambda>suspicious.
     bind_res (stat_count ''harmless'' report) (\<lambda>harmless.
     bind_res (stat_count ''undetected'' report) (\<lambda>undetected.
     let passed = (malicious = 0 \<and> suspicious = 0) in
     Inr ((plain_outcome (Some passed)
        (virustotal_message passed malicious suspicious harmless undetected analysis_id) MReal)
        \<lparr>o_analysis_id := Some analysis_id\<rparr>)))))"

text \<open>The \<open>except\<close> clauses of a scan and of a poll.\<close>

definition virustotal_except :: "exn + outcome \<Rightarrow> exn + outcome" where
  "virustotal_except r =
     (case r of
       Inr oc \<Rightarrow> Inr oc
     | Inl (HTTPStatusError code) \<Rightarrow> Inr (error_outcome (''VirusTotal scan failed: HTTP '' @ str_nat code))
     | Inl (HTTPError m) \<Rightarrow> Inr (error_outcome (''VirusTotal scan failed: '' @ m))
     | Inl (KeyError m) \<Rightarrow> Inr (error_outcome (''VirusTotal scan failed: invalid response: '' @ m))
     | Inl (TypeError m) \<Rightarrow> Inr (error_outcome (''VirusTotal scan failed: invalid response: '' @ m))
     | Inl (ValueError m) \<Rightarrow> Inr (error_outcome (''VirusTotal scan failed: invalid response: '' @ m))
     | Inl e \<Rightarrow> Inl e)"

section \<open>Delays and time-outs\<close>

definition next_virustotal_delay :: "vt_config \<Rightarrow> int \<Rightarrow> int" where
  "next_virustotal_delay config attempts =
     (let base = max 1 (vt_poll_interval_seconds config);
          max_interval = max base (vt_max_poll_interval_seconds config)
      in min (base * 2 ^ nat (max attempts 0)) max_interval)"

definition virustotal_timeout_outcome :: "string \<Rightarrow> int \<Rightarrow> int \<Rightarrow> outcome" where
  "virustotal_timeout_outcome analysis_id attempts max_wait_seconds =
     (error_outcome (''VirusTotal scan timed out: analysis did not complete within '' @ str_int max_wait_seconds
        @ '' seconds after '' @ str_int attempts @ '' polls, analysis_id='' @ analysis_id))
     \<lparr>o_analysis_id := Some analysis_id, o_poll_attempts := Some attempts\<rparr>"

section \<open>Scanning and polling\<close>

definition pending_upload_outcome :: "env \<Rightarrow> vt_config \<Rightarrow> string \<Rightarrow> string \<Rightarrow> outcome" where
  "pending_upload_outcome env config analysis_id file_sha256 =
     (let now = e_now env;
          deadline = now + max 1 (vt_max_wait_seconds config) * us_per_second;
          next_poll_at = min (now + next_virustotal_delay config 0 * us_per_second) deadline
      in \<lparr>o_passed = None,
          o_message = ''VirusTotal analysis pending: analysis_id='' @ analysis_id @ '', next_poll_at=''
            @ isoformat next_poll_at @ '', deadline_at='' @ isoformat deadline,
          o_mode = MPending, o_analysis_id = Some analysis_id, o_file_sha256 = Some file_sha256,
          o_submitted_at = Some now, o_deadline_at = Some deadline, o_next_poll_at = Some next_poll_at,
          o_poll_attempts = Some 0\<rparr>)"

definition report_result :: "string \<Rightarrow> json \<Rightarrow> exn + outcome" where
  "report_result file_sha256 report = format_virustotal_result report (''file:'' @ file_sha256)"

definition scan_virustotal :: "env \<Rightarrow> artifact \<Rightarrow> vt_config \<Rightarrow> exn + outcome" where
  "scan_virustotal env a config =
     (let limit = vt_max_direct_upload_bytes config;
          file_size = int (length (a_bytes a));
          key = vt_api_key config;
          sha = e_sha256 env (a_bytes a)
      in if 0 < limit \<and> limit < file_size then
           Inr (error_outcome (''VirusTotal scan failed: file exceeds direct upload limit (''
              @ str_int file_size @ '' > '' @ str_int limit @ '' bytes)''))
         else virustotal_except (
           bind_res (get_virustotal_file_report (e_vt_get_file env key sha)) (\<lambda>existing.
           case existing of
             Some report \<Rightarrow> report_result sha report
           | None \<Rightarrow>
               (case upload_to_virustotal (e_vt_post_file env key (a_bytes a)) of
                 Inr analysis_id \<Rightarrow> Inr (pending_upload_outcome env config analysis_id sha)
               | Inl (HTTPStatusError code) \<Rightarrow>
                   if code \<noteq> 409 then Inl (HTTPStatusError code)
                   else bind_res (get_virustotal_file_report (e_vt_get_file_again env key sha)) (\<lambda>again.
                     case again of
                       Some report \<Rightarrow> report_result sha report
                     | None \<Rightarrow> Inl (HTTPStatusError code))
               | Inl e \<Rightarrow> Inl e))))"

definition poll_virustotal_analysis_once :: "env \<Rightarrow> string \<Rightarrow> vt_config \<Rightarrow> exn + outcome" where
  "poll_virustotal_analysis_once env analysis_id config =
     virustotal_except (
       bind_res (checked_json (e_vt_get_analysis env (vt_api_key config) analysis_id)) (\<lambda>j.
       bind_res (data_attributes j) (\<lambda>attributes.
       bind_res (json_get ''status'' attributes) (\<lambda>st.
       let status = py_str (json_or st (JStr ''unknown'')) in
       if status = ''completed'' then
         bind_res (json_get ''stats'' attributes) (\<lambda>report.
         format_virustotal_result (json_or report (JObj [])) analysis_id)
       else Inr ((plain_outcome None
         (''VirusTotal analysis pending: status='' @ status @ '', analysis_id='' @ analysis_id) MPending)
         \<lparr>o_analysis_id := Some analysis_id\<rparr>)))))"

definition scan_virustotal_for_version ::
  "env \<Rightarrow> version \<Rightarrow> vt_config \<Rightarrow> artifact option \<Rightarrow> exn + outcome" where
  "scan_virustotal_for_version env v config local_path =
     scan_for_version env ''VirusTotal'' v local_path (\<lambda>a. scan_virustotal env a config)"

section \<open>The provider\<close>

definition vt_apply_tracking :: "scan \<Rightarrow> outcome \<Rightarrow> scan" where
  "vt_apply_tracking s oc =
     s\<lparr>s_virustotal_analysis_id :=
         (if truthy (o_analysis_id oc) then o_analysis_id oc else s_virustotal_analysis_id s),
       s_virustotal_file_sha256 :=
         (if truthy (o_file_sha256 oc) then o_file_sha256 oc else s_virustotal_file_sha256 s),
       s_virustotal_submitted_at :=
         (if o_submitted_at oc \<noteq> None then o_submitted_at oc else s_virustotal_submitted_at s),
       s_virustotal_deadline_at :=
         (if o_deadline_at oc \<noteq> None then o_deadline_at oc else s_virustotal_deadline_at s),
       s_virustotal_poll_attempts :=
         (case o_poll_attempts oc of None \<Rightarrow> s_virustotal_poll_attempts s | Some n \<Rightarrow> n),
       s_virustotal_next_poll_at := (if o_mode oc = MPending then o_next_poll_at oc else None)\<rparr>"

definition vt_clear_tracking :: "scan \<Rightarrow> scan" where
  "vt_clear_tracking s =
     s\<lparr>s_virustotal_analysis_id := None, s_virustotal_file_sha256 := None,
       s_virustotal_submitted_at := None, s_virustotal_deadline_at := None,
       s_virustotal_next_poll_at := None, s_virustotal_poll_attempts := 0\<rparr>"

definition virustotal_provider :: scan_provider where
  "virustotal_provider = \<lparr>
     sp_name = ''virustotal'', sp_label = ''VirusTotal'', sp_legacy_public = True,
     sp_load_config = (\<lambda>env. bind_op (runtime_virustotal_config env) (\<lambda>c. ret (VirustotalConfig c))),
     sp_is_configured = (\<lambda>c. case c of VirustotalConfig vc \<Rightarrow> vt_api_key vc \<noteq> [] | _ \<Rightarrow> False),
     sp_scan = (\<lambda>env v c local_path.
        case c of VirustotalConfig vc \<Rightarrow> scan_virustotal_for_version env v vc local_path
        | _ \<Rightarrow> Inl (KeyError ''api_key'')),
     sp_apply_tracking = vt_apply_tracking, sp_clear_tracking = vt_clear_tracking\<rparr>"

interpretation vt_tracking: scan_tracking vt_apply_tracking vt_clear_tracking
  by unfold_locales
     (auto simp: vt_apply_tracking_def vt_clear_tracking_def verdicts_def scan_row_ok_def fits_opt_def
       int4_def split: option.splits)

section \<open>Lemmas\<close>

lemma next_virustotal_delay_bounds:
  "1 \<le> next_virustotal_delay c n"
  "max 1 (vt_poll_interval_seconds c) \<le> next_virustotal_delay c n"
  "next_virustotal_delay c n \<le> max (max 1 (vt_poll_interval_seconds c)) (vt_max_poll_interval_seconds c)"
proof -
  have p: "(1::int) \<le> 2 ^ nat (max n 0)" by simp
  have "b \<le> b * 2 ^ nat (max n 0)" if "1 \<le> b" for b :: int
    using mult_left_mono[OF p, of b] that by simp
  from this[of "max 1 (vt_poll_interval_seconds c)"]
  show "max 1 (vt_poll_interval_seconds c) \<le> next_virustotal_delay c n"
    by (simp add: next_virustotal_delay_def Let_def)
  then show "1 \<le> next_virustotal_delay c n" by simp
qed (simp add: next_virustotal_delay_def Let_def)

lemma next_virustotal_delay_mono: "m \<le> n \<Longrightarrow> next_virustotal_delay c m \<le> next_virustotal_delay c n"
proof -
  assume "m \<le> n"
  then have "(2::int) ^ nat (max m 0) \<le> 2 ^ nat (max n 0)"
    by (intro power_increasing) auto
  then have "b * 2 ^ nat (max m 0) \<le> b * 2 ^ nat (max n 0)" if "1 \<le> b" for b :: int
    using that by (intro mult_left_mono) auto
  from this[of "max 1 (vt_poll_interval_seconds c)"] show ?thesis
    by (simp add: next_virustotal_delay_def Let_def min.coboundedI1)
qed

lemma virustotal_except_Inr: "virustotal_except (Inr oc) = Inr oc"
  by (simp add: virustotal_except_def)

lemma virustotal_except_cases:
  assumes "virustotal_except r = Inr oc"
  shows "r = Inr oc \<or> (o_mode oc = MError \<and> o_passed oc = Some False)"
  using assms by (cases r) (auto simp: virustotal_except_def split: exn.splits)

lemma stat_count_obj:
  "stat_count k (JObj d) = json_int (json_or (case dict_get k d of None \<Rightarrow> JNull | Some v \<Rightarrow> v) (JInt 0))"
  by (simp add: stat_count_def)

lemma format_virustotal_result_Inr:
  assumes "format_virustotal_result report i = Inr oc"
  obtains m s h u where "stat_count ''malicious'' report = Inr m" "stat_count ''suspicious'' report = Inr s"
    "o_passed oc = Some (m = 0 \<and> s = 0)" "o_mode oc = MReal" "o_analysis_id oc = Some i"
    "o_next_poll_at oc = None"
  using assms by (auto simp: format_virustotal_result_def bind_res_Inr_iff Let_def)

section \<open>Properties\<close>

text \<open>The delay before the next poll is at least a second, at least the configured interval and at most the
  configured maximum (or the interval, when that is larger), and it never shrinks from one attempt to the
  next.\<close>

theorem poll_delay_bounds:
  assumes "m \<le> n"
  shows "1 \<le> next_virustotal_delay c m \<and> max 1 (vt_poll_interval_seconds c) \<le> next_virustotal_delay c m
    \<and> next_virustotal_delay c m \<le> next_virustotal_delay c n
    \<and> next_virustotal_delay c n \<le> max (max 1 (vt_poll_interval_seconds c)) (vt_max_poll_interval_seconds c)"
  using next_virustotal_delay_bounds[of c m] next_virustotal_delay_bounds(3)[of c n] next_virustotal_delay_mono[OF assms, of c] by simp

theorem poll_delay_bounds_witness:
  "next_virustotal_delay \<lparr>vt_api_key = ''k'', vt_timeout_seconds = 30, vt_poll_interval_seconds = 15,
      vt_max_poll_interval_seconds = 300, vt_max_poll_attempts = 20, vt_max_wait_seconds = 3600,
      vt_max_direct_upload_bytes = 0\<rparr> 9 \<le> 300"
  using poll_delay_bounds[of 0 9 "\<lparr>vt_api_key = ''k'', vt_timeout_seconds = 30, vt_poll_interval_seconds = 15,
      vt_max_poll_interval_seconds = 300, vt_max_poll_attempts = 20, vt_max_wait_seconds = 3600,
      vt_max_direct_upload_bytes = 0\<rparr>"] by simp



end
