(* ===== verification/ClamAV.thy ===== *)
theory ClamAV
  imports ScanBase
begin

text \<open>
  \<open>scan_providers/clamav.py\<close>: the INSTREAM exchange with clamd and how its reply becomes an outcome. The
  socket is a function of the environment from the host, the port and the bytes written to the reply
  (text already decoded from UTF-8). \<open>instream_decode\<close> is the format clamd reads, against which the
  framing is proved. File sizes are below \<open>2 ^ 53\<close>, where the floating point division of
  \<open>_human_bytes\<close> by 1024 is exact; \<open>round_half_even\<close> is then what one decimal shows.
\<close>

section \<open>The INSTREAM framing\<close>

fun chunks :: "nat \<Rightarrow> string \<Rightarrow> string list" where
  "chunks n [] = []"
| "chunks n (c # s) = take (Suc (n - 1)) (c # s) # chunks n (drop (n - 1) s)"

definition be32 :: "nat \<Rightarrow> string" where
  "be32 n = [char_of (n div 16777216), char_of (n div 65536 mod 256), char_of (n div 256 mod 256),
     char_of (n mod 256)]"

text \<open>\<open>struct.pack(">I", n)\<close>.\<close>

definition pack_u32 :: "nat \<Rightarrow> exn + string" where
  "pack_u32 n = (if n \<le> 4294967295 then Inr (be32 n)
     else Inl (StructError ''I format requires 0 <= number <= 4294967295''))"

definition instream_frame :: "string \<Rightarrow> exn + string" where
  "instream_frame c = bind_res (pack_u32 (length c)) (\<lambda>h. Inr (h @ c))"

definition instream_bytes :: "nat \<Rightarrow> string \<Rightarrow> exn + string" where
  "instream_bytes chunk_size content =
     bind_res (map_res instream_frame (chunks chunk_size content)) (\<lambda>frames.
     bind_res (pack_u32 0) (\<lambda>fin.
     Inr (''zINSTREAM'' @ [CHR 0x00] @ concat frames @ fin)))"

definition clean_reply :: "string \<Rightarrow> string" where
  "clean_reply raw = str_strip (filter (\<lambda>c. c \<noteq> CHR 0x00) raw)"

definition clamav_instream :: "env \<Rightarrow> string \<Rightarrow> int \<Rightarrow> string \<Rightarrow> int \<Rightarrow> exn + socket_reply" where
  "clamav_instream env host port content chunk_size =
     (case e_clamd_connect env host port of
       Some (n, m) \<Rightarrow> Inr (SockError n m)
     | None \<Rightarrow>
       bind_res (instream_bytes (nat chunk_size) content) (\<lambda>bs.
       case e_clamd env host port bs of
         SockReply raw \<Rightarrow> Inr (SockReply (clean_reply raw))
       | r \<Rightarrow> Inr r))"

section \<open>The reply\<close>

definition one_decimal :: "int \<Rightarrow> int \<Rightarrow> string" where
  "one_decimal n d = (let t = round_half_even (10 * n) d in str_int (t div 10) @ ''.'' @ str_int (t mod 10))"

definition human_bytes :: "int \<Rightarrow> string" where
  "human_bytes value =
     (if value < 1024 then str_int value @ '' bytes''
      else if value < 1024 * 1024 then one_decimal value 1024 @ '' KiB''
      else if value < 1024 * 1024 * 1024 then one_decimal value (1024 * 1024) @ '' MiB''
      else one_decimal value (1024 * 1024 * 1024) @ '' GiB'')"

definition clamav_message_details :: "string \<Rightarrow> int option \<Rightarrow> string" where
  "clamav_message_details reply file_size =
     str_join ''; '' ([''protocol=INSTREAM'']
       @ (case file_size of None \<Rightarrow> [] | Some n \<Rightarrow> [''artifact_size='' @ human_bytes n])
       @ [''clamd_reply='' @ [CHR 0x22] @ reply @ [CHR 0x22]])"

text \<open>\<open>s.rsplit(sep, 1)[1]\<close> where \<open>sep\<close> occurs in \<open>s\<close>: what follows its last occurrence.\<close>

definition after_last :: "string \<Rightarrow> string \<Rightarrow> string" where
  "after_last sep s = (case split_once (rev sep) (rev s) of None \<Rightarrow> s | Some (a, b) \<Rightarrow> rev a)"

definition clamav_found_signature :: "string \<Rightarrow> string" where
  "clamav_found_signature reply =
     (let signature = remove_suffix reply '' FOUND'';
          signature = (if str_contains signature '': '' then after_last '': '' signature else signature)
      in if signature = [] then ''unknown'' else signature)"

definition format_clamav_reply :: "string \<Rightarrow> int option \<Rightarrow> outcome" where
  "format_clamav_reply reply file_size =
     (let normalized = str_strip reply;
          details = clamav_message_details normalized file_size
      in if normalized = [] then error_outcome ''ClamAV scan failed: empty response''
         else if ends_with normalized '' OK'' then
           plain_outcome (Some True) (''ClamAV passed: no signature match ('' @ details @ '')'') MReal
         else if str_contains normalized '' FOUND'' then
           plain_outcome (Some False) (''ClamAV detected malware signature: ''
             @ clamav_found_signature normalized @ '' ('' @ details @ '')'') MReal
         else if str_contains normalized '' ERROR'' \<or> starts_with normalized ''ERROR'' then
           error_outcome (''ClamAV scan failed: '' @ details)
         else error_outcome (''ClamAV scan failed: unexpected response ('' @ details @ '')''))"

text \<open>\<open>ECONNREFUSED\<close>, \<open>EHOSTUNREACH\<close> and \<open>ENETUNREACH\<close> on Linux.\<close>

definition clamav_os_error_hint :: "int \<Rightarrow> string \<Rightarrow> int \<Rightarrow> string" where
  "clamav_os_error_hint errno host port =
     (if errno = 111 then
        ''; clamd refused TCP connection at '' @ host @ '':'' @ str_int port
        @ '', check ClamAV health, memory limit, and listener config''
      else if errno = 113 \<or> errno = 101 then
        ''; clamd host '' @ host @ '':'' @ str_int port
        @ '' is unreachable, check CLAMAV_HOST/CLAMAV_PORT and container networking''
      else [])"

section \<open>Scanning\<close>

definition scan_clamav :: "env \<Rightarrow> artifact \<Rightarrow> clamav_config \<Rightarrow> exn + outcome" where
  "scan_clamav env a config =
     (let file_size = int (length (a_bytes a));
          max_stream_bytes = max 1 (clam_max_stream_bytes config);
          timeout = max 1 (clam_timeout_seconds config);
          chunk_size = max 1 (clam_stream_chunk_bytes config);
          host = clam_host config;
          port = clam_port config
      in if max_stream_bytes < file_size then
           Inr (error_outcome (''ClamAV scan failed: file exceeds stream limit ('' @ str_int file_size
             @ '' > '' @ str_int max_stream_bytes @ '' bytes)''))
         else bind_res (clamav_instream env host port (a_bytes a) chunk_size) (\<lambda>r.
           case r of
             SockReply reply \<Rightarrow> Inr (format_clamav_reply reply (Some file_size))
           | SockTimeout \<Rightarrow>
               Inr (error_outcome (''ClamAV scan failed: timed out after '' @ str_int timeout @ '' seconds''))
           | SockError n m \<Rightarrow>
               Inr (error_outcome (''ClamAV scan failed: '' @ m @ clamav_os_error_hint n host port))))"

definition scan_clamav_for_version ::
  "env \<Rightarrow> version \<Rightarrow> clamav_config \<Rightarrow> artifact option \<Rightarrow> exn + outcome" where
  "scan_clamav_for_version env v config local_path =
     scan_for_version env ''ClamAV'' v local_path (\<lambda>a. scan_clamav env a config)"

definition clamav_provider :: scan_provider where
  "clamav_provider = \<lparr>
     sp_name = ''clamav'', sp_label = ''ClamAV'', sp_legacy_public = False,
     sp_load_config = (\<lambda>env. bind_op (runtime_clamav_config env) (\<lambda>c. ret (ClamavConfig c))),
     sp_is_configured = (\<lambda>c. case c of ClamavConfig cc \<Rightarrow> clam_host cc \<noteq> [] \<and> 0 < clam_port cc | _ \<Rightarrow> False),
     sp_scan = (\<lambda>env v c local_path.
        case c of ClamavConfig cc \<Rightarrow> scan_clamav_for_version env v cc local_path
        | _ \<Rightarrow> Inl (KeyError ''max_stream_bytes'')),
     sp_apply_tracking = base_apply_tracking, sp_clear_tracking = base_clear_tracking\<rparr>"

section \<open>The format that clamd reads\<close>

definition u32_of :: "string \<Rightarrow> nat" where
  "u32_of h = foldl (\<lambda>n c. n * 256 + of_char c) 0 h"

text \<open>Chunks, each after its length in four bytes, until the length zero.\<close>

function read_chunks :: "string \<Rightarrow> string option" where
  "read_chunks s =
     (if length s < 4 then None
      else let n = u32_of (take 4 s); rest = drop 4 s
           in if n = 0 then (if rest = [] then Some [] else None)
              else if length rest < n then None
              else map_option (\<lambda>t. take n rest @ t) (read_chunks (drop n rest)))"
  by pat_completeness auto
termination
  by (relation "measure length") auto

declare read_chunks.simps [simp del]

definition instream_decode :: "string \<Rightarrow> string option" where
  "instream_decode s = (let cmd = ''zINSTREAM'' @ [CHR 0x00]
     in if starts_with s cmd then read_chunks (drop (length cmd) s) else None)"

section \<open>Lemmas\<close>

lemma concat_chunks: "concat (chunks n s) = s"
  by (induction n s rule: chunks.induct) auto

lemma chunks_nonempty: "c \<in> set (chunks n s) \<Longrightarrow> c \<noteq> []"
  by (induction n s rule: chunks.induct) auto

lemma chunks_length: "0 < n \<Longrightarrow> c \<in> set (chunks n s) \<Longrightarrow> length c \<le> n"
  by (induction n s rule: chunks.induct) auto

lemma length_be32 [simp]: "length (be32 n) = 4"
  by (simp add: be32_def)

lemma u32_of_be32:
  assumes "n \<le> 4294967295"
  shows "u32_of (be32 n) = n"
proof -
  have "n div 16777216 < 256" using assms by simp
  then have c: "of_char (char_of (n div 16777216)) = n div 16777216" by (simp add: of_char_char_of_nat)
  have "((n div 16777216 * 256 + n div 65536 mod 256) * 256 + n div 256 mod 256) * 256 + n mod 256 = n"
  proof -
    have "n div 65536 = n div 16777216 * 256 + n div 65536 mod 256"
      using div_mult_mod_eq[of "n div 65536" 256] by (simp add: div_mult2_eq[symmetric])
    moreover have "n div 256 = n div 65536 * 256 + n div 256 mod 256"
      using div_mult_mod_eq[of "n div 256" 256] by (simp add: div_mult2_eq[symmetric])
    moreover have "n = n div 256 * 256 + n mod 256" by simp
    ultimately show ?thesis by presburger
  qed
  with c show ?thesis by (simp add: u32_of_def be32_def)
qed

lemma map_res_frames:
  assumes "\<forall>c \<in> set cs. length c \<le> 4294967295"
  shows "map_res instream_frame cs = Inr (map (\<lambda>c. be32 (length c) @ c) cs)"
  using assms by (induction cs) (simp_all add: instream_frame_def pack_u32_def)

lemma read_chunks_frames:
  assumes "\<forall>c \<in> set cs. c \<noteq> [] \<and> length c \<le> 4294967295"
  shows "read_chunks (concat (map (\<lambda>c. be32 (length c) @ c) cs) @ be32 0) = Some (concat cs)"
  using assms
proof (induction cs)
  case Nil
  then show ?case by (subst read_chunks.simps) (simp add: u32_of_be32 Let_def)
next
  case (Cons c cs)
  then show ?case by (subst read_chunks.simps) (simp add: u32_of_be32 Let_def)
qed

lemma instream_bytes_ok:
  assumes "0 < n" "n \<le> 4294967295"
  shows "\<exists>bs. instream_bytes n s = Inr bs \<and> instream_decode bs = Some s"
proof -
  have cs: "\<forall>c \<in> set (chunks n s). c \<noteq> [] \<and> length c \<le> 4294967295"
    using chunks_nonempty chunks_length[OF assms(1)] assms(2) by (meson order_trans)
  let ?bs = "''zINSTREAM'' @ [CHR 0x00] @ concat (map (\<lambda>c. be32 (length c) @ c) (chunks n s)) @ be32 0"
  have "instream_bytes n s = Inr ?bs"
    using cs by (simp add: instream_bytes_def map_res_frames pack_u32_def)
  moreover have "instream_decode ?bs = Some s"
    using read_chunks_frames[OF cs] by (simp add: instream_decode_def starts_with_def concat_chunks Let_def)
  ultimately show ?thesis by blast
qed

lemma format_clamav_reply_pass_iff:
  "o_passed (format_clamav_reply reply n) = Some True \<longleftrightarrow> ends_with (str_strip reply) '' OK''"
  by (auto simp: format_clamav_reply_def Let_def ends_with_def starts_with_def)

lemma format_clamav_reply_mode:
  "o_mode (format_clamav_reply reply n) = MReal \<or> o_passed (format_clamav_reply reply n) = Some False"
  by (simp add: format_clamav_reply_def Let_def)

section \<open>Properties\<close>

text \<open>C31 (roundtrip). What is written to clamd for a chunk size that fits in four bytes is, read by the INSTREAM format, the
  artifact itself: no chunk is lost, cut or taken for the end of the stream.\<close>

theorem instream_round_trip:
  assumes "0 < n" "n \<le> 4294967295"
  shows "\<exists>bs. instream_bytes n content = Inr bs \<and> instream_decode bs = Some content"
  using assms by (rule instream_bytes_ok)

theorem instream_round_trip_witness: "\<exists>bs. instream_bytes 2 ''PK345'' = Inr bs \<and> instream_decode bs = Some ''PK345''"
  by (rule instream_round_trip) simp_all

text \<open>C32 (functional). A ClamAV scan that returns says passed exactly when the artifact is within the stream limit, clamd
  could be reached and its cleaned reply to the framed artifact ends with OK; time-outs, socket errors
  and unknown replies do not pass.\<close>

theorem clamav_passes_iff:
  assumes "scan_clamav env a config = Inr oc" "clam_stream_chunk_bytes config \<le> 4294967295"
  shows "o_passed oc = Some True \<longleftrightarrow>
    int (length (a_bytes a)) \<le> max 1 (clam_max_stream_bytes config)
    \<and> e_clamd_connect env (clam_host config) (clam_port config) = None
    \<and> (\<exists>bs. instream_bytes (nat (max 1 (clam_stream_chunk_bytes config))) (a_bytes a) = Inr bs
        \<and> instream_decode bs = Some (a_bytes a)
        \<and> (\<exists>raw. e_clamd env (clam_host config) (clam_port config) bs = SockReply raw
              \<and> ends_with (str_strip (clean_reply raw)) '' OK''))"
proof -
  let ?n = "nat (max 1 (clam_stream_chunk_bytes config))"
  have "0 < ?n" "?n \<le> 4294967295" using assms(2) by linarith+
  from instream_bytes_ok[OF this] obtain bs where bs: "instream_bytes ?n (a_bytes a) = Inr bs" "instream_decode bs = Some (a_bytes a)"
    by blast
  show ?thesis
  proof (cases "max 1 (clam_max_stream_bytes config) < int (length (a_bytes a))")
    case True
    with assms(1) show ?thesis by (auto simp: scan_clamav_def Let_def)
  next
    case small: False
    show ?thesis
    proof (cases "e_clamd_connect env (clam_host config) (clam_port config)")
      case (Some x)
      with small assms(1) show ?thesis by (cases x) (auto simp: scan_clamav_def clamav_instream_def Let_def)
    next
      case None
      with small assms(1) bs show ?thesis
        by (cases "e_clamd env (clam_host config) (clam_port config) bs")
           (auto simp: scan_clamav_def clamav_instream_def Let_def format_clamav_reply_pass_iff)
    qed
  qed
qed

theorem clamav_passes_iff_witness:
  "\<exists>oc. scan_clamav sample_env \<lparr>a_name = ''weather.zip'', a_bytes = ''PK''\<rparr> \<lparr>clam_host = ''clamav'', clam_port = 3310,
      clam_timeout_seconds = 60, clam_stream_chunk_bytes = 65536, clam_max_stream_bytes = 1000\<rparr> = Inr oc
    \<and> o_passed oc = Some True"
proof -
  let ?a = "\<lparr>a_name = ''weather.zip'', a_bytes = ''PK''\<rparr>"
  let ?c = "\<lparr>clam_host = ''clamav'', clam_port = 3310, clam_timeout_seconds = 60, clam_stream_chunk_bytes = 65536, clam_max_stream_bytes = 1000\<rparr>"
  obtain bs where bs: "instream_bytes 65536 ''PK'' = Inr bs" "instream_decode bs = Some ''PK''"
    using instream_bytes_ok[of 65536 "''PK''"] by auto
  then obtain oc where oc: "scan_clamav sample_env ?a ?c = Inr oc"
    by (simp add: scan_clamav_def clamav_instream_def sample_env_def Let_def)
  have "ends_with (str_strip (clean_reply ''stream: OK'')) '' OK''" by code_simp
  with clamav_passes_iff[OF oc] bs have "o_passed oc = Some True" by (simp add: sample_env_def)
  with oc show ?thesis by blast
qed

end
