(* ===== verification/LlmAgent.thy ===== *)
theory LlmAgent
  imports ScanBase
begin

text \<open>
  \<open>scan_providers/llm_agent.py\<close>: the context built from the archive, the request, the extraction of the
  JSON object from the answer, its normalisation, and the outcome. Reading the archive, the HTTP
  exchange and \<open>json.loads\<close> are functions of the environment.
\<close>

section \<open>Constants\<close>

definition LLM_RISK_FAIL_LEVELS :: "string list" where
  "LLM_RISK_FAIL_LEVELS =
     [''high'', ''critical'']"

definition LLM_RELEVANT_SUFFIXES :: "string list" where
  "LLM_RELEVANT_SUFFIXES =
     [''.py'', ''.yaml'', ''.yml'', ''.toml'', ''.json'', ''.txt'', ''.md'']"

definition LLM_RELEVANT_NAMES :: "string list" where
  "LLM_RELEVANT_NAMES =
     [''metadata.yaml'', ''metadata.yml'', ''requirements.txt'', ''pyproject.toml'',
      ''config.yaml'', ''config.yml'']"

definition LLM_SUSPICIOUS_TERMS :: "string list" where
  "LLM_SUSPICIOUS_TERMS =
     [''eval('', ''exec('', ''subprocess'', ''os.system'', ''socket'', ''requests.'', ''httpx.'',
      ''urllib'', ''base64'', ''pickle'', ''token'', ''cookie'', ''password'', ''secret'',
      ''api_key'', ''open('', ''shutil'']"

definition LLM_UNCERTAINTY_TERMS :: "string list" where
  "LLM_UNCERTAINTY_TERMS =
     [''truncated'', ''incomplete'', ''not visible'', ''not available'', ''cannot be ruled out'',
      ''could not be ruled out'', ''limited confidence'', ''full source'',
      ''hidden malicious behavior'']"

definition LLM_EXPLICIT_HIGH_RISK_TERMS :: "string list" where
  "LLM_EXPLICIT_HIGH_RISK_TERMS =
     [''unknown domain'', ''untrusted domain'', ''third-party domain'', ''non-github domain'',
      ''download and execute'', ''downloads and executes'', ''downloads code'',
      ''remote code execution'', ''eval('', ''exec('', ''os.system'', ''subprocess'',
      ''pickle.loads'', ''base64.b64decode'', ''reverse shell'', ''backdoor'', ''steals'',
      ''exfiltrates'', ''sends credentials'', ''sends token'',
      ''credential theft is implemented'']"

definition any_term :: "string list \<Rightarrow> string \<Rightarrow> bool" where
  "any_term terms s = list_ex (str_contains s) terms"

section \<open>The JSON object in the answer\<close>

text \<open>The loop of \<open>extract_json_object\<close> from the first brace on: how many characters up to the brace that
  closes it.\<close>

fun scan_object :: "int \<Rightarrow> bool \<Rightarrow> bool \<Rightarrow> string \<Rightarrow> nat option" where
  "scan_object depth in_string escape [] = None"
| "scan_object depth in_string escape (c # cs) =
     map_option Suc
      (if escape then scan_object depth in_string False cs
       else if c = CHR 0x5C then scan_object depth in_string True cs
       else if c = CHR 0x22 then scan_object depth (\<not> in_string) False cs
       else if in_string then scan_object depth in_string False cs
       else if c = CHR ''{'' then scan_object (depth + 1) in_string False cs
       else if c = CHR ''}'' then
         (if depth - 1 = 0 then Some 0 else scan_object (depth - 1) in_string False cs)
       else scan_object depth in_string False cs)"

definition strip_fence :: "string \<Rightarrow> string" where
  "strip_fence text =
     (if starts_with text ''```'' then
        let xs = splitlines text;
            xs = (if xs \<noteq> [] \<and> starts_with (hd xs) ''```'' then tl xs else xs);
            xs = (if xs \<noteq> [] \<and> starts_with (last xs) ''```'' then butlast xs else xs)
        in str_strip (str_join [CHR 0x0A] xs)
      else text)"

definition extract_json_object :: "string \<Rightarrow> exn + string" where
  "extract_json_object raw =
     (let text = strip_fence (str_strip raw)
      in if starts_with text ''{'' \<and> ends_with text ''}'' then Inr text
         else
           (let rest = dropWhile (\<lambda>c. c \<noteq> CHR ''{'') text
            in if rest = [] then Inl (ValueError ''LLM response does not contain a JSON object'')
               else (case scan_object 0 False False rest of
                   None \<Rightarrow> Inl (ValueError ''LLM response contains an incomplete JSON object'')
                 | Some n \<Rightarrow> Inr (take n rest))))"

definition parse_llm_response :: "env \<Rightarrow> string \<Rightarrow> exn + json dict" where
  "parse_llm_response env raw =
     bind_res (extract_json_object raw) (\<lambda>text.
     bind_res (e_json_loads env text) (\<lambda>data.
     case data of
       JObj d \<Rightarrow>
         if dict_get ''pass'' d = None \<or> dict_get ''risk_level'' d = None
         then Inl (ValueError ''LLM response is missing required keys'') else Inr d
     | _ \<Rightarrow> Inl (ValueError ''LLM response is not a JSON object'')))"

section \<open>Normalisation\<close>

definition risk_level_of :: "json dict \<Rightarrow> string" where
  "risk_level_of d = str_lower (py_str (json_or (get_or_null ''risk_level'' d) (JStr ''unknown'')))"

definition finding_parts :: "json \<Rightarrow> string list" where
  "finding_parts finding = (case finding of JObj kvs \<Rightarrow> map (\<lambda>kv. py_str (snd kv)) kvs | f \<Rightarrow> [py_str f])"

definition llm_result_text :: "json dict \<Rightarrow> string" where
  "llm_result_text result =
     str_join [CHR 0x0A] (py_str (json_or (get_or_null ''summary'' result) (JStr []))
       # (case get_or_null ''findings'' result of
           JList fs \<Rightarrow> concat (map finding_parts fs)
         | _ \<Rightarrow> []))"

definition looks_uncertainty_only_high_risk :: "json dict \<Rightarrow> bool" where
  "looks_uncertainty_only_high_risk result =
     (let text = str_lower (llm_result_text result)
      in if \<not> any_term LLM_UNCERTAINTY_TERMS text then False
         else \<not> any_term LLM_EXPLICIT_HIGH_RISK_TERMS text)"

definition normalization_note :: string where
  "normalization_note =
     ''High risk downgraded because the finding is based on incomplete context ''
     @ ''or uncertainty without explicit visible high-risk behavior.''"

definition normalize_llm_result :: "json dict \<Rightarrow> json dict" where
  "normalize_llm_result result =
     (let risk_level = risk_level_of result
      in if risk_level \<in> set LLM_RISK_FAIL_LEVELS \<and> looks_uncertainty_only_high_risk result then
           dict_set ''normalization_note'' (JStr normalization_note)
             (dict_set ''pass'' (JBool True) (dict_set ''risk_level'' (JStr ''medium'') result))
         else if risk_level \<notin> set LLM_RISK_FAIL_LEVELS then dict_set ''pass'' (JBool True) result
         else result)"

section \<open>The context\<close>

definition path_parts :: "string \<Rightarrow> string list" where
  "path_parts p = filter (\<lambda>s. s \<noteq> [] \<and> s \<noteq> ''.'') (str_split (CHR ''/'') p)"

definition path_name :: "string \<Rightarrow> string" where
  "path_name p = (if path_parts p = [] then [] else last (path_parts p))"

text \<open>\<open>Path(p).suffix\<close>: from the last dot of the name, unless it is its first or its last character.\<close>

definition path_suffix :: "string \<Rightarrow> string" where
  "path_suffix p =
     (let n = path_name p;
          tail = takeWhile (\<lambda>c. c \<noteq> CHR ''.'') (rev n);
          i = length n - length tail - 1
      in if length tail < length n \<and> 0 < i \<and> i < length n - 1 then drop i n else [])"

definition format_llm_file_section :: "string \<Rightarrow> string \<Rightarrow> string" where
  "format_llm_file_section path text =
     (let body = take 4000 text @ (if 4000 < length text then [CHR 0x0A] @ ''[File truncated]'' else [])
      in ''File: '' @ path @ [CHR 0x0A] @ ''```text'' @ [CHR 0x0A] @ body @ [CHR 0x0A] @ ''```'')"

definition should_include :: "string \<Rightarrow> bool" where
  "should_include path \<longleftrightarrow>
     str_lower (path_name path) \<in> set LLM_RELEVANT_NAMES
   \<or> str_lower (path_suffix path) \<in> set LLM_RELEVANT_SUFFIXES
   \<or> any_term [''main'', ''plugin'', ''handler'', ''service''] (str_lower path)"

text \<open>The loop over the entries: the sections added, the numbers of included and of skipped files. A
  \<open>RuntimeError\<close> (an encrypted entry) skips the entry, another exception ends the scan.\<close>

fun include_files :: "zip_entry list \<Rightarrow> string list \<times> nat \<times> nat \<Rightarrow> exn + (string list \<times> nat \<times> nat)" where
  "include_files [] acc = Inr acc"
| "include_files (info # infos) (sections, included, skipped) =
     (if \<not> should_include (ze_filename info) then include_files infos (sections, included, Suc skipped)
      else (case ze_read info of
          Inl (RuntimeError _) \<Rightarrow> include_files infos (sections, included, Suc skipped)
        | Inl e \<Rightarrow> Inl e
        | Inr text \<Rightarrow> include_files infos
            (sections @ [format_llm_file_section (ze_filename info) text], Suc included, skipped)))"

text \<open>The first line with a suspicious term, with two lines before and after it, numbered from one.\<close>

definition snippet_lines :: "string list \<Rightarrow> string list" where
  "snippet_lines ls =
     (case find (\<lambda>i. any_term LLM_SUSPICIOUS_TERMS (str_lower (ls ! i))) [0..<length ls] of
       None \<Rightarrow> []
     | Some idx \<Rightarrow> map (\<lambda>n. str_nat (n + 1) @ '': '' @ ls ! n) [idx - 2..<min (length ls) (idx + 3)])"

fun collect_suspicious_snippets :: "zip_entry list \<Rightarrow> string list \<Rightarrow> exn + string list" where
  "collect_suspicious_snippets [] snippets = Inr snippets"
| "collect_suspicious_snippets (info # infos) snippets =
     (if 20 \<le> length snippets then Inr snippets
      else if str_lower (path_suffix (ze_filename info)) \<notin> set LLM_RELEVANT_SUFFIXES
        then collect_suspicious_snippets infos snippets
      else (case ze_read info of
          Inl (RuntimeError _) \<Rightarrow> collect_suspicious_snippets infos snippets
        | Inl e \<Rightarrow> Inl e
        | Inr text \<Rightarrow>
            if \<not> any_term LLM_SUSPICIOUS_TERMS (str_lower text) then collect_suspicious_snippets infos snippets
            else collect_suspicious_snippets infos
              (snippets @ [''File: '' @ ze_filename info @ [CHR 0x0A]
                 @ str_join [CHR 0x0A] (take 8 (snippet_lines (splitlines text)))])))"

definition truncate_context :: "string \<Rightarrow> int \<Rightarrow> string \<times> bool" where
  "truncate_context context max_chars =
     (if int (length context) \<le> max_chars then (context, False)
      else
        (let notice = ''[Context truncated to '' @ str_int max_chars @ '' characters from ''
               @ str_nat (length context) @ '' characters. Some files or snippets are omitted.]''
               @ [CHR 0x0A, CHR 0x0A]
         in (notice @ take (nat (max_chars - int (length notice))) context, True)))"

definition build_llm_context :: "env \<Rightarrow> artifact \<Rightarrow> int \<Rightarrow> exn + (string \<times> bool)" where
  "build_llm_context env a max_chars0 =
     (let max_chars = max 1000 max_chars0 in
      bind_res (e_unzip env (a_bytes a)) (\<lambda>entries.
      let infos = filter (\<lambda>i. \<not> ze_is_dir i) entries in
      bind_res (include_files infos ([], 0, 0)) (\<lambda>(files, included, skipped).
      bind_res (collect_suspicious_snippets infos []) (\<lambda>suspicious.
      Inr (truncate_context
        (str_join [CHR 0x0A, CHR 0x0A]
          ([''Archive: '' @ a_name a, ''Total files: '' @ str_nat (length infos),
            ''Included files: '' @ str_nat included @ ''; skipped binary/irrelevant files: '' @ str_nat skipped]
           @ files
           @ (if suspicious \<noteq> [] then ''Suspicious snippets:'' # suspicious else [])))
        max_chars)))))"

section \<open>The request and the outcome\<close>

definition llm_system_prompt :: string where
  "llm_system_prompt =
     ''You are a security reviewer for AstrBot plugin submissions. ''
     @ ''Return exactly one strict JSON object and nothing else. Do not wrap it in markdown, ''
     @ ''do not include code fences, comments, prose, or explanations outside the JSON object. ''
     @ ''The JSON object must use keys: pass(boolean), risk_level(''
     @ ''none|low|medium|high|critical), summary(string), findings(array). ''
     @ ''Findings items should include severity, category, file, reason, recommendation. ''
     @ ''Focus on malware, credential theft, unsafe code execution, hidden network behavior, ''
     @ ''data exfiltration, and behavior inconsistent with metadata. ''
     @ ''Use pass=false only for high or critical risk with explicit evidence in visible code. ''
     @ ''Do not assign high or critical risk only because the context is truncated, incomplete, ''
     @ ''or because malicious behavior cannot be ruled out. Missing context is a confidence ''
     @ ''limitation, not a high-risk finding by itself. Treat incomplete source, broad ''
     @ ''recommendations, and speculative hidden behavior as low or medium unless visible code ''
     @ ''shows a concrete dangerous action such as downloading or executing remote code, sending ''
     @ ''credentials/tokens/data to an unknown or untrusted domain, obfuscation, a backdoor, ''
     @ ''destructive filesystem actions, or explicit exfiltration.''"

definition llm_payload :: "string \<Rightarrow> bool \<Rightarrow> llm_config \<Rightarrow> json" where
  "llm_payload context truncated config = JObj
     [(''model'', JStr (llm_model config)), (''temperature'', JInt 0),
      (''response_format'', JObj [(''type'', JStr ''json_object'')]),
      (''messages'', JList
        [JObj [(''role'', JStr ''system''), (''content'', JStr llm_system_prompt)],
         JObj [(''role'', JStr ''user''), (''content'', JStr
           (''Context truncated: '' @ str_bool truncated
            @ ''. If truncated, mention that confidence is limited.'' @ [CHR 0x0A, CHR 0x0A] @ context))]])]"

definition http_json :: "http_reply \<Rightarrow> exn + json" where
  "http_json r =
     (case r of
       HttpFailed m \<Rightarrow> Inl (HTTPError m)
     | HttpReply code body \<Rightarrow>
         if \<not> (200 \<le> code \<and> code \<le> 299) then Inl (HTTPStatusError code)
         else (case body of None \<Rightarrow> Inl (ValueError ''Expecting value'') | Some j \<Rightarrow> Inr j))"

definition call_llm_agent :: "env \<Rightarrow> string \<Rightarrow> bool \<Rightarrow> llm_config \<Rightarrow> exn + string" where
  "call_llm_agent env context truncated config =
     bind_res (http_json (e_llm_post env (rstrip_char (CHR ''/'') (llm_base_url config) @ ''/chat/completions'')
        (''Bearer '' @ llm_api_key config) (llm_payload context truncated config))) (\<lambda>data.
     bind_res (json_item ''choices'' data) (\<lambda>choices.
     bind_res (json_first choices) (\<lambda>choice.
     bind_res (json_item ''message'' choice) (\<lambda>message.
     bind_res (json_item ''content'' message) (\<lambda>content.
     Inr (py_str content))))))"

text \<open>The verdict of a normalised answer.\<close>

definition llm_outcome :: "json dict \<Rightarrow> bool \<Rightarrow> string \<Rightarrow> outcome" where
  "llm_outcome result truncated model_name =
     (let risk_level = risk_level_of result;
          passed = (json_truthy (get_or_null ''pass'' result) \<and> risk_level \<notin> set LLM_RISK_FAIL_LEVELS);
          summary = str_strip (py_str (json_or (get_or_null ''summary'' result) (JStr [])));
          findings = (case get_or_null ''findings'' result of JList fs \<Rightarrow> fs | _ \<Rightarrow> []);
          note = get_or_null ''normalization_note'' result
      in plain_outcome (Some passed)
        (json_dumps False (JObj
          ([(''pass'', JBool passed), (''risk_level'', JStr risk_level), (''summary'', JStr summary),
            (''findings'', JList (take 10 findings)), (''context_truncated'', JBool truncated),
            (''model'', JStr model_name)]
           @ (if json_truthy note then [(''normalization_note'', note)] else []))))
        MReal)"

definition llm_except :: "exn + outcome \<Rightarrow> exn + outcome" where
  "llm_except r =
     (case r of
       Inr oc \<Rightarrow> Inr oc
     | Inl (OSError m) \<Rightarrow> Inr (error_outcome (''LLM scan failed: '' @ m))
     | Inl (BadZipFile m) \<Rightarrow> Inr (error_outcome (''LLM scan failed: '' @ m))
     | Inl (KeyError m) \<Rightarrow> Inr (error_outcome (''LLM scan failed: '' @ m))
     | Inl (TypeError m) \<Rightarrow> Inr (error_outcome (''LLM scan failed: '' @ m))
     | Inl (ValueError m) \<Rightarrow> Inr (error_outcome (''LLM scan failed: '' @ m))
     | Inl (HTTPStatusError code) \<Rightarrow> Inr (error_outcome (''LLM scan failed: HTTP '' @ str_nat code))
     | Inl (HTTPError m) \<Rightarrow> Inr (error_outcome (''LLM scan failed: '' @ m))
     | Inl e \<Rightarrow> Inl e)"

definition scan_llm :: "env \<Rightarrow> artifact \<Rightarrow> llm_config \<Rightarrow> exn + outcome" where
  "scan_llm env a config =
     llm_except (
       bind_res (build_llm_context env a (llm_max_context_chars config)) (\<lambda>(context, truncated).
       bind_res (call_llm_agent env context truncated config) (\<lambda>response.
       bind_res (parse_llm_response env response) (\<lambda>data.
       Inr (llm_outcome (normalize_llm_result data) truncated (llm_model config))))))"

definition scan_llm_for_version :: "env \<Rightarrow> version \<Rightarrow> llm_config \<Rightarrow> artifact option \<Rightarrow> exn + outcome" where
  "scan_llm_for_version env v config local_path =
     scan_for_version env ''LLM'' v local_path (\<lambda>a. scan_llm env a config)"

definition llm_configured :: "llm_config \<Rightarrow> bool" where
  "llm_configured config \<longleftrightarrow> llm_base_url config \<noteq> [] \<and> llm_model config \<noteq> [] \<and> llm_api_key config \<noteq> []"

definition llm_provider :: scan_provider where
  "llm_provider = \<lparr>
     sp_name = ''llm_agent'', sp_label = ''LLM Agent'', sp_legacy_public = True,
     sp_load_config = (\<lambda>env. bind_op (runtime_llm_agent_config env) (\<lambda>c. ret (LlmConfig c))),
     sp_is_configured = (\<lambda>c. case c of LlmConfig lc \<Rightarrow> llm_configured lc | _ \<Rightarrow> False),
     sp_scan = (\<lambda>env v c local_path.
        case c of LlmConfig lc \<Rightarrow> scan_llm_for_version env v lc local_path
        | _ \<Rightarrow> Inl (KeyError ''max_context_chars'')),
     sp_apply_tracking = base_apply_tracking, sp_clear_tracking = base_clear_tracking\<rparr>"

section \<open>Lemmas\<close>

text \<open>The state of the loop as a fold over the characters read.\<close>

fun lex_step :: "char \<Rightarrow> int \<times> bool \<times> bool \<Rightarrow> int \<times> bool \<times> bool" where
  "lex_step c (depth, in_string, escape) =
     (if escape then (depth, in_string, False)
      else if c = CHR 0x5C then (depth, in_string, True)
      else if c = CHR 0x22 then (depth, \<not> in_string, False)
      else if in_string then (depth, in_string, False)
      else if c = CHR ''{'' then (depth + 1, in_string, False)
      else if c = CHR ''}'' then (depth - 1, in_string, False)
      else (depth, in_string, False))"

text \<open>One character of the loop: it stops at the brace that closes the object, or goes on.\<close>

lemma scan_object_step:
  assumes "scan_object d q e (c # s) = Some n"
  obtains (stop) "n = 1" "\<not> e" "\<not> q" "c = CHR ''}''" "d = 1" "lex_step c (d, q, e) = (0, False, False)"
  | (go) m d' q' e' where "n = Suc m" "lex_step c (d, q, e) = (d', q', e')"
      "scan_object d' q' e' s = Some m" "1 \<le> d \<Longrightarrow> 1 \<le> d'"
proof (cases "\<not> e \<and> \<not> q \<and> c = CHR ''}'' \<and> d = 1")
  case True
  with assms show ?thesis by (intro stop) auto
next
  case False
  obtain m where m: "n = Suc m" using assms by (cases n) (auto split: if_splits)
  obtain d' q' e' where st: "lex_step c (d, q, e) = (d', q', e')" by (cases "lex_step c (d, q, e)")
  have "scan_object d' q' e' s = Some m" using assms False m st by (auto split: if_splits)
  moreover have "1 \<le> d \<Longrightarrow> 1 \<le> d'" using False st by (auto split: if_splits)
  ultimately show ?thesis using go m st by blast
qed

lemma scan_object_nth:
  "scan_object d q e s = Some n \<Longrightarrow> 0 < n \<and> n \<le> length s \<and> s ! (n - 1) = CHR ''}''"
proof (induction s arbitrary: d q e n)
  case (Cons c s)
  from Cons.prems show ?case
  proof (cases rule: scan_object_step)
    case (go m d' q' e')
    with Cons.IH[OF go(3)] show ?thesis by (cases m) auto
  qed simp
qed simp

lemma scan_object_state:
  "scan_object d q e s = Some n \<Longrightarrow> fold lex_step (take n s) (d, q, e) = (0, False, False)"
proof (induction s arbitrary: d q e n)
  case (Cons c s)
  from Cons.prems show ?case
  proof (cases rule: scan_object_step)
    case (go m d' q' e')
    with Cons.IH[OF go(3)] show ?thesis by (simp del: lex_step.simps)
  qed (simp del: lex_step.simps)
qed simp

lemma scan_object_inside:
  "scan_object d q e s = Some n \<Longrightarrow> 1 \<le> d \<Longrightarrow> k < n \<Longrightarrow> 1 \<le> fst (fold lex_step (take k s) (d, q, e))"
proof (induction s arbitrary: d q e n k)
  case (Cons c s)
  from Cons.prems(1) show ?case
  proof (cases rule: scan_object_step)
    case (go m d' q' e')
    with Cons.IH[OF go(3)] Cons.prems(2,3) show ?thesis
      by (cases k) (auto simp del: lex_step.simps)
  qed (use Cons.prems in simp)
qed simp

lemma extract_json_object_braces:
  assumes "extract_json_object raw = Inr t"
  shows "starts_with t ''{'' \<and> ends_with t ''}'' \<and> str_contains (strip_fence (str_strip raw)) t"
proof -
  let ?text = "strip_fence (str_strip raw)"
  let ?rest = "dropWhile (\<lambda>c. c \<noteq> CHR ''{'') ?text"
  show ?thesis
  proof (cases "starts_with ?text ''{'' \<and> ends_with ?text ''}''")
    case True
    have "str_contains ?text ?text" unfolding str_contains_iff by (metis append_Nil append_Nil2)
    with True assms show ?thesis by (simp add: extract_json_object_def Let_def)
  next
    case False
    with assms obtain n where n: "scan_object 0 False False ?rest = Some n" and t: "t = take n ?rest"
      and ne: "?rest \<noteq> []"
      unfolding extract_json_object_def Let_def by (auto split: if_splits option.splits)
    note nth = scan_object_nth[OF n]
    have "hd ?rest = CHR ''{''" using ne hd_dropWhile[of "\<lambda>c. c \<noteq> CHR ''{''" ?text] by auto
    then obtain xs where xs: "?rest = CHR ''{'' # xs" using ne by (metis list.collapse)
    have s: "starts_with t ''{''"
      unfolding t xs starts_with_def using nth by (cases n) auto
    have "t = take (n - 1) ?rest @ [?rest ! (n - 1)]"
      unfolding t using nth by (metis Suc_pred' Suc_le_lessD take_Suc_conv_app_nth)
    with nth have e: "ends_with t ''}''" unfolding ends_with_iff by auto
    have "?text = takeWhile (\<lambda>c. c \<noteq> CHR ''{'') ?text @ t @ drop n ?rest"
      unfolding t by (metis append_take_drop_id takeWhile_dropWhile_id)
    then have "str_contains ?text t" unfolding str_contains_iff by blast
    with s e show ?thesis by simp
  qed
qed

lemma risk_levels_lower: "str_lower ''medium'' = ''medium''"
  by (simp add: str_lower_def lower_char_def Let_def)

lemma risk_level_set [simp]:
  "k \<noteq> ''risk_level'' \<Longrightarrow> risk_level_of (dict_set k v d) = risk_level_of d"
  "risk_level_of (dict_set ''risk_level'' (JStr ''medium'') d) = ''medium''"
  by (simp_all add: risk_level_of_def get_or_null_def json_or_def risk_levels_lower)

lemma llm_outcome_passed:
  "o_passed (llm_outcome r t m) =
     Some (json_truthy (get_or_null ''pass'' r) \<and> risk_level_of r \<notin> set LLM_RISK_FAIL_LEVELS)"
  by (simp add: llm_outcome_def Let_def)

lemma medium_passes: "''medium'' \<notin> set LLM_RISK_FAIL_LEVELS"
  by (simp add: LLM_RISK_FAIL_LEVELS_def)

text \<open>The verdict depends on the risk level and the text of the findings alone, not on the \<open>pass\<close> the
  model returned.\<close>

lemma llm_verdict:
  "o_passed (llm_outcome (normalize_llm_result d) t m) =
     Some (risk_level_of d \<notin> set LLM_RISK_FAIL_LEVELS \<or> looks_uncertainty_only_high_risk d)"
  by (auto simp: llm_outcome_passed normalize_llm_result_def Let_def get_or_null_def medium_passes)

lemma include_files_counts:
  assumes "include_files infos (secs, i, s) = Inr (secs', i', s')"
  shows "i' + s' = i + s + length infos \<and> length secs' + i = length secs + i'"
  using assms
proof (induction infos arbitrary: secs i s)
  case (Cons info infos)
  from Cons.prems Cons.IH show ?case
    by (fastforce split: if_splits sum.splits exn.splits)
qed simp

lemma snippets_bound:
  "collect_suspicious_snippets infos sn = Inr out \<Longrightarrow> length sn \<le> 20 \<Longrightarrow> length out \<le> 20"
  by (induction infos sn rule: collect_suspicious_snippets.induct)
     (auto split: if_splits sum.splits exn.splits)

lemma llm_except_cases:
  assumes "llm_except r = Inr oc"
  shows "r = Inr oc \<or> (o_mode oc = MError \<and> o_passed oc = Some False)"
  using assms by (cases r) (auto simp: llm_except_def split: exn.splits)

section \<open>Properties\<close>


definition sample_llm_env :: env where
  "sample_llm_env = sample_env\<lparr>
     e_llm_post := (\<lambda>url auth body. HttpReply 200 (Some (JObj [(''choices'', JList [JObj [(''message'',
        JObj [(''content'', JStr ''{}'')])]])]))),
     e_json_loads := (\<lambda>s. Inr (JObj [(''pass'', JBool False), (''risk_level'', JStr ''low'')]))\<rparr>"


text \<open>The text taken for the answer's object is a part of the answer, without its code fence, that starts with an
  opening and ends with a closing brace; where the answer is not an object as it stands, it ends at the
  brace that closes the first opening one, braces in strings not counted.\<close>

theorem extracted_object_is_balanced:
  assumes "extract_json_object raw = Inr t"
  shows "starts_with t ''{'' \<and> ends_with t ''}'' \<and> str_contains (strip_fence (str_strip raw)) t
    \<and> (\<not> (starts_with (strip_fence (str_strip raw)) ''{'' \<and> ends_with (strip_fence (str_strip raw)) ''}'') \<longrightarrow>
        fold lex_step t (0, False, False) = (0, False, False)
        \<and> (\<forall>k. 0 < k \<and> k < length t \<longrightarrow> 1 \<le> fst (fold lex_step (take k t) (0, False, False))))"
proof -
  let ?text = "strip_fence (str_strip raw)"
  let ?rest = "dropWhile (\<lambda>c. c \<noteq> CHR ''{'') ?text"
  have "fold lex_step t (0, False, False) = (0, False, False)
      \<and> (\<forall>k. 0 < k \<and> k < length t \<longrightarrow> 1 \<le> fst (fold lex_step (take k t) (0, False, False)))"
    if "\<not> (starts_with ?text ''{'' \<and> ends_with ?text ''}'')"
  proof -
    from assms that obtain n where n: "scan_object 0 False False ?rest = Some n" and t: "t = take n ?rest" and ne: "?rest \<noteq> []"
      unfolding extract_json_object_def Let_def by (auto split: if_splits option.splits)
    note len = scan_object_nth[OF n]
    have "hd ?rest = CHR ''{''" using ne hd_dropWhile[of "\<lambda>c. c \<noteq> CHR ''{''" ?text] by auto
    then obtain xs where xs: "?rest = CHR ''{'' # xs" using ne by (metis list.collapse)
    from n[unfolded xs] obtain m where m: "n = Suc m" "scan_object 1 False False xs = Some m" by auto
    have "1 \<le> fst (fold lex_step (take k t) (0, False, False))" if k: "0 < k" "k < length t" for k
    proof -
      obtain l where l: "k = Suc l" using k by (cases k) auto
      have "k < n" using k t by simp
      then have "take k t = CHR ''{'' # take l xs" unfolding t xs l by (simp add: m)
      moreover have "1 \<le> fst (fold lex_step (take l xs) (1, False, False))"
        using scan_object_inside[OF m(2)] \<open>k < n\<close> l m(1) by simp
      ultimately show ?thesis by simp
    qed
    then show ?thesis using scan_object_state[OF n] t by blast
  qed
  then show ?thesis using extract_json_object_braces[OF assms] by blast
qed

theorem extracted_object_is_balanced_witness:
  "extract_json_object ''Answer: {a{}b} tail'' = Inr ''{a{}b}'' \<and> starts_with ''{a{}b}'' ''{''"
proof -
  have e: "extract_json_object ''Answer: {a{}b} tail'' = Inr ''{a{}b}''" by code_simp
  from extracted_object_is_balanced[OF e] e show ?thesis by blast
qed

end
