(* ===== verification/ScanRegistry.thy ===== *)
theory ScanRegistry
  imports VirusTotal ClamAV LlmAgent
begin

text \<open>
  \<open>scan_providers/registry.py\<close>: the registry of scan providers, a dictionary by name in the order of
  registration, and its lookups. The services use the registry of the three built-in providers; the
  functions that replace it serve the tests.
\<close>

type_synonym provider_registry = "scan_provider dict"

definition make_registry :: "scan_provider list \<Rightarrow> provider_registry" where
  "make_registry providers = dict_of (map (\<lambda>p. (sp_name p, p)) providers)"

definition registry_names :: "provider_registry \<Rightarrow> string list" where
  "registry_names reg = map fst reg"

definition legacy_public_names :: "provider_registry \<Rightarrow> string list" where
  "legacy_public_names reg = map sp_name (filter sp_legacy_public (map snd reg))"

definition registry_get :: "provider_registry \<Rightarrow> string \<Rightarrow> scan_provider option" where
  "registry_get reg name = dict_get name reg"

definition registry_validate :: "provider_registry \<Rightarrow> string list \<Rightarrow> exn + string list" where
  "registry_validate reg names =
     (let invalid = sort (remdups (filter (\<lambda>n. n \<notin> set (map fst reg)) names))
      in if invalid \<noteq> [] then Inl (ValueError (''Invalid scan providers: '' @ str_join '', '' invalid))
         else Inr (filter (\<lambda>n. n \<in> set names) (map fst reg)))"

definition scan_registry :: provider_registry where
  "scan_registry = make_registry [clamav_provider, virustotal_provider, llm_provider]"

lemma registry_names_distinct: "distinct (registry_names (make_registry ps))"
  by (simp add: registry_names_def make_registry_def)

lemma registry_validate_Inr_iff:
  "registry_validate reg names = Inr sel \<longleftrightarrow>
     set names \<subseteq> set (registry_names reg) \<and> sel = filter (\<lambda>n. n \<in> set names) (registry_names reg)"
proof -
  have "sort xs = [] \<longleftrightarrow> xs = []" for xs :: "string list" by (metis set_empty set_sort)
  then show ?thesis
    by (auto simp: registry_validate_def registry_names_def Let_def filter_empty_conv)
qed

lemma registry_validate_set:
  "registry_validate reg names = Inr sel \<Longrightarrow> set sel = set names"
  by (auto simp: registry_validate_Inr_iff)

lemma provider_names [simp]:
  "sp_name clamav_provider = ''clamav''" "sp_name virustotal_provider = ''virustotal''"
  "sp_name llm_provider = ''llm_agent''"
  by (simp_all add: clamav_provider_def virustotal_provider_def llm_provider_def)

lemma scan_registry_eq: "scan_registry =
  [(''clamav'', clamav_provider), (''virustotal'', virustotal_provider), (''llm_agent'', llm_provider)]"
  by (simp add: scan_registry_def make_registry_def dict_of_def dict_set_def row_put_def)

lemma scan_registry_names: "registry_names scan_registry = KNOWN_SCAN_PROVIDER_ORDER"
  by (simp add: registry_names_def scan_registry_eq KNOWN_SCAN_PROVIDER_ORDER_def)

lemma scan_registry_legacy: "legacy_public_names scan_registry = [''virustotal'', ''llm_agent'']"
  by (simp add: legacy_public_names_def scan_registry_eq clamav_provider_def virustotal_provider_def
      llm_provider_def)

lemma validate_enabled:
  "registry_validate scan_registry (enabled_providers env w) = Inr (enabled_providers env w)"
proof -
  have "normalize_scan_provider_list ps = filter (\<lambda>p. p \<in> set (normalize_scan_provider_list ps))
      KNOWN_SCAN_PROVIDER_ORDER" for ps
    by (auto simp: normalize_scan_provider_list_def Let_def intro!: filter_cong)
  then have "enabled_providers env w =
      filter (\<lambda>p. p \<in> set (enabled_providers env w)) KNOWN_SCAN_PROVIDER_ORDER"
    unfolding enabled_providers_def .
  with enabled_providers_known show ?thesis
    by (simp add: registry_validate_Inr_iff scan_registry_names)
qed

text \<open>Every provider of the registry tracks as \<open>scan_tracking\<close> asks.\<close>

interpretation clamav_tracking: scan_tracking "sp_apply_tracking clamav_provider" "sp_clear_tracking clamav_provider"
  by (simp add: clamav_provider_def base_tracking.scan_tracking_axioms)

interpretation virustotal_tracking:
  scan_tracking "sp_apply_tracking virustotal_provider" "sp_clear_tracking virustotal_provider"
  by (simp add: virustotal_provider_def vt_tracking.scan_tracking_axioms)

interpretation llm_tracking: scan_tracking "sp_apply_tracking llm_provider" "sp_clear_tracking llm_provider"
  by (simp add: llm_provider_def base_tracking.scan_tracking_axioms)

lemma registry_tracking:
  "registry_get scan_registry name = Some p \<Longrightarrow> scan_tracking (sp_apply_tracking p) (sp_clear_tracking p)"
  by (auto simp: registry_get_def scan_registry_eq clamav_tracking.scan_tracking_axioms
      virustotal_tracking.scan_tracking_axioms llm_tracking.scan_tracking_axioms split: if_splits)

end
