(* ===== verification/ScanGate.thy ===== *)
theory ScanGate
  imports ScanRegistry
begin

text \<open>
  The part of \<open>services/scan_service.py\<close> that reads scan results: the results of a version by provider
  with the fallback to the legacy columns, their public form, and the gate (passed, pending, build
  ready) through which a version becomes public. A version is seen with its scan row and its provider
  results, as \<open>selectinload\<close> loads them.
\<close>

record scan_payload =
  pay_pass :: "bool option"
  pay_msg :: "string option"
  pay_mode :: scan_mode

record version_view =
  vv_version :: version
  vv_scan :: "scan option"
  vv_results :: "provider_result list"

definition load_view :: "db \<Rightarrow> version \<Rightarrow> version_view" where
  "load_view D v = \<lparr>vv_version = v, vv_scan = row_get s_version_id (v_id v) (scans D),
     vv_results = filter (\<lambda>r. pr_version_id r = v_id v) (results D)\<rparr>"

section \<open>Results by provider\<close>

definition provider_result_payload :: "provider_result \<Rightarrow> scan_payload" where
  "provider_result_payload r = \<lparr>pay_pass = pr_passed r, pay_msg = pr_message r, pay_mode = pr_mode r\<rparr>"

definition selects :: "string list option \<Rightarrow> string \<Rightarrow> bool" where
  "selects providers p \<longleftrightarrow> (case providers of None \<Rightarrow> True | Some ps \<Rightarrow> p \<in> set ps)"

definition legacy_results :: "scan \<Rightarrow> scan_payload dict" where
  "legacy_results s =
     [(''virustotal'', \<lparr>pay_pass = s_virustotal_pass s, pay_msg = s_virustotal_msg s, pay_mode = s_virustotal_mode s\<rparr>),
      (''llm_agent'', \<lparr>pay_pass = s_llm_agent_pass s, pay_msg = s_llm_agent_msg s, pay_mode = s_llm_agent_mode s\<rparr>)]"

definition row_results :: "version_view \<Rightarrow> string list option \<Rightarrow> scan_payload dict" where
  "row_results vv providers =
     dict_of (map (\<lambda>r. (pr_provider r, provider_result_payload r))
       (filter (\<lambda>r. pr_kind r = KScan \<and> selects providers (pr_provider r)) (vv_results vv)))"

definition scan_provider_results :: "version_view \<Rightarrow> string list option \<Rightarrow> scan_payload dict" where
  "scan_provider_results vv providers =
     (case vv_scan vv of
       None \<Rightarrow> row_results vv providers
     | Some s \<Rightarrow>
         fold (\<lambda>(p, payload) d. if selects providers p then dict_setdefault p payload d else d)
           (legacy_results s) (row_results vv providers))"

section \<open>The public form\<close>

definition scan_payload_for_public :: "bool \<Rightarrow> scan_payload \<Rightarrow> json" where
  "scan_payload_for_public coerce_unknown_to_false p = JObj
     [(''pass'', if coerce_unknown_to_false then JBool (pay_pass p = Some True) else json_opt_bool (pay_pass p)),
      (''msg'', json_opt_str (pay_msg p)), (''mode'', JStr (scan_mode_str (pay_mode p)))]"

definition public_sec_scan :: "version_view \<Rightarrow> string list option \<Rightarrow> bool \<Rightarrow> json dict" where
  "public_sec_scan vv providers coerce =
     (let rs = scan_provider_results vv providers;
          out = fold (\<lambda>p d. case dict_get p rs of
                  None \<Rightarrow> d
                | Some payload \<Rightarrow> dict_set p (scan_payload_for_public coerce payload) d)
                (legacy_public_names scan_registry) []
      in fold (\<lambda>(p, payload) d.
           if dict_get p d = None \<and> p \<noteq> ''human'' then dict_set p (scan_payload_for_public coerce payload) d
           else d) rs out)"

text \<open>\<open>version_scan_summary\<close>: the public form with the time of the newest result.\<close>

definition version_scan_summary :: "version_view \<Rightarrow> string list option \<Rightarrow> json dict option" where
  "version_scan_summary vv providers =
     (let rs = scan_provider_results vv providers
      in if rs = [] \<and> vv_scan vv = None \<and> providers = None then None
         else
           (let out = public_sec_scan vv providers False;
                legacy = (case vv_scan vv of
                    Some s \<Rightarrow>
                      if list_ex (selects providers) (legacy_public_names scan_registry)
                      then JStr (isoformat (s_scanned_at s)) else JNull
                  | None \<Rightarrow> JNull);
                updated = map pr_updated_at
                  (filter (\<lambda>r. pr_kind r = KScan \<and> selects providers (pr_provider r)) (vv_results vv));
                scanned_at = (if updated \<noteq> [] then JStr (isoformat (fold max (tl updated) (hd updated))) else legacy)
            in Some (dict_set ''scanned_at'' scanned_at out)))"

section \<open>The gate\<close>

text \<open>The loop of \<open>scan_providers_passed\<close> over the selected results.\<close>

fun results_passed :: "scan_payload list \<Rightarrow> bool" where
  "results_passed [] = True"
| "results_passed (r # rs) =
     (if pay_mode r = MSkipped then results_passed rs
      else if pay_mode r = MPending \<or> pay_mode r = MError then False
      else if pay_pass r = Some False then False
      else if pay_pass r = None then False
      else results_passed rs)"

definition scan_providers_passed :: "version_view \<Rightarrow> string list option \<Rightarrow> bool" where
  "scan_providers_passed vv providers =
     (let rs = scan_provider_results vv None in
      case providers of
        None \<Rightarrow> results_passed (map snd rs)
      | Some ps \<Rightarrow>
          (let selected = dict_of (map (\<lambda>p. (p, dict_get p rs)) ps)
           in if list_ex (\<lambda>kv. snd kv = None) selected then False
              else results_passed (some_list (map snd selected))))"

definition scan_passed :: "version_view \<Rightarrow> string list option \<Rightarrow> bool" where
  "scan_passed vv required_providers = scan_providers_passed vv required_providers"

definition scan_providers_pending :: "version_view \<Rightarrow> string list option \<Rightarrow> bool" where
  "scan_providers_pending vv providers =
     list_ex (\<lambda>kv. pay_mode (snd kv) = MPending) (scan_provider_results vv providers)"

definition build_ready_for_scan_policy :: "version_view \<Rightarrow> string list option \<Rightarrow> bool" where
  "build_ready_for_scan_policy vv providers =
     (if v_build_status (vv_version vv) = BSuccess then True
      else if v_build_status (vv_version vv) = BScanning \<and> \<not> scan_providers_pending vv providers then True
      else False)"

definition effective_build_status :: "version_view \<Rightarrow> string list option \<Rightarrow> build_status" where
  "effective_build_status vv providers =
     (if v_build_status (vv_version vv) = BScanning \<and> \<not> scan_providers_pending vv providers then BSuccess
      else v_build_status (vv_version vv))"

section \<open>Lemmas\<close>

definition payload_ok :: "scan_payload \<Rightarrow> bool" where
  "payload_ok r \<longleftrightarrow> pay_mode r = MSkipped \<or> (pay_mode r = MReal \<and> pay_pass r = Some True)"

lemma results_passed_iff: "results_passed rs \<longleftrightarrow> list_all payload_ok rs"
proof (induction rs)
  case (Cons r rs)
  then show ?case by (cases "pay_mode r"; cases "pay_pass r") (auto simp: payload_ok_def)
qed simp

lemma dict_get_in_distinct: "distinct (map fst d) \<Longrightarrow> (k, v) \<in> set d \<longleftrightarrow> dict_get k d = Some v"
  by (simp add: dict_get_def map_of_eq_Some_iff)

lemma dict_of_keys: "fst ` set (dict_of kvs) = fst ` set kvs"
proof -
  have "fst ` set (fold (\<lambda>(k, v) d. dict_set k v d) kvs d) = fst ` set kvs \<union> fst ` set d" for d
    by (induction kvs arbitrary: d) (auto simp: dict_set_def set_row_put image_iff; force)+
  from this[of "[]"] show ?thesis by (simp add: dict_of_def)
qed

lemma fold_dict_set_fun:
  "dict_get k (fold (\<lambda>(k, v) d. dict_set k v d) (map (\<lambda>p. (p, f p)) ps) d) =
     (if k \<in> set ps then Some (f k) else dict_get k d)"
  by (induction ps arbitrary: d) auto

lemma dict_of_fun: "dict_get k (dict_of (map (\<lambda>p. (p, f p)) ps)) = (if k \<in> set ps then Some (f k) else None)"
  by (simp add: dict_of_def fold_dict_set_fun)

lemma set_dict_of_fun: "set (dict_of (map (\<lambda>p. (p, f p)) ps)) = (\<lambda>p. (p, f p)) ` set ps"
proof -
  have "(k, v) \<in> set (dict_of (map (\<lambda>p. (p, f p)) ps)) \<longleftrightarrow> k \<in> set ps \<and> v = f k" for k v
    by (auto simp: dict_get_in_distinct dict_of_fun)
  then show ?thesis by auto
qed

text \<open>The gate, provider by provider: each one has a result, and it is skipped or really passed.\<close>

theorem scan_gate_iff:
  "scan_providers_passed vv (Some ps) \<longleftrightarrow>
     (\<forall>p \<in> set ps. \<exists>r. dict_get p (scan_provider_results vv None) = Some r \<and> payload_ok r)"
proof -
  let ?rs = "scan_provider_results vv None"
  let ?sel = "dict_of (map (\<lambda>p. (p, dict_get p ?rs)) ps)"
  have none: "list_ex (\<lambda>kv. snd kv = None) ?sel \<longleftrightarrow> (\<exists>p \<in> set ps. dict_get p ?rs = None)"
    by (auto simp: list_ex_iff set_dict_of_fun)
  have some: "set (some_list (map snd ?sel)) = {r. \<exists>p \<in> set ps. dict_get p ?rs = Some r}"
    by (auto simp: some_list_def set_dict_of_fun image_iff split: option.splits)
  show ?thesis
    unfolding scan_providers_passed_def Let_def option.case results_passed_iff list_all_iff some none
    by (auto; force)
qed

lemma scan_gate_None_iff:
  "scan_providers_passed vv None \<longleftrightarrow> list_all payload_ok (map snd (scan_provider_results vv None))"
  by (simp add: scan_providers_passed_def results_passed_iff)

lemma row_results_get:
  assumes "distinct (map pr_provider (vv_results vv))"
  shows "dict_get p (row_results vv providers) =
     (case row_get pr_provider p (vv_results vv) of
       None \<Rightarrow> None
     | Some r \<Rightarrow> if pr_kind r = KScan \<and> selects providers p then Some (provider_result_payload r) else None)"
proof -
  let ?P = "\<lambda>r. pr_kind r = KScan \<and> selects providers (pr_provider r)"
  let ?f = "\<lambda>r. (pr_provider r, provider_result_payload r)"
  have d: "distinct (map fst (map ?f (filter ?P (vv_results vv))))"
    using assms by (simp add: comp_def distinct_map_filter)
  have "dict_get p (map ?f rs) = map_option provider_result_payload (row_get pr_provider p rs)" for rs
    by (induction rs) auto
  then show ?thesis
    unfolding row_results_def dict_get_dict_of[OF d]
    by (auto simp: row_get_filter[OF assms] split: option.splits dest: row_get_SomeD)
qed

lemma scan_provider_results_get:
  "dict_get p (scan_provider_results vv providers) =
     (case dict_get p (row_results vv providers) of
       Some r \<Rightarrow> Some r
     | None \<Rightarrow>
         (case vv_scan vv of
           None \<Rightarrow> None
         | Some s \<Rightarrow> if selects providers p then dict_get p (legacy_results s) else None))"
  by (auto simp: scan_provider_results_def legacy_results_def split: option.splits)

lemma build_ready_iff:
  "build_ready_for_scan_policy vv providers \<longleftrightarrow> effective_build_status vv providers = BSuccess"
  by (auto simp: build_ready_for_scan_policy_def effective_build_status_def)

section \<open>Properties\<close>



lemma public_fold_get:
  "dict_get q (fold (\<lambda>p d. case dict_get p rs of None \<Rightarrow> d | Some x \<Rightarrow> dict_set p (f x) d) ps d) =
     (if q \<in> set ps \<and> dict_get q rs \<noteq> None then map_option f (dict_get q rs) else dict_get q d)"
  by (induction ps arbitrary: d) (auto split: option.splits)

lemma public_rest_get:
  assumes "distinct (map fst rs)"
  shows "dict_get q (fold (\<lambda>(p, x) d. if dict_get p d = None \<and> p \<noteq> h then dict_set p (f x) d else d) rs d) =
     (if dict_get q d = None \<and> q \<noteq> h then map_option f (dict_get q rs) else dict_get q d)"
  using assms
proof (induction rs arbitrary: d)
  case (Cons x rs)
  obtain p y where x: "x = (p, y)" by (cases x)
  have "dict_get p rs = None" using Cons.prems by (simp add: x dict_get_None_iff)
  with Cons show ?case by (auto simp: x)
qed simp

lemma distinct_scan_provider_results: "distinct (map fst (scan_provider_results vv providers))"
proof -
  have "distinct (map fst (fold (\<lambda>(p, x) d. if selects providers p then dict_setdefault p x d else d) kvs d))"
    if "distinct (map fst d)" for kvs and d :: "scan_payload dict"
    using that by (induction kvs arbitrary: d) (auto simp: distinct_dict_setdefault)
  then show ?thesis by (simp add: scan_provider_results_def row_results_def split: option.splits)
qed

text \<open>What the public sees of the results: exactly the results of the providers asked for, each in its public form, and
  in particular nothing of a human review and, in the registry document, a pass only where one is on
  record.\<close>

theorem public_results_exact:
  "dict_get p (public_sec_scan vv providers coerce) =
     (if p = ''human'' then None
      else map_option (scan_payload_for_public coerce) (dict_get p (scan_provider_results vv providers)))
   \<and> json_get ''pass'' (scan_payload_for_public True r) = Inr (JBool (pay_pass r = Some True))"
proof -
  let ?rs = "scan_provider_results vv providers"
  have "''human'' \<notin> set (legacy_public_names scan_registry)" by (simp add: scan_registry_legacy)
  then have "dict_get p (public_sec_scan vv providers coerce) =
     (if p = ''human'' then None else map_option (scan_payload_for_public coerce) (dict_get p ?rs))"
    unfolding public_sec_scan_def Let_def public_rest_get[OF distinct_scan_provider_results] public_fold_get
    by (auto split: option.splits)
  then show ?thesis by (simp add: scan_payload_for_public_def)
qed

end
