(* ===== verification/RegistryService.thy ===== *)
theory RegistryService
  imports ScanGate
begin

text \<open>
  \<open>services/registry_service.py\<close>: the registry document generated from the active plugins and their
  latest versions, cached in Redis with its MD5, and the statistics; and the object keys and URLs of
  \<open>services/s3_service.py\<close>. The cache holds the text of the document; it is kept here as the value this
  text denotes, with its keys sorted.
\<close>

section \<open>Object keys and URLs\<close>

definition build_public_url_with_base :: "string \<Rightarrow> string \<Rightarrow> string" where
  "build_public_url_with_base s3_key public_url =
     rstrip_char (CHR ''/'') public_url @ ''/'' @ lstrip_char (CHR ''/'') s3_key"

definition build_public_url :: "env \<Rightarrow> string \<Rightarrow> string" where
  "build_public_url env s3_key =
     rstrip_char (CHR ''/'') (s3_public_url (e_settings env)) @ ''/'' @ lstrip_char (CHR ''/'') s3_key"

definition build_s3_key_with_layout ::
  "plugin \<Rightarrow> string \<Rightarrow> string \<Rightarrow> string option \<Rightarrow> s3_layout \<Rightarrow> string" where
  "build_s3_key_with_layout p ver src commit_sha layout =
     (let short = (if truthy commit_sha then take 7 (or_str commit_sha []) else src);
          filename = p_plugin_key p @ ''-'' @ ver @ ''-'' @ short @ ''.zip'';
          author = (if p_author p = [] then layout_unknown_author layout else p_author p);
          prefix = strip_char (CHR ''/'') (layout_plugins_prefix layout)
      in str_join ''/'' [prefix, author, p_plugin_key p, ver, filename])"

definition build_s3_key :: "env \<Rightarrow> plugin \<Rightarrow> string \<Rightarrow> string \<Rightarrow> string option \<Rightarrow> string" where
  "build_s3_key env p ver src commit_sha =
     (let short = (if truthy commit_sha then take 7 (or_str commit_sha []) else src);
          filename = p_plugin_key p @ ''-'' @ ver @ ''-'' @ short @ ''.zip'';
          author = (if p_author p = [] then s3_unknown_author (e_settings env) else p_author p);
          prefix = strip_char (CHR ''/'') (s3_plugins_prefix (e_settings env))
      in str_join ''/'' [prefix, author, p_plugin_key p, ver, filename])"

section \<open>The document\<close>

definition plugin_versions :: "db \<Rightarrow> uuid \<Rightarrow> version list" where
  "plugin_versions D pid = filter (\<lambda>v. v_plugin_id v = pid) (versions D)"

definition plugin_tag_names :: "db \<Rightarrow> uuid \<Rightarrow> string list" where
  "plugin_tag_names D pid = map snd (filter (\<lambda>pt. fst pt = pid) (plugin_tags D))"

definition fetch_active_plugins :: "db \<Rightarrow> plugin list" where
  "fetch_active_plugins D = filter (\<lambda>p. p_status p = PActive) (plugins D)"

fun get_latest :: "version_view list \<Rightarrow> string list option \<Rightarrow> version_view option" where
  "get_latest [] required = None"
| "get_latest (vv # vvs) required =
     (if v_is_latest (vv_version vv) \<and> v_version_status (vv_version vv) = VActive
         \<and> build_ready_for_scan_policy vv required \<and> scan_passed vv required
      then Some vv else get_latest vvs required)"

definition logo_url :: "env \<Rightarrow> string option \<Rightarrow> string \<Rightarrow> string" where
  "logo_url env logo_s3_key public_url0 =
     (if \<not> truthy logo_s3_key then []
      else (let public_url = (if public_url0 = [] then s3_public_url (e_settings env) else public_url0)
            in rstrip_char (CHR ''/'') public_url @ ''/'' @ lstrip_char (CHR ''/'') (or_str logo_s3_key [])))"

definition format_entry :: "env \<Rightarrow> db \<Rightarrow> plugin \<Rightarrow> version_view \<Rightarrow> string \<Rightarrow> string list option \<Rightarrow> json" where
  "format_entry env D p vv public_url scan_providers =
     (let v = vv_version vv;
          tag_names = JList (map JStr (plugin_tag_names D (p_id p)))
      in JObj
       [(''name'', JStr (p_plugin_key p)), (''display_name'', json_opt_str (p_display_name p)),
        (''desc'', json_opt_str (p_description p)), (''short_desc'', JStr []),
        (''author'', JStr (p_author p)), (''repo'', json_opt_str (p_repo_url p)),
        (''tags'', tag_names), (''tag'', tag_names), (''social_link'', json_opt_str (p_social_link p)),
        (''stars'', JInt (p_stars p)), (''pinned'', JBool (p_pinned p)),
        (''version'', JStr (v_version v)), (''updated_at'', JStr (isoformat (v_created_at v))),
        (''logo'', JStr (logo_url env (p_logo_s3_key p) public_url)),
        (''commit_sha'', json_opt_str (v_commit_sha v)),
        (''download_url'', JStr (or_str (v_download_url v) [])),
        (''sec_scan'', JObj (public_sec_scan vv scan_providers True)),
        (''i18n'', JObj (dict_of (map (\<lambda>i. (i_locale i, i_data i)) (filter (\<lambda>i. i_plugin_id i = p_id p) (i18ns D))))),
        (''astrbot_version'', json_opt_str (p_astrbot_version p)),
        (''support_platforms'', JList (map JStr (case p_support_platforms p of None \<Rightarrow> [] | Some xs \<Rightarrow> xs))),
        (''category'', json_opt_str (p_category p))])"

definition latest_of :: "db \<Rightarrow> string list \<Rightarrow> plugin \<Rightarrow> version_view option" where
  "latest_of D required p = get_latest (map (load_view D) (plugin_versions D (p_id p))) (Some required)"

fun registry_loop :: "env \<Rightarrow> db \<Rightarrow> string \<Rightarrow> string list \<Rightarrow> plugin list \<Rightarrow> json dict \<Rightarrow> json dict" where
  "registry_loop env D public_url required [] registry = registry"
| "registry_loop env D public_url required (p # ps) registry =
     (case latest_of D required p of
       None \<Rightarrow> registry_loop env D public_url required ps registry
     | Some latest \<Rightarrow> registry_loop env D public_url required ps
         (dict_set (p_plugin_key p) (format_entry env D p latest public_url (Some required)) registry))"

definition canonical_registry_json :: "json \<Rightarrow> string" where
  "canonical_registry_json registry = json_dumps False (json_sort registry)"

definition put_registry_json :: "(json \<times> time) option \<Rightarrow> redis_db \<Rightarrow> redis_db" where
  "put_registry_json x rd = rd\<lparr>r_registry_json := x\<rparr>"

definition put_registry_md5 :: "(string \<times> time) option \<Rightarrow> redis_db \<Rightarrow> redis_db" where
  "put_registry_md5 x rd = rd\<lparr>r_registry_md5 := x\<rparr>"

definition cached_json :: "env \<Rightarrow> redis_db option \<Rightarrow> json option" where
  "cached_json env r = (case r of None \<Rightarrow> None | Some rd \<Rightarrow> alive (e_now env) (r_registry_json rd))"

definition cached_md5 :: "env \<Rightarrow> redis_db option \<Rightarrow> string option" where
  "cached_md5 env r =
     (case r of
       None \<Rightarrow> None
     | Some rd \<Rightarrow> (case alive (e_now env) (r_registry_md5 rd) of
           None \<Rightarrow> None | Some m \<Rightarrow> if m = [] then None else Some m))"

definition generate_registry_json :: "env \<Rightarrow> json act" where
  "generate_registry_json env =
     bind_op (gets redis) (\<lambda>client.
     case cached_json env client of
       Some cached \<Rightarrow> ret cached
     | None \<Rightarrow>
       bind_op (query fetch_active_plugins) (\<lambda>ps.
       bind_op (runtime_s3_public_url env) (\<lambda>public_url.
       bind_op (runtime_scan_enabled_providers env) (\<lambda>required.
       bind_op (query (\<lambda>D. JObj (registry_loop env D public_url required ps []))) (\<lambda>registry.
       bind_op (when_op (client \<noteq> None)
         (bind_op (runtime_redis_cache_ttl env) (\<lambda>ttl.
          set_ex put_registry_json (e_now env) (json_sort registry) ttl)))
         (\<lambda>_. ret registry))))))"

definition get_registry_md5 :: "env \<Rightarrow> string act" where
  "get_registry_md5 env =
     bind_op (gets redis) (\<lambda>client.
     case cached_md5 env client of
       Some cached \<Rightarrow> ret cached
     | None \<Rightarrow>
       bind_op (generate_registry_json env) (\<lambda>registry.
       let md5 = e_md5 env (canonical_registry_json registry) in
       bind_op (when_op (client \<noteq> None)
         (bind_op (runtime_redis_cache_ttl env) (\<lambda>ttl. set_ex put_registry_md5 (e_now env) md5 ttl)))
         (\<lambda>_. ret md5)))"

definition refresh_cache :: "env \<Rightarrow> unit act" where
  "refresh_cache env =
     bind_op (on_redis (\<lambda>rd. put_registry_md5 None (put_registry_json None rd))) (\<lambda>_.
     bind_op (generate_registry_json env) (\<lambda>_.
     bind_op (get_registry_md5 env) (\<lambda>_. ret ())))"

record registry_stats =
  total_plugins :: nat
  total_active_versions :: nat
  total_downloads :: int
  total_installs :: int

definition get_stats :: "db \<Rightarrow> registry_stats" where
  "get_stats D = \<lparr>
     total_plugins = length (fetch_active_plugins D),
     total_active_versions = length (filter (\<lambda>v. v_version_status v = VActive
        \<and> v_plugin_id v \<in> set (map p_id (fetch_active_plugins D))) (versions D)),
     total_downloads = sum_list (map z_download_count (stats D)),
     total_installs = sum_list (map z_install_count (stats D))\<rparr>"

section \<open>Lemmas\<close>

text \<open>The document that the session's rows and the configuration give.\<close>

definition registry_of :: "env \<Rightarrow> world \<Rightarrow> json" where
  "registry_of env w = JObj (registry_loop env (sess w)
     (cfg_str env w ''S3_PUBLIC_URL'' (s3_public_url (e_settings env))) (enabled_providers env w)
     (fetch_active_plugins (sess w)) [])"

lemma registry_of_fill [simp]: "registry_of env (fill_config env w) = registry_of env w"
  by (simp add: registry_of_def)

lemma get_latest_SomeD:
  assumes "get_latest vvs req = Some vv"
  shows "vv \<in> set vvs \<and> v_is_latest (vv_version vv) \<and> v_version_status (vv_version vv) = VActive
    \<and> build_ready_for_scan_policy vv req \<and> scan_passed vv req"
  using assms by (induction vvs) (auto split: if_splits)

lemma latest_of_SomeD:
  assumes "latest_of D req p = Some vv"
  shows "vv_version vv \<in> set (versions D) \<and> v_plugin_id (vv_version vv) = p_id p
    \<and> vv = load_view D (vv_version vv) \<and> v_is_latest (vv_version vv)
    \<and> v_version_status (vv_version vv) = VActive \<and> scan_passed vv (Some req)
    \<and> build_ready_for_scan_policy vv (Some req)"
  using get_latest_SomeD[OF assms[unfolded latest_of_def]]
  by (auto simp: plugin_versions_def load_view_def)

lemma registry_loop_get:
  assumes "distinct (map p_plugin_key ps)"
  shows "dict_get k (registry_loop env D url req ps reg) =
     (case row_get p_plugin_key k ps of
       None \<Rightarrow> dict_get k reg
     | Some p \<Rightarrow> (case latest_of D req p of
           None \<Rightarrow> dict_get k reg
         | Some vv \<Rightarrow> Some (format_entry env D p vv url (Some req))))"
  using assms
proof (induction ps arbitrary: reg)
  case (Cons p ps)
  have "row_get p_plugin_key (p_plugin_key p) ps = None"
    using Cons.prems by (auto simp: row_get_None_iff)
  with Cons show ?case by (auto split: option.splits)
qed simp

text \<open>Generating writes nothing but the cache.\<close>

lemma sess_committed_set_ex:
  "set_ex put now v ttl w = (r, u) \<Longrightarrow> sess u = sess w \<and> committed u = committed w
     \<and> uuid_next u = uuid_next w \<and> s3_keys u = s3_keys w"
  by (auto simp: set_ex_def bind_op_def guard_op_def ret_def raise_def on_redis_def modify_def split: if_splits)

definition db_part :: "world \<Rightarrow> db \<times> db \<times> nat \<times> string list" where
  "db_part w = (committed w, sess w, uuid_next w, s3_keys w)"

lemma db_part_fill [simp]: "db_part (fill_config env w) = db_part w"
  by (simp add: db_part_def)

lemma frames_db_part_set_ex: "keeps (\<lambda>w. db_part w = x) (set_ex put now v ttl)"
  unfolding set_ex_def by (intro keeps_intros) (simp add: keeps_def db_part_def)

lemma frames_getters: "keeps (\<lambda>w. db_part w = x) (runtime_str env k s)"
  "keeps (\<lambda>w. db_part w = x) (runtime_int env k i)" "keeps (\<lambda>w. db_part w = x) (runtime_list env k l)"
  "keeps (\<lambda>w. db_part w = x) (runtime_bool env k b)"
  by (rule keeps_get_runtime_value; simp)+

lemma keeps_query [keeps_intros]: "keeps I (query f)"
  by (simp add: keeps_def)

lemma frames_generate: "keeps (\<lambda>w. db_part w = x) (generate_registry_json env)"
  unfolding generate_registry_json_def runtime_s3_public_url_def runtime_scan_enabled_providers_def
    runtime_redis_cache_ttl_def
  by (intro keeps_intros frames_db_part_set_ex frames_getters)

lemma frames_md5: "keeps (\<lambda>w. db_part w = x) (get_registry_md5 env)"
  unfolding get_registry_md5_def runtime_redis_cache_ttl_def
  by (intro keeps_intros frames_db_part_set_ex frames_getters frames_generate)

lemma frames_refresh: "keeps (\<lambda>w. db_part w = x) (refresh_cache env)"
  unfolding refresh_cache_def
  by (intro keeps_intros frames_generate frames_md5) (simp add: keeps_def db_part_def)

lemma refresh_cache_db:
  assumes "refresh_cache env w = (r, v)"
  shows "committed v = committed w" "sess v = sess w" "uuid_next v = uuid_next w" "s3_keys v = s3_keys w"
  using keepsD[OF frames_refresh[of "db_part w" env] refl assms] by (auto simp: db_part_def)

lemma keeps_world_ok_refresh [keeps_intros]: "keeps world_ok (refresh_cache env)"
proof (rule keepsI)
  fix w assume "world_ok w"
  then show "world_ok (snd (refresh_cache env w))"
    by (cases "refresh_cache env w") (simp add: world_ok_def refresh_cache_db)
qed

section \<open>A refreshed cache is the document of the database\<close>

lemma cached_config_put [simp]:
  "cached_config env (put_registry_json x rd) = cached_config env rd"
  "cached_config env (put_registry_md5 y rd) = cached_config env rd"
  by (simp_all add: cached_config_def put_registry_json_def put_registry_md5_def)

text \<open>Writing the registry keys leaves the configuration as it is read, and the tasks that wait in line.\<close>

definition reg_put :: "(redis_db \<Rightarrow> redis_db) \<Rightarrow> world \<Rightarrow> world" where
  "reg_put f w = w\<lparr>redis := map_option f (redis w)\<rparr>"

definition config_blind :: "env \<Rightarrow> (redis_db \<Rightarrow> redis_db) \<Rightarrow> bool" where
  "config_blind env f \<longleftrightarrow> (\<forall>rd. cached_config env (f rd) = cached_config env rd
     \<and> (\<exists>new. r_queue (f rd) = r_queue rd @ new))"

lemma config_blind_put [simp]:
  "config_blind env (put_registry_json x)" "config_blind env (put_registry_md5 y)"
  "config_blind env (\<lambda>rd. put_registry_md5 y (put_registry_json x rd))"
  by (simp_all add: config_blind_def) (simp_all add: put_registry_json_def put_registry_md5_def)

lemma reg_put_fields [simp]:
  "sess (reg_put f w) = sess w" "committed (reg_put f w) = committed w"
  "redis (reg_put f w) = map_option f (redis w)" "db_part (reg_put f w) = db_part w"
  by (simp_all add: reg_put_def db_part_def)

lemma runtime_values_reg_put [simp]:
  "config_blind env f \<Longrightarrow> runtime_values env (reg_put f w) = runtime_values env w"
  by (simp add: runtime_values_def config_blind_def split: option.splits)

lemma cfg_reg_put [simp]:
  assumes "config_blind env f"
  shows "cfg_str env (reg_put f w) = cfg_str env w" "cfg_int env (reg_put f w) = cfg_int env w"
    "cfg_list env (reg_put f w) = cfg_list env w" "cfg_bool env (reg_put f w) = cfg_bool env w"
    "enabled_providers env (reg_put f w) = enabled_providers env w"
    "registry_of env (reg_put f w) = registry_of env w"
  using assms
  by (simp_all add: cfg_str_def cfg_int_def cfg_list_def cfg_bool_def cfg_raw_def fun_eq_iff
      enabled_providers_def registry_of_def)

definition cache_ttl :: "env \<Rightarrow> world \<Rightarrow> exn + int" where
  "cache_ttl env w = cfg_int env w ''REDIS_CACHE_TTL'' (redis_cache_ttl (e_settings env))"

lemma cache_ttl_simps [simp]:
  "cache_ttl env (fill_config env w) = cache_ttl env w"
  "config_blind env f \<Longrightarrow> cache_ttl env (reg_put f w) = cache_ttl env w"
  by (simp_all add: cache_ttl_def)

definition expiry :: "env \<Rightarrow> int \<Rightarrow> time" where
  "expiry env ttl = e_now env + ttl * us_per_second"

lemma now_before_expiry [simp]: "0 < ttl \<Longrightarrow> e_now env < expiry env ttl"
  by (simp add: expiry_def us_per_second_def)

text \<open>A miss: the document is generated and, with Redis, stored for a positive time to live.\<close>

lemma generate_hit:
  "cached_json env (redis w) = Some j \<Longrightarrow> generate_registry_json env w = (Inr j, w)"
  by (simp add: generate_registry_json_def bind_op_def gets_def ret_def)

lemma generate_miss:
  assumes "cached_json env (redis w) = None"
  shows "generate_registry_json env w =
    (if redis w = None then (Inr (registry_of env w), fill_config env w)
     else (case cache_ttl env w of
         Inl e \<Rightarrow> (Inl e, fill_config env w)
       | Inr ttl \<Rightarrow>
           if 0 < ttl then (Inr (registry_of env w),
             reg_put (put_registry_json (Some (json_sort (registry_of env w), expiry env ttl))) (fill_config env w))
           else (Inl (ResponseError ''invalid expire time''), fill_config env w)))"
proof (cases "redis w")
  case None
  with assms show ?thesis
    by (simp add: generate_registry_json_def bind_op_def runtime_s3_public_url_apply
        runtime_scan_enabled_providers_apply registry_of_def)
next
  case (Some rd)
  with assms show ?thesis
    by (cases "cache_ttl env w")
       (simp_all add: generate_registry_json_def bind_op_def runtime_s3_public_url_apply
         runtime_scan_enabled_providers_apply runtime_redis_cache_ttl_apply cache_ttl_def[symmetric]
         registry_of_def set_ex_def reg_put_def expiry_def)
qed

lemma cached_json_put [simp]:
  "cached_json env (map_option (put_registry_json x) r) = (if r = None then None else alive (e_now env) x)"
  "cached_json env (map_option (put_registry_md5 y) r) = cached_json env r"
  by (auto simp: cached_json_def put_registry_json_def put_registry_md5_def split: option.splits)

lemma cached_json_fill [simp]: "cached_json env (redis (fill_config env w)) = cached_json env (redis w)"
  and cached_md5_fill [simp]: "cached_md5 env (redis (fill_config env w)) = cached_md5 env (redis w)"
  by (auto simp: cached_json_def cached_md5_def fill_config_def split: option.splits)

lemma cached_md5_put [simp]:
  "cached_md5 env (map_option (put_registry_json x) r) = cached_md5 env r"
  "cached_md5 env (map_option (put_registry_md5 (Some (m, t))) r) =
     (if r = None \<or> m = [] \<or> t \<le> e_now env then None else Some m)"
  by (auto simp: cached_md5_def put_registry_json_def put_registry_md5_def split: option.splits)

lemma canonical_sorted [simp]: "canonical_registry_json (json_sort j) = canonical_registry_json j"
  by (simp add: canonical_registry_json_def)

lemma md5_miss_hit:
  assumes "cached_md5 env (redis w) = None" "cached_json env (redis w) = Some j"
  shows "get_registry_md5 env w =
    (case cache_ttl env w of
       Inl e \<Rightarrow> (Inl e, fill_config env w)
     | Inr ttl \<Rightarrow>
         if 0 < ttl then (Inr (e_md5 env (canonical_registry_json j)),
           reg_put (put_registry_md5 (Some (e_md5 env (canonical_registry_json j), expiry env ttl))) (fill_config env w))
         else (Inl (ResponseError ''invalid expire time''), fill_config env w))"
proof -
  have "redis w \<noteq> None" using assms(2) by (cases "redis w") (auto simp: cached_json_def)
  with assms show ?thesis
    by (cases "cache_ttl env w")
       (simp_all add: get_registry_md5_def bind_op_def generate_hit Let_def runtime_redis_cache_ttl_apply
         cache_ttl_def[symmetric] set_ex_def reg_put_def expiry_def)
qed

lemma refresh_cache_result:
  assumes "redis w = Some rd" and "cache_ttl env w = Inr ttl" and "0 < ttl"
  defines "j \<equiv> registry_of env w"
  shows "\<exists>v. refresh_cache env w = (Inr (), v) \<and> cached_json env (redis v) = Some (json_sort j)
    \<and> (e_md5 env (canonical_registry_json j) \<noteq> [] \<longrightarrow>
        cached_md5 env (redis v) = Some (e_md5 env (canonical_registry_json j)))"
proof -
  let ?w1 = "reg_put (\<lambda>rd. put_registry_md5 None (put_registry_json None rd)) w"
  let ?w2 = "reg_put (put_registry_json (Some (json_sort j, expiry env ttl))) (fill_config env ?w1)"
  let ?m = "e_md5 env (canonical_registry_json j)"
  let ?w3 = "reg_put (put_registry_md5 (Some (?m, expiry env ttl))) (fill_config env ?w2)"
  have none: "cached_json env (redis ?w1) = None" "cached_md5 env (redis ?w1) = None"
    using assms(1) by (simp_all add: cached_json_def cached_md5_def put_registry_json_def put_registry_md5_def)
  have g: "generate_registry_json env ?w1 = (Inr j, ?w2)"
    using generate_miss[OF none(1)] assms by (simp add: j_def)
  have c2: "cached_json env (redis ?w2) = Some (json_sort j)" "cached_md5 env (redis ?w2) = None"
    using none(2) assms(1,3) by simp_all
  have t2: "cache_ttl env ?w2 = Inr ttl" using assms(2) by simp
  have m: "get_registry_md5 env ?w2 = (Inr ?m, ?w3)"
    using md5_miss_hit[OF c2(2,1)] assms(3) by (simp only: t2 sum.case canonical_sorted if_True)
  have "refresh_cache env w = (Inr (), ?w3)"
    using g m by (simp add: refresh_cache_def bind_op_def on_redis_def modify_def ret_def reg_put_def[symmetric])
  moreover have "cached_json env (redis ?w3) = Some (json_sort j)"
    using c2(1) by simp
  moreover have "?m \<noteq> [] \<longrightarrow> cached_md5 env (redis ?w3) = Some ?m"
    using assms(1) now_before_expiry[OF assms(3), of env] by auto
  ultimately show ?thesis by blast
qed

lemma refresh_cache_no_redis:
  "redis w = None \<Longrightarrow> refresh_cache env w = (Inr (), w)"
  by (simp add: refresh_cache_def get_registry_md5_def bind_op_def on_redis_def modify_def ret_def gets_def
      cached_md5_def cached_json_def generate_miss when_op_def Let_def fill_config_def)

lemma refresh_cache_ttl_error:
  assumes "redis w = Some rd" and "\<nexists>ttl. cache_ttl env w = Inr ttl \<and> 0 < ttl"
  shows "\<exists>e. fst (refresh_cache env w) = Inl e"
proof -
  let ?w1 = "reg_put (\<lambda>rd. put_registry_md5 None (put_registry_json None rd)) w"
  have none: "cached_json env (redis ?w1) = None"
    using assms(1) by (simp add: cached_json_def put_registry_json_def put_registry_md5_def)
  have "\<exists>e v. generate_registry_json env ?w1 = (Inl e, v)"
    using assms unfolding generate_miss[OF none] by (auto split: sum.splits)
  then show ?thesis
    by (auto simp: refresh_cache_def bind_op_def on_redis_def modify_def reg_put_def[symmetric])
qed

lemma refresh_cache_Inr_iff:
  "fst (refresh_cache env w) = Inr () \<longleftrightarrow>
     redis w = None \<or> (\<exists>ttl. cache_ttl env w = Inr ttl \<and> 0 < ttl)"
proof (cases "redis w")
  case None
  then show ?thesis by (simp add: refresh_cache_no_redis)
next
  case (Some rd)
  then show ?thesis
    using refresh_cache_ttl_error[OF Some] refresh_cache_result[OF Some]
    by (metis Inl_Inr_False fst_conv option.distinct(1))
qed

section \<open>Properties\<close>

text \<open>Refreshing the cache fails exactly when there is a cache and the configured time to live is not a
  positive number; without Redis it always succeeds.\<close>

theorem refresh_cache_succeeds_iff:
  "fst (refresh_cache env w) = Inr () \<longleftrightarrow>
     redis w = None \<or> (\<exists>ttl. cache_ttl env w = Inr ttl \<and> 0 < ttl)"
  by (rule refresh_cache_Inr_iff)

lemma get_latest_finds:
  assumes "vv \<in> set vvs" "v_is_latest (vv_version vv)" "v_version_status (vv_version vv) = VActive"
    "build_ready_for_scan_policy vv req" "scan_passed vv req"
    "\<And>x. x \<in> set vvs \<Longrightarrow> v_is_latest (vv_version x) \<Longrightarrow> x = vv"
  shows "get_latest vvs req = Some vv"
  using assms(1,6)
proof (induction vvs)
  case (Cons y ys)
  show ?case
  proof (cases "y = vv")
    case False
    then have "\<not> v_is_latest (vv_version y)" using Cons.prems(2)[of y] by auto
    with Cons False show ?thesis by simp
  qed (simp add: assms(2-5))
qed simp

lemma latest_of_iff:
  assumes "db_ok D"
  shows "latest_of D req p = Some vv \<longleftrightarrow>
    (\<exists>v \<in> set (versions D). vv = load_view D v \<and> v_plugin_id v = p_id p \<and> v_is_latest v \<and> v_version_status v = VActive
       \<and> build_ready_for_scan_policy vv (Some req) \<and> scan_passed vv (Some req))"
proof
  assume "latest_of D req p = Some vv"
  from latest_of_SomeD[OF this] show "\<exists>v \<in> set (versions D). vv = load_view D v \<and> v_plugin_id v = p_id p \<and> v_is_latest v
      \<and> v_version_status v = VActive \<and> build_ready_for_scan_policy vv (Some req) \<and> scan_passed vv (Some req)"
    by (intro bexI[of _ "vv_version vv"]) auto
next
  have d: "distinct (map v_plugin_id (filter v_is_latest (versions D)))" using assms by (simp add: db_ok_def versions_ok_def)
  assume "\<exists>v \<in> set (versions D). vv = load_view D v \<and> v_plugin_id v = p_id p \<and> v_is_latest v
      \<and> v_version_status v = VActive \<and> build_ready_for_scan_policy vv (Some req) \<and> scan_passed vv (Some req)"
  then obtain v where v: "v \<in> set (versions D)" "vv = load_view D v" "v_plugin_id v = p_id p" "v_is_latest v"
    "v_version_status v = VActive" "build_ready_for_scan_policy vv (Some req)" "scan_passed vv (Some req)" by blast
  have "x = vv" if "x \<in> set (map (load_view D) (plugin_versions D (p_id p)))" "v_is_latest (vv_version x)" for x
  proof -
    from that obtain y where y: "x = load_view D y" "y \<in> set (versions D)" "v_plugin_id y = p_id p" "v_is_latest y"
      by (auto simp: plugin_versions_def load_view_def)
    have "y = v" using d y v by (auto simp: distinct_map inj_on_def)
    with y v show ?thesis by simp
  qed
  then show "latest_of D req p = Some vv" unfolding latest_of_def
    using v by (intro get_latest_finds) (auto simp: plugin_versions_def load_view_def)
qed

text \<open>C11 (refinement). The generated document refines what a registry is: an entry under a key is the entry of the
  active plugin with that key and of its latest version, which is active, built and passed by every
  enabled provider; every such plugin has its entry, and no other key occurs.\<close>

theorem registry_lists_exactly_published:
  assumes "db_ok (sess w)" "cached_json env (redis w) = None" "generate_registry_json env w = (Inr j, u)"
  shows "\<exists>doc. j = JObj doc \<and> (\<forall>key entry. dict_get key doc = Some entry \<longleftrightarrow>
    (\<exists>p v. p \<in> set (plugins (sess w)) \<and> p_status p = PActive \<and> p_plugin_key p = key
      \<and> v \<in> set (versions (sess w)) \<and> v_plugin_id v = p_id p \<and> v_is_latest v \<and> v_version_status v = VActive
      \<and> build_ready_for_scan_policy (load_view (sess w) v) (Some (enabled_providers env w))
      \<and> scan_passed (load_view (sess w) v) (Some (enabled_providers env w))
      \<and> entry = format_entry env (sess w) p (load_view (sess w) v)
          (cfg_str env w ''S3_PUBLIC_URL'' (s3_public_url (e_settings env))) (Some (enabled_providers env w))))"
proof -
  let ?D = "sess w" and ?url = "cfg_str env w ''S3_PUBLIC_URL'' (s3_public_url (e_settings env))" and ?req = "enabled_providers env w"
  let ?ps = "fetch_active_plugins ?D"
  let ?doc = "registry_loop env ?D ?url ?req ?ps []"
  have j: "j = JObj ?doc"
    using assms(3) unfolding generate_miss[OF assms(2)] by (auto simp: registry_of_def split: if_splits sum.splits)
  have d: "distinct (map p_plugin_key ?ps)"
    using assms(1) by (simp add: db_ok_def plugins_ok_def fetch_active_plugins_def distinct_map_filter)
  have row: "row_get p_plugin_key k ?ps = Some p \<longleftrightarrow> p \<in> set (plugins ?D) \<and> p_status p = PActive \<and> p_plugin_key p = k" for k p
    using row_get_distinct[OF d] by (auto simp: fetch_active_plugins_def dest: row_get_SomeD)
  have "dict_get key ?doc = Some entry \<longleftrightarrow> (\<exists>p vv. row_get p_plugin_key key ?ps = Some p \<and> latest_of ?D ?req p = Some vv
      \<and> entry = format_entry env ?D p vv ?url (Some ?req))" for key entry
    unfolding registry_loop_get[OF d] by (auto split: option.splits)
  then show ?thesis unfolding j row latest_of_iff[OF assms(1)] by (intro exI[of _ ?doc]) blast
qed

theorem registry_lists_exactly_published_witness:
  "\<exists>doc u entry. generate_registry_json sample_env (sample_world sample_published None) = (Inr (JObj doc), u)
    \<and> dict_get ''weather'' doc = Some entry"
proof -
  let ?w = "sample_world sample_published None"
  obtain j u where run: "generate_registry_json sample_env ?w = (Inr j, u)"
    using generate_miss[of sample_env ?w] by (simp add: cached_json_def)
  from registry_lists_exactly_published[OF _ _ run] obtain doc where doc: "j = JObj doc"
    and iff: "\<And>key entry. dict_get key doc = Some entry \<longleftrightarrow>
      (\<exists>p v. p \<in> set (plugins sample_published) \<and> p_status p = PActive \<and> p_plugin_key p = key
      \<and> v \<in> set (versions sample_published) \<and> v_plugin_id v = p_id p \<and> v_is_latest v \<and> v_version_status v = VActive
      \<and> build_ready_for_scan_policy (load_view sample_published v) (Some (enabled_providers sample_env ?w))
      \<and> scan_passed (load_view sample_published v) (Some (enabled_providers sample_env ?w))
      \<and> entry = format_entry sample_env sample_published p (load_view sample_published v)
          (cfg_str sample_env ?w ''S3_PUBLIC_URL'' (s3_public_url (e_settings sample_env))) (Some (enabled_providers sample_env ?w)))"
    by (auto simp: cached_json_def)
  let ?p = "hd (plugins sample_published)" and ?v = "hd (versions sample_published)"
  have m: "?p \<in> set (plugins sample_published)" "?v \<in> set (versions sample_published)"
    by (simp_all add: sample_published_def sample_db_def)
  have "p_status ?p = PActive \<and> p_plugin_key ?p = ''weather'' \<and> v_plugin_id ?v = p_id ?p \<and> v_is_latest ?v \<and> v_version_status ?v = VActive
      \<and> build_ready_for_scan_policy (load_view sample_published ?v) (Some (enabled_providers sample_env ?w))
      \<and> scan_passed (load_view sample_published ?v) (Some (enabled_providers sample_env ?w))"
    by code_simp
  with m have "dict_get ''weather'' doc = Some (format_entry sample_env sample_published ?p (load_view sample_published ?v)
          (cfg_str sample_env ?w ''S3_PUBLIC_URL'' (s3_public_url (e_settings sample_env))) (Some (enabled_providers sample_env ?w)))"
    unfolding iff by blast
  with doc run show ?thesis by blast
qed

text \<open>The object keys of two versions of a plugin differ when their version numbers do, whatever they were
  built from, as long as the numbers contain no slash: no upload overwrites the artifact of another
  version number.\<close>

theorem s3_keys_of_versions_differ:
  assumes "CHR ''/'' \<notin> set ver1" "CHR ''/'' \<notin> set ver2" "ver1 \<noteq> ver2"
  shows "build_s3_key_with_layout p ver1 src1 sha1 layout \<noteq> build_s3_key_with_layout p ver2 src2 sha2 layout"
proof
  assume eq: "build_s3_key_with_layout p ver1 src1 sha1 layout = build_s3_key_with_layout p ver2 src2 sha2 layout"
  have "takeWhile (\<lambda>c. c \<noteq> CHR ''/'') (v @ CHR ''/'' # t) = v" if "CHR ''/'' \<notin> set v" for v t
    using that by (subst takeWhile_append2) auto
  moreover obtain t1 t2 where "ver1 @ CHR ''/'' # t1 = ver2 @ CHR ''/'' # t2"
    using eq by (auto simp: build_s3_key_with_layout_def Let_def)
  ultimately show False using assms by metis
qed

theorem s3_keys_of_versions_differ_witness:
  "build_s3_key_with_layout sample_plugin ''1.0.0'' ''git_auto'' None \<lparr>layout_plugins_prefix = ''plugins'', layout_unknown_author = ''unknown''\<rparr>
    \<noteq> build_s3_key_with_layout sample_plugin ''1.0.1'' ''git_auto'' None \<lparr>layout_plugins_prefix = ''plugins'', layout_unknown_author = ''unknown''\<rparr>"
  by (rule s3_keys_of_versions_differ) simp_all

end
