(* ===== verification/MetadataParser.thy ===== *)
theory MetadataParser
  imports RegistryService
begin

text \<open>
  \<open>utils/metadata_parser.py\<close>: the metadata of a plugin after its fields have been validated, the
  normalisation that runs last, the plugin key, and the text stored with a version. YAML itself is read
  by PyYAML and the types of the fields are checked by pydantic.
\<close>

record plugin_metadata =
  m_name :: string
  m_display_name :: "string option"
  m_desc :: "string option"
  m_short_desc :: "string option"
  m_author :: string
  m_version :: string
  m_repo :: "string option"
  m_tags :: "string list"
  m_category :: "string option"
  m_social_link :: "string option"
  m_logo :: "string option"
  m_astrbot_version :: "string option"
  m_support_platforms :: "string list"
  m_i18n :: "json dict"

definition normalize_metadata :: "plugin_metadata \<Rightarrow> plugin_metadata" where
  "normalize_metadata m =
     m\<lparr>m_display_name := (if truthy (m_display_name m) then m_display_name m else Some (m_name m)),
       m_desc := (if truthy (m_desc m) then m_desc m else Some (or_str (m_short_desc m) []))\<rparr>"

definition infer_plugin_key :: "string \<Rightarrow> string" where
  "infer_plugin_key name = replace_char (CHR ''_'') (CHR ''-'') (str_lower (str_strip name))"

text \<open>\<open>metadata.model_dump_json()\<close>.\<close>

definition metadata_json :: "plugin_metadata \<Rightarrow> string" where
  "metadata_json m = json_dumps False (JObj
     [(''name'', JStr (m_name m)), (''display_name'', json_opt_str (m_display_name m)),
      (''desc'', json_opt_str (m_desc m)), (''short_desc'', json_opt_str (m_short_desc m)),
      (''author'', JStr (m_author m)), (''version'', JStr (m_version m)), (''repo'', json_opt_str (m_repo m)),
      (''tags'', JList (map JStr (m_tags m))), (''category'', json_opt_str (m_category m)),
      (''social_link'', json_opt_str (m_social_link m)), (''logo'', json_opt_str (m_logo m)),
      (''astrbot_version'', json_opt_str (m_astrbot_version m)),
      (''support_platforms'', JList (map JStr (m_support_platforms m))), (''i18n'', JObj (m_i18n m))])"

lemma infer_plugin_key_no_underscore: "CHR ''_'' \<notin> set (infer_plugin_key name)"
  by (auto simp: infer_plugin_key_def replace_char_def)

lemma normalize_metadata_idem [simp]: "normalize_metadata (normalize_metadata m) = normalize_metadata m"
  by (auto simp: normalize_metadata_def or_str_def split: option.splits)

end
