(* ===== verification/GitUtils.thy ===== *)
theory GitUtils
  imports MetadataParser
begin

text \<open>
  \<open>utils/git_utils.py\<close>: the URL of a repository, its size before cloning, the commands that clone it and
  the token they carry. Running a command, an answer of the GitHub API and what a checkout holds are
  functions of \<open>git_world\<close>. \<open>urlparse\<close> is modelled for URLs whose authority has no square bracket; a
  text is its code points below 256, encoded as UTF-8 where the code encodes it.
\<close>

section \<open>What git and GitHub answer\<close>

datatype api_reply = ApiOk "json option" | ApiHttpError nat string | ApiUrlError string | ApiTimeout

datatype run_result = RunOk string | RunFailed string | RunTimeout

record tree_file =
  tf_parts :: "string list"
  tf_is_file :: bool
  tf_size :: int
  tf_bytes :: string

record git_world =
  g_fetch :: "string \<Rightarrow> (string \<times> string) list \<Rightarrow> string \<Rightarrow> api_reply"
  g_run :: "string list \<Rightarrow> (string \<times> string) list option \<Rightarrow> run_result"
  g_head :: "string \<Rightarrow> string option"
  g_head_error :: "string \<Rightarrow> string"
  g_tmp :: string
  g_tree :: "string \<Rightarrow> tree_file list"
  g_metadata :: "string \<Rightarrow> exn + string"
  g_yaml_load :: "string \<Rightarrow> exn + json"
  g_yaml_dump :: "json dict \<Rightarrow> string"
  g_validate :: "json dict \<Rightarrow> exn + plugin_metadata"
  g_fromisoformat :: "string \<Rightarrow> time option"
  g_zip :: "tree_file list \<Rightarrow> string"

section \<open>URLs\<close>

definition ascii_letter :: "char \<Rightarrow> bool" where
  "ascii_letter c \<longleftrightarrow> (65 \<le> (of_char c :: nat) \<and> of_char c \<le> (90 :: nat)) \<or> (97 \<le> (of_char c :: nat) \<and> of_char c \<le> (122 :: nat))"

definition scheme_char :: "char \<Rightarrow> bool" where
  "scheme_char c \<longleftrightarrow> ascii_letter c \<or> is_digit c \<or> c = CHR ''+'' \<or> c = CHR ''-'' \<or> c = CHR ''.''"

record url_parts =
  u_scheme :: string
  u_netloc :: string
  u_path :: string

text \<open>\<open>urlparse\<close>: blanks and control characters in front and tabs and line breaks anywhere go; the scheme ends
  at the first colon, the authority at the first of slash, question mark and hash, the path at hash,
  question mark and, in its last segment, semicolon.\<close>

definition split_scheme :: "string \<Rightarrow> string \<times> string" where
  "split_scheme s =
     (case split_once '':'' s of
       Some (a, b) \<Rightarrow> if a \<noteq> [] \<and> ascii_letter (hd a) \<and> list_all scheme_char a then (str_lower a, b) else ([], s)
     | None \<Rightarrow> ([], s))"

definition split_netloc :: "string \<Rightarrow> string \<times> string" where
  "split_netloc s =
     (if starts_with s ''//'' then (takeWhile (\<lambda>c. c \<notin> set ''/?#'') (drop 2 s), dropWhile (\<lambda>c. c \<notin> set ''/?#'') (drop 2 s))
      else ([], s))"

definition last_segment :: "string \<Rightarrow> string" where
  "last_segment s = rev (takeWhile (\<lambda>c. c \<noteq> CHR ''/'') (rev s))"

definition drop_params :: "string \<Rightarrow> string" where
  "drop_params s = take (length s - length (last_segment s)) s @ takeWhile (\<lambda>c. c \<noteq> CHR '';'') (last_segment s)"

definition SCHEMES_WITH_PARAMS :: "string list" where
  "SCHEMES_WITH_PARAMS = [[], ''ftp'', ''hdl'', ''prospero'', ''http'', ''https'', ''shttp'', ''rtsp'', ''rtsps'',
     ''rtspu'', ''sip'', ''sips'', ''mms'', ''sftp'', ''tel'']"

definition urlparse :: "string \<Rightarrow> url_parts" where
  "urlparse url =
     (let s = filter (\<lambda>c. c \<notin> {CHR 0x09, CHR 0x0A, CHR 0x0D}) (dropWhile (\<lambda>c. (of_char c :: nat) \<le> 32) url) in
      case split_scheme s of (scheme, r) \<Rightarrow>
      case split_netloc r of (netloc, r) \<Rightarrow>
      let path = takeWhile (\<lambda>c. c \<noteq> CHR ''?'') (takeWhile (\<lambda>c. c \<noteq> CHR ''#'') r)
      in \<lparr>u_scheme = scheme, u_netloc = netloc,
          u_path = (if scheme \<in> set SCHEMES_WITH_PARAMS then drop_params path else path)\<rparr>)"

text \<open>\<open>(urlparse(url).hostname or "").lower()\<close>.\<close>

definition url_hostname :: "string \<Rightarrow> string" where
  "url_hostname url = str_lower (takeWhile (\<lambda>c. c \<noteq> CHR '':'')
     (rev (takeWhile (\<lambda>c. c \<noteq> CHR ''@'') (rev (u_netloc (urlparse url))))))"

definition hosts_or_default :: "env \<Rightarrow> string list option \<Rightarrow> string list" where
  "hosts_or_default env allowed_hosts =
     (case allowed_hosts of Some (h # hs) \<Rightarrow> h # hs | _ \<Rightarrow> git_allowed_hosts (e_settings env))"

text \<open>What may follow the repository in \<open>_GITHUB_URL_RE\<close>: nothing, \<open>.git\<close>, and a final line feed.\<close>

definition git_tail :: "string \<Rightarrow> bool" where
  "git_tail t \<longleftrightarrow> t = [] \<or> t = [CHR 0x0A] \<or> str_lower t = ''.git'' \<or> str_lower t = ''.git'' @ [CHR 0x0A]"

definition github_prefix :: "string \<Rightarrow> nat option" where
  "github_prefix url =
     (if starts_with (str_lower url) ''https://github.com/'' then Some 19
      else if starts_with (str_lower url) ''http://github.com/'' then Some 18 else None)"

text \<open>The match of \<open>_GITHUB_URL_RE\<close>: the owner up to the next slash, then the shortest repository that leaves
  such a tail.\<close>

definition github_match :: "string \<Rightarrow> (string \<times> string) option" where
  "github_match url =
     (case github_prefix url of
       None \<Rightarrow> None
     | Some n \<Rightarrow>
         (let rest = drop n url;
              owner = takeWhile (\<lambda>c. c \<noteq> CHR ''/'') rest;
              tail = drop (length owner + 1) rest
          in if owner = [] \<or> length rest = length owner \<or> CHR ''/'' \<in> set tail then None
             else map_option (\<lambda>n. (owner, take n tail)) (find (\<lambda>n. git_tail (drop n tail)) [1..<Suc (length tail)])))"

definition parse_github_url :: "env \<Rightarrow> string \<Rightarrow> string list option \<Rightarrow> exn + (string \<times> string)" where
  "parse_github_url env url allowed_hosts =
     (let host = url_hostname url
      in if host \<notin> set (hosts_or_default env allowed_hosts)
         then Inl (ValueError (''Git host is not allowed: '' @ host))
         else (case github_match url of
             None \<Rightarrow> Inl (ValueError (''Invalid GitHub URL: '' @ url))
           | Some r \<Rightarrow> Inr r))"

definition is_sha :: "string \<Rightarrow> bool" where
  "is_sha ref \<longleftrightarrow> length ref = 40 \<and> list_all (\<lambda>c. c \<in> set ''0123456789abcdef'') (str_lower ref)"

section \<open>Bytes\<close>

definition hex_upper :: "nat \<Rightarrow> char" where
  "hex_upper n = (if n < 10 then char_of (48 + n) else char_of (55 + n))"

definition url_quote :: "string \<Rightarrow> string \<Rightarrow> string" where
  "url_quote safe s = concat (map (\<lambda>c. if ascii_letter c \<or> is_digit c \<or> c \<in> set ''_.-~'' \<or> c \<in> set safe then [c]
     else [CHR ''%'', hex_upper (of_char c div 16), hex_upper (of_char c mod 16)]) (utf8 s))"

definition B64_ALPHABET :: string where
  "B64_ALPHABET = ''ABCDEFGHIJKLMNOPQRSTUVWXYZabcdefghijklmnopqrstuvwxyz0123456789+/''"

definition b64_char :: "nat \<Rightarrow> char" where
  "b64_char n = B64_ALPHABET ! n"

definition byte :: "char \<Rightarrow> nat" where
  "byte c = of_char c"

fun b64encode :: "string \<Rightarrow> string" where
  "b64encode [] = []"
| "b64encode [a] = [b64_char (byte a div 4), b64_char (byte a mod 4 * 16), CHR ''='', CHR ''='']"
| "b64encode [a, b] = [b64_char (byte a div 4), b64_char (byte a mod 4 * 16 + byte b div 16), b64_char (byte b mod 16 * 4), CHR ''='']"
| "b64encode (a # b # c # s) = b64_char (byte a div 4) # b64_char (byte a mod 4 * 16 + byte b div 16)
     # b64_char (byte b mod 16 * 4 + byte c div 64) # b64_char (byte c mod 64) # b64encode s"

definition b64_val :: "char \<Rightarrow> nat option" where
  "b64_val c = find (\<lambda>n. b64_char n = c) [0..<64]"

text \<open>\<open>base64.b64decode\<close> without validation: a character outside the alphabet is passed over, and the padding
  that completes a group ends the input. \<open>quad\<close> counts the digits of the group, \<open>left\<close> holds the bits not
  yet written.\<close>

fun b64_loop :: "string \<Rightarrow> nat \<Rightarrow> nat \<Rightarrow> nat \<Rightarrow> string \<Rightarrow> exn + string" where
  "b64_loop [] quad left pads out =
     (if quad = 0 then Inr out else if quad = 1
      then Inl (ValueError ''Invalid base64-encoded string: number of data characters cannot be 1 more than a multiple of 4'')
      else Inl (ValueError ''Incorrect padding''))"
| "b64_loop (c # s) quad left pads out =
     (if c = CHR ''='' then
        if 2 \<le> quad \<and> 4 \<le> quad + Suc pads then Inr out
        else b64_loop s quad left (if 2 \<le> quad then Suc pads else pads) out
      else (case b64_val c of
          None \<Rightarrow> b64_loop s quad left pads out
        | Some v \<Rightarrow>
            if quad = 0 then b64_loop s 1 v 0 out
            else if quad = 1 then b64_loop s 2 (v mod 16) 0 (out @ [char_of (left * 4 + v div 16)])
            else if quad = 2 then b64_loop s 3 (v mod 4) 0 (out @ [char_of (left * 16 + v div 4)])
            else b64_loop s 0 0 0 (out @ [char_of (left * 64 + v)])))"

definition b64decode :: "string \<Rightarrow> exn + string" where
  "b64decode s = b64_loop s 0 0 0 []"

section \<open>Proxies, headers and tokens\<close>

definition git_proxy_args :: "string option \<Rightarrow> string list" where
  "git_proxy_args proxy_url0 =
     (let args = [''-c'', ''http.version=HTTP/1.1''];
          proxy_url = str_strip (or_str proxy_url0 [])
      in if proxy_url = [] then args
         else args @ [''-c'', ''http.proxy='' @ proxy_url, ''-c'', ''https.proxy='' @ proxy_url])"

definition github_api_headers :: "string option \<Rightarrow> (string \<times> string) list" where
  "github_api_headers github_token0 =
     (let headers = [(''Accept'', ''application/vnd.github+json''),
                     (''User-Agent'', ''AstrBot-Community-Plugin-Registry''),
                     (''X-GitHub-Api-Version'', ''2022-11-28'')];
          token = str_strip (or_str github_token0 [])
      in if token = [] then headers else headers @ [(''Authorization'', ''Bearer '' @ token)])"

text \<open>The variables added to the environment of the commands.\<close>

definition git_env :: "string option \<Rightarrow> (string \<times> string) list option" where
  "git_env github_token0 =
     (let token = str_strip (or_str github_token0 [])
      in if token = [] then None
         else Some [(''GIT_CONFIG_COUNT'', ''1''), (''GIT_CONFIG_KEY_0'', ''http.https://github.com/.extraheader''),
                    (''GIT_CONFIG_VALUE_0'', ''Authorization: Basic '' @ b64encode (utf8 (''x-access-token:'' @ token))),
                    (''GIT_TERMINAL_PROMPT'', ''0'')])"

definition redact_secret :: "string \<Rightarrow> string option \<Rightarrow> string" where
  "redact_secret value secret0 =
     (let secret = str_strip (or_str secret0 [])
      in if secret = [] then value else str_replace secret ''[redacted]'' value)"

section \<open>The size before cloning\<close>

definition fetch_github_repo_size_kb ::
  "env \<Rightarrow> git_world \<Rightarrow> string \<Rightarrow> string list option \<Rightarrow> string option \<Rightarrow> string option \<Rightarrow> exn + int" where
  "fetch_github_repo_size_kb env g repo_url allowed_hosts proxy_url github_token0 =
     bind_res (parse_github_url env repo_url allowed_hosts) (\<lambda>(owner, repo).
     let api_url = ''https://api.github.com/repos/'' @ url_quote ''/'' owner @ ''/'' @ url_quote ''/'' repo in
     case g_fetch g api_url (github_api_headers github_token0) (str_strip (or_str proxy_url [])) of
       ApiHttpError code m \<Rightarrow> Inl (GitError (''Failed to inspect GitHub repository: HTTP '' @ str_nat code))
     | ApiUrlError m \<Rightarrow> Inl (GitError (''Failed to inspect GitHub repository: '' @ m))
     | ApiTimeout \<Rightarrow> Inl (GitError ''Timed out inspecting GitHub repository'')
     | ApiOk None \<Rightarrow> Inl (GitError ''Failed to parse GitHub repository metadata'')
     | ApiOk (Some payload) \<Rightarrow>
         (case bind_res (json_item ''size'' payload) json_int of
           Inr n \<Rightarrow> Inr n
         | Inl (KeyError m) \<Rightarrow> Inl (GitError ''GitHub repository metadata did not include size'')
         | Inl (TypeError m) \<Rightarrow> Inl (GitError ''GitHub repository metadata did not include size'')
         | Inl (ValueError m) \<Rightarrow> Inl (GitError ''GitHub repository metadata did not include size'')
         | Inl e \<Rightarrow> Inl e))"

definition preflight_github_repo_size ::
  "env \<Rightarrow> git_world \<Rightarrow> string \<Rightarrow> int \<Rightarrow> string list option \<Rightarrow> string option \<Rightarrow> string option \<Rightarrow> exn + int option" where
  "preflight_github_repo_size env g repo_url max_size_kb allowed_hosts proxy_url github_token0 =
     (if max_size_kb \<le> 0 then bind_res (parse_github_url env repo_url allowed_hosts) (\<lambda>_. Inr None)
      else
        bind_res (fetch_github_repo_size_kb env g repo_url allowed_hosts proxy_url github_token0) (\<lambda>size_kb.
        if max_size_kb < size_kb then
          Inl (GitError (''Repository is too large: '' @ str_int size_kb @ '' KiB exceeds limit '' @ str_int max_size_kb @ '' KiB''))
        else Inr (Some size_kb)))"

section \<open>Cloning\<close>

text \<open>The commands, in the order in which they run.\<close>

definition clone_commands :: "string \<Rightarrow> string \<Rightarrow> string option \<Rightarrow> string option \<Rightarrow> string list list" where
  "clone_commands repo_url dest ref proxy_url =
     (let proxy_args = git_proxy_args proxy_url; r = or_str ref [] in
      if truthy ref \<and> is_sha r then
        [''git'' # proxy_args @ [''clone'', repo_url, dest], [''git'', ''-C'', dest, ''checkout'', r]]
      else if truthy ref then
        [''git'' # proxy_args @ [''clone'', ''--branch'', r, ''--filter=blob:none'', ''--depth'', ''1'', repo_url, dest]]
      else
        [''git'' # proxy_args @ [''clone'', ''--filter=blob:none'', ''--depth'', ''1'', repo_url, dest]])"

fun run_commands :: "git_world \<Rightarrow> (string \<times> string) list option \<Rightarrow> string list list \<Rightarrow> run_result" where
  "run_commands g e [] = RunOk []"
| "run_commands g e (c # cs) = (case g_run g c e of RunOk out \<Rightarrow> run_commands g e cs | r \<Rightarrow> r)"

definition clone_repo ::
  "env \<Rightarrow> git_world \<Rightarrow> string \<Rightarrow> string \<Rightarrow> string option \<Rightarrow> string list option \<Rightarrow> string option \<Rightarrow> string option \<Rightarrow> exn + unit" where
  "clone_repo env g repo_url dest ref allowed_hosts proxy_url github_token0 =
     bind_res (parse_github_url env repo_url allowed_hosts) (\<lambda>_.
     case run_commands g (git_env github_token0) (clone_commands repo_url dest ref proxy_url) of
       RunOk out \<Rightarrow> Inr ()
     | RunFailed stderr \<Rightarrow> Inl (GitError (''Failed to clone '' @ repo_url @ '': '' @ redact_secret stderr github_token0))
     | RunTimeout \<Rightarrow> Inl (GitError (''Timed out cloning '' @ repo_url)))"

text \<open>\<open>git rev-parse HEAD\<close> runs without a time-out: it prints the hash or fails.\<close>

definition get_commit_sha :: "git_world \<Rightarrow> string \<Rightarrow> exn + string" where
  "get_commit_sha g repo_dir =
     (case g_head g repo_dir of
       Some out \<Rightarrow> Inr (str_strip out)
     | None \<Rightarrow> Inl (GitError (''Failed to get commit SHA: '' @ g_head_error g repo_dir)))"

section \<open>Base64\<close>

lemma b64_val_char [simp]: "n < 64 \<Longrightarrow> b64_val (b64_char n) = Some n"
proof -
  have "list_all (\<lambda>n. b64_val (b64_char n) = Some n) [0..<64]" by code_simp
  then show "n < 64 \<Longrightarrow> b64_val (b64_char n) = Some n" by (simp add: list_all_iff)
qed

lemma b64_char_not_pad [simp]: "n < 64 \<Longrightarrow> b64_char n \<noteq> CHR ''=''"
proof -
  have "list_all (\<lambda>n. b64_char n \<noteq> CHR ''='') [0..<64]" by code_simp
  then show "n < 64 \<Longrightarrow> b64_char n \<noteq> CHR ''=''" by (simp add: list_all_iff)
qed

lemma byte_less [simp]: "byte c < 256"
  by (simp add: byte_def of_char_less_256)

lemma byte_bounds [simp]:
  "byte a div 4 < 64" "byte a mod 4 * 16 + byte b div 16 < 64" "byte b mod 16 * 4 + byte c div 64 < 64" "byte c mod 64 < 64"
  "byte a mod 4 * 16 < 64" "byte b mod 16 * 4 < 64"
  using byte_less[of a] byte_less[of b] byte_less[of c] by linarith+

lemma byte_groups [simp]:
  "byte a div 4 * 4 + (byte a mod 4 * 16 + byte b div 16) div 16 = byte a"
  "(byte a mod 4 * 16 + byte b div 16) mod 16 * 16 + (byte b mod 16 * 4 + byte c div 64) div 4 = byte b"
  "(byte b mod 16 * 4 + byte c div 64) mod 4 * 64 + byte c mod 64 = byte c"
  "byte a div 4 * 4 + byte a mod 4 * 16 div 16 = byte a"
  "(byte a mod 4 * 16 + byte b div 16) mod 16 * 16 + byte b mod 16 * 4 div 4 = byte b"
proof -
  have b: "byte b div 16 < 16" and c: "byte c div 64 < 4" using byte_less[of b] byte_less[of c] by linarith+
  show "byte a div 4 * 4 + (byte a mod 4 * 16 + byte b div 16) div 16 = byte a" using b by simp
  show "(byte a mod 4 * 16 + byte b div 16) mod 16 * 16 + (byte b mod 16 * 4 + byte c div 64) div 4 = byte b" using b c by simp
  show "(byte b mod 16 * 4 + byte c div 64) mod 4 * 64 + byte c mod 64 = byte c" using c by simp
  show "byte a div 4 * 4 + byte a mod 4 * 16 div 16 = byte a" by simp
  show "(byte a mod 4 * 16 + byte b div 16) mod 16 * 16 + byte b mod 16 * 4 div 4 = byte b" using b by simp
qed

lemma char_of_byte [simp]: "char_of (byte c) = c"
  by (simp add: byte_def)

lemma b64_loop_encode: "b64_loop (b64encode s) 0 l p out = Inr (out @ s)"
  by (induction s arbitrary: l p out rule: b64encode.induct)
     (simp_all del: byte_groups add: byte_groups[simplified] byte_groups)

text \<open>The token a clone carries reaches GitHub as it is: the header put into the environment of the commands
  decodes, as basic authentication, to the user name and the stripped token.\<close>

theorem git_token_round_trip:
  assumes "str_strip (or_str token []) \<noteq> []"
  shows "\<exists>vars code. git_env token = Some vars \<and> map_of vars ''GIT_CONFIG_VALUE_0'' = Some (''Authorization: Basic '' @ code)
    \<and> b64decode code = Inr (utf8 (''x-access-token:'' @ str_strip (or_str token [])))"
  using assms by (simp add: git_env_def Let_def b64decode_def b64_loop_encode)

theorem git_token_round_trip_witness:
  "\<exists>vars. git_env (Some '' ghp_abc '') = Some vars"
proof -
  have "str_strip (or_str (Some '' ghp_abc '') []) \<noteq> []" by code_simp
  from git_token_round_trip[OF this] show ?thesis by blast
qed

section \<open>Redaction\<close>

lemma starts_with_Cons: "p \<noteq> [] \<Longrightarrow> starts_with (c # s) p \<longleftrightarrow> c = hd p \<and> starts_with s (tl p)"
  by (cases p) (auto simp: starts_with_def)

lemma str_replace_Nil [simp]: "str_replace old new [] = []"
  by (subst str_replace.simps) simp

lemma str_replace_prefix:
  assumes "c \<notin> set p" "starts_with (str_replace old (c # new) s) p"
  shows "starts_with s p"
  using assms
proof (induction s arbitrary: p)
  case (Cons x s)
  show ?case
  proof (cases "p = []")
    case False
    consider (empty) "old = []" | (skip) "old \<noteq> []" "\<not> starts_with (x # s) old" | (match) "old \<noteq> []" "starts_with (x # s) old"
      by blast
    then show ?thesis
    proof cases
      case empty
      then have "str_replace old (c # new) (x # s) = x # s" by (subst str_replace.simps) simp
      with Cons.prems show ?thesis by simp
    next
      case skip
      then have "str_replace old (c # new) (x # s) = x # str_replace old (c # new) s" by (subst str_replace.simps) simp
      with Cons False show ?thesis by (cases p) (auto simp: starts_with_Cons)
    next
      case match
      then have "str_replace old (c # new) (x # s) = c # new @ str_replace old (c # new) (drop (length old) (x # s))"
        by (subst str_replace.simps) simp
      with Cons.prems False show ?thesis by (cases p) (auto simp: starts_with_Cons)
    qed
  qed (simp add: starts_with_def)
qed simp

lemma starts_with_split: "c \<notin> set p \<Longrightarrow> starts_with (a @ c # b) p \<longleftrightarrow> starts_with a p"
proof (induction a arbitrary: p)
  case Nil
  then show ?case by (cases p) (auto simp: starts_with_def)
next
  case (Cons x a)
  then show ?case by (cases p) (auto simp: starts_with_Cons starts_with_def)
qed

lemma str_contains_split:
  assumes "c \<notin> set p" "p \<noteq> []"
  shows "str_contains (a @ c # b) p \<longleftrightarrow> str_contains a p \<or> str_contains b p"
proof (induction a)
  case Nil
  then show ?case using assms by (cases p) (auto simp: starts_with_Cons)
next
  case (Cons x a)
  then show ?case using starts_with_split[OF assms(1), of "x # a" b] by simp
qed

lemma str_contains_Nil [simp]: "str_contains [] p \<longleftrightarrow> p = []"
  by simp

lemma str_replace_removes:
  assumes "secret \<noteq> []" "CHR ''['' \<notin> set secret" "CHR '']'' \<notin> set secret" "\<not> str_contains ''redacted'' secret"
  shows "\<not> str_contains (str_replace secret ''[redacted]'' s) secret"
proof (induction s rule: length_induct)
  case (1 s)
  show ?case
  proof (cases s)
    case Nil
    with assms(1) show ?thesis by simp
  next
    case (Cons x xs)
    show ?thesis
    proof (cases "starts_with s secret")
      case True
      let ?r = "str_replace secret ''[redacted]'' (drop (length secret) s)"
      have eq: "str_replace secret ''[redacted]'' s = [] @ CHR ''['' # ''redacted'' @ CHR '']'' # ?r"
        using True Cons assms(1) by (subst str_replace.simps) simp
      have "\<not> str_contains ?r secret" using 1 Cons assms(1) by (cases secret) auto
      with assms(1,4) show ?thesis
        unfolding eq str_contains_split[OF assms(2,1)] str_contains_split[OF assms(3,1)] str_contains_Nil by blast
    next
      case False
      have r: "str_replace secret ''[redacted]'' (x # xs) = x # str_replace secret ''[redacted]'' xs"
        using False Cons assms(1) by (subst str_replace.simps) simp
      have "\<not> starts_with (str_replace secret ''[redacted]'' s) secret"
        using str_replace_prefix[OF assms(2), of secret "''redacted]''" s] False by auto
      moreover have "\<not> str_contains (str_replace secret ''[redacted]'' xs) secret" using 1 Cons by simp
      ultimately show ?thesis unfolding Cons r by simp
    qed
  qed
qed

text \<open>C40 (safety). The error of a failed clone never shows the token, wherever git printed it, for every token without square
  brackets that is not itself a part of the word put in its place.\<close>

theorem clone_error_hides_token:
  assumes "clone_repo env g url dest ref hosts proxy (Some token) = Inl (GitError m)"
    and "secret = str_strip token" "secret \<noteq> []" "CHR ''['' \<notin> set secret" "CHR '']'' \<notin> set secret"
    and "\<not> str_contains ''redacted'' secret"
  shows "\<exists>rest. m = ''Timed out cloning '' @ url \<or> m = ''Failed to clone '' @ url @ '': '' @ rest \<and> \<not> str_contains rest secret"
proof -
  let ?run = "run_commands g (git_env (Some token)) (clone_commands url dest ref proxy)"
  have "parse_github_url env url hosts \<noteq> Inl (GitError m)"
    by (auto simp: parse_github_url_def Let_def split: option.splits)
  then consider (failed) e where "?run = RunFailed e" "m = ''Failed to clone '' @ url @ '': '' @ redact_secret e (Some token)"
    | (timeout) "m = ''Timed out cloning '' @ url"
    using assms(1) by (auto simp: clone_repo_def bind_res_Inl_iff split: run_result.splits)
  then show ?thesis
  proof cases
    case failed
    have "redact_secret e (Some token) = str_replace secret ''[redacted]'' e"
      using assms(2,3) by (simp add: redact_secret_def or_str_def Let_def)
    with str_replace_removes[OF assms(3-6), of e] failed show ?thesis by auto
  qed blast
qed

definition sample_git :: git_world where
  "sample_git = \<lparr>g_fetch = (\<lambda>url headers proxy. ApiOk (Some (JObj [(''size'', JInt 120)]))),
     g_run = (\<lambda>argv vars. if ''clone'' \<in> set argv then RunOk [] else RunFailed ''fatal: ghp_abc''),
     g_head = (\<lambda>dest. Some ''0123456789abcdef0123456789abcdef01234567''), g_head_error = (\<lambda>dest. []), g_tmp = ''/tmp/astrbot-repo-x'',
     g_tree = (\<lambda>dest. []), g_metadata = (\<lambda>dest. Inr ''name: weather''),
     g_yaml_load = (\<lambda>s. Inr (JObj [(''name'', JStr ''weather''), (''author'', JStr ''alice''), (''version'', JStr ''1.1.0'')])),
     g_yaml_dump = (\<lambda>d. []),
     g_validate = (\<lambda>d. Inr \<lparr>m_name = ''weather'', m_display_name = None, m_desc = None, m_short_desc = None,
       m_author = ''alice'', m_version = ''1.1.0'', m_repo = None, m_tags = [], m_category = None, m_social_link = None,
       m_logo = None, m_astrbot_version = None, m_support_platforms = [], m_i18n = []\<rparr>),
     g_fromisoformat = (\<lambda>s. None), g_zip = (\<lambda>fs. ''PK'')\<rparr>"

theorem clone_error_hides_token_witness:
  "\<exists>rest. clone_repo sample_env (sample_git\<lparr>g_run := (\<lambda>argv vars. RunFailed ''fatal: ghp_abc'')\<rparr>) ''https://github.com/a/b'' ''/tmp/x'' None None None (Some ''ghp_abc'')
    = Inl (GitError (''Failed to clone https://github.com/a/b: '' @ rest)) \<and> \<not> str_contains rest ''ghp_abc''"
proof -
  let ?g = "sample_git\<lparr>g_run := (\<lambda>argv vars. RunFailed ''fatal: ghp_abc'')\<rparr>"
  have run: "clone_repo sample_env ?g ''https://github.com/a/b'' ''/tmp/x'' None None None (Some ''ghp_abc'')
    = Inl (GitError ''Failed to clone https://github.com/a/b: fatal: [redacted]'')" by code_simp
  have "''ghp_abc'' = str_strip ''ghp_abc''" "\<not> str_contains ''redacted'' ''ghp_abc''" by code_simp+
  from clone_error_hides_token[OF run this(1) _ _ _ this(2)] run show ?thesis by auto
qed

section \<open>Commands\<close>

definition GIT_OPTIONS :: "string list" where
  "GIT_OPTIONS = [''-c'', ''-C'', ''--branch'', ''--filter=blob:none'', ''--depth'']"

definition plain_word :: "string \<Rightarrow> bool" where
  "plain_word w \<longleftrightarrow> w \<in> set GIT_OPTIONS \<or> \<not> starts_with w ''-''"

lemma plain_words_around:
  assumes "list_all plain_word pre" "plain_word b" "list_all plain_word post" "i < length (pre @ b # r # post)"
  shows "plain_word ((pre @ b # r # post) ! i) \<or> (0 < i \<and> (pre @ b # r # post) ! (i - 1) = b)"
proof (cases "i < length pre \<or> i = length pre \<or> i = Suc (length pre)")
  case True
  with assms show ?thesis by (auto simp: nth_append list_all_length)
next
  case False
  then obtain k where k: "i = length pre + Suc (Suc k)" by (metis add_Suc_right less_iff_Suc_add linorder_neqE_nat not_less_eq)
  with assms show ?thesis by (auto simp: nth_append list_all_length)
qed

lemma plain_words:
  "plain_word ''git''" "list_all plain_word (git_proxy_args proxy)" "plain_word ''clone''" "plain_word ''checkout''" "plain_word ''-C''"
  "plain_word ''--branch''" "plain_word ''--filter=blob:none''" "plain_word ''--depth''" "plain_word ''1''"
  by (simp_all add: plain_word_def GIT_OPTIONS_def git_proxy_args_def starts_with_def Let_def)

lemma sha_plain: "is_sha r \<Longrightarrow> plain_word r"
proof -
  assume sha: "is_sha r"
  then obtain c s where r: "r = c # s" by (cases r) (auto simp: is_sha_def)
  have "lower_char (CHR ''-'') \<notin> set ''0123456789abcdef''" by code_simp
  with sha r have "c \<noteq> CHR ''-''" by (auto simp: is_sha_def str_lower_def)
  then show ?thesis by (simp add: r plain_word_def starts_with_def)
qed

text \<open>No input is taken for an option of git: in the commands that clone an accepted URL every word that starts with
  a dash is one of the code's own options or the reference right after --branch, and a reference that is
  checked out is forty hexadecimal digits.\<close>

theorem clone_words_are_not_options:
  assumes "starts_with url ''http''" "\<not> starts_with dest ''-''" "cmd \<in> set (clone_commands url dest ref proxy)"
    "i < length cmd" "starts_with (cmd ! i) ''-''"
  shows "cmd ! i \<in> set GIT_OPTIONS \<or> (0 < i \<and> cmd ! (i - 1) = ''--branch'')"
proof -
  have u: "plain_word url" using assms(1) by (cases url) (auto simp: plain_word_def starts_with_def)
  have d: "plain_word dest" using assms(2) by (simp add: plain_word_def)
  have all: "plain_word (cmd ! i)" if "list_all plain_word cmd" using that assms(4) by (simp add: list_all_length)
  have "plain_word (cmd ! i) \<or> (0 < i \<and> cmd ! (i - 1) = ''--branch'')"
  proof (cases "truthy ref \<and> \<not> is_sha (or_str ref [])")
    case True
    then have "cmd = (''git'' # git_proxy_args proxy @ [''clone'']) @ ''--branch'' # or_str ref [] #
        [''--filter=blob:none'', ''--depth'', ''1'', url, dest]"
      using assms(3) by (simp add: clone_commands_def Let_def)
    moreover have "list_all plain_word (''git'' # git_proxy_args proxy @ [''clone''])"
      "list_all plain_word [''--filter=blob:none'', ''--depth'', ''1'', url, dest]" by (simp_all add: plain_words u d)
    ultimately show ?thesis
      using plain_words_around[of "''git'' # git_proxy_args proxy @ [''clone'']" "''--branch''"
        "[''--filter=blob:none'', ''--depth'', ''1'', url, dest]" i "or_str ref []"] assms(4) by (simp only: plain_words(6))
  next
    case False
    then have "list_all plain_word cmd" using assms(3) sha_plain[of "or_str ref []"]
      by (auto simp: clone_commands_def Let_def plain_words u d split: if_splits)
    with all show ?thesis by blast
  qed
  with assms(5) show ?thesis by (auto simp: plain_word_def)
qed

theorem clone_words_are_not_options_witness:
  "''--upload-pack=x'' \<in> set (hd (clone_commands ''https://github.com/a/b'' ''/tmp/x'' (Some ''--upload-pack=x'') None))
    \<and> hd (clone_commands ''https://github.com/a/b'' ''/tmp/x'' (Some ''--upload-pack=x'') None) ! 4 = ''--branch''"
proof -
  let ?cmds = "clone_commands ''https://github.com/a/b'' ''/tmp/x'' (Some ''--upload-pack=x'') None"
  have c: "hd ?cmds \<in> set ?cmds" "5 < length (hd ?cmds)" "hd ?cmds ! 5 = ''--upload-pack=x''" by code_simp+
  have "starts_with ''https://github.com/a/b'' ''http''" "\<not> starts_with ''/tmp/x'' ''-''" by code_simp+
  from clone_words_are_not_options[OF this c(1,2)] have "hd ?cmds ! 4 = ''--branch''"
    unfolding c(3) by (simp add: starts_with_def GIT_OPTIONS_def)
  with nth_mem[OF c(2)] c(3) show ?thesis by simp
qed

end
