(* ===== verification/PluginService.thy ===== *)
theory PluginService
  imports MetadataParser
begin

text \<open>
  \<open>services/plugin_service.py\<close>: the life of plugins and versions. An object of the session that the code
  mutates is the row with its identifier, so an assignment to a column is an update of that row in the
  session's copy. Every operation that changes something ends with a commit and a refresh of the
  registry cache.
\<close>

section \<open>Rows of the session\<close>

definition edit_plugin :: "uuid \<Rightarrow> (plugin \<Rightarrow> plugin) \<Rightarrow> db \<Rightarrow> db" where
  "edit_plugin pid f D = D\<lparr>plugins := rows_update (\<lambda>p. p_id p = pid) f (plugins D)\<rparr>"

definition edit_version :: "uuid \<Rightarrow> (version \<Rightarrow> version) \<Rightarrow> db \<Rightarrow> db" where
  "edit_version vid f D = D\<lparr>versions := rows_update (\<lambda>v. v_id v = vid) f (versions D)\<rparr>"

text \<open>\<open>update(PluginVersion).where(plugin_id == ...).values(is_latest=False)\<close>.\<close>

definition unset_latest :: "uuid \<Rightarrow> db \<Rightarrow> db" where
  "unset_latest pid D =
     D\<lparr>versions := rows_update (\<lambda>v. v_plugin_id v = pid) (\<lambda>v. v\<lparr>v_is_latest := False\<rparr>) (versions D)\<rparr>"

definition get_plugin :: "uuid \<Rightarrow> db \<Rightarrow> plugin option" where
  "get_plugin pid D = row_get p_id pid (plugins D)"

definition get_plugin_by_key :: "string \<Rightarrow> db \<Rightarrow> exn + plugin option" where
  "get_plugin_by_key k D = scalar_one_or_none (filter (\<lambda>p. p_plugin_key p = k) (plugins D))"

definition get_version :: "uuid \<Rightarrow> db \<Rightarrow> version option" where
  "get_version vid D = row_get v_id vid (versions D)"

definition newest :: "version list \<Rightarrow> version option" where
  "newest vs = (case sort_key (\<lambda>v. - v_created_at v) vs of [] \<Rightarrow> None | v # _ \<Rightarrow> Some v)"

definition get_version_by_plugin_and_number :: "uuid \<Rightarrow> string \<Rightarrow> db \<Rightarrow> version option" where
  "get_version_by_plugin_and_number pid number D =
     newest (filter (\<lambda>v. v_plugin_id v = pid \<and> v_version v = number) (versions D))"

definition get_version_by_plugin_and_commit :: "uuid \<Rightarrow> string \<Rightarrow> db \<Rightarrow> version option" where
  "get_version_by_plugin_and_commit pid sha D =
     newest (filter (\<lambda>v. v_plugin_id v = pid \<and> v_source_type v = GitAuto \<and> v_commit_sha v = Some sha) (versions D))"

definition get_latest_version :: "env \<Rightarrow> uuid \<Rightarrow> version option act" where
  "get_latest_version env pid =
     bind_op (query (\<lambda>D. map (load_view D) (filter (\<lambda>v. v_plugin_id v = pid \<and> v_is_latest v
        \<and> v_version_status v = VActive \<and> v_build_status v = BSuccess) (versions D)))) (\<lambda>found.
     bind_op (lift_res (scalar_one_or_none found)) (\<lambda>x.
     bind_op (runtime_scan_enabled_providers env) (\<lambda>required.
     ret (case x of
         None \<Rightarrow> None
       | Some vv \<Rightarrow> if \<not> scan_passed vv (Some required) then None else Some (vv_version vv)))))"

definition commit_and_refresh :: "env \<Rightarrow> unit act" where
  "commit_and_refresh env = bind_op commit (\<lambda>_. refresh_cache env)"

section \<open>Tags\<close>

definition clean_tags :: "string list \<Rightarrow> string list" where
  "clean_tags names = map (\<lambda>n. str_lower (str_strip n)) (filter (\<lambda>n. str_strip n \<noteq> []) names)"

text \<open>A name that is not in the table is added as often as it occurs: two new rows with one name do not
  pass the flush.\<close>

definition ensure_tags :: "string list \<Rightarrow> string list act" where
  "ensure_tags names0 =
     (let names = clean_tags names0 in
      if names = [] then ret []
      else
        bind_op (query (\<lambda>D. filter (\<lambda>t. t \<in> set names) (tags D))) (\<lambda>existing.
        bind_op (stage (\<lambda>D. D\<lparr>tags := tags D @ filter (\<lambda>n. n \<notin> set existing) names\<rparr>)) (\<lambda>_.
        bind_op flush (\<lambda>_. ret names))))"

text \<open>\<open>plugin.tags = names\<close>: association rows that are no longer wanted go, new ones are inserted, one
  for each occurrence.\<close>

definition set_plugin_tags :: "uuid \<Rightarrow> string list \<Rightarrow> db \<Rightarrow> db" where
  "set_plugin_tags pid names D =
     D\<lparr>plugin_tags := filter (\<lambda>pt. fst pt \<noteq> pid \<or> snd pt \<in> set names) (plugin_tags D)
        @ map (\<lambda>t. (pid, t)) (filter (\<lambda>t. t \<notin> set (plugin_tag_names D pid)) names)\<rparr>"

section \<open>Plugins\<close>

definition create_plugin :: "env \<Rightarrow> plugin_metadata \<Rightarrow> string \<Rightarrow> plugin act" where
  "create_plugin env metadata repo_url =
     (let plugin_key = infer_plugin_key (m_name metadata) in
      bind_op (query (get_plugin_by_key plugin_key)) (\<lambda>found.
      bind_op (lift_res found) (\<lambda>existing.
      bind_op (guard_op (existing = None) (ConflictError (''Plugin key already exists: '' @ plugin_key))) (\<lambda>_.
      bind_op (if m_tags metadata \<noteq> [] then ensure_tags (m_tags metadata) else ret []) (\<lambda>tag_names.
      bind_op (uuid4 env) (\<lambda>pid.
      let p = \<lparr>p_id = pid, p_plugin_key = plugin_key, p_display_name = m_display_name metadata,
               p_description = m_desc metadata, p_author = m_author metadata,
               p_repo_url = Some (if repo_url \<noteq> [] then repo_url else or_str (m_repo metadata) []),
               p_social_link = m_social_link metadata, p_category = m_category metadata,
               p_logo_s3_key = None, p_stars = 0, p_pinned = False,
               p_support_platforms = Some (m_support_platforms metadata),
               p_astrbot_version = m_astrbot_version metadata, p_status = PPending,
               p_review_status = RPending, p_created_at = e_now env\<rparr> in
      bind_op (stage (\<lambda>D. set_plugin_tags pid tag_names (D\<lparr>plugins := plugins D @ [p]\<rparr>))) (\<lambda>_.
      bind_op flush (\<lambda>_.
      bind_op (stage (\<lambda>D. D\<lparr>i18ns := i18ns D @ map (\<lambda>(l, d). \<lparr>i_plugin_id = pid, i_locale = l, i_data = d\<rparr>)
         (m_i18n metadata)\<rparr>)) (\<lambda>_.
      bind_op (commit_and_refresh env) (\<lambda>_. ret p))))))))))"

text \<open>The fields that are set in a \<open>PluginUpdate\<close>, in their order.\<close>

datatype plugin_update =
    UpdDisplayName "string option"
  | UpdDescription "string option"
  | UpdCategory "string option"
  | UpdTags "string list option"
  | UpdSupportPlatforms "string list option"
  | UpdAstrbotVersion "string option"

fun apply_update :: "uuid \<Rightarrow> plugin_update \<Rightarrow> unit act" where
  "apply_update pid (UpdDisplayName x) = stage (edit_plugin pid (\<lambda>p. p\<lparr>p_display_name := x\<rparr>))"
| "apply_update pid (UpdDescription x) = stage (edit_plugin pid (\<lambda>p. p\<lparr>p_description := x\<rparr>))"
| "apply_update pid (UpdCategory x) = stage (edit_plugin pid (\<lambda>p. p\<lparr>p_category := x\<rparr>))"
| "apply_update pid (UpdTags x) =
     (case x of
       None \<Rightarrow> ret ()
     | Some names \<Rightarrow> bind_op (ensure_tags names) (\<lambda>ts. stage (set_plugin_tags pid ts)))"
| "apply_update pid (UpdSupportPlatforms x) = stage (edit_plugin pid (\<lambda>p. p\<lparr>p_support_platforms := x\<rparr>))"
| "apply_update pid (UpdAstrbotVersion x) = stage (edit_plugin pid (\<lambda>p. p\<lparr>p_astrbot_version := x\<rparr>))"

definition update_plugin :: "env \<Rightarrow> uuid \<Rightarrow> plugin_update list \<Rightarrow> plugin option act" where
  "update_plugin env pid update_data =
     bind_op (foreach (apply_update pid) update_data) (\<lambda>_.
     bind_op (commit_and_refresh env) (\<lambda>_. query (get_plugin pid)))"

definition set_plugin_status ::
  "env \<Rightarrow> uuid \<Rightarrow> plugin_status \<Rightarrow> review_status option \<Rightarrow> plugin option act" where
  "set_plugin_status env pid status review =
     bind_op (query (get_plugin pid)) (\<lambda>found.
     case found of
       None \<Rightarrow> raise (NotFoundError ''Plugin not found'')
     | Some p \<Rightarrow>
         bind_op (stage (edit_plugin pid (\<lambda>p. p\<lparr>p_status := status,
            p_review_status :=
              (case review of
                Some r \<Rightarrow> r
              | None \<Rightarrow>
                  if status = PActive \<and> p_review_status p = RPending then RApproved
                  else if status = PDisabled \<and> p_review_status p = RPending then RRejected
                  else p_review_status p)\<rparr>))) (\<lambda>_.
         bind_op (when_op (status = PDisabled \<or> status = PDeleted) (stage (unset_latest pid))) (\<lambda>_.
         bind_op (commit_and_refresh env) (\<lambda>_. query (get_plugin pid)))))"

text \<open>\<open>delete_file\<close>: the object goes, or the store's exception is raised.\<close>

definition delete_file :: "env \<Rightarrow> string \<Rightarrow> unit act" where
  "delete_file env k =
     (case e_s3_delete env k of
       Some e \<Rightarrow> raise e
     | None \<Rightarrow> modify (\<lambda>w. w\<lparr>s3_keys := filter (\<lambda>x. x \<noteq> k) (s3_keys w)\<rparr>))"

definition delete_plugin :: "env \<Rightarrow> uuid \<Rightarrow> plugin act" where
  "delete_plugin env pid =
     bind_op (query (get_plugin pid)) (\<lambda>found.
     case found of
       None \<Rightarrow> raise (NotFoundError ''Plugin not found'')
     | Some p \<Rightarrow>
         bind_op (query (\<lambda>D. map v_s3_key (plugin_versions D pid))) (\<lambda>keys.
         bind_op (foreach (\<lambda>k. when_op (truthy k) (delete_file env (or_str k []))) keys) (\<lambda>_.
         bind_op (stage (unset_latest pid)) (\<lambda>_.
         bind_op (stage (delete_versions (\<lambda>v. v_plugin_id v = pid))) (\<lambda>_.
         bind_op (stage (delete_plugin_row pid)) (\<lambda>_.
         bind_op (commit_and_refresh env) (\<lambda>_. ret p)))))))"

section \<open>Versions\<close>

definition delete_version :: "env \<Rightarrow> uuid \<Rightarrow> uuid \<Rightarrow> version act" where
  "delete_version env pid vid =
     bind_op (query (get_version vid)) (\<lambda>found.
     case found of
       None \<Rightarrow> raise (NotFoundError ''Version not found'')
     | Some v \<Rightarrow>
         if v_plugin_id v \<noteq> pid then raise (NotFoundError ''Version not found'')
         else
           bind_op (when_op (truthy (v_s3_key v)) (delete_file env (or_str (v_s3_key v) []))) (\<lambda>_.
           bind_op (stage (delete_versions (\<lambda>v. v_id v = vid))) (\<lambda>_.
           bind_op (commit_and_refresh env) (\<lambda>_. ret v))))"

record new_version =
  nv_plugin_id :: uuid
  nv_version :: string
  nv_metadata :: plugin_metadata
  nv_s3_key :: "string option"
  nv_download_url :: "string option"
  nv_file_size :: int
  nv_source_type :: source_type
  nv_commit_sha :: "string option"
  nv_source_ref :: "string option"
  nv_changelog :: string
  nv_created_by :: "uuid option"
  nv_build_status :: build_status

definition create_version :: "env \<Rightarrow> new_version \<Rightarrow> version act" where
  "create_version env a =
     bind_op (uuid4 env) (\<lambda>vid.
     let v = \<lparr>v_id = vid, v_plugin_id = nv_plugin_id a, v_version = nv_version a,
              v_commit_sha = nv_commit_sha a, v_source_ref = nv_source_ref a,
              v_source_type = nv_source_type a, v_download_url = nv_download_url a,
              v_s3_key = nv_s3_key a, v_file_size = Some (nv_file_size a),
              v_metadata_raw = Some (metadata_json (nv_metadata a)), v_changelog = Some (nv_changelog a),
              v_build_status = nv_build_status a, v_build_log = None, v_version_status = VDraft,
              v_is_latest = False, v_created_by = nv_created_by a, v_created_at = e_now env\<rparr> in
     bind_op (stage (\<lambda>D. D\<lparr>versions := versions D @ [v]\<rparr>)) (\<lambda>_.
     bind_op (commit_and_refresh env) (\<lambda>_. ret v)))"

definition update_version_after_build ::
  "env \<Rightarrow> uuid \<Rightarrow> plugin_metadata \<Rightarrow> string \<Rightarrow> string \<Rightarrow> int \<Rightarrow> string option \<Rightarrow> version option act" where
  "update_version_after_build env vid metadata s3_key url file_size commit_sha =
     bind_op (stage (edit_version vid (\<lambda>v. v\<lparr>v_s3_key := Some s3_key, v_download_url := Some url,
        v_file_size := Some file_size, v_metadata_raw := Some (metadata_json metadata),
        v_commit_sha := commit_sha, v_build_status := BSuccess\<rparr>))) (\<lambda>_.
     bind_op (commit_and_refresh env) (\<lambda>_. query (get_version vid)))"

text \<open>The checks that \<open>set_version_status\<close>, \<open>set_latest_version\<close> and \<open>publish_plugin_version\<close> share, and
  the step from scanning to success.\<close>

definition check_gate :: "env \<Rightarrow> version_view \<Rightarrow> string \<Rightarrow> string \<Rightarrow> unit act" where
  "check_gate env vv build_msg scan_msg =
     bind_op (runtime_scan_enabled_providers env) (\<lambda>required.
     bind_op (guard_op (build_ready_for_scan_policy vv (Some required)) (InvalidStateError build_msg)) (\<lambda>_.
     guard_op (scan_passed vv (Some required)) (InvalidStateError scan_msg)))"

definition finish_scanning :: "uuid \<Rightarrow> db \<Rightarrow> db" where
  "finish_scanning vid = edit_version vid
     (\<lambda>v. if v_build_status v = BScanning then v\<lparr>v_build_status := BSuccess\<rparr> else v)"

definition set_version_status :: "env \<Rightarrow> uuid \<Rightarrow> version_status \<Rightarrow> version option act" where
  "set_version_status env vid status =
     bind_op (query (get_version vid)) (\<lambda>found.
     case found of
       None \<Rightarrow> raise (NotFoundError ''Version not found'')
     | Some v \<Rightarrow>
         bind_op (when_op (status = VActive)
           (bind_op (query (\<lambda>D. load_view D v)) (\<lambda>vv.
            bind_op (check_gate env vv ''Version build must be successful before activation''
              ''Version security scan must pass before activation'') (\<lambda>_.
            stage (finish_scanning vid))))) (\<lambda>_.
         bind_op (stage (edit_version vid (\<lambda>v. v\<lparr>v_version_status := status\<rparr>))) (\<lambda>_.
         bind_op (when_op (status \<in> {VDraft, VDeprecated, VDeleted})
           (stage (edit_version vid (\<lambda>v. v\<lparr>v_is_latest := False\<rparr>)))) (\<lambda>_.
         bind_op (commit_and_refresh env) (\<lambda>_. query (get_version vid))))))"

definition find_view :: "uuid \<Rightarrow> uuid \<Rightarrow> db \<Rightarrow> version_view option" where
  "find_view pid vid D = find (\<lambda>vv. v_id (vv_version vv) = vid) (map (load_view D) (plugin_versions D pid))"

definition make_latest :: "uuid \<Rightarrow> uuid \<Rightarrow> db \<Rightarrow> db" where
  "make_latest pid vid D = edit_version vid (\<lambda>v. v\<lparr>v_is_latest := True\<rparr>) (unset_latest pid D)"

definition set_latest_version :: "env \<Rightarrow> uuid \<Rightarrow> uuid \<Rightarrow> version option act" where
  "set_latest_version env pid vid =
     bind_op (query (get_plugin pid)) (\<lambda>found.
     case found of
       None \<Rightarrow> raise (NotFoundError ''Plugin not found'')
     | Some p \<Rightarrow>
         bind_op (guard_op (p_status p = PActive)
           (InvalidStateError ''Plugin must be active before setting latest'')) (\<lambda>_.
         bind_op (query (find_view pid vid)) (\<lambda>x.
         case x of
           None \<Rightarrow> raise (NotFoundError ''Version not found'')
         | Some vv \<Rightarrow>
             bind_op (guard_op (v_version_status (vv_version vv) = VActive)
               (InvalidStateError ''Version must be active to be set as latest'')) (\<lambda>_.
             bind_op (check_gate env vv ''Version build must be successful to be set as latest''
               ''Version security scan must pass before setting latest'') (\<lambda>_.
             bind_op (stage (finish_scanning vid)) (\<lambda>_.
             bind_op (stage (make_latest pid vid)) (\<lambda>_.
             bind_op (commit_and_refresh env) (\<lambda>_. query (get_version vid)))))))))"

definition set_human_review_result :: "env \<Rightarrow> uuid \<Rightarrow> review_status \<Rightarrow> unit act" where
  "set_human_review_result env vid review =
     bind_op (query (\<lambda>D. row_get result_key (vid, ''human'') (results D))) (\<lambda>found.
     let r = (case found of None \<Rightarrow> new_result vid ''human'' KHuman (e_now env) | Some r \<Rightarrow> r) in
     stage (\<lambda>D. D\<lparr>results := row_put result_key
       (r\<lparr>pr_kind := KHuman, pr_passed := Some (review = RApproved \<or> review = RSkipped),
          pr_mode := (if review = RSkipped then MSkipped else MReal),
          pr_message := Some (if review = RSkipped then ''Human review skipped'' else ''Human review approved''),
          pr_completed_at := Some (e_now env), pr_updated_at := e_now env\<rparr>) (results D)\<rparr>))"

definition publish_plugin_version :: "env \<Rightarrow> uuid \<Rightarrow> uuid \<Rightarrow> review_status \<Rightarrow> version option act" where
  "publish_plugin_version env pid vid review =
     bind_op (guard_op (review = RApproved \<or> review = RSkipped)
       (ValidationError ''Invalid review status for publishing'')) (\<lambda>_.
     bind_op (query (get_plugin pid)) (\<lambda>found.
     case found of
       None \<Rightarrow> raise (NotFoundError ''Plugin not found'')
     | Some p \<Rightarrow>
         bind_op (query (find_view pid vid)) (\<lambda>x.
         case x of
           None \<Rightarrow> raise (NotFoundError ''Version not found'')
         | Some vv \<Rightarrow>
             bind_op (check_gate env vv ''Version build must be successful before publishing''
               ''Version security scan must pass before publishing'') (\<lambda>_.
             bind_op (stage (finish_scanning vid)) (\<lambda>_.
             bind_op (stage (edit_plugin pid (\<lambda>p. p\<lparr>p_status := PActive, p_review_status := review\<rparr>))) (\<lambda>_.
             bind_op (stage (edit_version vid (\<lambda>v. v\<lparr>v_version_status := VActive\<rparr>))) (\<lambda>_.
             bind_op (stage (make_latest pid vid)) (\<lambda>_.
             bind_op (set_human_review_result env vid review) (\<lambda>_.
             bind_op (commit_and_refresh env) (\<lambda>_. query (get_version vid)))))))))))"

section \<open>Lists\<close>

definition list_versions :: "uuid \<Rightarrow> db \<Rightarrow> version_view list" where
  "list_versions pid D = map (load_view D) (sort_key (\<lambda>v. - v_created_at v) (plugin_versions D pid))"

text \<open>\<open>ILIKE\<close>: per cent matches any text, underscore one character, a backslash quotes the next.\<close>

function like_match :: "string \<Rightarrow> string \<Rightarrow> bool" where
  "like_match [] s = (s = [])"
| "like_match (p # ps) s =
     (if p = CHR ''%'' then (if like_match ps s then True else if s = [] then False else like_match (p # ps) (tl s))
      else if s = [] then False
      else if p = CHR ''_'' then like_match ps (tl s)
      else if p = CHR 0x5C \<and> ps \<noteq> [] then (if hd s = hd ps then like_match (tl ps) (tl s) else False)
      else if hd s = p then like_match ps (tl s) else False)"
  by pat_completeness auto
termination
  by (relation "measure (\<lambda>(p, s). length p + length s)") (auto simp: neq_Nil_conv)

definition ilike :: "string option \<Rightarrow> string \<Rightarrow> bool" where
  "ilike x pat = (case x of None \<Rightarrow> False | Some s \<Rightarrow> like_match (str_lower pat) (str_lower s))"

definition list_plugins ::
  "string option \<Rightarrow> string option \<Rightarrow> int \<Rightarrow> int \<Rightarrow> db \<Rightarrow> plugin list \<times> nat" where
  "list_plugins status q page0 page_size0 D =
     (let page = max page0 1;
          page_size = min (max page_size0 1) 100;
          like = ''%'' @ str_strip (or_str q []) @ ''%'';
          found = filter (\<lambda>p. (truthy status \<longrightarrow> Some (plugin_status_str (p_status p)) = status)
            \<and> (truthy q \<longrightarrow> ilike (Some (p_plugin_key p)) like \<or> ilike (p_display_name p) like
                 \<or> ilike (p_description p) like \<or> ilike (Some (p_author p)) like)) (plugins D)
      in (take (nat page_size) (drop (nat ((page - 1) * page_size)) (sort_key (\<lambda>p. - p_created_at p) found)),
          length found))"

section \<open>Uploads\<close>

definition assert_metadata_matches_plugin :: "plugin_metadata \<Rightarrow> plugin \<Rightarrow> exn + unit" where
  "assert_metadata_matches_plugin metadata p =
     (let actual = infer_plugin_key (m_name metadata)
      in if actual \<noteq> p_plugin_key p then
           Inl (ValidationError (''metadata plugin key '' @ actual @ '' does not match existing plugin '' @ p_plugin_key p))
         else if m_author metadata \<noteq> p_author p then
           Inl (ValidationError ''metadata author does not match existing plugin'')
         else Inr ())"

definition upload_file :: "env \<Rightarrow> string \<Rightarrow> string \<Rightarrow> unit act" where
  "upload_file env content k =
     (case e_s3_upload env k content of
       Some e \<Rightarrow> raise e
     | None \<Rightarrow> modify (\<lambda>w. w\<lparr>s3_keys := (if k \<in> set (s3_keys w) then s3_keys w else s3_keys w @ [k])\<rparr>))"

definition create_version_from_upload ::
  "env \<Rightarrow> plugin \<Rightarrow> plugin_metadata \<Rightarrow> string \<Rightarrow> string \<Rightarrow> string \<Rightarrow> uuid option \<Rightarrow> version act" where
  "create_version_from_upload env p metadata content ver changelog created_by =
     bind_op (lift_res (assert_metadata_matches_plugin metadata p)) (\<lambda>_.
     bind_op (runtime_s3_layout env) (\<lambda>layout.
     bind_op (runtime_s3_public_url env) (\<lambda>public_url.
     let k = build_s3_key_with_layout p ver ''manual_upload'' None layout in
     bind_op (upload_file env content k) (\<lambda>_.
     create_version env \<lparr>nv_plugin_id = p_id p, nv_version = ver, nv_metadata = metadata,
       nv_s3_key = Some k, nv_download_url = Some (build_public_url_with_base k public_url),
       nv_file_size = int (length content), nv_source_type = ManualUpload, nv_commit_sha = None,
       nv_source_ref = None, nv_changelog = changelog, nv_created_by = created_by,
       nv_build_status = BSuccess\<rparr>))))"

section \<open>Commit and refresh\<close>

definition cache_healthy :: "env \<Rightarrow> world \<Rightarrow> bool" where
  "cache_healthy env w \<longleftrightarrow> redis w = None \<or> (\<exists>ttl. cache_ttl env w = Inr ttl \<and> 0 < ttl)"

lemma runtime_values_committed [simp]: "runtime_values env (w\<lparr>committed := D\<rparr>) = runtime_values env w"
  by (cases "redis w") (simp_all add: runtime_values_def)

lemma cfg_committed [simp]:
  "cfg_str env (w\<lparr>committed := D\<rparr>) = cfg_str env w" "cfg_int env (w\<lparr>committed := D\<rparr>) = cfg_int env w"
  "cfg_list env (w\<lparr>committed := D\<rparr>) = cfg_list env w"
  "enabled_providers env (w\<lparr>committed := D\<rparr>) = enabled_providers env w"
  "cache_ttl env (w\<lparr>committed := D\<rparr>) = cache_ttl env w"
  "registry_of env (w\<lparr>committed := D\<rparr>) = registry_of env w"
  by (simp_all add: cfg_str_def cfg_int_def cfg_list_def cfg_raw_def fun_eq_iff enabled_providers_def
      cache_ttl_def registry_of_def)

text \<open>A change of the session's rows that leaves the configuration table alone.\<close>

lemma runtime_values_sess: "configs D = configs (sess w) \<Longrightarrow> runtime_values env (w\<lparr>sess := D\<rparr>) = runtime_values env w"
  by (cases "redis w") (simp_all add: runtime_values_def config_rows_def)

lemma cfg_sess:
  assumes "configs D = configs (sess w)"
  shows "cache_ttl env (w\<lparr>sess := D\<rparr>) = cache_ttl env w"
    "enabled_providers env (w\<lparr>sess := D\<rparr>) = enabled_providers env w"
    "cache_healthy env (w\<lparr>sess := D\<rparr>) = cache_healthy env w"
  using runtime_values_sess[OF assms]
  by (simp_all add: cache_ttl_def cfg_int_def cfg_raw_def enabled_providers_def cfg_list_def cache_healthy_def)

lemma cache_healthy_fill [simp]: "cache_healthy env (fill_config env w) = cache_healthy env w"
  by (simp add: cache_healthy_def)

lemma commit_and_refresh_cases:
  assumes "commit_and_refresh env w = (r, v)"
  shows "(\<not> db_ok (sess w) \<and> r = Inl integrity_error \<and> committed v = committed w) \<or>
    (db_ok (sess w) \<and> committed v = sess w \<and> sess v = sess w)"
proof (cases "db_ok (sess w)")
  case True
  with assms have "refresh_cache env (w\<lparr>committed := sess w\<rparr>) = (r, v)"
    by (simp add: commit_and_refresh_def bind_op_def commit_def)
  from refresh_cache_db[OF this] True show ?thesis by simp
qed (use assms in \<open>auto simp: commit_and_refresh_def bind_op_def commit_def\<close>)

lemma commit_and_refresh_ok:
  assumes "db_ok (sess w)" "cache_healthy env w"
  shows "\<exists>v. commit_and_refresh env w = (Inr (), v) \<and> committed v = sess w \<and> sess v = sess w"
proof -
  let ?w = "w\<lparr>committed := sess w\<rparr>"
  have "fst (refresh_cache env ?w) = Inr ()"
    using assms(2) by (simp add: refresh_cache_Inr_iff cache_healthy_def)
  then obtain v where v: "refresh_cache env ?w = (Inr (), v)" by (cases "refresh_cache env ?w") auto
  with assms(1) have "commit_and_refresh env w = (Inr (), v)"
    by (simp add: commit_and_refresh_def bind_op_def commit_def)
  with refresh_cache_db[OF v] show ?thesis by simp
qed

text \<open>After a commit the cached document is the document of what was committed.\<close>

lemma commit_and_refresh_cache:
  assumes "commit_and_refresh env w = (Inr (), v)" "redis w \<noteq> None"
  shows "cached_json env (redis v) = Some (json_sort (registry_of env w))"
proof -
  let ?w = "w\<lparr>committed := sess w\<rparr>"
  from assms(1) have ok: "db_ok (sess w)" and r: "refresh_cache env ?w = (Inr (), v)"
    by (auto simp: commit_and_refresh_def bind_op_eq_Inr_iff commit_Inr_iff)
  from assms(2) obtain rd where rd: "redis ?w = Some rd" by auto
  from r have "\<exists>ttl. cache_ttl env ?w = Inr ttl \<and> 0 < ttl"
    using refresh_cache_Inr_iff[of env ?w] assms(2) by simp
  then obtain ttl where "cache_ttl env ?w = Inr ttl" "0 < ttl" by blast
  from refresh_cache_result[OF rd this] r show ?thesis by auto
qed

lemma keeps_world_ok_commit_and_refresh [keeps_intros]: "keeps world_ok (commit_and_refresh env)"
  unfolding commit_and_refresh_def by (intro keeps_intros keeps_world_ok_basic)

section \<open>Publishing\<close>

definition gate_open :: "env \<Rightarrow> world \<Rightarrow> version_view \<Rightarrow> bool" where
  "gate_open env w vv \<longleftrightarrow> build_ready_for_scan_policy vv (Some (enabled_providers env w))
     \<and> scan_passed vv (Some (enabled_providers env w))"

lemma check_gate_apply:
  "check_gate env vv m1 m2 w =
     (if \<not> build_ready_for_scan_policy vv (Some (enabled_providers env w)) then (Inl (InvalidStateError m1), fill_config env w)
      else if \<not> scan_passed vv (Some (enabled_providers env w)) then (Inl (InvalidStateError m2), fill_config env w)
      else (Inr (), fill_config env w))"
  by (simp add: check_gate_def bind_op_def runtime_scan_enabled_providers_apply)

definition human_row :: "env \<Rightarrow> uuid \<Rightarrow> review_status \<Rightarrow> provider_result \<Rightarrow> provider_result" where
  "human_row env vid review r =
     r\<lparr>pr_kind := KHuman, pr_passed := Some (review = RApproved \<or> review = RSkipped),
       pr_mode := (if review = RSkipped then MSkipped else MReal),
       pr_message := Some (if review = RSkipped then ''Human review skipped'' else ''Human review approved''),
       pr_completed_at := Some (e_now env), pr_updated_at := e_now env\<rparr>"

definition human_db :: "env \<Rightarrow> uuid \<Rightarrow> review_status \<Rightarrow> db \<Rightarrow> db" where
  "human_db env vid review D = D\<lparr>results := row_put result_key
     (human_row env vid review (case row_get result_key (vid, ''human'') (results D) of
        None \<Rightarrow> new_result vid ''human'' KHuman (e_now env) | Some r \<Rightarrow> r)) (results D)\<rparr>"

lemma set_human_review_result_apply:
  "set_human_review_result env vid review w = (Inr (), w\<lparr>sess := human_db env vid review (sess w)\<rparr>)"
  by (simp add: set_human_review_result_def bind_op_def human_db_def human_row_def Let_def)

definition publish_db :: "env \<Rightarrow> uuid \<Rightarrow> uuid \<Rightarrow> review_status \<Rightarrow> db \<Rightarrow> db" where
  "publish_db env pid vid review D =
     human_db env vid review (make_latest pid vid (edit_version vid (\<lambda>v. v\<lparr>v_version_status := VActive\<rparr>)
       (edit_plugin pid (\<lambda>p. p\<lparr>p_status := PActive, p_review_status := review\<rparr>) (finish_scanning vid D))))"

definition finish_with :: "env \<Rightarrow> uuid \<Rightarrow> world \<Rightarrow> (exn + version option) \<times> world" where
  "finish_with env vid = bind_op (commit_and_refresh env) (\<lambda>_. query (get_version vid))"

text \<open>Publishing, branch by branch.\<close>

lemma publish_plugin_version_apply:
  "publish_plugin_version env pid vid review w =
    (if review \<noteq> RApproved \<and> review \<noteq> RSkipped
       then (Inl (ValidationError ''Invalid review status for publishing''), w)
     else if get_plugin pid (sess w) = None then (Inl (NotFoundError ''Plugin not found''), w)
     else (case find_view pid vid (sess w) of
         None \<Rightarrow> (Inl (NotFoundError ''Version not found''), w)
       | Some vv \<Rightarrow>
           if \<not> build_ready_for_scan_policy vv (Some (enabled_providers env w))
             then (Inl (InvalidStateError ''Version build must be successful before publishing''), fill_config env w)
           else if \<not> scan_passed vv (Some (enabled_providers env w))
             then (Inl (InvalidStateError ''Version security scan must pass before publishing''), fill_config env w)
           else finish_with env vid ((fill_config env w)\<lparr>sess := publish_db env pid vid review (sess w)\<rparr>)))"
  by (cases "get_plugin pid (sess w)"; cases "find_view pid vid (sess w)")
     (simp_all add: publish_plugin_version_def bind_op_def[of "guard_op b e" for b e] bind_op_def[of "query q" for q]
       bind_op_def[of "check_gate e v m n" for e v m n] bind_op_def[of "stage f" for f]
       bind_op_def[of "set_human_review_result e v r" for e v r] check_gate_apply
       set_human_review_result_apply publish_db_def finish_with_def)

lemma find_view_SomeD:
  assumes "find_view pid vid D = Some vv"
  shows "vv_version vv \<in> set (versions D)" "v_plugin_id (vv_version vv) = pid" "v_id (vv_version vv) = vid"
    "vv = load_view D (vv_version vv)"
  using find_SomeD[OF assms[unfolded find_view_def]] by (auto simp: plugin_versions_def load_view_def)

text \<open>The row of a version after publication.\<close>

definition publish_row :: "uuid \<Rightarrow> uuid \<Rightarrow> version \<Rightarrow> version" where
  "publish_row pid vid v =
     (if v_id v = vid then v\<lparr>v_build_status := (if v_build_status v = BScanning then BSuccess else v_build_status v),
          v_version_status := VActive, v_is_latest := True\<rparr>
      else if v_plugin_id v = pid then v\<lparr>v_is_latest := False\<rparr> else v)"

lemma publish_db_parts:
  "versions (publish_db env pid vid review D) = map (publish_row pid vid) (versions D)"
  "plugins (publish_db env pid vid review D) =
     rows_update (\<lambda>p. p_id p = pid) (\<lambda>p. p\<lparr>p_status := PActive, p_review_status := review\<rparr>) (plugins D)"
  "results (publish_db env pid vid review D) = results (human_db env vid review D)"
  "configs (publish_db env pid vid review D) = configs D"
  by (auto simp: publish_db_def human_db_def make_latest_def edit_version_def edit_plugin_def
      finish_scanning_def unset_latest_def rows_update_def publish_row_def)

lemma publish_db_eq:
  "publish_db env pid vid review D =
     D\<lparr>plugins := plugins (publish_db env pid vid review D), versions := map (publish_row pid vid) (versions D),
       results := results (human_db env vid review D)\<rparr>"
  unfolding publish_db_parts(1,3)[of env pid vid review D, symmetric]
  by (simp add: publish_db_def human_db_def make_latest_def edit_version_def edit_plugin_def
      finish_scanning_def unset_latest_def)

section \<open>The constraints after an operation\<close>

definition artifact_present :: "version \<Rightarrow> bool" where
  "artifact_present v \<longleftrightarrow> v_s3_key v \<noteq> None \<and> v_download_url v \<noteq> None"

definition is_hidden :: "plugin_status \<Rightarrow> bool" where
  "is_hidden s \<longleftrightarrow> s = PDisabled \<or> s = PDeleted"

text \<open>What the services keep true beside the constraints: a version that is scanned has its artifact,
  and a disabled or deleted plugin has no latest version.\<close>

definition version_soft :: "db \<Rightarrow> version \<Rightarrow> bool" where
  "version_soft D v \<longleftrightarrow>
     (v_build_status v = BScanning \<longrightarrow> artifact_present v)
   \<and> (v_is_latest v \<longrightarrow> (\<forall>p. get_plugin (v_plugin_id v) D = Some p \<longrightarrow> \<not> is_hidden (p_status p)))"

definition registry_soft :: "db \<Rightarrow> bool" where
  "registry_soft D \<longleftrightarrow> (\<forall>v \<in> set (versions D). version_soft D v)"

definition reg_inv :: "world \<Rightarrow> bool" where
  "reg_inv w \<longleftrightarrow> db_ok (committed w) \<and> registry_soft (committed w) \<and> registry_soft (sess w)"

lemma publish_row_core: "v_core (publish_row pid vid v) = v_core v"
  by (simp add: publish_row_def v_core_def)

lemma version_unique:
  "db_ok D \<Longrightarrow> u \<in> set (versions D) \<Longrightarrow> v \<in> set (versions D) \<Longrightarrow> v_id u = v_id v \<Longrightarrow> u = v"
  by (auto simp: db_ok_def versions_ok_def distinct_map inj_on_def)

lemma version_latest_unique:
  "db_ok D \<Longrightarrow> u \<in> set (versions D) \<Longrightarrow> v \<in> set (versions D) \<Longrightarrow> v_is_latest u \<Longrightarrow> v_is_latest v \<Longrightarrow>
   v_plugin_id u = v_plugin_id v \<Longrightarrow> v_id u = v_id v"
  using distinct_keys_filter[of v_id "versions D" v_plugin_id v_is_latest]
  by (auto simp: db_ok_def versions_ok_def inj_on_def)

lemma version_row_of: "db_ok D \<Longrightarrow> v \<in> set (versions D) \<Longrightarrow> latest_ok v \<and> artifact_ok v"
  by (simp add: db_ok_def versions_ok_def version_row_ok_def list_all_iff)

text \<open>Making one version of a plugin the latest, after edits that leave it active and built.\<close>

definition ready_row :: "version \<Rightarrow> bool" where
  "ready_row v \<longleftrightarrow> v_version_status v = VActive \<and> v_build_status v = BSuccess \<and> artifact_present v"

lemma db_ok_latest_edit:
  assumes ok: "db_ok D" and v: "v \<in> set (versions D)" "v_plugin_id v = pid" "v_id v = vid"
    and core: "\<And>u. u \<in> set (versions D) \<Longrightarrow> v_core (g u) = v_core u"
    and new: "ready_row (g v)"
    and other: "\<And>u. u \<in> set (versions D) \<Longrightarrow> v_id u \<noteq> vid \<Longrightarrow>
      v_build_status (g u) = v_build_status u \<and> v_version_status (g u) = v_version_status u
      \<and> v_is_latest (g u) = (v_plugin_id u \<noteq> pid \<and> v_is_latest u)"
  shows "db_ok (D\<lparr>versions := map g (versions D)\<rparr>)"
proof (rule db_ok_edit_versions[OF ok core])
  fix u assume u: "u \<in> set (versions D)"
  show "latest_ok (g u) \<and> artifact_ok (g u)"
  proof (cases "v_id u = vid")
    case True
    then have "u = v" using version_unique[OF ok u v(1)] v(3) by simp
    with new show ?thesis by (simp add: latest_ok_def artifact_ok_def ready_row_def artifact_present_def)
  next
    case False
    with version_row_of[OF ok u] other[OF u False] v_coreD(7,8)[OF core[OF u]]
    show ?thesis by (auto simp: latest_ok_def artifact_ok_def)
  qed
next
  fix u x
  assume u: "u \<in> set (versions D)" and x: "x \<in> set (versions D)"
    and lat: "v_is_latest (g u)" "v_is_latest (g x)" and same: "v_plugin_id u = v_plugin_id x"
  show "v_id u = v_id x"
  proof (cases "v_id u = vid \<or> v_id x = vid")
    case True
    then show ?thesis
      using other[OF u] other[OF x] lat same v version_unique[OF ok u v(1)] version_unique[OF ok x v(1)]
      by metis
  next
    case False
    with other[OF u] other[OF x] lat have "v_is_latest u" "v_is_latest x" by auto
    with version_latest_unique[OF ok u x] same show ?thesis by simp
  qed
qed auto

lemma results_ok_put:
  assumes "results_ok D" "result_row_ok r" "pr_version_id r \<in> set (map v_id (versions D))"
  shows "results_ok (D\<lparr>results := row_put result_key r (results D)\<rparr>)"
  using assms by (auto simp: results_ok_def list_all_iff set_row_put distinct_row_put)

lemma human_db_eq: "human_db env vid review D = D\<lparr>results := results (human_db env vid review D)\<rparr>"
  by (simp add: human_db_def)

lemma db_ok_human:
  assumes ok: "db_ok D" and v: "vid \<in> set (map v_id (versions D))"
  shows "db_ok (human_db env vid review D)"
proof -
  let ?r = "case row_get result_key (vid, ''human'') (results D) of
        None \<Rightarrow> new_result vid ''human'' KHuman (e_now env) | Some r \<Rightarrow> r"
  have r: "result_row_ok ?r \<and> pr_version_id ?r = vid"
  proof (cases "row_get result_key (vid, ''human'') (results D)")
    case None
    then show ?thesis by (simp add: new_result_def result_row_ok_def fits_def int4_def)
  next
    case (Some r)
    then have "r \<in> set (results D)" "result_key r = (vid, ''human'')" by (auto dest: row_get_SomeD)
    with ok Some show ?thesis by (auto simp: db_ok_def results_ok_def list_all_iff result_key_def)
  qed
  then have "result_row_ok (human_row env vid review ?r)" "pr_version_id (human_row env vid review ?r) = vid"
    by (simp_all add: human_row_def result_row_ok_def)
  with v ok have "results_ok (D\<lparr>results := row_put result_key (human_row env vid review ?r) (results D)\<rparr>)"
    by (intro results_ok_put) (simp_all add: db_ok_def)
  with ok show ?thesis unfolding human_db_def by (rule db_ok_set_results)
qed

lemma db_ok_edit_plugin:
  assumes ok: "db_ok D" and f: "\<And>p. p_id (f p) = p_id p" "\<And>p. p_plugin_key (f p) = p_plugin_key p"
    "\<And>p. plugin_row_ok p \<Longrightarrow> plugin_row_ok (f p)"
  shows "db_ok (edit_plugin pid f D)"
proof -
  let ?ps = "rows_update (\<lambda>p. p_id p = pid) f (plugins D)"
  have k: "map p_id ?ps = map p_id (plugins D)" "map p_plugin_key ?ps = map p_plugin_key (plugins D)"
    using f by (simp_all add: map_key_update)
  have "list_all plugin_row_ok ?ps"
    using ok f(3) by (auto simp: db_ok_def plugins_ok_def list_all_iff set_rows_update)
  with k ok have "plugins_ok (D\<lparr>plugins := ?ps\<rparr>)" by (simp add: db_ok_def plugins_ok_def)
  with db_ok_set_plugins[OF ok k(1)] show ?thesis by (simp add: edit_plugin_def)
qed

lemma db_ok_publish:
  assumes ok: "db_ok D" and vv: "find_view pid vid D = Some vv"
    and built: "v_build_status (vv_version vv) = BSuccess \<or>
      v_build_status (vv_version vv) = BScanning \<and> artifact_present (vv_version vv)"
  shows "db_ok (publish_db env pid vid review D)"
proof -
  let ?v = "vv_version vv"
  note v = find_view_SomeD[OF vv]
  let ?D1 = "edit_plugin pid (\<lambda>p. p\<lparr>p_status := PActive, p_review_status := review\<rparr>) D"
  let ?D2 = "?D1\<lparr>versions := map (publish_row pid vid) (versions ?D1)\<rparr>"
  have vs: "versions ?D1 = versions D" by (simp add: edit_plugin_def)
  have 1: "db_ok ?D1" by (rule db_ok_edit_plugin[OF ok]) (simp_all add: plugin_row_ok_def)
  have "ready_row (publish_row pid vid ?v)"
    using built v(2,3) version_row_of[OF ok v(1)]
    by (auto simp: ready_row_def publish_row_def artifact_ok_def artifact_present_def)
  then have 2: "db_ok ?D2"
    using v by (intro db_ok_latest_edit[OF 1 _ _ _ publish_row_core, of ?v pid vid])
      (simp_all add: vs publish_row_def)
  have "vid \<in> set (map v_id (versions ?D2))"
    using v(1,3) by (force simp: vs publish_row_def)
  with 2 have "db_ok (human_db env vid review ?D2)" by (rule db_ok_human)
  moreover have "publish_db env pid vid review D = human_db env vid review ?D2"
    by (subst publish_db_eq) (simp add: publish_db_parts human_db_def edit_plugin_def)
  ultimately show ?thesis by simp
qed

section \<open>What every operation keeps\<close>

lemma keeps_reg_inv_basic [keeps_intros]:
  "keeps reg_inv commit" "keeps reg_inv flush" "keeps reg_inv (uuid4 env)" "keeps reg_inv (on_redis h)"
  by (auto simp: keeps_def reg_inv_def commit_def flush_def)

lemma reg_inv_fill [simp]: "reg_inv (fill_config env w) = reg_inv w"
  by (simp add: reg_inv_def)

lemma keeps_reg_inv_refresh [keeps_intros]: "keeps reg_inv (refresh_cache env)"
proof (rule keepsI)
  fix w assume "reg_inv w"
  then show "reg_inv (snd (refresh_cache env w))"
    by (cases "refresh_cache env w") (simp add: reg_inv_def refresh_cache_db)
qed

lemma keeps_reg_inv_commit_and_refresh [keeps_intros]: "keeps reg_inv (commit_and_refresh env)"
  unfolding commit_and_refresh_def by (intro keeps_intros)

lemma keeps_reg_inv_check_gate [keeps_intros]: "keeps reg_inv (check_gate env vv m n)"
  by (simp add: keeps_def check_gate_apply)

lemma keeps_reg_inv_stage: "(\<And>D. registry_soft D \<Longrightarrow> registry_soft (f D)) \<Longrightarrow> keeps reg_inv (stage f)"
  by (simp add: keeps_def reg_inv_def)

lemma soft_edit_plugin:
  assumes "registry_soft D" "\<And>p. p_id (f p) = p_id p" "\<And>p. is_hidden (p_status (f p)) \<Longrightarrow> is_hidden (p_status p)"
  shows "registry_soft (edit_plugin pid f D)"
proof -
  have g: "get_plugin i (edit_plugin pid f D) = map_option (\<lambda>p. if p_id p = pid then f p else p) (get_plugin i D)" for i
    by (simp add: get_plugin_def edit_plugin_def row_get_update assms(2))
  show ?thesis
    using assms(1,3) by (auto simp: registry_soft_def version_soft_def g) (auto simp: edit_plugin_def split: if_splits)
qed

text \<open>Edits of versions that do not turn a version into the latest or into a scanned one.\<close>

lemma soft_edit_versions:
  assumes "registry_soft D"
    and "\<And>v. v \<in> set (versions D) \<Longrightarrow> v_plugin_id (f v) = v_plugin_id v \<and> (v_is_latest (f v) \<longrightarrow> v_is_latest v)
      \<and> (v_build_status (f v) = BScanning \<longrightarrow> artifact_present v \<longrightarrow> artifact_present (f v))
      \<and> (v_build_status (f v) = BScanning \<longrightarrow> v_build_status v = BScanning \<or> artifact_present (f v))"
  shows "registry_soft (D\<lparr>versions := map f (versions D)\<rparr>)"
  using assms by (auto simp: registry_soft_def version_soft_def get_plugin_def)

lemma soft_edit_version:
  assumes "registry_soft D"
    and "\<And>v. v_plugin_id (f v) = v_plugin_id v \<and> (v_is_latest (f v) \<longrightarrow> v_is_latest v)
      \<and> (v_build_status (f v) = BScanning \<longrightarrow> v_build_status v = BScanning \<and> v_s3_key (f v) = v_s3_key v
          \<and> v_download_url (f v) = v_download_url v)"
  shows "registry_soft (edit_version vid f D)"
  unfolding edit_version_def rows_update_def
  by (rule soft_edit_versions[OF assms(1)]) (use assms(2) in \<open>auto simp: artifact_present_def\<close>)

lemma soft_unset_latest: "registry_soft D \<Longrightarrow> registry_soft (unset_latest pid D)"
  unfolding unset_latest_def rows_update_def
  by (rule soft_edit_versions) (auto simp: artifact_present_def)

lemma soft_delete_versions: "registry_soft D \<Longrightarrow> registry_soft (delete_versions P D)"
  by (auto simp: registry_soft_def version_soft_def get_plugin_def delete_versions_def Let_def)

lemma soft_delete_plugin_row:
  assumes "registry_soft D"
  shows "registry_soft (delete_plugin_row pid D)"
proof -
  let ?D = "delete_versions (\<lambda>v. v_plugin_id v = pid) D"
  have s: "registry_soft ?D" using assms by (rule soft_delete_versions)
  have "get_plugin i (delete_plugin_row pid D) = (if i = pid then None else get_plugin i ?D)" for i
    by (simp add: get_plugin_def delete_plugin_row_def Let_def row_get_del)
  moreover have "versions (delete_plugin_row pid D) = versions ?D"
    by (simp add: delete_plugin_row_def Let_def)
  ultimately show ?thesis using s by (auto simp: registry_soft_def version_soft_def)
qed

text \<open>Changes of the other tables.\<close>

lemma soft_same: "versions E = versions D \<Longrightarrow> plugins E = plugins D \<Longrightarrow> registry_soft E = registry_soft D"
  by (simp add: registry_soft_def version_soft_def get_plugin_def)

lemma soft_tables [simp]:
  "registry_soft (D\<lparr>tags := a\<rparr>) = registry_soft D" "registry_soft (D\<lparr>plugin_tags := b\<rparr>) = registry_soft D"
  "registry_soft (D\<lparr>i18ns := c\<rparr>) = registry_soft D" "registry_soft (D\<lparr>results := d\<rparr>) = registry_soft D"
  "registry_soft (D\<lparr>scans := e\<rparr>) = registry_soft D" "registry_soft (D\<lparr>tasks := f\<rparr>) = registry_soft D"
  "registry_soft (D\<lparr>configs := g\<rparr>) = registry_soft D"
  by (rule soft_same; simp)+

lemma soft_set_plugin_tags [simp]: "registry_soft (set_plugin_tags pid names D) = registry_soft D"
  by (simp add: set_plugin_tags_def)

lemma soft_add_plugin:
  "registry_soft D \<Longrightarrow> \<not> is_hidden (p_status p) \<Longrightarrow> registry_soft (D\<lparr>plugins := plugins D @ [p]\<rparr>)"
  by (auto simp: registry_soft_def version_soft_def get_plugin_def row_get_append split: option.splits if_splits)

lemma soft_add_version:
  "registry_soft D \<Longrightarrow> \<not> v_is_latest v \<Longrightarrow> v_build_status v = BScanning \<longrightarrow> artifact_present v \<Longrightarrow>
   registry_soft (D\<lparr>versions := versions D @ [v]\<rparr>)"
  by (auto simp: registry_soft_def version_soft_def get_plugin_def)

lemma keeps_reg_inv_ensure_tags [keeps_intros]: "keeps reg_inv (ensure_tags names)"
  unfolding ensure_tags_def Let_def by (intro keeps_intros keeps_reg_inv_stage) simp

lemma keeps_reg_inv_apply_update [keeps_intros]: "keeps reg_inv (apply_update pid u)"
proof (cases u)
  case (UpdTags x)
  show ?thesis unfolding UpdTags apply_update.simps by (intro keeps_intros keeps_reg_inv_stage) simp
qed (auto intro!: keeps_reg_inv_stage soft_edit_plugin)

lemma keeps_reg_inv_delete_file [keeps_intros]: "keeps reg_inv (delete_file env k)"
  by (auto simp: delete_file_def keeps_def reg_inv_def split: option.splits)

lemma keeps_reg_inv_plugins:
  "keeps reg_inv (create_plugin env m url)" "keeps reg_inv (update_plugin env pid us)"
  "keeps reg_inv (delete_plugin env pid)" "keeps reg_inv (delete_version env pid vid)"
proof -
  show "keeps reg_inv (create_plugin env m url)"
    unfolding create_plugin_def Let_def
    by (intro keeps_intros keeps_reg_inv_stage) (auto simp: is_hidden_def intro: soft_add_plugin)
  show "keeps reg_inv (update_plugin env pid us)"
    unfolding update_plugin_def by (intro keeps_intros)
  show "keeps reg_inv (delete_plugin env pid)"
    unfolding delete_plugin_def
    by (intro keeps_intros keeps_reg_inv_stage soft_unset_latest soft_delete_versions soft_delete_plugin_row)
  show "keeps reg_inv (delete_version env pid vid)"
    unfolding delete_version_def by (intro keeps_intros keeps_reg_inv_stage soft_delete_versions)
qed

lemma keeps_reg_inv_versions:
  "nv_build_status a \<noteq> BScanning \<Longrightarrow> keeps reg_inv (create_version env a)"
  "keeps reg_inv (update_version_after_build env vid m k url n sha)"
  "keeps reg_inv (set_version_status env vid st)"
proof -
  show "nv_build_status a \<noteq> BScanning \<Longrightarrow> keeps reg_inv (create_version env a)"
    unfolding create_version_def Let_def
    by (intro keeps_intros keeps_reg_inv_stage) (auto intro: soft_add_version)
  show "keeps reg_inv (update_version_after_build env vid m k url n sha)"
    unfolding update_version_after_build_def
    by (intro keeps_intros keeps_reg_inv_stage soft_edit_version) auto
  show "keeps reg_inv (set_version_status env vid st)"
    unfolding set_version_status_def finish_scanning_def
    by (intro keeps_intros keeps_reg_inv_stage soft_edit_version) auto
qed

section \<open>Status changes, branch by branch\<close>

lemmas bind_eval = bind_op_def[of "guard_op b e" for b e] bind_op_def[of "query q" for q]
  bind_op_def[of "check_gate e v m n" for e v m n] bind_op_def[of "stage f" for f]
  bind_op_def[of "when_op b m" for b m] bind_op_def[of "raise e" for e] bind_op_def[of "ret x" for x]

definition status_db :: "uuid \<Rightarrow> plugin_status \<Rightarrow> review_status option \<Rightarrow> db \<Rightarrow> db" where
  "status_db pid status review D =
     (let E = edit_plugin pid (\<lambda>p. p\<lparr>p_status := status,
            p_review_status :=
              (case review of
                Some r \<Rightarrow> r
              | None \<Rightarrow>
                  if status = PActive \<and> p_review_status p = RPending then RApproved
                  else if status = PDisabled \<and> p_review_status p = RPending then RRejected
                  else p_review_status p)\<rparr>) D
      in if is_hidden status then unset_latest pid E else E)"

lemma set_plugin_status_apply:
  "set_plugin_status env pid status review w =
     (if get_plugin pid (sess w) = None then (Inl (NotFoundError ''Plugin not found''), w)
      else bind_op (commit_and_refresh env) (\<lambda>_. query (get_plugin pid))
        (w\<lparr>sess := status_db pid status review (sess w)\<rparr>))"
  by (cases "get_plugin pid (sess w)")
     (simp_all add: set_plugin_status_def bind_eval status_db_def is_hidden_def Let_def)

definition latest_db :: "uuid \<Rightarrow> uuid \<Rightarrow> db \<Rightarrow> db" where
  "latest_db pid vid D = make_latest pid vid (finish_scanning vid D)"

lemma set_latest_version_apply:
  "set_latest_version env pid vid w =
    (case get_plugin pid (sess w) of
       None \<Rightarrow> (Inl (NotFoundError ''Plugin not found''), w)
     | Some p \<Rightarrow>
         if p_status p \<noteq> PActive then (Inl (InvalidStateError ''Plugin must be active before setting latest''), w)
         else (case find_view pid vid (sess w) of
             None \<Rightarrow> (Inl (NotFoundError ''Version not found''), w)
           | Some vv \<Rightarrow>
               if v_version_status (vv_version vv) \<noteq> VActive
                 then (Inl (InvalidStateError ''Version must be active to be set as latest''), w)
               else if \<not> build_ready_for_scan_policy vv (Some (enabled_providers env w))
                 then (Inl (InvalidStateError ''Version build must be successful to be set as latest''), fill_config env w)
               else if \<not> scan_passed vv (Some (enabled_providers env w))
                 then (Inl (InvalidStateError ''Version security scan must pass before setting latest''), fill_config env w)
               else finish_with env vid ((fill_config env w)\<lparr>sess := latest_db pid vid (sess w)\<rparr>)))"
  by (cases "get_plugin pid (sess w)"; cases "find_view pid vid (sess w)")
     (simp_all add: set_latest_version_def bind_eval check_gate_apply latest_db_def finish_with_def)

definition version_status_db :: "uuid \<Rightarrow> version_status \<Rightarrow> db \<Rightarrow> db" where
  "version_status_db vid status D =
     (let E = edit_version vid (\<lambda>v. v\<lparr>v_version_status := status\<rparr>)
                (if status = VActive then finish_scanning vid D else D)
      in if status = VActive then E else edit_version vid (\<lambda>v. v\<lparr>v_is_latest := False\<rparr>) E)"

lemma set_version_status_apply:
  "set_version_status env vid status w =
    (case get_version vid (sess w) of
       None \<Rightarrow> (Inl (NotFoundError ''Version not found''), w)
     | Some v \<Rightarrow>
         let vv = load_view (sess w) v in
         if status = VActive \<and> \<not> build_ready_for_scan_policy vv (Some (enabled_providers env w))
           then (Inl (InvalidStateError ''Version build must be successful before activation''), fill_config env w)
         else if status = VActive \<and> \<not> scan_passed vv (Some (enabled_providers env w))
           then (Inl (InvalidStateError ''Version security scan must pass before activation''), fill_config env w)
         else finish_with env vid ((if status = VActive then fill_config env w else w)
           \<lparr>sess := version_status_db vid status (sess w)\<rparr>))"
  by (cases "get_version vid (sess w)"; cases status)
     (simp_all add: set_version_status_def bind_eval check_gate_apply version_status_db_def finish_with_def Let_def)

lemma rows_update_twice:
  "rows_update P f (rows_update Q g rs) = map (\<lambda>r. let s = (if Q r then g r else r) in if P s then f s else s) rs"
  by (simp add: rows_update_def Let_def)

lemma latest_db_eq:
  "latest_db pid vid D = D\<lparr>versions := map (\<lambda>v. if v_id v = vid
      then v\<lparr>v_build_status := (if v_build_status v = BScanning then BSuccess else v_build_status v), v_is_latest := True\<rparr>
      else if v_plugin_id v = pid then v\<lparr>v_is_latest := False\<rparr> else v) (versions D)\<rparr>"
  by (simp add: latest_db_def make_latest_def edit_version_def unset_latest_def finish_scanning_def
      rows_update_def comp_def cong: map_cong)

lemma db_ok_set_latest:
  assumes ok: "db_ok D" and vv: "find_view pid vid D = Some vv" "v_version_status (vv_version vv) = VActive"
    and built: "v_build_status (vv_version vv) = BSuccess \<or>
      v_build_status (vv_version vv) = BScanning \<and> artifact_present (vv_version vv)"
  shows "db_ok (latest_db pid vid D)"
proof -
  note v = find_view_SomeD[OF vv(1)]
  show ?thesis
    unfolding latest_db_eq
    by (rule db_ok_latest_edit[OF ok v(1-3)])
       (use built vv(2) v(2,3) version_row_of[OF ok v(1)] in
         \<open>auto simp: v_core_def ready_row_def artifact_ok_def artifact_present_def\<close>)
qed

lemma build_ready_built:
  assumes "registry_soft D" "vv_version vv \<in> set (versions D)" "build_ready_for_scan_policy vv ps"
  shows "v_build_status (vv_version vv) = BSuccess \<or>
    v_build_status (vv_version vv) = BScanning \<and> artifact_present (vv_version vv)"
  using assms by (auto simp: build_ready_for_scan_policy_def registry_soft_def version_soft_def split: if_splits)

lemma db_ok_unset_latest: "db_ok D \<Longrightarrow> db_ok (unset_latest pid D)"
  unfolding unset_latest_def rows_update_def
  by (rule db_ok_edit_versions)
     (auto simp: v_core_def latest_ok_def artifact_ok_def dest: version_row_of version_latest_unique split: if_splits)

lemma db_ok_status: "db_ok D \<Longrightarrow> db_ok (status_db pid status review D)"
  unfolding status_db_def Let_def
  by (auto intro!: db_ok_unset_latest db_ok_edit_plugin simp: plugin_row_ok_def)

lemma version_status_db_eq:
  "version_status_db vid status D = D\<lparr>versions := map (\<lambda>v. if v_id v = vid
      then v\<lparr>v_build_status := (if status = VActive \<and> v_build_status v = BScanning then BSuccess else v_build_status v),
        v_version_status := status, v_is_latest := (status = VActive \<and> v_is_latest v)\<rparr> else v) (versions D)\<rparr>"
  by (auto simp: version_status_db_def Let_def edit_version_def finish_scanning_def rows_update_def comp_def
      intro!: arg_cong[where f = "\<lambda>x. D\<lparr>versions := x\<rparr>"])

lemma db_ok_version_status:
  assumes ok: "db_ok D" and v: "get_version vid D = Some v"
    and built: "status = VActive \<Longrightarrow> v_build_status v = BSuccess \<or> v_build_status v = BScanning \<and> artifact_present v"
  shows "db_ok (version_status_db vid status D)"
proof -
  have vs: "v \<in> set (versions D)" "v_id v = vid" using v by (auto simp: get_version_def dest: row_get_SomeD)
  show ?thesis
    unfolding version_status_db_eq
  proof (rule db_ok_edit_versions[OF ok], goal_cases)
    case (2 u)
    show ?case
    proof (cases "v_id u = vid")
      case True
      then have "u = v" using version_unique[OF ok 2 vs(1)] vs(2) by simp
      then show ?thesis using built version_row_of[OF ok vs(1)]
        by (auto simp: latest_ok_def artifact_ok_def artifact_present_def split: if_splits)
    next
      case False
      then show ?thesis using version_row_of[OF ok 2] by simp
    qed
  next
    case (3 u x)
    then show ?case using version_latest_unique[OF ok, of u x] by (auto split: if_splits)
  qed (auto simp: v_core_def)
qed

section \<open>The operations that need the constraints to start with\<close>

definition inv_db :: "db \<Rightarrow> bool" where
  "inv_db D \<longleftrightarrow> db_ok D \<and> registry_soft D"

lemma get_plugin_distinct:
  "db_ok D \<Longrightarrow> p \<in> set (plugins D) \<Longrightarrow> get_plugin (p_id p) D = Some p"
  by (simp add: get_plugin_def db_ok_def plugins_ok_def row_get_distinct)

lemma get_plugin_id: "get_plugin i D = Some p \<Longrightarrow> p_id p = i"
  by (auto simp: get_plugin_def dest: row_get_SomeD)

text \<open>Exactly the version \<open>vid\<close> of plugin \<open>pid\<close> becomes the latest, and the plugin is not hidden.\<close>

lemma soft_latest_edit:
  assumes inv: "inv_db D" and v: "v \<in> set (versions D)" "v_plugin_id v = pid" "v_id v = vid"
    and same: "\<And>i. i \<noteq> pid \<Longrightarrow> get_plugin i E = get_plugin i D"
    and shown: "\<And>p. get_plugin pid E = Some p \<Longrightarrow> \<not> is_hidden (p_status p)"
    and vs: "versions E = map g (versions D)"
    and core: "\<And>u. u \<in> set (versions D) \<Longrightarrow> v_core (g u) = v_core u"
    and edits: "\<And>u. u \<in> set (versions D) \<Longrightarrow> (v_build_status (g u) = BScanning \<longrightarrow> v_build_status u = BScanning)
      \<and> (v_id u \<noteq> vid \<longrightarrow> v_is_latest (g u) \<longrightarrow> v_is_latest u)"
  shows "registry_soft E"
  unfolding registry_soft_def vs
proof
  fix x assume "x \<in> set (map g (versions D))"
  then obtain u where u: "u \<in> set (versions D)" "x = g u" by auto
  note c = v_coreD[OF core[OF u(1)]]
  have soft: "version_soft D u" using inv u(1) by (simp add: inv_db_def registry_soft_def)
  have "v_plugin_id u = pid" if "v_id u = vid"
    using version_unique[of D u v] inv u(1) v that by (simp add: inv_db_def)
  then show "version_soft E x"
    using soft edits[OF u(1)] shown same[of "v_plugin_id u"] c u(2)
    by (cases "v_plugin_id u = pid") (auto simp: version_soft_def artifact_present_def)
qed

lemma soft_publish:
  assumes inv: "inv_db D" and vv: "find_view pid vid D = Some vv"
  shows "registry_soft (publish_db env pid vid review D)"
proof -
  note v = find_view_SomeD[OF vv]
  let ?E = "publish_db env pid vid review D"
  have g: "get_plugin i ?E = map_option (\<lambda>p. if p_id p = pid then p\<lparr>p_status := PActive, p_review_status := review\<rparr> else p)
      (get_plugin i D)" for i
    by (simp add: get_plugin_def publish_db_parts row_get_update)
  have same: "get_plugin i ?E = get_plugin i D" if "i \<noteq> pid" for i
    using that get_plugin_id[of i D] by (cases "get_plugin i D") (simp_all add: g)
  have shown: "\<not> is_hidden (p_status p)" if "get_plugin pid ?E = Some p" for p
    using that by (cases "get_plugin pid D") (auto simp: g is_hidden_def dest: get_plugin_id)
  show ?thesis
    by (rule soft_latest_edit[OF inv v(1-3) same shown publish_db_parts(1) publish_row_core])
       (auto simp: publish_row_def)
qed

lemma soft_set_latest:
  assumes inv: "inv_db D" and vv: "find_view pid vid D = Some vv"
    and p: "get_plugin pid D = Some p" "p_status p = PActive"
  shows "registry_soft (latest_db pid vid D)"
proof -
  note v = find_view_SomeD[OF vv]
  let ?g = "\<lambda>v. if v_id v = vid
      then v\<lparr>v_build_status := (if v_build_status v = BScanning then BSuccess else v_build_status v), v_is_latest := True\<rparr>
      else if v_plugin_id v = pid then v\<lparr>v_is_latest := False\<rparr> else v"
  show ?thesis
    unfolding latest_db_eq
    by (rule soft_latest_edit[OF inv v(1-3), of _ ?g])
       (use p in \<open>auto simp: get_plugin_def is_hidden_def v_core_def\<close>)
qed

lemma soft_status:
  assumes "registry_soft D"
  shows "registry_soft (status_db pid status review D)"
proof (cases "is_hidden status")
  case False
  with assms show ?thesis by (auto simp: status_db_def Let_def intro!: soft_edit_plugin)
next
  case True
  let ?f = "\<lambda>p. p\<lparr>p_status := status, p_review_status := (case review of Some r \<Rightarrow> r | None \<Rightarrow>
      if status = PActive \<and> p_review_status p = RPending then RApproved
      else if status = PDisabled \<and> p_review_status p = RPending then RRejected else p_review_status p)\<rparr>"
  have ps: "plugins (status_db pid status review D) = rows_update (\<lambda>p. p_id p = pid) ?f (plugins D)"
    using True by (simp add: status_db_def Let_def unset_latest_def edit_plugin_def)
  have g: "get_plugin i (status_db pid status review D) = map_option (\<lambda>p. if p_id p = pid then ?f p else p) (get_plugin i D)" for i
    unfolding get_plugin_def ps by (rule row_get_update) simp
  have same: "get_plugin i (status_db pid status review D) = get_plugin i D" if "i \<noteq> pid" for i
    using that get_plugin_id[of i D] by (cases "get_plugin i D") (simp_all add: g)
  have vs: "versions (status_db pid status review D) =
      map (\<lambda>v. if v_plugin_id v = pid then v\<lparr>v_is_latest := False\<rparr> else v) (versions D)"
    using True by (simp add: status_db_def Let_def unset_latest_def edit_plugin_def rows_update_def)
  show ?thesis
    using assms same by (auto simp: registry_soft_def version_soft_def vs artifact_present_def)
qed

text \<open>None of these operations can fail at the commit.\<close>

lemma inv_publish:
  assumes "inv_db D" "find_view pid vid D = Some vv" "build_ready_for_scan_policy vv ps"
  shows "inv_db (publish_db env pid vid review D)"
  using db_ok_publish[OF _ assms(2)] build_ready_built[OF _ find_view_SomeD(1)[OF assms(2)] assms(3)]
    soft_publish[OF assms(1,2)] assms(1)
  by (simp add: inv_db_def)

lemma inv_set_latest:
  assumes "inv_db D" "find_view pid vid D = Some vv" "build_ready_for_scan_policy vv ps"
    "get_plugin pid D = Some p" "p_status p = PActive" "v_version_status (vv_version vv) = VActive"
  shows "inv_db (latest_db pid vid D)"
  using db_ok_set_latest[OF _ assms(2,6)] build_ready_built[OF _ find_view_SomeD(1)[OF assms(2)] assms(3)]
    soft_set_latest[OF assms(1,2,4,5)] assms(1)
  by (simp add: inv_db_def)

lemma inv_status: "inv_db D \<Longrightarrow> inv_db (status_db pid status review D)"
  by (simp add: inv_db_def db_ok_status soft_status)

lemma inv_version_status:
  assumes "inv_db D" "get_version vid D = Some v"
    "status = VActive \<Longrightarrow> build_ready_for_scan_policy (load_view D v) ps"
  shows "inv_db (version_status_db vid status D)"
proof -
  have v: "v \<in> set (versions D)" using assms(2) by (auto simp: get_version_def dest: row_get_SomeD)
  have l: "vv_version (load_view D v) = v" by (simp add: load_view_def)
  have "db_ok (version_status_db vid status D)"
    using db_ok_version_status[OF _ assms(2), of status] build_ready_built[of D "load_view D v" ps] assms(1,3) v
    by (simp add: inv_db_def l)
  moreover have "registry_soft (version_status_db vid status D)"
    using assms(1) unfolding inv_db_def version_status_db_eq
    by (intro soft_edit_versions) (auto simp: artifact_present_def)
  ultimately show ?thesis by (simp add: inv_db_def)
qed

lemma inv_delete:
  "inv_db D \<Longrightarrow> inv_db (delete_versions P D)" "inv_db D \<Longrightarrow> inv_db (delete_plugin_row pid D)"
  "inv_db D \<Longrightarrow> inv_db (unset_latest pid D)"
  by (simp_all add: inv_db_def db_ok_delete_versions soft_delete_versions db_ok_delete_plugin_row
      soft_delete_plugin_row db_ok_unset_latest soft_unset_latest)

text \<open>With a healthy cache, an operation that reaches its commit with sound rows returns.\<close>

lemma finish_with_ok:
  assumes "db_ok (sess w)" "cache_healthy env w"
  shows "\<exists>v. finish_with env vid w = (Inr (get_version vid (sess w)), v) \<and> committed v = sess w \<and> sess v = sess w"
  using commit_and_refresh_ok[OF assms] by (auto simp: finish_with_def bind_op_def)

lemma finish_with_cases:
  assumes "finish_with env vid w = (r, v)"
  shows "(\<not> db_ok (sess w) \<and> r = Inl integrity_error \<and> committed v = committed w) \<or>
    (db_ok (sess w) \<and> committed v = sess w \<and> sess v = sess w \<and> (\<forall>x. r = Inr x \<longrightarrow> x = get_version vid (sess w)))"
proof -
  obtain q u where q: "commit_and_refresh env w = (q, u)" by (cases "commit_and_refresh env w")
  from commit_and_refresh_cases[OF q] assms q show ?thesis
    by (cases q) (auto simp: finish_with_def bind_op_def)
qed

section \<open>Settled states\<close>

text \<open>Between operations the session shows what is committed, and that is sound.\<close>

definition settled :: "world \<Rightarrow> bool" where
  "settled w \<longleftrightarrow> sess w = committed w \<and> inv_db (committed w)"

lemma settled_reg_inv: "settled w \<Longrightarrow> reg_inv w"
  by (simp add: settled_def reg_inv_def inv_db_def)

lemma settled_fill [simp]: "settled (fill_config env w) = settled w"
  by (simp add: settled_def)

lemma settled_commit: "reg_inv w \<Longrightarrow> settled (snd (commit w))"
  by (auto simp: commit_def settled_def reg_inv_def inv_db_def)

lemma keeps_settled_basic [keeps_intros]:
  "keeps settled (refresh_cache env)" "keeps settled commit" "keeps settled (uuid4 env)" "keeps settled (on_redis f)"
  "keeps settled (runtime_int env k i)" "keeps settled (runtime_review_policy env)"
proof -
  show "keeps settled (refresh_cache env)"
  proof (rule keepsI)
    fix w assume "settled w"
    then show "settled (snd (refresh_cache env w))"
      by (cases "refresh_cache env w") (simp add: settled_def refresh_cache_db)
  qed
  show "keeps settled commit" using settled_commit settled_reg_inv by (auto simp: keeps_def)
qed (auto simp: keeps_def runtime_get_apply runtime_review_policy_apply settled_def)

lemma settled_commit_and_refresh: "reg_inv w \<Longrightarrow> settled (snd (commit_and_refresh env w))"
  unfolding commit_and_refresh_def
  by (cases rule: bind_op_cases[of commit w "\<lambda>_. refresh_cache env"])
     (metis keeps_def keeps_settled_basic(1) settled_commit snd_conv)+

lemma settled_finish_with: "reg_inv w \<Longrightarrow> settled (snd (finish_with env vid w))"
  unfolding finish_with_def
  by (cases rule: bind_op_cases[of "commit_and_refresh env" w "\<lambda>_. query (get_version vid)"])
     (metis settled_commit_and_refresh snd_conv query_apply)+

lemma inv_db_commit: "inv_db (committed w) \<Longrightarrow> inv_db D \<Longrightarrow> reg_inv (w\<lparr>sess := D\<rparr>)"
  by (simp add: reg_inv_def inv_db_def)

text \<open>None of these operations leaves a state that is not sound.\<close>

lemma keeps_settled_publish: "keeps settled (publish_plugin_version env pid vid review)"
proof (rule keepsI)
  fix w assume w: "settled w"
  have "reg_inv ((fill_config env w)\<lparr>sess := publish_db env pid vid review (sess w)\<rparr>)"
    if "find_view pid vid (sess w) = Some vv" "build_ready_for_scan_policy vv (Some ps)" for vv ps
    using w inv_publish[OF _ that] by (intro inv_db_commit) (simp_all add: settled_def)
  then show "settled (snd (publish_plugin_version env pid vid review w))"
    using w by (auto simp: publish_plugin_version_apply settled_finish_with split: option.splits)
qed

lemma keeps_settled_set_latest: "keeps settled (set_latest_version env pid vid)"
proof (rule keepsI)
  fix w assume w: "settled w"
  have "reg_inv ((fill_config env w)\<lparr>sess := latest_db pid vid (sess w)\<rparr>)"
    if "find_view pid vid (sess w) = Some vv" "build_ready_for_scan_policy vv (Some ps)"
      "get_plugin pid (sess w) = Some p" "p_status p = PActive" "v_version_status (vv_version vv) = VActive" for vv ps p
    using w inv_set_latest[OF _ that] by (intro inv_db_commit) (simp_all add: settled_def)
  then show "settled (snd (set_latest_version env pid vid w))"
    using w by (auto simp: set_latest_version_apply settled_finish_with split: option.splits)
qed

lemma keeps_settled_set_plugin_status: "keeps settled (set_plugin_status env pid st rv)"
proof (rule keepsI)
  fix w assume w: "settled w"
  let ?w = "w\<lparr>sess := status_db pid st rv (sess w)\<rparr>"
  have "reg_inv ?w" using w inv_status[of "sess w"] by (intro inv_db_commit) (simp_all add: settled_def)
  then have "settled (snd (bind_op (commit_and_refresh env) (\<lambda>_. query (get_plugin pid)) ?w))"
    by (cases rule: bind_op_cases[of "commit_and_refresh env" ?w "\<lambda>_. query (get_plugin pid)"])
      (metis settled_commit_and_refresh snd_conv query_apply)+
  then show "settled (snd (set_plugin_status env pid st rv w))"
    using w by (simp add: set_plugin_status_apply)
qed

section \<open>Properties\<close>

text \<open>The sample states are settled, and the gate of the sample version is open.\<close>

lemma registry_soft_sample: "registry_soft sample_db" "registry_soft sample_published"
  by (simp_all add: registry_soft_def version_soft_def sample_db_def sample_published_def
      empty_db_def sample_rows get_plugin_def is_hidden_def)

lemma settled_sample [simp]: "settled (sample_world sample_db r)" "settled (sample_world sample_published r)"
  by (simp_all add: settled_def inv_db_def registry_soft_sample)

lemma cache_healthy_sample [simp]: "cache_healthy env (sample_world D None)"
  by (simp add: cache_healthy_def)

lemma sample_lookups [simp]:
  "get_plugin ''p1'' sample_db = Some sample_plugin" "get_version ''v1'' sample_db = Some sample_version"
  "find_view ''p1'' ''v1'' sample_db = Some (load_view sample_db sample_version)"
  "get_version ''v1'' sample_published = Some (sample_version\<lparr>v_version_status := VActive, v_is_latest := True\<rparr>)"
  "get_plugin ''p1'' sample_published = Some (sample_plugin\<lparr>p_status := PActive, p_review_status := RApproved\<rparr>)"
  by (simp_all add: get_plugin_def get_version_def find_view_def plugin_versions_def load_view_def sample_db_def
      sample_published_def empty_db_def sample_plugin_def sample_version_def)

lemma normalize_default: "normalize_scan_provider_list (scan_enabled_providers default_settings) = [''virustotal'', ''llm_agent'']"
  by code_simp

lemma enabled_sample:
  assumes "configs D = []"
  shows "enabled_providers sample_env (sample_world D None) = [''virustotal'', ''llm_agent'']"
  using assms normalize_default
  by (simp add: enabled_providers_def cfg_list_def cfg_raw_def runtime_values_def config_rows_def dict_of_def or_str_def)

lemma gate_sample: "gate_open sample_env (sample_world sample_db None) (load_view sample_db sample_version)"
proof -
  have c: "configs sample_db = []" by (simp add: sample_db_def empty_db_def)
  have v: "load_view sample_db sample_version = \<lparr>vv_version = sample_version, vv_scan = Some sample_scan, vv_results = []\<rparr>"
    by (simp add: load_view_def sample_db_def empty_db_def sample_version_def sample_scan_def new_scan_def)
  have "scan_passed (load_view sample_db sample_version) (Some [''virustotal'', ''llm_agent''])"
    unfolding scan_passed_def scan_gate_iff v
    by (simp add: scan_provider_results_get row_results_def dict_of_def legacy_results_def selects_def
        sample_scan_def new_scan_def payload_ok_def)
  moreover have "v_build_status (vv_version (load_view sample_db sample_version)) = BSuccess"
    unfolding v by (simp add: sample_version_def)
  ultimately show ?thesis by (simp add: gate_open_def enabled_sample[OF c] build_ready_for_scan_policy_def)
qed

text \<open>What an operation that ends with \<open>finish_with\<close> returns when the cache can be refreshed.\<close>

lemma finish_with_fst:
  assumes "inv_db D" "committed w = C" "cache_healthy env w" "configs D = configs (sess w)"
  shows "\<exists>v. finish_with env vid (w\<lparr>sess := D\<rparr>) = (Inr (get_version vid D), v) \<and> committed v = D \<and> sess v = D"
  using finish_with_ok[of "w\<lparr>sess := D\<rparr>" env vid] assms cfg_sess(3)[OF assms(4)] by (simp add: inv_db_def)

lemma latest_db_parts:
  "configs (latest_db pid vid D) = configs D" "plugins (latest_db pid vid D) = plugins D"
  "results (latest_db pid vid D) = results D"
  by (simp_all add: latest_db_eq)

lemma version_status_db_parts:
  "configs (version_status_db vid st D) = configs D" "plugins (version_status_db vid st D) = plugins D"
  by (simp_all add: version_status_db_eq)

lemma get_version_map:
  assumes "\<And>v. v_id (g v) = v_id v" "versions E = map g (versions D)"
  shows "get_version i E = map_option g (get_version i D)"
proof -
  have "row_get v_id i (map g vs) = map_option g (row_get v_id i vs)" for vs by (induction vs) (auto simp: assms(1))
  with assms(2) show ?thesis by (simp add: get_version_def)
qed

lemma find_view_version:
  assumes "db_ok D" "find_view pid vid D = Some vv"
  shows "get_version vid D = Some (vv_version vv)"
proof -
  note v = find_view_SomeD[OF assms(2)]
  have "distinct (map v_id (versions D))" using assms(1) by (simp add: db_ok_def versions_ok_def)
  from row_get_distinct[OF this v(1)] v(3) show ?thesis by (simp add: get_version_def)
qed

lemma publish_returns:
  assumes "settled w" "cache_healthy env w" "review = RApproved \<or> review = RSkipped"
    "get_plugin pid (committed w) \<noteq> None" "find_view pid vid (committed w) = Some vv" "gate_open env w vv"
  shows "\<exists>u. publish_plugin_version env pid vid review w
      = (Inr (get_version vid (publish_db env pid vid review (committed w))), u)
    \<and> committed u = publish_db env pid vid review (committed w)"
proof -
  have s: "sess w = committed w" "inv_db (committed w)" using assms(1) by (simp_all add: settled_def)
  have ready: "build_ready_for_scan_policy vv (Some (enabled_providers env w))" "scan_passed vv (Some (enabled_providers env w))"
    using assms(6) by (simp_all add: gate_open_def)
  from finish_with_fst[OF inv_publish[OF s(2) assms(5) ready(1), of env review], of "fill_config env w" "committed w" env vid]
  have "\<exists>v. finish_with env vid ((fill_config env w)\<lparr>sess := publish_db env pid vid review (committed w)\<rparr>)
      = (Inr (get_version vid (publish_db env pid vid review (committed w))), v)
    \<and> committed v = publish_db env pid vid review (committed w)"
    using assms(2) s(1) by (auto simp: publish_db_parts(4))
  then show ?thesis
    using assms(3-5) ready unfolding publish_plugin_version_apply s(1) by auto
qed



text \<open>What publishing writes beside the row of the version: the human review, and nothing on other plugins.\<close>

lemma publish_records_review:
  assumes "review = RApproved \<or> review = RSkipped"
  shows "\<exists>r. row_get result_key (vid, ''human'') (results (publish_db env pid vid review D)) = Some r
    \<and> pr_kind r = KHuman \<and> pr_passed r = Some True"
proof -
  let ?r = "human_row env vid review (case row_get result_key (vid, ''human'') (results D) of
      None \<Rightarrow> new_result vid ''human'' KHuman (e_now env) | Some r \<Rightarrow> r)"
  have "result_key ?r = (vid, ''human'')"
    by (auto simp: human_row_def new_result_def result_key_def split: option.splits dest: row_get_SomeD)
  then show ?thesis using assms by (auto simp: publish_db_parts human_db_def row_get_put human_row_def)
qed

lemma publish_keeps_others:
  assumes "db_ok D" "v \<in> set (versions D)" "v_id v = vid" "v_plugin_id v = pid"
  shows "filter (\<lambda>y. v_plugin_id y \<noteq> pid) (versions (publish_db env pid vid review D))
    = filter (\<lambda>y. v_plugin_id y \<noteq> pid) (versions D)"
proof -
  have same: "publish_row pid vid y = y" if "y \<in> set (versions D)" "v_plugin_id y \<noteq> pid" for y
    using version_unique[OF assms(1) that(1) assms(2)] that(2) assms(3,4) by (auto simp: publish_row_def)
  have "v_plugin_id (publish_row pid vid y) = v_plugin_id y" for y by (simp add: publish_row_def)
  then have "filter (\<lambda>y. v_plugin_id y \<noteq> pid) (map (publish_row pid vid) (versions D))
      = map (publish_row pid vid) (filter (\<lambda>y. v_plugin_id y \<noteq> pid) (versions D))"
    by (simp add: filter_map comp_def)
  also have "\<dots> = filter (\<lambda>y. v_plugin_id y \<noteq> pid) (versions D)"
    by (rule map_idI) (use same in auto)
  finally show ?thesis by (simp add: publish_db_parts)
qed

text \<open>C6 (safety). After a successful publication the version is the only latest version of its plugin, it is
  active and successfully built with its artifact, the plugin is active with the review's status, the
  human review is on record, and the versions of the other plugins are as they were.\<close>

theorem publish_effect:
  assumes "settled w" "publish_plugin_version env pid vid review w = (Inr x, u)"
  shows "\<exists>v p r. x = Some v \<and> get_version vid (committed u) = Some v \<and> v_plugin_id v = pid
    \<and> v_is_latest v \<and> v_version_status v = VActive \<and> v_build_status v = BSuccess \<and> artifact_present v
    \<and> get_plugin pid (committed u) = Some p \<and> p_status p = PActive \<and> p_review_status p = review
    \<and> row_get result_key (vid, ''human'') (results (committed u)) = Some r \<and> pr_kind r = KHuman \<and> pr_passed r = Some True
    \<and> (\<forall>y \<in> set (versions (committed u)). v_plugin_id y = pid \<longrightarrow> v_is_latest y \<longrightarrow> y = v)
    \<and> filter (\<lambda>y. v_plugin_id y \<noteq> pid) (versions (committed u)) = filter (\<lambda>y. v_plugin_id y \<noteq> pid) (versions (committed w))"
proof -
  have s: "sess w = committed w" "inv_db (committed w)" using assms(1) by (simp_all add: settled_def)
  let ?D = "committed w" and ?E = "publish_db env pid vid review (committed w)"
  from assms(2) obtain vv p where vv: "find_view pid vid ?D = Some vv" and p: "get_plugin pid ?D = Some p"
    and rev: "review = RApproved \<or> review = RSkipped"
    and ready: "build_ready_for_scan_policy vv (Some (enabled_providers env w))"
    and fin: "finish_with env vid ((fill_config env w)\<lparr>sess := ?E\<rparr>) = (Inr x, u)"
    unfolding publish_plugin_version_apply s(1) by (auto split: if_splits option.splits)
  from finish_with_cases[OF fin] have E: "committed u = ?E" "x = get_version vid ?E" "db_ok ?E" by auto
  note v = find_view_SomeD[OF vv] and built = build_ready_built[OF _ find_view_SomeD(1)[OF vv] ready]
  have gv: "get_version vid ?E = Some (publish_row pid vid (vv_version vv))"
    using get_version_map[of "publish_row pid vid" ?E ?D, OF _ publish_db_parts(1)] find_view_version[OF _ vv] s(2)
    by (simp add: publish_row_def inv_db_def)
  have row: "v_is_latest (publish_row pid vid (vv_version vv))" "v_plugin_id (publish_row pid vid (vv_version vv)) = pid"
    "v_version_status (publish_row pid vid (vv_version vv)) = VActive" "v_id (publish_row pid vid (vv_version vv)) = vid"
    using v by (simp_all add: publish_row_def)
  have inE: "publish_row pid vid (vv_version vv) \<in> set (versions ?E)" using v(1) by (simp add: publish_db_parts)
  have bs: "v_build_status (publish_row pid vid (vv_version vv)) = BSuccess"
    "artifact_present (publish_row pid vid (vv_version vv))"
    using version_row_of[OF E(3) inE] row(1) by (simp_all add: latest_ok_def artifact_ok_def artifact_present_def)
  have pl: "get_plugin pid ?E = Some (p\<lparr>p_status := PActive, p_review_status := review\<rparr>)"
    using p get_plugin_id[OF p] by (simp add: get_plugin_def publish_db_parts row_get_update)
  have uniq: "y = publish_row pid vid (vv_version vv)"
    if "y \<in> set (versions ?E)" "v_plugin_id y = pid" "v_is_latest y" for y
    using version_latest_unique[OF E(3) that(1) inE that(3)] row that(2) version_unique[OF E(3) that(1) inE] by simp
  have other: "filter (\<lambda>y. v_plugin_id y \<noteq> pid) (versions ?E) = filter (\<lambda>y. v_plugin_id y \<noteq> pid) (versions ?D)"
    using s(2) v by (intro publish_keeps_others) (auto simp: inv_db_def)
  from publish_records_review[OF rev] obtain r where r: "row_get result_key (vid, ''human'') (results ?E) = Some r" "pr_kind r = KHuman"
    "pr_passed r = Some True" by blast
  have "\<forall>y \<in> set (versions ?E). v_plugin_id y = pid \<longrightarrow> v_is_latest y \<longrightarrow> y = publish_row pid vid (vv_version vv)"
    using uniq by blast
  then show ?thesis
    unfolding E(1,2) using gv row(1-3) bs pl r other
    by (intro exI[of _ "publish_row pid vid (vv_version vv)"]
        exI[of _ "p\<lparr>p_status := PActive, p_review_status := review\<rparr>"] exI[of _ r] conjI)
      (assumption | simp (no_asm))+
qed

theorem publish_effect_witness:
  "\<exists>v u. publish_plugin_version sample_env ''p1'' ''v1'' RApproved (sample_world sample_db None) = (Inr (Some v), u)
    \<and> get_version ''v1'' (committed u) = Some v \<and> v_is_latest v"
proof -
  obtain x u where run: "publish_plugin_version sample_env ''p1'' ''v1'' RApproved (sample_world sample_db None) = (Inr x, u)"
    using publish_returns[of "sample_world sample_db None" sample_env RApproved "''p1''" "''v1''"] gate_sample by auto
  show ?thesis using publish_effect[OF settled_sample(1) run] run by blast
qed

text \<open>Setting the latest version succeeds exactly when the plugin is active and the version is
  an active version of it whose gate is open; then that version is the only latest one of the plugin
  and no other column of a version has changed, except that a finished scan turns scanning into
  success.\<close>

theorem set_latest_succeeds_iff:
  assumes "settled w" "cache_healthy env w"
  shows "((\<exists>x. fst (set_latest_version env pid vid w) = Inr x) \<longleftrightarrow>
      (\<exists>p vv. get_plugin pid (committed w) = Some p \<and> p_status p = PActive \<and> find_view pid vid (committed w) = Some vv
        \<and> v_version_status (vv_version vv) = VActive \<and> gate_open env w vv))
    \<and> (case fst (set_latest_version env pid vid w) of
        Inl e \<Rightarrow> committed (snd (set_latest_version env pid vid w)) = committed w
      | Inr x \<Rightarrow> committed (snd (set_latest_version env pid vid w)) = (committed w)\<lparr>versions := map (\<lambda>v. if v_id v = vid
            then v\<lparr>v_build_status := BSuccess, v_is_latest := True\<rparr>
            else if v_plugin_id v = pid then v\<lparr>v_is_latest := False\<rparr> else v) (versions (committed w))\<rparr>)"
proof (cases "\<exists>p vv. get_plugin pid (committed w) = Some p \<and> p_status p = PActive \<and> find_view pid vid (committed w) = Some vv
        \<and> v_version_status (vv_version vv) = VActive \<and> gate_open env w vv")
  case False
  moreover have "sess w = committed w" using assms(1) by (simp add: settled_def)
  ultimately show ?thesis
    by (auto simp: set_latest_version_apply gate_open_def split: option.splits)
next
  case True
  then obtain p vv where t: "get_plugin pid (committed w) = Some p" "p_status p = PActive"
    "find_view pid vid (committed w) = Some vv" "v_version_status (vv_version vv) = VActive"
    "build_ready_for_scan_policy vv (Some (enabled_providers env w))" "scan_passed vv (Some (enabled_providers env w))"
    by (auto simp: gate_open_def)
  have s: "sess w = committed w" "inv_db (committed w)" using assms(1) by (simp_all add: settled_def)
  let ?E = "latest_db pid vid (committed w)"
  from finish_with_fst[OF inv_set_latest[OF s(2) t(3,5,1,2,4)], of "fill_config env w" "committed w" env vid]
  obtain v where v: "finish_with env vid ((fill_config env w)\<lparr>sess := ?E\<rparr>) = (Inr (get_version vid ?E), v)" "committed v = ?E"
    using assms(2) s(1) by (auto simp: latest_db_parts)
  then have run: "set_latest_version env pid vid w = (Inr (get_version vid ?E), v)"
    using t unfolding set_latest_version_apply s(1) by simp
  have built: "v_build_status y = BSuccess \<or> v_build_status y = BScanning" if "y \<in> set (versions (committed w))" "v_id y = vid" for y
  proof -
    have "y = vv_version vv"
      using version_unique[OF _ that(1) find_view_SomeD(1)[OF t(3)]] that(2) find_view_SomeD(3)[OF t(3)] s(2)
      by (simp add: inv_db_def)
    then show ?thesis using t(5) by (auto simp: build_ready_for_scan_policy_def split: if_splits)
  qed
  have "v\<lparr>v_build_status := (if v_build_status v = BScanning then BSuccess else v_build_status v), v_is_latest := True\<rparr>
      = v\<lparr>v_build_status := BSuccess, v_is_latest := True\<rparr>" if "v \<in> set (versions (committed w))" "v_id v = vid" for v
    using built[OF that] by (cases v) auto
  then have "?E = (committed w)\<lparr>versions := map (\<lambda>v. if v_id v = vid
            then v\<lparr>v_build_status := BSuccess, v_is_latest := True\<rparr>
            else if v_plugin_id v = pid then v\<lparr>v_is_latest := False\<rparr> else v) (versions (committed w))\<rparr>"
    unfolding latest_db_eq by (intro arg_cong[where f = "\<lambda>vs. (committed w)\<lparr>versions := vs\<rparr>"] map_cong) auto
  with True run v(2) show ?thesis by simp
qed

theorem set_latest_succeeds_iff_witness:
  "\<not> (\<exists>x. fst (set_latest_version sample_env ''p1'' ''v1'' (sample_world sample_db None)) = Inr x)"
  using set_latest_succeeds_iff[of "sample_world sample_db None" sample_env "''p1''" "''v1''"]
  by (simp add: sample_plugin_def)

text \<open>A version becomes active only through the gate; every other status is set without it and
  takes the latest mark away. No status change fails at the commit, and only the named columns of
  this version change.\<close>

theorem set_version_status_succeeds_iff:
  assumes "settled w" "cache_healthy env w"
  shows "((\<exists>x. fst (set_version_status env vid st w) = Inr x) \<longleftrightarrow>
      (\<exists>v. get_version vid (committed w) = Some v \<and> (st = VActive \<longrightarrow> gate_open env w (load_view (committed w) v))))
    \<and> (case fst (set_version_status env vid st w) of
        Inl e \<Rightarrow> committed (snd (set_version_status env vid st w)) = committed w
      | Inr x \<Rightarrow> committed (snd (set_version_status env vid st w)) = (committed w)\<lparr>versions := map (\<lambda>v. if v_id v = vid
            then v\<lparr>v_build_status := (if st = VActive \<and> v_build_status v = BScanning then BSuccess else v_build_status v),
              v_version_status := st, v_is_latest := (st = VActive \<and> v_is_latest v)\<rparr> else v) (versions (committed w))\<rparr>)"
proof (cases "\<exists>v. get_version vid (committed w) = Some v \<and> (st = VActive \<longrightarrow> gate_open env w (load_view (committed w) v))")
  case False
  moreover have "sess w = committed w" using assms(1) by (simp add: settled_def)
  ultimately show ?thesis
    by (auto simp: set_version_status_apply gate_open_def Let_def split: option.splits)
next
  case True
  then obtain v where v: "get_version vid (committed w) = Some v"
    and gate: "st = VActive \<Longrightarrow> gate_open env w (load_view (committed w) v)" by auto
  have s: "sess w = committed w" "inv_db (committed w)" using assms(1) by (simp_all add: settled_def)
  let ?E = "version_status_db vid st (committed w)"
  have inv: "inv_db ?E" using inv_version_status[OF s(2) v, of st] gate by (auto simp: gate_open_def)
  let ?w = "if st = VActive then fill_config env w else w"
  from finish_with_fst[OF inv, of ?w "committed w" env vid] obtain u where
    u: "finish_with env vid (?w\<lparr>sess := ?E\<rparr>) = (Inr (get_version vid ?E), u)" "committed u = ?E"
    using assms(2) s(1) by (cases "st = VActive") (auto simp: version_status_db_parts)
  then have "set_version_status env vid st w = (Inr (get_version vid ?E), u)"
    using v gate unfolding set_version_status_apply s(1) by (auto simp: gate_open_def Let_def)
  with True u(2) show ?thesis by (simp add: version_status_db_eq)
qed

theorem set_version_status_succeeds_iff_witness:
  "\<exists>x. fst (set_version_status sample_env ''v1'' VDeprecated (sample_world sample_published None)) = Inr x"
  using set_version_status_succeeds_iff[of "sample_world sample_published None" sample_env "''v1''" VDeprecated] by simp

text \<open>Changing the status of a plugin succeeds exactly when the plugin exists; the status is what was
  asked for, a pending review is settled with it, and a plugin that is disabled or deleted keeps no
  latest version.\<close>

theorem set_plugin_status_effect:
  assumes "settled w" "cache_healthy env w" "set_plugin_status env pid st rv w = (r, u)"
  shows "((\<exists>x. r = Inr x) \<longleftrightarrow> get_plugin pid (committed w) \<noteq> None)
    \<and> (\<forall>p. get_plugin pid (committed w) = Some p \<longrightarrow> (\<exists>q. r = Inr (Some q) \<and> get_plugin pid (committed u) = Some q
        \<and> p_status q = st \<and> p_review_status q = (case rv of Some x \<Rightarrow> x | None \<Rightarrow>
            if p_review_status p \<noteq> RPending then p_review_status p
            else if st = PActive then RApproved else if st = PDisabled then RRejected else RPending)))
    \<and> (\<forall>v \<in> set (versions (committed u)). (\<exists>x. r = Inr x) \<and> is_hidden st \<and> v_plugin_id v = pid \<longrightarrow> \<not> v_is_latest v)
    \<and> map (\<lambda>v. v\<lparr>v_is_latest := False\<rparr>) (versions (committed u)) = map (\<lambda>v. v\<lparr>v_is_latest := False\<rparr>) (versions (committed w))"
proof (cases "get_plugin pid (committed w)")
  case None
  with assms show ?thesis by (auto simp: set_plugin_status_apply settled_def)
next
  case (Some p)
  have s: "sess w = committed w" "inv_db (committed w)" using assms(1) by (simp_all add: settled_def)
  let ?E = "status_db pid st rv (committed w)"
  have "db_ok ?E" using inv_status[OF s(2), of pid st rv] by (simp add: inv_db_def)
  moreover have conf: "configs ?E = configs (sess w)" by (simp add: status_db_def Let_def unset_latest_def edit_plugin_def s(1))
  ultimately obtain v where v: "commit_and_refresh env (w\<lparr>sess := ?E\<rparr>) = (Inr (), v)" "committed v = ?E" "sess v = ?E"
    using commit_and_refresh_ok[of "w\<lparr>sess := ?E\<rparr>" env] assms(2) cfg_sess(3)[OF conf] by auto
  with assms(3) Some s(1) have r: "r = Inr (get_plugin pid ?E)" "committed u = ?E"
    by (simp_all add: set_plugin_status_apply bind_op_def)
  let ?f = "\<lambda>p. p\<lparr>p_status := st, p_review_status := (case rv of Some r \<Rightarrow> r | None \<Rightarrow>
      if st = PActive \<and> p_review_status p = RPending then RApproved
      else if st = PDisabled \<and> p_review_status p = RPending then RRejected else p_review_status p)\<rparr>"
  have g: "get_plugin pid ?E = Some (?f p)"
  proof -
    have "plugins ?E = rows_update (\<lambda>p. p_id p = pid) ?f (plugins (committed w))"
      by (simp add: status_db_def Let_def unset_latest_def edit_plugin_def)
    then have "get_plugin pid ?E = map_option (\<lambda>p. if p_id p = pid then ?f p else p) (get_plugin pid (committed w))"
      by (simp add: get_plugin_def row_get_update)
    with Some get_plugin_id[OF Some] show ?thesis by simp
  qed
  have vs: "versions ?E = map (\<lambda>v. if is_hidden st \<and> v_plugin_id v = pid then v\<lparr>v_is_latest := False\<rparr> else v) (versions (committed w))"
    by (simp add: status_db_def Let_def unset_latest_def edit_plugin_def rows_update_def)
  have hidden: "\<forall>v \<in> set (versions ?E). is_hidden st \<and> v_plugin_id v = pid \<longrightarrow> \<not> v_is_latest v"
    unfolding vs list.set_map Ball_image_comp comp_def by simp
  have same: "map (\<lambda>v. v\<lparr>v_is_latest := False\<rparr>) (versions ?E) = map (\<lambda>v. v\<lparr>v_is_latest := False\<rparr>) (versions (committed w))"
    unfolding vs by simp
  have "p_review_status (?f p) = (case rv of Some x \<Rightarrow> x | None \<Rightarrow>
            if p_review_status p \<noteq> RPending then p_review_status p
            else if st = PActive then RApproved else if st = PDisabled then RRejected else RPending)"
    by (auto split: option.splits)
  then show ?thesis unfolding r using g hidden same Some by simp
qed

theorem set_plugin_status_effect_witness:
  "\<exists>x u. set_plugin_status sample_env ''p1'' PDisabled None (sample_world sample_published None) = (Inr x, u)
    \<and> (\<forall>v \<in> set (versions (committed u)). v_plugin_id v = ''p1'' \<longrightarrow> \<not> v_is_latest v)"
proof -
  obtain r u where run: "set_plugin_status sample_env ''p1'' PDisabled None (sample_world sample_published None) = (r, u)"
    by (cases "set_plugin_status sample_env ''p1'' PDisabled None (sample_world sample_published None)")
  note e = set_plugin_status_effect[OF settled_sample(2) cache_healthy_sample run]
  have "\<exists>x. r = Inr x" using e[THEN conjunct1] by simp
  then obtain x where r: "r = Inr x" ..
  have "\<forall>v \<in> set (versions (committed u)). v_plugin_id v = ''p1'' \<longrightarrow> \<not> v_is_latest v"
    using e[THEN conjunct2, THEN conjunct2, THEN conjunct1] r by (simp add: is_hidden_def)
  with run r show ?thesis by blast
qed

section \<open>Deletion\<close>

lemma frames_delete_file: "delete_file env k w = (r, v) \<Longrightarrow> committed v = committed w \<and> sess v = sess w \<and> redis v = redis w"
  by (auto simp: delete_file_def split: option.splits)

lemma delete_files_frame:
  assumes "foreach (\<lambda>k. when_op (truthy k) (delete_file env (or_str k []))) ks w = (r, v)"
  shows "committed v = committed w \<and> sess v = sess w \<and> redis v = redis w
    \<and> ((\<forall>k. e_s3_delete env k = None) \<longrightarrow> r = Inr () \<and> s3_keys v = filter (\<lambda>x. Some x \<notin> set ks \<or> x = []) (s3_keys w))"
  using assms
proof (induction ks arbitrary: w)
  case (Cons k ks)
  let ?m = "when_op (truthy k) (delete_file env (or_str k [])) :: unit act"
  have one: "?m w = (r', v') \<Longrightarrow> committed v' = committed w \<and> sess v' = sess w \<and> redis v' = redis w
    \<and> ((\<forall>k. e_s3_delete env k = None) \<longrightarrow> r' = Inr () \<and> s3_keys v' = filter (\<lambda>x. Some x \<noteq> k \<or> x = []) (s3_keys w))" for r' v'
    by (cases k) (auto simp: delete_file_def truthy_def or_str_def filter_id_conv split: option.splits if_splits intro!: filter_cong)
  from Cons.prems show ?case
  proof (cases rule: bind_op_cases[of ?m w "\<lambda>_. foreach (\<lambda>k. when_op (truthy k) (delete_file env (or_str k []))) ks"])
    case (Inl e u)
    with Cons.prems one[OF Inl(1)] show ?thesis by (auto simp del: when_op_apply)
  next
    case (Inr x u)
    with Cons.prems have rest: "foreach (\<lambda>k. when_op (truthy k) (delete_file env (or_str k []))) ks u = (r, v)"
      by (simp del: when_op_apply)
    from Cons.IH[OF rest] one[OF Inr(1)] show ?thesis by (auto intro!: filter_cong)
  qed
qed simp

definition deleted_db :: "uuid \<Rightarrow> db \<Rightarrow> db" where
  "deleted_db pid D = delete_plugin_row pid (delete_versions (\<lambda>v. v_plugin_id v = pid) (unset_latest pid D))"

lemma deleted_db_parts:
  "plugins (deleted_db pid D) = filter (\<lambda>p. p_id p \<noteq> pid) (plugins D)"
  "versions (deleted_db pid D) = filter (\<lambda>v. v_plugin_id v \<noteq> pid) (versions D)"
  "configs (deleted_db pid D) = configs D"
  "plugin_tags (deleted_db pid D) = filter (\<lambda>pt. fst pt \<noteq> pid) (plugin_tags D)"
  "i18ns (deleted_db pid D) = filter (\<lambda>i. i_plugin_id i \<noteq> pid) (i18ns D)"
proof -
  have "filter (\<lambda>v. v_plugin_id v \<noteq> pid) (rows_update (\<lambda>v. v_plugin_id v = pid) (\<lambda>v. v\<lparr>v_is_latest := False\<rparr>) vs)
      = filter (\<lambda>v. v_plugin_id v \<noteq> pid) vs" for vs
    by (induction vs) (auto simp: rows_update_def)
  then show "versions (deleted_db pid D) = filter (\<lambda>v. v_plugin_id v \<noteq> pid) (versions D)"
    by (simp add: deleted_db_def delete_plugin_row_def delete_versions_def unset_latest_def rows_delete_def Let_def)
qed (simp_all add: deleted_db_def delete_plugin_row_def delete_versions_def unset_latest_def rows_delete_def row_del_def
    Let_def case_prod_unfold)

lemma inv_deleted: "inv_db D \<Longrightarrow> inv_db (deleted_db pid D)"
  unfolding deleted_db_def by (intro inv_delete)

lemma delete_files_refused:
  "foreach (\<lambda>k. when_op (truthy k) (delete_file env (or_str k []))) ks w = (Inl e, u) \<Longrightarrow> \<exists>k. e_s3_delete env k = Some e"
  by (induction ks arbitrary: w) (auto simp: bind_op_eq_Inl_iff delete_file_def split: if_splits option.splits)



section \<open>Further properties\<close>

text \<open>Whoever asks for the registry after an operation has committed and refreshed is given the document of what was
  committed: the cache never serves what was there before.\<close>

theorem served_document_is_committed:
  assumes "commit_and_refresh env w = (Inr (), u)" "redis w \<noteq> None"
  shows "generate_registry_json env u = (Inr (json_sort (registry_of env w)), u) \<and> committed u = sess w \<and> sess u = sess w"
proof -
  have "committed u = sess w \<and> sess u = sess w"
    using assms(1) by (auto simp: commit_and_refresh_def bind_op_eq_Inr_iff commit_Inr_iff dest: refresh_cache_db)
  with generate_hit[OF commit_and_refresh_cache[OF assms]] show ?thesis by simp
qed

theorem served_document_is_committed_witness:
  "\<exists>u. generate_registry_json sample_env u
      = (Inr (json_sort (registry_of sample_env (sample_world sample_published (Some empty_redis)))), u)"
proof -
  let ?w = "sample_world sample_published (Some empty_redis)"
  have "cache_ttl sample_env ?w = Inr (redis_cache_ttl default_settings)"
    by (simp add: cache_ttl_def cfg_int_def cfg_raw_def runtime_values_def cached_config_def empty_redis_def config_rows_def
        sample_published_def sample_db_def empty_db_def dict_of_def or_str_def)
  then have "cache_healthy sample_env ?w" by (simp add: cache_healthy_def default_settings_def)
  then obtain u where "commit_and_refresh sample_env ?w = (Inr (), u)"
    using commit_and_refresh_ok[of ?w sample_env] by auto
  from served_document_is_committed[OF this] show ?thesis by auto
qed

lemma like_match_literal:
  assumes "list_all (\<lambda>c. c \<noteq> CHR ''%'' \<and> c \<noteq> CHR ''_'' \<and> c \<noteq> CHR 0x5C) q"
  shows "like_match (q @ ''%'') s \<longleftrightarrow> starts_with s q"
  using assms
proof (induction q arbitrary: s)
  case Nil
  have "like_match ''%'' s" by (induction s) auto
  then show ?case by (simp add: starts_with_def)
next
  case (Cons c q)
  then show ?case by (cases s) (auto simp: starts_with_def)
qed

lemma like_match_contains:
  assumes "list_all (\<lambda>c. c \<noteq> CHR ''%'' \<and> c \<noteq> CHR ''_'' \<and> c \<noteq> CHR 0x5C) q"
  shows "like_match (''%'' @ q @ ''%'') s \<longleftrightarrow> (\<exists>a b. s = a @ q @ b)"
proof (induction s)
  case Nil
  then show ?case using like_match_literal[OF assms, of "[]"] by (auto simp: starts_with_iff)
next
  case (Cons c s)
  have "like_match (''%'' @ q @ ''%'') (c # s) \<longleftrightarrow> starts_with (c # s) q \<or> (\<exists>a b. s = a @ q @ b)"
    using like_match_literal[OF assms, of "c # s"] Cons by simp
  also have "\<dots> \<longleftrightarrow> (\<exists>a b. c # s = a @ q @ b)" unfolding starts_with_iff
    by (metis append_Cons append_Nil append_eq_Cons_conv)
  finally show ?case .
qed

text \<open>A search that contains none of the pattern characters finds exactly the texts of which it is a part: the
  pattern match is then substring search.\<close>

theorem search_is_substring:
  assumes "list_all (\<lambda>c. c \<noteq> CHR ''%'' \<and> c \<noteq> CHR ''_'' \<and> c \<noteq> CHR 0x5C) (str_lower (str_strip q))"
  shows "ilike (Some x) (''%'' @ str_strip q @ ''%'') \<longleftrightarrow> str_contains (str_lower x) (str_lower (str_strip q))"
proof -
  have "str_lower (''%'' @ str_strip q @ ''%'') = ''%'' @ str_lower (str_strip q) @ ''%''"
    by (simp add: str_lower_def lower_char_def Let_def)
  then show ?thesis using like_match_contains[OF assms] by (simp add: ilike_def str_contains_iff)
qed

theorem search_is_substring_witness: "ilike (Some ''AstrBot Weather'') (''%'' @ str_strip '' weather '' @ ''%'')"
proof -
  have "list_all (\<lambda>c. c \<noteq> CHR ''%'' \<and> c \<noteq> CHR ''_'' \<and> c \<noteq> CHR 0x5C) (str_lower (str_strip '' weather ''))"
    "str_contains (str_lower ''AstrBot Weather'') (str_lower (str_strip '' weather ''))" by code_simp+
  with search_is_substring show ?thesis by blast
qed

text \<open>Under the constraints of the database the lookup of the latest version of a plugin never fails on several
  matches; it gives the version that is latest, active, built and passed by every enabled provider, or
  nothing.\<close>

theorem latest_lookup:
  assumes "db_ok (sess w)"
  shows "\<exists>x. get_latest_version env pid w = (Inr x, fill_config env w)
    \<and> (\<forall>v. x = Some v \<longleftrightarrow> v \<in> set (versions (sess w)) \<and> v_plugin_id v = pid \<and> v_is_latest v
         \<and> scan_passed (load_view (sess w) v) (Some (enabled_providers env w)))"
proof -
  let ?D = "sess w"
  let ?P = "\<lambda>v. v_plugin_id v = pid \<and> v_is_latest v \<and> v_version_status v = VActive \<and> v_build_status v = BSuccess"
  let ?vs = "filter ?P (versions ?D)"
  have lat: "v_version_status v = VActive \<and> v_build_status v = BSuccess" if "v \<in> set (versions ?D)" "v_is_latest v" for v
    using assms that by (auto simp: db_ok_def versions_ok_def list_all_iff version_row_ok_def latest_ok_def)
  have d: "distinct (map v_plugin_id (filter v_is_latest (versions ?D)))" using assms by (simp add: db_ok_def versions_ok_def)
  have "filter ?P (versions ?D) = filter (\<lambda>v. v_plugin_id v = pid) (filter v_is_latest (versions ?D))"
    using lat by (auto simp: filter_filter intro!: filter_cong)
  moreover have "length (filter (\<lambda>v. v_plugin_id v = pid) vs) \<le> 1" if "distinct (map v_plugin_id vs)" for vs
    using that
  proof (induction vs)
    case (Cons a vs)
    have "filter (\<lambda>v. v_plugin_id v = pid) vs = []" if "pid \<notin> v_plugin_id ` set vs" using that by (induction vs) auto
    with Cons.prems have "v_plugin_id a = pid \<Longrightarrow> filter (\<lambda>v. v_plugin_id v = pid) vs = []" by auto
    with Cons show ?case by auto
  qed simp
  ultimately have "length ?vs \<le> 1" using d by metis
  then consider (none) "?vs = []" | (one) v where "?vs = [v]" by (cases ?vs) auto
  then show ?thesis
  proof cases
    case none
    then have "\<not> (v \<in> set (versions ?D) \<and> v_plugin_id v = pid \<and> v_is_latest v)" for v
      using lat by (auto simp: filter_empty_conv)
    with none show ?thesis
      by (auto simp: get_latest_version_def bind_op_def scalar_one_or_none_def runtime_scan_enabled_providers_apply)
  next
    case (one v)
    have iff: "y \<in> set (versions ?D) \<and> v_plugin_id y = pid \<and> v_is_latest y \<longleftrightarrow> y = v" for y
      using arg_cong[OF one, of set] lat by auto
    have run: "get_latest_version env pid w
        = (Inr (if scan_passed (load_view ?D v) (Some (enabled_providers env w)) then Some v else None), fill_config env w)"
      using one by (simp add: get_latest_version_def bind_op_def scalar_one_or_none_def runtime_scan_enabled_providers_apply load_view_def)
    have "y \<in> set (versions ?D) \<and> v_plugin_id y = pid \<and> v_is_latest y \<and> scan_passed (load_view ?D y) (Some (enabled_providers env w))
        \<longleftrightarrow> y = v \<and> scan_passed (load_view ?D v) (Some (enabled_providers env w))" for y
      using iff[of y] by blast
    then show ?thesis unfolding run by auto
  qed
qed

theorem latest_lookup_witness:
  "\<exists>x. get_latest_version sample_env ''p1'' (sample_world sample_published None) = (Inr x, sample_world sample_published None)"
proof -
  have "fill_config sample_env (sample_world sample_published None) = sample_world sample_published None" by (simp add: fill_config_def)
  with latest_lookup[of "sample_world sample_published None" sample_env "''p1''"] show ?thesis by auto
qed

text \<open>A list of tags with the same new tag twice cannot be stored: the operation ends in an integrity error and
  the session is rolled back, whatever the spelling of the two.\<close>

theorem duplicate_new_tag_fails:
  assumes "clean_tags names = xs @ t # ys @ t # zs" "t \<notin> set (tags (sess w))"
  shows "ensure_tags names w = (Inl integrity_error, w\<lparr>sess := committed w\<rparr>)"
proof -
  let ?D = "sess w"
  let ?E = "?D\<lparr>tags := tags ?D @ filter (\<lambda>n. n \<notin> set (filter (\<lambda>t. t \<in> set (clean_tags names)) (tags ?D))) (clean_tags names)\<rparr>"
  have "filter (\<lambda>n. n \<notin> set (filter (\<lambda>t. t \<in> set (clean_tags names)) (tags ?D))) (clean_tags names)
      = filter (\<lambda>n. n \<notin> set (tags ?D)) (clean_tags names)" by (intro filter_cong) auto
  then have "\<not> distinct (tags ?E)" using assms by simp
  then have "\<not> db_ok ?E" by (auto simp: db_ok_def tags_ok_def)
  moreover have "clean_tags names \<noteq> []" using assms(1) by simp
  ultimately show ?thesis by (simp add: ensure_tags_def Let_def bind_op_def flush_def)
qed

theorem duplicate_new_tag_fails_witness:
  "fst (ensure_tags [''Weather'', '' weather''] (sample_world sample_db None)) = Inl integrity_error"
proof -
  have "clean_tags [''Weather'', '' weather''] = [] @ ''weather'' # [] @ ''weather'' # []" by code_simp
  from duplicate_new_tag_fails[OF this, of "sample_world sample_db None"] show ?thesis
    by (simp add: sample_db_def empty_db_def)
qed

definition created_row :: "env \<Rightarrow> new_version \<Rightarrow> uuid \<Rightarrow> version" where
  "created_row env a vid = \<lparr>v_id = vid, v_plugin_id = nv_plugin_id a, v_version = nv_version a,
     v_commit_sha = nv_commit_sha a, v_source_ref = nv_source_ref a, v_source_type = nv_source_type a,
     v_download_url = nv_download_url a, v_s3_key = nv_s3_key a, v_file_size = Some (nv_file_size a),
     v_metadata_raw = Some (metadata_json (nv_metadata a)), v_changelog = Some (nv_changelog a),
     v_build_status = nv_build_status a, v_build_log = None, v_version_status = VDraft,
     v_is_latest = False, v_created_by = nv_created_by a, v_created_at = e_now env\<rparr>"

lemma create_version_apply:
  "create_version env a w = bind_op (commit_and_refresh env) (\<lambda>_. ret (created_row env a (e_uuid env (uuid_next w))))
     (w\<lparr>uuid_next := Suc (uuid_next w), sess := (sess w)\<lparr>versions := versions (sess w) @ [created_row env a (e_uuid env (uuid_next w))]\<rparr>\<rparr>)"
  by (simp add: create_version_def bind_op_def[of "uuid4 e" for e] bind_op_def[of "stage f" for f] created_row_def Let_def)

lemma create_version_returns:
  assumes "cache_healthy env w" "configs D = configs (sess w)" "db_ok D"
    "D = (sess w)\<lparr>versions := versions (sess w) @ [created_row env a (e_uuid env (uuid_next w))]\<rparr>"
  shows "\<exists>u. create_version env a w = (Inr (created_row env a (e_uuid env (uuid_next w))), u) \<and> committed u = D \<and> sess u = D"
proof -
  let ?w = "w\<lparr>uuid_next := Suc (uuid_next w), sess := D\<rparr>"
  have "runtime_values env ?w = runtime_values env w" using assms(2) by (simp add: runtime_values_def config_rows_def split: option.splits)
  then have "cfg_raw env ?w = cfg_raw env w" by (simp add: cfg_raw_def fun_eq_iff)
  then have "cache_ttl env ?w = cache_ttl env w" by (simp add: cache_ttl_def cfg_int_def)
  then have "cache_healthy env ?w" using assms(1) by (simp add: cache_healthy_def)
  with commit_and_refresh_ok[of ?w env] assms(3) obtain u where "commit_and_refresh env ?w = (Inr (), u)" "committed u = D" "sess u = D"
    by auto
  then show ?thesis unfolding create_version_apply assms(4)[symmetric] by simp
qed

lemma upload_key:
  assumes "create_version_from_upload env p m content ver cl cb w = (Inr v, u)"
  shows "\<exists>layout w'. runtime_s3_layout env w = (Inr layout, w')
    \<and> v_s3_key v = Some (build_s3_key_with_layout p ver ''manual_upload'' None layout)
    \<and> v_version_status v = VDraft \<and> \<not> v_is_latest v \<and> assert_metadata_matches_plugin m p = Inr ()"
  using assms by (auto simp: create_version_from_upload_def create_version_def bind_op_eq_Inr_iff Let_def)

text \<open>An upload becomes a draft, whatever was uploaded before. But its object has the key of every other
  upload of the same version number, so that deleting one of the two versions deletes the object of the
  other.\<close>

theorem uploads_of_a_version_share_their_object:
  assumes "create_version_from_upload env p m content ver cl cb w = (Inr v, u)"
    and "create_version_from_upload env' p m' content' ver cl' cb' w' = (Inr v', u')"
    and "fst (runtime_s3_layout env' w') = fst (runtime_s3_layout env w)" "p_plugin_key p \<noteq> []"
  shows "v_version_status v' = VDraft \<and> \<not> v_is_latest v' \<and> v_s3_key v' = v_s3_key v
    \<and> (\<forall>x y z. get_version (v_id v') (sess x) = Some v' \<longrightarrow>
         delete_version env'' (v_plugin_id v') (v_id v') x = (Inr y, z) \<longrightarrow>
         (\<exists>k. v_s3_key v = Some k \<and> k \<notin> set (s3_keys z)))"
proof -
  from upload_key[OF assms(1)] upload_key[OF assms(2)] assms(3)
  obtain layout where k: "v_s3_key v = Some (build_s3_key_with_layout p ver ''manual_upload'' None layout)" "v_s3_key v' = v_s3_key v"
    and d: "v_version_status v' = VDraft" "\<not> v_is_latest v'" by auto
  let ?k = "build_s3_key_with_layout p ver ''manual_upload'' None layout"
  have ne: "?k \<noteq> []" by (simp add: build_s3_key_with_layout_def Let_def)
  have "?k \<notin> set (s3_keys z)"
    if x: "get_version (v_id v') (sess x) = Some v'" and del: "delete_version env'' (v_plugin_id v') (v_id v') x = (Inr y, z)" for x y z
  proof -
    let ?rest = "\<lambda>_. bind_op (stage (delete_versions (\<lambda>y. v_id y = v_id v'))) (\<lambda>_. bind_op (commit_and_refresh env'') (\<lambda>_. ret v'))"
    have "delete_version env'' (v_plugin_id v') (v_id v') x = bind_op (when_op (truthy (v_s3_key v')) (delete_file env'' (or_str (v_s3_key v') []))) ?rest x"
      using x by (simp add: delete_version_def bind_op_def[of "query q" for q])
    also have "\<dots> = bind_op (delete_file env'' ?k) ?rest x"
      using k ne by (simp add: bind_op_def truthy_def or_str_def)
    finally have "bind_op (delete_file env'' ?k) ?rest x = (Inr y, z)" using del by simp
    then obtain n x1 where x1: "delete_file env'' ?k x = (Inr n, x1)" and rest: "?rest n x1 = (Inr y, z)"
      unfolding bind_op_eq_Inr_iff[of "delete_file env'' ?k"] by blast
    have "s3_keys z = s3_keys x1" using rest
      by (auto simp: bind_op_eq_Inr_iff commit_and_refresh_def commit_Inr_iff dest: refresh_cache_db)
    moreover have "?k \<notin> set (s3_keys x1)" using x1 by (auto simp: delete_file_def split: option.splits)
    ultimately show ?thesis by simp
  qed
  with k d show ?thesis by auto
qed

definition sample_metadata :: plugin_metadata where
  "sample_metadata = \<lparr>m_name = ''weather'', m_display_name = Some ''Weather'', m_desc = Some ''Forecasts'', m_short_desc = None,
     m_author = ''alice'', m_version = ''1.0.0'', m_repo = None, m_tags = [], m_category = None, m_social_link = None,
     m_logo = None, m_astrbot_version = None, m_support_platforms = [], m_i18n = []\<rparr>"

theorem uploads_of_a_version_share_their_object_witness:
  "\<exists>v u. create_version_from_upload sample_env sample_plugin sample_metadata ''PK'' ''1.0.0'' [] None (sample_world sample_db None) = (Inr v, u)
    \<and> v_version_status v = VDraft"
proof -
  let ?w = "sample_world sample_db None"
  let ?up = "create_version_from_upload sample_env sample_plugin sample_metadata ''PK'' ''1.0.0'' [] None"
  have m: "assert_metadata_matches_plugin sample_metadata sample_plugin = Inr ()" by code_simp
  have f: "fill_config sample_env ?w = ?w" by (simp add: fill_config_def)
  let ?L = "\<lparr>layout_plugins_prefix = s3_plugins_prefix default_settings, layout_unknown_author = s3_unknown_author default_settings\<rparr>"
  let ?url = "s3_public_url default_settings"
  have empty: "runtime_values sample_env ?w = []"
    by (simp add: runtime_values_def config_rows_def sample_db_def empty_db_def dict_of_def)
  have l: "runtime_s3_layout sample_env ?w = (Inr ?L, ?w)"
    by (simp add: runtime_s3_layout_def bind_op_def runtime_get_apply f cfg_str_def cfg_raw_def empty or_str_def)
  have url: "runtime_s3_public_url sample_env ?w = (Inr ?url, ?w)"
    by (simp add: runtime_s3_public_url_apply f cfg_str_def cfg_raw_def empty or_str_def)
  let ?k = "build_s3_key_with_layout sample_plugin ''1.0.0'' ''manual_upload'' None ?L"
  let ?u = "?w\<lparr>s3_keys := [?k]\<rparr>"
  let ?nv = "\<lparr>nv_plugin_id = p_id sample_plugin, nv_version = ''1.0.0'', nv_metadata = sample_metadata,
       nv_s3_key = Some ?k, nv_download_url = Some (build_public_url_with_base ?k ?url),
       nv_file_size = 2, nv_source_type = ManualUpload, nv_commit_sha = None,
       nv_source_ref = None, nv_changelog = [], nv_created_by = None, nv_build_status = BSuccess\<rparr>"
  have "?up ?w = create_version sample_env ?nv ?u"
    by (simp add: create_version_from_upload_def bind_op_def m l url upload_file_def Let_def)
  moreover have "cache_healthy sample_env ?u" by (simp add: cache_healthy_def)
  moreover have "db_ok (sample_db\<lparr>versions := versions sample_db @ [created_row sample_env ?nv (e_uuid sample_env 1)]\<rparr>)"
    by code_simp
  ultimately obtain v u where up: "?up ?w = (Inr v, u)"
    using create_version_returns[of sample_env ?u _ ?nv] by auto
  have "p_plugin_key sample_plugin \<noteq> []" by (simp add: sample_plugin_def)
  from uploads_of_a_version_share_their_object[OF up up refl this] up show ?thesis by blast
qed

end
