(* ===== verification/GitProviders.thy ===== *)
theory GitProviders
  imports GitUtils PluginService
begin

text \<open>
  \<open>services/git_providers/*.py\<close>: choosing the provider of a URL, and GitHub's: its normal form of a URL, its
  API and what is read from the answers. The answers of the API, YAML and pydantic's check of the field
  types are functions of \<open>git_world\<close>, so is \<open>datetime.fromisoformat\<close>. The three requests that
  \<open>inspect_repo\<close> runs at the same time are looked at in the order in which their results are.
\<close>

section \<open>Choosing a provider\<close>

record git_credential =
  temporary_token :: "string option"
  credential_id :: "string option"

record normalized_repo =
  n_provider :: string
  n_repo_url :: string
  n_owner :: string
  n_repo :: string
  n_host :: string
  detected_ref_type :: "string option"
  detected_ref :: "string option"

definition get_git_provider :: "string \<Rightarrow> exn + string" where
  "get_git_provider provider =
     (if provider = ''github'' then Inr ''github'' else Inl (GitError (''Unsupported Git provider: '' @ provider)))"

definition get_git_provider_for_url :: "env \<Rightarrow> string \<Rightarrow> string list option \<Rightarrow> exn + string" where
  "get_git_provider_for_url env repo_url allowed_hosts =
     (let host = url_hostname repo_url
      in if host \<notin> set (hosts_or_default env allowed_hosts) then Inl (ValueError (''Git host is not allowed: '' @ host))
         else if host = ''github.com'' then get_git_provider ''github''
         else Inl (GitError (''No Git provider is configured for host: '' @ host)))"

section \<open>The normal form of a URL\<close>

definition detect_ref :: "string list \<Rightarrow> (string \<times> string) option" where
  "detect_ref tail =
     (if 2 \<le> length tail \<and> hd tail = ''tree'' then Some (''branch'', str_join ''/'' (tl tail))
      else if 2 \<le> length tail \<and> hd tail = ''commit'' then Some (''commit'', tail ! 1)
      else if 3 \<le> length tail \<and> hd tail = ''releases'' \<and> tail ! 1 = ''tag''
        then Some (''tag'', str_join ''/'' (drop 2 tail))
      else None)"

definition normalize_url :: "env \<Rightarrow> string \<Rightarrow> string list option \<Rightarrow> exn + normalized_repo" where
  "normalize_url env repo_url0 allowed_hosts =
     (let parsed = urlparse (str_strip repo_url0) in
      if u_scheme parsed \<notin> {''http'', ''https''} then Inl (ValueError (''Invalid GitHub URL: '' @ repo_url0))
      else
        let parts = filter (\<lambda>part. part \<noteq> []) (str_split (CHR ''/'') (strip_char (CHR ''/'') (u_path parsed))) in
        if length parts < 2 then Inl (ValueError (''Invalid GitHub URL: '' @ repo_url0))
        else
          let owner = parts ! 0;
              repo = remove_suffix (parts ! 1) ''.git'';
              clean_repo_url = ''https://github.com/'' @ owner @ ''/'' @ repo
          in bind_res (parse_github_url env clean_repo_url allowed_hosts) (\<lambda>_.
             Inr \<lparr>n_provider = ''github'', n_repo_url = clean_repo_url, n_owner = owner, n_repo = repo,
               n_host = ''github.com'', detected_ref_type = map_option fst (detect_ref (drop 2 parts)),
               detected_ref = map_option snd (detect_ref (drop 2 parts))\<rparr>))"

section \<open>The API\<close>

definition github_headers :: "git_credential \<Rightarrow> (string \<times> string) list" where
  "github_headers credential =
     (let headers = [(''Accept'', ''application/vnd.github+json''),
                     (''User-Agent'', ''AstrBot-Community-Plugin-Registry''),
                     (''X-GitHub-Api-Version'', ''2022-11-28'')];
          token = str_strip (or_str (temporary_token credential) [])
      in if token = [] then headers else headers @ [(''Authorization'', ''Bearer '' @ token)])"

text \<open>The message in the body of an error, which may be no JSON, but must be an object if it is.\<close>

definition github_error_message :: "env \<Rightarrow> string \<Rightarrow> exn + string" where
  "github_error_message env raw =
     (case e_json_loads env raw of
       Inl e \<Rightarrow> Inr (str_strip raw)
     | Inr payload \<Rightarrow> bind_res (json_get ''message'' payload) (\<lambda>message.
         Inr (if json_truthy message then str_strip (py_str message) else str_strip raw)))"

definition github_access_denied_message :: "nat \<Rightarrow> string \<Rightarrow> string" where
  "github_access_denied_message status_code message =
     (let lowered = str_lower message in
      if status_code = 401 then ''GitHub token is invalid or expired; check the token value''
      else if str_contains lowered ''rate limit'' then ''GitHub API rate limit exceeded; add a token or wait before retrying''
      else if str_contains lowered ''resource not accessible by personal access token''
        then ''GitHub token cannot access this repository; grant repository Contents read permission''
      else if str_contains lowered ''bad credentials'' then ''GitHub token is invalid or expired; check the token value''
      else if message \<noteq> [] then ''GitHub access was denied: '' @ message
      else ''GitHub access was denied; check the token permissions'')"

definition github_json :: "env \<Rightarrow> git_world \<Rightarrow> string \<Rightarrow> git_credential \<Rightarrow> string option \<Rightarrow> exn + json" where
  "github_json env g path credential proxy_url =
     (case g_fetch g (''https://api.github.com'' @ path) (github_headers credential) (str_strip (or_str proxy_url [])) of
       ApiOk (Some payload) \<Rightarrow> Inr payload
     | ApiOk None \<Rightarrow> Inl (GitError ''Failed to parse GitHub API response'')
     | ApiHttpError code body \<Rightarrow> bind_res (github_error_message env body) (\<lambda>message.
         if code = 404 then Inl (GitError ''GitHub repository, ref, or metadata.yaml was not found'')
         else if code = 401 \<or> code = 403 then Inl (GitError (github_access_denied_message code message))
         else Inl (GitError (''GitHub API request failed: HTTP '' @ str_nat code)))
     | ApiUrlError reason \<Rightarrow> Inl (GitError (''GitHub API request failed: '' @ reason))
     | ApiTimeout \<Rightarrow> Inl (GitError ''Timed out inspecting GitHub repository''))"

section \<open>Reading the answers\<close>

definition selected_ref :: "string \<Rightarrow> string option \<Rightarrow> string option \<Rightarrow> string \<Rightarrow> exn + string" where
  "selected_ref ref_type explicit_ref detected default_branch =
     (if ref_type \<notin> {''default'', ''branch'', ''tag'', ''commit''} then Inl (ValueError (''Unsupported ref type: '' @ ref_type))
      else if ref_type = ''default'' then Inr default_branch
      else
        let selected = str_strip (or_str (or_opt explicit_ref detected) [])
        in if selected = [] then Inl (ValueError (ref_type @ '' ref is required'')) else Inr selected)"

fun utf8_decode :: "string \<Rightarrow> string option" where
  "utf8_decode [] = Some []"
| "utf8_decode (a # s) =
     (if byte a < 128 then map_option ((#) a) (utf8_decode s)
      else if byte a \<in> {194, 195} then
        (case s of
          b # t \<Rightarrow> if 128 \<le> byte b \<and> byte b < 192
            then map_option ((#) (char_of ((byte a - 192) * 64 + (byte b - 128)))) (utf8_decode t) else None
        | [] \<Rightarrow> None)
      else None)"

definition decode_github_content :: "json \<Rightarrow> exn + string" where
  "decode_github_content payload =
     bind_res (json_get ''encoding'' payload) (\<lambda>encoding.
     bind_res (json_get ''content'' payload) (\<lambda>content.
     case (encoding, content) of
       (JStr e, JStr c) \<Rightarrow>
         if e \<noteq> ''base64'' then Inl (GitError ''GitHub metadata.yaml response was not base64 file content'')
         else if list_ex (\<lambda>x. 128 \<le> byte x) c then Inl (GitError ''Failed to decode metadata.yaml from GitHub'')
         else (case b64decode c of
             Inl _ \<Rightarrow> Inl (GitError ''Failed to decode metadata.yaml from GitHub'')
           | Inr bs \<Rightarrow> (case utf8_decode bs of
               None \<Rightarrow> Inl (GitError ''Failed to decode metadata.yaml from GitHub'')
             | Some content \<Rightarrow> Inr content))
     | _ \<Rightarrow> Inl (GitError ''GitHub metadata.yaml response was not base64 file content'')))"

text \<open>\<open>parse_metadata_yaml_text\<close>: YAML, a mapping, the types of the fields, the normalisation.\<close>

definition parse_metadata_yaml_text :: "git_world \<Rightarrow> string \<Rightarrow> exn + plugin_metadata" where
  "parse_metadata_yaml_text g content =
     bind_res (g_yaml_load g content) (\<lambda>data.
     case data of
       JObj d \<Rightarrow> bind_res (g_validate g d) (\<lambda>m. Inr (normalize_metadata m))
     | _ \<Rightarrow> Inl (ValueError ''metadata.yaml must be a YAML mapping''))"

record metadata_view =
  mp_name :: string
  mp_plugin_key :: string
  mp_display_name :: "string option"
  mp_desc :: string
  mp_author :: string
  mp_version :: string
  mp_repo :: "string option"
  mp_tags :: "string list"
  mp_astrbot_version :: "string option"

definition metadata_preview :: "git_world \<Rightarrow> string \<Rightarrow> exn + metadata_view" where
  "metadata_preview g content =
     bind_res (parse_metadata_yaml_text g content) (\<lambda>m. Inr
       \<lparr>mp_name = m_name m, mp_plugin_key = infer_plugin_key (m_name m), mp_display_name = m_display_name m,
        mp_desc = or_str (m_desc m) [], mp_author = m_author m, mp_version = m_version m, mp_repo = m_repo m,
        mp_tags = m_tags m, mp_astrbot_version = m_astrbot_version m\<rparr>)"

record commit_view =
  ci_sha :: string
  ci_message :: "string option"
  ci_author_name :: json
  ci_committed_at :: "time option"

definition parse_datetime :: "git_world \<Rightarrow> json \<Rightarrow> time option" where
  "parse_datetime g value =
     (case value of
       JStr s \<Rightarrow> if s = [] then None else g_fromisoformat g (str_replace ''Z'' ''+00:00'' s)
     | _ \<Rightarrow> None)"

text \<open>\<open>payload.get("x") if isinstance(payload.get("x"), dict) else {}\<close>, and \<open>xs[0]\<close> on a list.\<close>

definition dict_or_empty :: "json \<Rightarrow> json dict" where
  "dict_or_empty j = (case j of JObj d \<Rightarrow> d | _ \<Rightarrow> [])"

definition first_line :: "string \<Rightarrow> exn + string" where
  "first_line s = (case splitlines s of [] \<Rightarrow> Inl (IndexError ''list index out of range'') | l # ls \<Rightarrow> Inr l)"

definition commit_info :: "git_world \<Rightarrow> json \<Rightarrow> exn + commit_view" where
  "commit_info g payload =
     bind_res (json_get ''commit'' payload) (\<lambda>c.
     let commit = dict_or_empty c;
         author = dict_or_empty (get_or_null ''author'' commit)
     in bind_res (if commit \<noteq> []
          then bind_res (first_line (py_str (json_or (get_or_null ''message'' commit) (JStr [])))) (\<lambda>l. Inr (Some l))
          else Inr None) (\<lambda>message.
        bind_res (json_get ''sha'' payload) (\<lambda>sha. Inr
          \<lparr>ci_sha = py_str (json_or sha (JStr [])), ci_message = message,
           ci_author_name = get_or_null ''name'' author,
           ci_committed_at = parse_datetime g (get_or_null ''date'' author)\<rparr>)))"

record ref_option =
  ro_name :: string
  ro_commit_sha :: string
  ro_protected :: bool

definition ref_option_of :: "(json dict \<Rightarrow> bool) \<Rightarrow> json \<Rightarrow> ref_option option" where
  "ref_option_of protected item =
     (case item of
       JObj d \<Rightarrow>
         (let commit = dict_or_empty (get_or_null ''commit'' d) in
          case (get_or_null ''name'' d, get_or_null ''sha'' commit) of
            (JStr name, JStr sha) \<Rightarrow> Some \<lparr>ro_name = name, ro_commit_sha = sha, ro_protected = protected d\<rparr>
          | _ \<Rightarrow> None)
     | _ \<Rightarrow> None)"

definition branch_options :: "json \<Rightarrow> ref_option list" where
  "branch_options payload =
     (case payload of
       JList xs \<Rightarrow> some_list (map (ref_option_of (\<lambda>d. json_truthy (get_or_null ''protected'' d))) xs)
     | _ \<Rightarrow> [])"

definition tag_options :: "json \<Rightarrow> ref_option list" where
  "tag_options payload = (case payload of JList xs \<Rightarrow> some_list (map (ref_option_of (\<lambda>d. False)) xs) | _ \<Rightarrow> [])"

definition commit_sha_from_refs :: "string \<Rightarrow> string \<Rightarrow> string \<Rightarrow> ref_option list \<Rightarrow> ref_option list \<Rightarrow> string" where
  "commit_sha_from_refs ref_type selected default_branch branches tag_list =
     (let lookup = (\<lambda>name refs. case find (\<lambda>r. ro_name r = name) refs of None \<Rightarrow> [] | Some r \<Rightarrow> ro_commit_sha r)
      in if ref_type = ''default'' then lookup default_branch branches
         else if ref_type = ''branch'' then lookup selected branches
         else if ref_type = ''tag'' then lookup selected tag_list
         else [])"

section \<open>Inspecting a repository\<close>

record resolved_ref =
  sel_ref_type :: string
  sel_ref :: string
  sel_commit :: commit_view
  sel_metadata :: metadata_view

record inspected_repo =
  in_repo :: normalized_repo
  in_private :: bool
  in_default_branch :: string
  in_size_kb :: int
  in_updated_at :: "time option"
  in_selected :: resolved_ref
  in_branches :: "ref_option list"
  in_tags :: "ref_option list"

definition repo_api_path :: "normalized_repo \<Rightarrow> string" where
  "repo_api_path r = ''/repos/'' @ url_quote ''/'' (n_owner r) @ ''/'' @ url_quote ''/'' (n_repo r)"

definition selected_ref_type_of :: "string option \<Rightarrow> normalized_repo \<Rightarrow> string" where
  "selected_ref_type_of ref_type r = or_str (or_opt (or_opt ref_type (detected_ref_type r)) (Some ''default'')) []"

definition default_branch_of :: "json \<Rightarrow> exn + string" where
  "default_branch_of repo_payload =
     bind_res (json_get ''default_branch'' repo_payload) (\<lambda>b.
     let default_branch = py_str (json_or b (JStr []))
     in if default_branch = [] then Inl (GitError ''GitHub repository did not include a default branch'')
        else Inr default_branch)"

definition commit_path :: "normalized_repo \<Rightarrow> string \<Rightarrow> string" where
  "commit_path r name = repo_api_path r @ ''/commits/'' @ url_quote [] name"

definition metadata_path :: "normalized_repo \<Rightarrow> string \<Rightarrow> string" where
  "metadata_path r sha = repo_api_path r @ ''/contents/metadata.yaml?ref='' @ url_quote [] sha"

text \<open>The commit a reference names: read before, found among the branches and tags, or asked for.\<close>

definition chosen_commit ::
  "git_world \<Rightarrow> (string \<Rightarrow> exn + json) \<Rightarrow> normalized_repo \<Rightarrow> json option \<Rightarrow> string \<Rightarrow> string \<Rightarrow> exn + commit_view" where
  "chosen_commit g api r commit_payload from_refs selected =
     bind_res (case commit_payload of
         None \<Rightarrow> Inr None
       | Some payload \<Rightarrow> bind_res (commit_info g payload) (\<lambda>c. Inr (Some c))) (\<lambda>info.
     let commit_sha = (case info of Some c \<Rightarrow> ci_sha c | None \<Rightarrow> from_refs)
     in bind_res (if commit_sha = []
          then bind_res (api (commit_path r selected)) (\<lambda>payload.
               bind_res (commit_info g payload) (\<lambda>c. Inr (Some c, ci_sha c)))
          else Inr (info, commit_sha)) (\<lambda>(info, commit_sha).
        if commit_sha = [] then Inl (GitError ''GitHub commit response did not include a commit SHA'')
        else Inr (case info of
            Some c \<Rightarrow> c
          | None \<Rightarrow> \<lparr>ci_sha = commit_sha, ci_message = None, ci_author_name = JNull, ci_committed_at = None\<rparr>)))"

definition inspect_repo ::
  "env \<Rightarrow> git_world \<Rightarrow> normalized_repo \<Rightarrow> git_credential \<Rightarrow> string option \<Rightarrow> string option \<Rightarrow> bool \<Rightarrow> string option \<Rightarrow>
   exn + inspected_repo" where
  "inspect_repo env g r credential ref_type ref include_refs proxy_url =
     (let api = (\<lambda>path. github_json env g path credential proxy_url);
          ref_type = selected_ref_type_of ref_type r in
      bind_res (if ref_type = ''default'' then Inr None
        else bind_res (selected_ref ref_type ref (detected_ref r) []) (\<lambda>s. Inr (Some s))) (\<lambda>named.
      bind_res (api (repo_api_path r)) (\<lambda>repo_payload.
      bind_res (if include_refs then api (repo_api_path r @ ''/branches?per_page=100'') else Inr (JList [])) (\<lambda>branches.
      bind_res (if include_refs then api (repo_api_path r @ ''/tags?per_page=100'') else Inr (JList [])) (\<lambda>tag_list.
      bind_res (default_branch_of repo_payload) (\<lambda>default_branch.
      bind_res (selected_ref ref_type ref (detected_ref r) default_branch) (\<lambda>selected.
      bind_res (case named of
          None \<Rightarrow> Inr None
        | Some s \<Rightarrow> bind_res (api (commit_path r s)) (\<lambda>p. Inr (Some p))) (\<lambda>commit_payload.
      bind_res (chosen_commit g api r commit_payload
        (commit_sha_from_refs ref_type selected default_branch (branch_options branches) (tag_options tag_list))
        selected) (\<lambda>commit.
      bind_res (api (metadata_path r (ci_sha commit))) (\<lambda>metadata_payload.
      bind_res (json_get ''private'' repo_payload) (\<lambda>is_private.
      bind_res (json_get ''size'' repo_payload) (\<lambda>size_value.
      bind_res (json_int (json_or size_value (JInt 0))) (\<lambda>size_kb.
      bind_res (json_get ''updated_at'' repo_payload) (\<lambda>updated_at.
      bind_res (decode_github_content metadata_payload) (\<lambda>content.
      bind_res (metadata_preview g content) (\<lambda>metadata. Inr
        \<lparr>in_repo = r, in_private = json_truthy is_private, in_default_branch = default_branch,
         in_size_kb = size_kb, in_updated_at = parse_datetime g updated_at,
         in_selected = \<lparr>sel_ref_type = ref_type, sel_ref = selected, sel_commit = commit, sel_metadata = metadata\<rparr>,
         in_branches = branch_options branches, in_tags = tag_options tag_list\<rparr>))))))))))))))))"

definition resolve_ref ::
  "env \<Rightarrow> git_world \<Rightarrow> normalized_repo \<Rightarrow> git_credential \<Rightarrow> string option \<Rightarrow> string option \<Rightarrow> string option \<Rightarrow>
   exn + resolved_ref" where
  "resolve_ref env g r credential ref_type ref proxy_url =
     (let api = (\<lambda>path. github_json env g path credential proxy_url);
          ref_type = selected_ref_type_of ref_type r in
      bind_res (if ref_type = ''default''
        then bind_res (api (repo_api_path r)) default_branch_of
        else selected_ref ref_type ref (detected_ref r) []) (\<lambda>selected.
      bind_res (api (commit_path r selected)) (\<lambda>commit_payload.
      bind_res (json_get ''sha'' commit_payload) (\<lambda>sha.
      let commit_sha = py_str (json_or sha (JStr [])) in
      if commit_sha = [] then Inl (GitError ''GitHub commit response did not include a commit SHA'')
      else
        bind_res (api (metadata_path r commit_sha)) (\<lambda>metadata_payload.
        bind_res (commit_info g commit_payload) (\<lambda>commit.
        bind_res (decode_github_content metadata_payload) (\<lambda>content.
        bind_res (metadata_preview g content) (\<lambda>metadata. Inr
          \<lparr>sel_ref_type = ref_type, sel_ref = selected, sel_commit = commit, sel_metadata = metadata\<rparr>))))))))"

definition preflight_repo_size ::
  "env \<Rightarrow> git_world \<Rightarrow> string \<Rightarrow> git_credential \<Rightarrow> int \<Rightarrow> string list option \<Rightarrow> string option \<Rightarrow> exn + int option" where
  "preflight_repo_size env g repo_url credential max_size_kb allowed_hosts proxy_url =
     preflight_github_repo_size env g repo_url max_size_kb allowed_hosts proxy_url (temporary_token credential)"

definition clone_with_provider ::
  "env \<Rightarrow> git_world \<Rightarrow> string \<Rightarrow> string \<Rightarrow> git_credential \<Rightarrow> string option \<Rightarrow> string list option \<Rightarrow> string option \<Rightarrow> exn + unit" where
  "clone_with_provider env g repo_url dest credential ref allowed_hosts proxy_url =
     clone_repo env g repo_url dest ref allowed_hosts proxy_url (temporary_token credential)"

section \<open>Reading what was written\<close>

lemma b64_ignores_line_feeds:
  "b64_loop s q l p out = b64_loop (filter (\<lambda>c. c \<noteq> CHR 0x0A) s) q l p out"
proof (induction s q l p out rule: b64_loop.induct)
  case (2 c s quad left pads out)
  have "b64_val (CHR 0x0A) = None" by code_simp
  with 2 show ?case by (cases "c = CHR 0x0A") (auto split: option.split)
qed simp

lemma b64_char_ascii: "n < 64 \<Longrightarrow> byte (b64_char n) < 128"
proof -
  have "list_all (\<lambda>n. byte (b64_char n) < 128) [0..<64]" by code_simp
  then show "n < 64 \<Longrightarrow> byte (b64_char n) < 128" by (simp add: list_all_iff)
qed

lemma b64encode_ascii: "c \<in> set (b64encode s) \<Longrightarrow> byte c < 128"
proof (induction s rule: b64encode.induct)
  case (4 a b c' s)
  then show ?case by (auto intro: b64_char_ascii)
next
  case (2 a)
  moreover have "byte (CHR ''='') < 128" by (simp add: byte_def)
  ultimately show ?case by (auto intro: b64_char_ascii)
next
  case (3 a b)
  moreover have "byte (CHR ''='') < 128" by (simp add: byte_def)
  ultimately show ?case by (auto intro: b64_char_ascii)
qed simp

lemma utf8_decode_utf8: "utf8_decode (utf8 s) = Some s"
proof (induction s)
  case (Cons c s)
  let ?n = "of_char c :: nat"
  show ?case
  proof (cases "?n < 128")
    case True
    with Cons show ?thesis by (simp add: utf8_def byte_def)
  next
    case False
    have n: "?n < 256" by (rule of_char_less_256)
    with False have q: "?n div 64 = 2 \<or> ?n div 64 = 3" by linarith
    have b: "byte (char_of (192 + ?n div 64)) = 192 + ?n div 64" "byte (char_of (128 + ?n mod 64)) = 128 + ?n mod 64"
      using q by (auto simp: byte_def)
    have sum: "(192 + ?n div 64 - 192) * 64 + (128 + ?n mod 64 - 128) = ?n" by simp
    have "utf8 (c # s) = char_of (192 + ?n div 64) # char_of (128 + ?n mod 64) # utf8 s"
      using False by (simp add: utf8_def Let_def)
    then show ?thesis using Cons q by (auto simp: b sum)
  qed
qed (simp add: utf8_def)

text \<open>The metadata file that GitHub sends in base64, broken into lines anywhere, is read as the text that
  was encoded.\<close>

theorem github_content_round_trip:
  assumes "filter (\<lambda>c. c \<noteq> CHR 0x0A) content = b64encode (utf8 text0)"
  shows "decode_github_content (JObj [(''encoding'', JStr ''base64''), (''content'', JStr content)]) = Inr text0"
proof -
  have "byte c < 128" if "c \<in> set content" for c
  proof (cases "c = CHR 0x0A")
    case False
    with that have "c \<in> set (filter (\<lambda>c. c \<noteq> CHR 0x0A) content)" by simp
    then have "c \<in> set (b64encode (utf8 text0))" unfolding assms .
    then show ?thesis by (rule b64encode_ascii)
  qed (simp add: byte_def)
  then have ascii: "\<not> list_ex (\<lambda>x. 128 \<le> byte x) content" by (auto simp: list_ex_iff not_le)
  have "b64decode content = Inr (utf8 text0)"
    unfolding b64decode_def b64_ignores_line_feeds[of content] assms b64_loop_encode by simp
  with ascii show ?thesis by (simp add: decode_github_content_def utf8_decode_utf8)
qed

theorem github_content_round_trip_witness:
  "decode_github_content (JObj [(''encoding'', JStr ''base64''), (''content'', JStr (''bmFt'' @ [CHR 0x0A] @ ''ZTogdw==''))]) = Inr ''name: w''"
  by (rule github_content_round_trip) code_simp

text \<open>A commit without a message, which git allows, cannot be inspected: reading its first line raises an
  IndexError, so neither inspecting the repository at that commit nor resolving a reference to it returns.\<close>

theorem commit_without_message_fails:
  assumes "d \<noteq> []" "\<not> json_truthy (get_or_null ''message'' d)"
  shows "commit_info g (JObj ((''commit'', JObj d) # rest)) = Inl (IndexError ''list index out of range'')"
proof -
  have "py_str (json_or (get_or_null ''message'' d) (JStr [])) = []" using assms(2) by (simp add: json_or_def)
  moreover have "first_line [] = Inl (IndexError ''list index out of range'')" by (simp add: first_line_def splitlines_def)
  ultimately show ?thesis using assms(1) by (simp add: commit_info_def dict_or_empty_def)
qed

theorem commit_without_message_fails_witness:
  "commit_info sample_git (JObj [(''commit'', JObj [(''message'', JStr []), (''author'', JNull)]), (''sha'', JStr ''abc'')])
    = Inl (IndexError ''list index out of range'')"
  by (rule commit_without_message_fails) code_simp+

end
