(* ===== verification/TaskObservability.thy ===== *)
theory TaskObservability
  imports RegistryService
begin

text \<open>
  \<open>services/task_observability.py\<close>: the task rows that operators see, their life cycle, the payload that
  may be stored, and the heartbeats of the workers. \<open>uuid.UUID(text)\<close> is \<open>parse_uuid\<close>, on texts whose
  digits are plain hexadecimal digits.
\<close>

section \<open>Identifiers and payloads\<close>

definition hyphenate :: "string \<Rightarrow> uuid" where
  "hyphenate h = str_join ''-'' [take 8 h, take 4 (drop 8 h), take 4 (drop 12 h), take 4 (drop 16 h), drop 20 h]"

definition parse_uuid :: "string \<Rightarrow> uuid option" where
  "parse_uuid s =
     (let h = str_replace ''uuid:'' [] (str_replace ''urn:'' [] s);
          h = filter (\<lambda>c. c \<noteq> CHR ''-'') (strip_by (\<lambda>c. c = CHR ''{'' \<or> c = CHR ''}'') h)
      in if length h = 32 \<and> list_all is_hex_char h then Some (hyphenate (str_lower h)) else None)"

definition uuid_or_none :: "json \<Rightarrow> uuid option" where
  "uuid_or_none value = (if value = JNull \<or> value = JStr [] then None else parse_uuid (py_str value))"

definition SUMMARY_KEYS :: "string list" where
  "SUMMARY_KEYS = [''plugin_id'', ''version_id'', ''version'', ''ref'', ''repo_url'', ''providers'']"

definition payload_summary :: "json dict \<Rightarrow> json dict" where
  "payload_summary payload =
     (if payload = [] then []
      else filter (\<lambda>kv. fst kv \<in> set SUMMARY_KEYS \<and> snd kv \<noteq> JNull \<and> snd kv \<noteq> JStr []) payload)"

definition stored_payload :: "json dict \<Rightarrow> json dict" where
  "stored_payload payload =
     (if payload = [] then []
      else
        (let redacted = filter (\<lambda>kv. fst kv \<noteq> ''temporary_token'') payload
         in if json_truthy (get_or_null ''temporary_token'' payload)
            then dict_set ''temporary_token_present'' (JBool True) redacted else redacted))"

definition task_refs :: "db \<Rightarrow> json dict \<Rightarrow> uuid option \<times> uuid option" where
  "task_refs D payload =
     (let plugin_id = uuid_or_none (get_or_null ''plugin_id'' payload);
          version_id = uuid_or_none (get_or_null ''version_id'' payload)
      in case version_id of
           None \<Rightarrow> (plugin_id, version_id)
         | Some vid \<Rightarrow>
             if plugin_id = None then (map_option v_plugin_id (row_get v_id vid (versions D)), version_id)
             else (plugin_id, version_id))"

definition task_provider :: "json dict \<Rightarrow> string option" where
  "task_provider payload =
     (case get_or_null ''provider'' payload of
       JStr p \<Rightarrow> if p \<noteq> [] then Some p
         else (case get_or_null ''providers'' payload of
             JList xs \<Rightarrow> if xs \<noteq> [] then Some (str_join '','' (map py_str xs)) else None
           | _ \<Rightarrow> None)
     | _ \<Rightarrow> (case get_or_null ''providers'' payload of
             JList xs \<Rightarrow> if xs \<noteq> [] then Some (str_join '','' (map py_str xs)) else None
           | _ \<Rightarrow> None))"

section \<open>The life cycle of a task row\<close>

text \<open>Delays are in microseconds.\<close>

definition create_worker_task ::
  "env \<Rightarrow> string \<Rightarrow> json dict \<Rightarrow> uuid \<Rightarrow> int \<Rightarrow> int \<Rightarrow> worker_task act" where
  "create_worker_task env task_type payload task_id max_attempts delay =
     bind_op (query (\<lambda>D. task_refs D payload)) (\<lambda>(pid, vid).
     let t = \<lparr>t_id = task_id, t_task_type = task_type,
              t_status = (if 0 < delay then TDelayed else TQueued), t_plugin_id = pid, t_version_id = vid,
              t_provider = task_provider payload, t_payload = stored_payload payload, t_attempts = 0,
              t_max_attempts = (if max_attempts = 0 then task_max_attempts (e_settings env) else max_attempts),
              t_queued_at = e_now env, t_started_at = None, t_finished_at = None,
              t_next_run_at = (if 0 < delay then Some (e_now env + delay) else None), t_worker_id = None,
              t_duration_ms = None, t_last_error = None, t_created_at = e_now env\<rparr>
     in bind_op (stage (\<lambda>D. D\<lparr>tasks := tasks D @ [t]\<rparr>)) (\<lambda>_.
        bind_op commit (\<lambda>_. ret t)))"

definition get_task :: "db \<Rightarrow> json \<Rightarrow> worker_task option" where
  "get_task D task_id =
     (if \<not> json_truthy task_id then None
      else (case parse_uuid (py_str task_id) of None \<Rightarrow> None | Some i \<Rightarrow> row_get t_id i (tasks D)))"

text \<open>\<open>max(0, int(total_seconds * 1000))\<close> in double precision.\<close>

definition duration_ms :: "time option \<Rightarrow> time \<Rightarrow> int option" where
  "duration_ms started_at finished_at =
     (case started_at of
       None \<Rightarrow> None
     | Some st \<Rightarrow>
         if finished_at \<le> st then Some 0
         else (case f64_quotient (nat (finished_at - st)) 1000000 of (a, b) \<Rightarrow>
               case f64_quotient (nat (a * 1000)) (nat b) of (c, d) \<Rightarrow> Some (max 0 (c div d))))"

definition update_task :: "json \<Rightarrow> (worker_task \<Rightarrow> worker_task) \<Rightarrow> unit act" where
  "update_task task_id f =
     bind_op (query (\<lambda>D. get_task D task_id)) (\<lambda>x.
     case x of
       None \<Rightarrow> ret ()
     | Some t \<Rightarrow>
         bind_op (stage (\<lambda>D. D\<lparr>tasks := row_put t_id (f t) (tasks D)\<rparr>)) (\<lambda>_. commit))"

definition mark_task_running :: "env \<Rightarrow> json \<Rightarrow> string \<Rightarrow> int \<Rightarrow> unit act" where
  "mark_task_running env task_id worker_id attempts =
     update_task task_id (\<lambda>t. t\<lparr>t_status := TRunning, t_started_at := Some (e_now env), t_finished_at := None,
        t_next_run_at := None, t_worker_id := Some worker_id, t_attempts := attempts, t_last_error := None\<rparr>)"

definition mark_task_succeeded :: "env \<Rightarrow> json \<Rightarrow> unit act" where
  "mark_task_succeeded env task_id =
     update_task task_id (\<lambda>t. t\<lparr>t_status := TSucceeded, t_finished_at := Some (e_now env),
        t_next_run_at := None, t_duration_ms := duration_ms (t_started_at t) (e_now env)\<rparr>)"

definition mark_task_retrying :: "env \<Rightarrow> json \<Rightarrow> int \<Rightarrow> string \<Rightarrow> int \<Rightarrow> unit act" where
  "mark_task_retrying env task_id attempts error delay_seconds =
     update_task task_id (\<lambda>t. t\<lparr>t_status := TRetrying, t_finished_at := Some (e_now env),
        t_duration_ms := duration_ms (t_started_at t) (e_now env), t_attempts := attempts,
        t_last_error := Some error, t_next_run_at := Some (e_now env + delay_seconds * us_per_second)\<rparr>)"

definition mark_task_dead :: "env \<Rightarrow> json \<Rightarrow> int \<Rightarrow> string \<Rightarrow> unit act" where
  "mark_task_dead env task_id attempts error =
     update_task task_id (\<lambda>t. t\<lparr>t_status := TDead, t_finished_at := Some (e_now env),
        t_duration_ms := duration_ms (t_started_at t) (e_now env), t_attempts := attempts,
        t_last_error := Some error, t_next_run_at := None\<rparr>)"

section \<open>Listing\<close>

definition page_of :: "int \<Rightarrow> int \<Rightarrow> 'a list \<Rightarrow> 'a list" where
  "page_of page page_size xs = take (nat page_size) (drop (nat ((page - 1) * page_size)) xs)"

definition opt_uuid_filter :: "string option \<Rightarrow> exn + (uuid option \<Rightarrow> bool)" where
  "opt_uuid_filter x =
     (if truthy x then
        (case parse_uuid (or_str x []) of
          None \<Rightarrow> Inl (ValueError ''badly formed hexadecimal UUID string'')
        | Some i \<Rightarrow> Inr (\<lambda>y. y = Some i))
      else Inr (\<lambda>_. True))"

definition list_worker_tasks ::
  "db \<Rightarrow> string option \<Rightarrow> string option \<Rightarrow> string option \<Rightarrow> string option \<Rightarrow> int \<Rightarrow> int \<Rightarrow>
   exn + (worker_task list \<times> nat)" where
  "list_worker_tasks D status task_type plugin_id version_id page0 page_size0 =
     (let page = max page0 1;
          page_size = min (max page_size0 1) 100
      in bind_res (opt_uuid_filter plugin_id) (\<lambda>fp.
         bind_res (opt_uuid_filter version_id) (\<lambda>fv.
         let found = filter (\<lambda>t. (truthy status \<longrightarrow> Some (task_status_str (t_status t)) = status)
               \<and> (truthy task_type \<longrightarrow> Some (t_task_type t) = task_type)
               \<and> fp (t_plugin_id t) \<and> fv (t_version_id t)) (tasks D)
         in Inr (page_of page page_size (sort_key (\<lambda>t. - t_created_at t) found), length found))))"

definition ALL_TASK_STATUSES :: "task_status list" where
  "ALL_TASK_STATUSES = [TQueued, TDelayed, TRunning, TRetrying, TSucceeded, TFailed, TDead, TCancelled]"

definition task_status_counts :: "db \<Rightarrow> nat dict" where
  "task_status_counts D =
     (let counted = map (\<lambda>st. (task_status_str st, length (filter (\<lambda>t. t_status t = st) (tasks D))))
            (remdups (map t_status (tasks D)))
      in fold (\<lambda>st d. dict_setdefault (task_status_str st) 0 d) ALL_TASK_STATUSES (dict_of counted))"

section \<open>Heartbeats\<close>

definition WORKER_HEARTBEAT_TTL_SECONDS :: int where
  "WORKER_HEARTBEAT_TTL_SECONDS = 90"

definition heartbeat_payload :: "env \<Rightarrow> string \<Rightarrow> json \<Rightarrow> json" where
  "heartbeat_payload env worker_id current_task_id = JObj
     [(''worker_id'', JStr worker_id), (''hostname'', JStr (e_hostname env)), (''pid'', JInt (e_pid env)),
      (''heartbeat_at'', JStr (isoformat (e_now env))), (''current_task_id'', current_task_id)]"

definition put_heartbeat :: "string \<Rightarrow> (json \<times> time) option \<Rightarrow> redis_db \<Rightarrow> redis_db" where
  "put_heartbeat k x rd = rd\<lparr>r_heartbeats := (case x of
      None \<Rightarrow> dict_del k (r_heartbeats rd) | Some e \<Rightarrow> dict_set k e (r_heartbeats rd))\<rparr>"

definition write_worker_heartbeat :: "env \<Rightarrow> string \<Rightarrow> json \<Rightarrow> unit act" where
  "write_worker_heartbeat env worker_id current_task_id =
     set_ex (put_heartbeat (''registry_worker:'' @ worker_id)) (e_now env)
       (heartbeat_payload env worker_id current_task_id) WORKER_HEARTBEAT_TTL_SECONDS"

record worker_status =
  ws_redis_connected :: bool
  ws_queue_length :: nat
  ws_delayed_length :: nat
  ws_dead_letter_length :: nat
  ws_active_workers :: "json list"
  ws_tasks_by_status :: "nat dict"

definition worker_id_of :: "json \<Rightarrow> string" where
  "worker_id_of j = (case j of JObj d \<Rightarrow> (case get_or_null ''worker_id'' d of JStr s \<Rightarrow> s | _ \<Rightarrow> []) | _ \<Rightarrow> [])"

definition worker_runtime_status :: "env \<Rightarrow> worker_status act" where
  "worker_runtime_status env =
     bind_op (gets redis) (\<lambda>r.
     bind_op (query task_status_counts) (\<lambda>counts.
     case r of
       None \<Rightarrow> ret \<lparr>ws_redis_connected = False, ws_queue_length = 0, ws_delayed_length = 0,
           ws_dead_letter_length = 0, ws_active_workers = [], ws_tasks_by_status = counts\<rparr>
     | Some rd \<Rightarrow> ret \<lparr>ws_redis_connected = True, ws_queue_length = length (r_queue rd),
           ws_delayed_length = length (r_delayed rd), ws_dead_letter_length = length (r_dead rd),
           ws_active_workers = sort_key worker_id_of
             (some_list (map (\<lambda>kv. alive (e_now env) (Some (snd kv))) (r_heartbeats rd))),
           ws_tasks_by_status = counts\<rparr>))"

section \<open>Lemmas\<close>

lemma duration_ms_nonneg: "duration_ms st f = Some d \<Longrightarrow> 0 \<le> d"
  by (auto simp: duration_ms_def split: option.splits prod.splits if_splits)

lemma stored_payload_no_token:
  "dict_get ''temporary_token'' (stored_payload payload) = None"
proof -
  have f: "dict_get ''temporary_token'' (filter (\<lambda>kv. fst kv \<noteq> ''temporary_token'') payload) = None"
    by (auto simp: dict_get_None_iff)
  then show ?thesis by (simp add: stored_payload_def Let_def)
qed

lemma dict_get_filter_other:
  "dict_get k (filter (\<lambda>kv. fst kv \<noteq> j) d) = (if k = j then None else dict_get k d)"
  by (induction d) auto

lemma stored_payload_other:
  "k \<noteq> ''temporary_token'' \<Longrightarrow> k \<noteq> ''temporary_token_present'' \<Longrightarrow>
   dict_get k (stored_payload payload) = dict_get k payload"
  by (simp add: stored_payload_def Let_def dict_get_filter_other)

lemma fold_setdefault_get:
  "dict_get k (fold (\<lambda>s d. dict_setdefault (f s) z d) ss d) =
     (case dict_get k d of Some x \<Rightarrow> Some x | None \<Rightarrow> if k \<in> f ` set ss then Some z else None)"
  by (induction ss arbitrary: d) (auto split: option.splits)

lemma keeps_update_task: "keeps world_ok (update_task task_id f)"
  unfolding update_task_def by (intro keeps_intros keeps_world_ok_basic)

lemma keeps_world_ok_marks [keeps_intros]:
  "keeps world_ok (mark_task_running env i w a)" "keeps world_ok (mark_task_succeeded env i)"
  "keeps world_ok (mark_task_retrying env i a e n)" "keeps world_ok (mark_task_dead env i a e)"
  unfolding mark_task_running_def mark_task_succeeded_def mark_task_retrying_def mark_task_dead_def
  by (rule keeps_update_task)+

lemma keeps_world_ok_create_task [keeps_intros]:
  "keeps world_ok (create_worker_task env tt p i m d)"
  unfolding create_worker_task_def by (intro keeps_intros keeps_world_ok_basic)

section \<open>Properties\<close>

lemma length_page: "length (page_of page n xs) \<le> nat n"
  by (simp add: page_of_def)

lemma pages_concat: "concat (map (\<lambda>i. take n (drop ((i - 1) * n) xs)) [1..<Suc k]) = take (k * n) xs"
proof (induction k)
  case (Suc k)
  have "take (Suc k * n) xs = take (k * n) xs @ take n (drop (k * n) xs)"
    by (simp add: take_add add.commute[of n])
  with Suc show ?case by simp
qed simp

text \<open>The pages of the task list, read one after the other, are the matching tasks from the newest to the oldest,
  each on exactly one page, no page longer than asked for or than a hundred; the total is their number.\<close>

theorem task_pages_cover:
  assumes "list_worker_tasks D status task_type plugin_id version_id 1 page_size = Inr (page1, cnt)"
  shows "\<exists>all. length all = cnt \<and> sorted (map (\<lambda>t. - t_created_at t) all)
    \<and> set all = {t \<in> set (tasks D). (truthy status \<longrightarrow> Some (task_status_str (t_status t)) = status)
        \<and> (truthy task_type \<longrightarrow> Some (t_task_type t) = task_type)
        \<and> (truthy plugin_id \<longrightarrow> t_plugin_id t = parse_uuid (or_str plugin_id []))
        \<and> (truthy version_id \<longrightarrow> t_version_id t = parse_uuid (or_str version_id []))}
    \<and> (\<forall>page. case list_worker_tasks D status task_type plugin_id version_id page page_size of
        Inl e \<Rightarrow> False | Inr (items, n) \<Rightarrow> n = cnt \<and> length items \<le> nat (min (max page_size 1) 100))
    \<and> (\<forall>k. concat (map (\<lambda>i. case list_worker_tasks D status task_type plugin_id version_id (int i) page_size of
          Inl e \<Rightarrow> [] | Inr (items, n) \<Rightarrow> items) [1..<Suc k]) = take (k * nat (min (max page_size 1) 100)) all)"
proof -
  from assms obtain fp fv where f: "opt_uuid_filter plugin_id = Inr fp" "opt_uuid_filter version_id = Inr fv"
    by (auto simp: list_worker_tasks_def Let_def bind_res_Inr_iff)
  have filters: "fp y \<longleftrightarrow> (truthy plugin_id \<longrightarrow> y = parse_uuid (or_str plugin_id []))"
    "fv y \<longleftrightarrow> (truthy version_id \<longrightarrow> y = parse_uuid (or_str version_id []))" for y
    using f by (auto simp: opt_uuid_filter_def split: if_splits option.splits)
  let ?found = "filter (\<lambda>t. (truthy status \<longrightarrow> Some (task_status_str (t_status t)) = status)
               \<and> (truthy task_type \<longrightarrow> Some (t_task_type t) = task_type)
               \<and> fp (t_plugin_id t) \<and> fv (t_version_id t)) (tasks D)"
  let ?all = "sort_key (\<lambda>t. - t_created_at t) ?found" and ?n = "min (max page_size 1) 100"
  have l: "list_worker_tasks D status task_type plugin_id version_id page page_size
      = Inr (page_of (max page 1) ?n ?all, length ?found)" for page
    by (simp add: list_worker_tasks_def Let_def f)
  have p: "page_of (max (int i) 1) ?n ?all = take (nat ?n) (drop ((i - 1) * nat ?n) ?all)" if "1 \<le> i" for i
  proof -
    have "int i - 1 = int (i - 1)" using that by simp
    then have "nat ((int i - 1) * ?n) = (i - 1) * nat ?n" by (simp only: nat_mult_distrib[OF of_nat_0_le_iff] nat_int)
    moreover have "max (int i) 1 = int i" using that by simp
    ultimately show ?thesis by (simp only: page_of_def)
  qed
  have pmap: "map (\<lambda>i. page_of (max (int i) 1) ?n ?all) [1..<Suc k] = map (\<lambda>i. take (nat ?n) (drop ((i - 1) * nat ?n) ?all)) [1..<Suc k]" for k
    by (intro map_cong refl p) auto
  have "concat (map (\<lambda>i. page_of (max (int i) 1) ?n ?all) [1..<Suc k]) = take (k * nat ?n) ?all" for k
    unfolding pmap by (rule pages_concat)
  then show ?thesis using assms
    by (intro exI[of _ ?all]) (auto simp: l filters length_page simp del: upt_Suc)
qed

definition sample_task :: "uuid \<Rightarrow> time \<Rightarrow> worker_task" where
  "sample_task i t = \<lparr>t_id = i, t_task_type = ''scan'', t_status = TRunning, t_plugin_id = None, t_version_id = None,
     t_provider = None, t_payload = [], t_attempts = 1, t_max_attempts = 3, t_queued_at = t, t_started_at = Some t,
     t_finished_at = None, t_next_run_at = None, t_worker_id = None, t_duration_ms = None, t_last_error = None,
     t_created_at = t\<rparr>"

theorem task_pages_cover_witness:
  "\<exists>all :: worker_task list. length all = 2 \<and> sorted (map (\<lambda>t. - t_created_at t) all)"
proof -
  let ?D = "sample_db\<lparr>tasks := [sample_task ''a'' 1, sample_task ''b'' 2]\<rparr>"
  have "list_worker_tasks ?D None None None None 1 20 = Inr (fst (projr (list_worker_tasks ?D None None None None 1 20)), 2)"
    by (simp add: list_worker_tasks_def opt_uuid_filter_def)
  from task_pages_cover[OF this] obtain all :: "worker_task list" where "length all = 2" "sorted (map (\<lambda>t. - t_created_at t) all)" by auto
  then show ?thesis by blast
qed

lemma get_task_row: "get_task D i = Some t \<Longrightarrow> \<exists>k. parse_uuid (py_str i) = Some k \<and> json_truthy i \<and> row_get t_id k (tasks D) = Some t \<and> t_id t = k"
  by (auto simp: get_task_def split: if_splits option.splits dest: row_get_SomeD)

lemma update_task_result:
  assumes "update_task i f w = (Inr (), u)" "get_task (sess w) i = Some t" "t_id (f t) = t_id t"
  shows "committed u = (sess w)\<lparr>tasks := row_put t_id (f t) (tasks (sess w))\<rparr>" "get_task (committed u) i = Some (f t)"
proof -
  show c: "committed u = (sess w)\<lparr>tasks := row_put t_id (f t) (tasks (sess w))\<rparr>"
    using assms(1,2) by (auto simp: update_task_def bind_op_def commit_def split: if_splits)
  from get_task_row[OF assms(2)] obtain k where k: "parse_uuid (py_str i) = Some k" "json_truthy i" "t_id t = k" by blast
  then show "get_task (committed u) i = Some (f t)" unfolding c get_task_def using assms(3) by (simp add: row_get_put)
qed

text \<open>When the end of a task is recorded, its row has the final state, the time and a duration that is
  not negative, a retry alone keeps a next run, and no other row changes.\<close>

theorem task_end_recorded:
  assumes "get_task (sess w) i = Some t" "f \<in> {mark_task_succeeded env i, mark_task_dead env i n err, mark_task_retrying env i n err delay}"
    and "f w = (Inr (), u)"
  shows "\<exists>t'. get_task (committed u) i = Some t' \<and> t_finished_at t' = Some (e_now env)
    \<and> t_status t' \<in> {TSucceeded, TDead, TRetrying} \<and> (t_next_run_at t' \<noteq> None \<longleftrightarrow> t_status t' = TRetrying)
    \<and> (\<forall>d. t_duration_ms t' = Some d \<longrightarrow> 0 \<le> d)
    \<and> filter (\<lambda>x. t_id x \<noteq> t_id t) (tasks (committed u)) = filter (\<lambda>x. t_id x \<noteq> t_id t) (tasks (sess w))"
proof -
  have goal: ?thesis if "update_task i g w = (Inr (), u)" "t_id (g t) = t_id t" "t_finished_at (g t) = Some (e_now env)"
    "t_status (g t) \<in> {TSucceeded, TDead, TRetrying}" "t_next_run_at (g t) \<noteq> None \<longleftrightarrow> t_status (g t) = TRetrying"
    "t_duration_ms (g t) = duration_ms (t_started_at t) (e_now env)" for g
  proof -
    note res = update_task_result[OF that(1) assms(1) that(2)]
    have "filter (\<lambda>x. t_id x \<noteq> t_id t) (row_put t_id (g t) ts) = filter (\<lambda>x. t_id x \<noteq> t_id t) ts" for ts
      using that(2) by (intro filter_row_put_other) simp_all
    then show ?thesis using res that duration_ms_nonneg by auto
  qed
  from assms(2) consider "f = mark_task_succeeded env i" | "f = mark_task_dead env i n err" | "f = mark_task_retrying env i n err delay"
    by blast
  then show ?thesis
  proof cases
    case 1
    from assms(3)[unfolded 1 mark_task_succeeded_def] show ?thesis by (rule goal) simp_all
  next
    case 2
    from assms(3)[unfolded 2 mark_task_dead_def] show ?thesis by (rule goal) simp_all
  next
    case 3
    from assms(3)[unfolded 3 mark_task_retrying_def] show ?thesis by (rule goal) simp_all
  qed
qed

theorem task_end_recorded_witness:
  "\<exists>u t'. mark_task_succeeded sample_env (JStr ''00000000000040008000000000000001'')
      (sample_world (sample_db\<lparr>tasks := [(sample_task ''00000000-0000-4000-8000-000000000001'' 1600000000000000)\<lparr>t_started_at := None\<rparr>]\<rparr>) None) = (Inr (), u)
    \<and> get_task (committed u) (JStr ''00000000000040008000000000000001'') = Some t' \<and> t_finished_at t' = Some 1700000000000000"
proof -
  let ?t = "(sample_task ''00000000-0000-4000-8000-000000000001'' 1600000000000000)\<lparr>t_started_at := None\<rparr>"
  let ?w = "sample_world (sample_db\<lparr>tasks := [?t]\<rparr>) None" and ?i = "JStr ''00000000000040008000000000000001''"
  have get: "get_task (sess ?w) ?i = Some ?t" by code_simp
  have "\<not> isl (fst (mark_task_succeeded sample_env ?i ?w))" by code_simp
  then obtain x u where "mark_task_succeeded sample_env ?i ?w = (Inr x, u)" by (metis isl_def old.sum.exhaust prod.collapse)
  then have run: "mark_task_succeeded sample_env ?i ?w = (Inr (), u)" by simp
  from task_end_recorded[where w = ?w and i = ?i and t = ?t and f = "mark_task_succeeded sample_env ?i" and u = u
      and env = sample_env and n = 0 and err = "[]" and delay = 0] get run show ?thesis by auto
qed

end
