(* ===== verification/TaskQueue.thy ===== *)
theory TaskQueue
  imports TaskObservability "HOL-Library.Multiset"
begin

text \<open>
  \<open>services/task_queue.py\<close> and the reading end of \<open>worker.py\<close>: envelopes, the queue, the delayed set
  ordered by time and text, the dead letters, retries. Redis keeps the text of an envelope; it is kept
  here as the dictionary that the text denotes, and two members of the delayed set are the same when
  their texts are. The locale \<open>task_broker\<close> is what producers and workers rely on.
\<close>

section \<open>Envelopes\<close>

definition encode_task :: "json dict \<Rightarrow> string" where
  "encode_task task = json_dumps True (JObj task)"

definition create_task_envelope ::
  "env \<Rightarrow> string \<Rightarrow> json dict \<Rightarrow> string \<Rightarrow> int \<Rightarrow> int \<Rightarrow> string \<Rightarrow> json dict" where
  "create_task_envelope env task_type payload task_id attempts max_attempts last_error =
     [(''id'', JStr task_id), (''type'', JStr task_type), (''payload'', JObj payload),
      (''attempts'', JInt attempts),
      (''max_attempts'', JInt (if max_attempts = 0 then task_max_attempts (e_settings env) else max_attempts))]
     @ (if last_error \<noteq> [] then [(''last_error'', JStr last_error)] else [])"

definition redacted_task :: "json dict \<Rightarrow> json dict" where
  "redacted_task task =
     (case dict_get ''payload'' task of
       Some (JObj payload) \<Rightarrow>
         if dict_get ''temporary_token'' payload = None then task
         else dict_set ''payload''
           (JObj (dict_set ''temporary_token_present'' (JBool True) (dict_del ''temporary_token'' payload))) task
     | _ \<Rightarrow> task)"

section \<open>The queues\<close>

text \<open>\<open>ZADD\<close>: a member that is there gets the new score.\<close>

definition zadd :: "json dict \<Rightarrow> time \<Rightarrow> (json dict \<times> time) list \<Rightarrow> (json dict \<times> time) list" where
  "zadd task score z = row_put (\<lambda>ts. encode_task (fst ts)) (task, score) z"

definition zorder :: "json dict \<times> time \<Rightarrow> time \<times> string" where
  "zorder ts = (snd ts, encode_task (fst ts))"

text \<open>\<open>ZRANGEBYSCORE key 0 now LIMIT 0 limit\<close>.\<close>

definition zdue :: "time \<Rightarrow> nat \<Rightarrow> (json dict \<times> time) list \<Rightarrow> json dict list" where
  "zdue now limit z =
     map fst (take limit (sort_key zorder (filter (\<lambda>ts. 0 \<le> snd ts \<and> snd ts \<le> now) z)))"

definition zmember :: "json dict \<Rightarrow> (json dict \<times> time) list \<Rightarrow> bool" where
  "zmember task z \<longleftrightarrow> encode_task task \<in> set (map (\<lambda>ts. encode_task (fst ts)) z)"

definition zrem :: "json dict \<Rightarrow> (json dict \<times> time) list \<Rightarrow> (json dict \<times> time) list" where
  "zrem task z = row_del (\<lambda>ts. encode_task (fst ts)) (encode_task task) z"

definition rpush :: "json dict \<Rightarrow> redis_db \<Rightarrow> redis_db" where
  "rpush task rd = rd\<lparr>r_queue := r_queue rd @ [task]\<rparr>"

definition push_task :: "env \<Rightarrow> json dict \<Rightarrow> int \<Rightarrow> redis_db \<Rightarrow> redis_db" where
  "push_task env task delay rd =
     (if 0 < delay then rd\<lparr>r_delayed := zadd task (e_now env + delay) (r_delayed rd)\<rparr>
      else rpush task rd)"

definition push_dead :: "json dict \<Rightarrow> redis_db \<Rightarrow> redis_db" where
  "push_dead task rd = rd\<lparr>r_dead := r_dead rd @ [task]\<rparr>"

fun promote_loop :: "json dict list \<Rightarrow> redis_db \<Rightarrow> nat \<Rightarrow> nat \<times> redis_db" where
  "promote_loop [] rd promoted = (promoted, rd)"
| "promote_loop (task # ts) rd promoted =
     (if zmember task (r_delayed rd)
      then promote_loop ts (rpush task (rd\<lparr>r_delayed := zrem task (r_delayed rd)\<rparr>)) (Suc promoted)
      else promote_loop ts rd promoted)"

definition promote_due_tasks :: "env \<Rightarrow> nat \<Rightarrow> redis_db \<Rightarrow> nat \<times> redis_db" where
  "promote_due_tasks env limit rd = promote_loop (zdue (e_now env) limit (r_delayed rd)) rd 0"

text \<open>\<open>worker.pop_task\<close>: the head of the queue, with an attempt count.\<close>

definition normalize_popped :: "json dict \<Rightarrow> json dict" where
  "normalize_popped task0 =
     (let task = (if dict_get ''payload'' task0 = None
                  then [(''type'', get_or_null ''type'' task0), (''payload'', JObj [])] else task0)
      in dict_setdefault ''attempts'' (JInt 0) task)"

definition blpop :: "redis_db \<Rightarrow> json dict option \<times> redis_db" where
  "blpop rd =
     (case r_queue rd of
       [] \<Rightarrow> (None, rd)
     | raw # rest \<Rightarrow> (Some raw, rd\<lparr>r_queue := rest\<rparr>))"

definition pop_task :: "redis_db \<Rightarrow> json dict option \<times> redis_db" where
  "pop_task rd = (case blpop rd of (item, rd') \<Rightarrow> (map_option normalize_popped item, rd'))"

section \<open>Enqueueing and retrying\<close>

definition enqueue_task :: "env \<Rightarrow> string \<Rightarrow> json dict \<Rightarrow> bool \<Rightarrow> int \<Rightarrow> string option act" where
  "enqueue_task env task_type payload has_db delay =
     bind_op (gets redis) (\<lambda>r.
     if r = None then ret None
     else
       bind_op (runtime_task_max_attempts env has_db) (\<lambda>max_attempts.
       bind_op (uuid4 env) (\<lambda>task_id.
       bind_op (when_op has_db
         (bind_op (create_worker_task env task_type payload task_id max_attempts delay) (\<lambda>_. ret ()))) (\<lambda>_.
       bind_op (on_redis (push_task env (create_task_envelope env task_type payload task_id 0 max_attempts []) delay)) (\<lambda>_.
       ret (Some task_id))))))"

definition is_retryable_task_error :: "exn \<Rightarrow> bool" where
  "is_retryable_task_error error = (if is_registry_error error then error_retryable error else True)"

definition or_zero :: "json \<Rightarrow> json" where
  "or_zero j = json_or j (JInt 0)"

definition bury_task :: "env \<Rightarrow> json dict \<Rightarrow> int \<Rightarrow> string \<Rightarrow> bool \<Rightarrow> bool act" where
  "bury_task env task attempts error has_db =
     bind_op (when_op has_db (mark_task_dead env (get_or_null ''id'' task) attempts error)) (\<lambda>_.
     bind_op (on_redis (push_dead (redacted_task task))) (\<lambda>_. ret False))"

definition retry_task :: "json dict \<Rightarrow> exn \<Rightarrow> int \<Rightarrow> json dict" where
  "retry_task task0 error attempts =
     dict_set ''last_error'' (JStr (exn_message error)) (dict_set ''attempts'' (JInt attempts) task0)"

definition retry_later :: "env \<Rightarrow> json dict \<Rightarrow> int \<Rightarrow> string \<Rightarrow> bool \<Rightarrow> bool act" where
  "retry_later env task attempts error has_db =
     bind_op (runtime_task_retry_delay_seconds env has_db) (\<lambda>retry_delay.
     bind_op (when_op has_db
       (mark_task_retrying env (get_or_null ''id'' task) attempts error retry_delay)) (\<lambda>_.
     bind_op (on_redis (push_task env task (retry_delay * us_per_second))) (\<lambda>_.
     ret True)))"

definition task_limit :: "env \<Rightarrow> json dict \<Rightarrow> bool \<Rightarrow> int act" where
  "task_limit env task has_db =
     (if json_truthy (get_or_null ''max_attempts'' task)
      then lift_res (json_int (get_or_null ''max_attempts'' task))
      else runtime_task_max_attempts env has_db)"

definition requeue_task :: "env \<Rightarrow> json dict \<Rightarrow> exn \<Rightarrow> bool \<Rightarrow> bool act" where
  "requeue_task env task0 error has_db =
     bind_op (gets redis) (\<lambda>r.
     if r = None then ret False
     else
       bind_op (lift_res (json_int (or_zero (get_or_null ''attempts'' task0)))) (\<lambda>n.
       let attempts = n + 1;
           task = retry_task task0 error attempts
       in if \<not> is_retryable_task_error error then bury_task env task attempts (exn_message error) has_db
          else
            bind_op (task_limit env task has_db) (\<lambda>max_attempts.
            if max_attempts \<le> attempts then bury_task env task attempts (exn_message error) has_db
            else retry_later env task attempts (exn_message error) has_db)))"

section \<open>The interface of the broker\<close>

text \<open>The texts of the tasks a broker holds, waiting or delayed, and what its operations do to them.\<close>

locale task_broker =
  fixes text_of :: "'t \<Rightarrow> 'x"
    and held :: "'s \<Rightarrow> 'x multiset"
    and push :: "'t \<Rightarrow> 's \<Rightarrow> 's"
    and promote :: "'s \<Rightarrow> 's"
    and pop :: "'s \<Rightarrow> 't option \<times> 's"
    and proper :: "'s \<Rightarrow> bool"
  assumes push_held: "held (push t s) = add_mset (text_of t) (held s)"
    and push_proper: "proper s \<Longrightarrow> proper (push t s)"
    and promote_held: "proper s \<Longrightarrow> held (promote s) = held s"
    and promote_proper: "proper s \<Longrightarrow> proper (promote s)"
    and pop_None: "pop s = (None, s') \<Longrightarrow> s' = s"
    and pop_Some: "pop s = (Some t, s') \<Longrightarrow> held s = add_mset (text_of t) (held s')"
    and pop_proper: "proper s \<Longrightarrow> pop s = (x, s') \<Longrightarrow> proper s'"
begin

lemma push_all_held: "held (fold push ts s) = image_mset text_of (mset ts) + held s"
  by (induction ts arbitrary: s) (simp_all add: push_held)

lemma push_all_proper: "proper s \<Longrightarrow> proper (fold push ts s)"
  by (induction ts arbitrary: s) (simp_all add: push_proper)

lemma pop_size: "pop s = (Some t, s') \<Longrightarrow> size (held s') < size (held s)"
  by (drule pop_Some) simp

text \<open>A worker that promotes and pops up to \<open>n\<close> times: what it took and what is left is what was held.\<close>

fun drain :: "nat \<Rightarrow> 's \<Rightarrow> 't list \<times> 's" where
  "drain 0 s = ([], s)"
| "drain (Suc n) s = (case pop (promote s) of
      (None, s') \<Rightarrow> ([], s')
    | (Some t, s') \<Rightarrow> (case drain n s' of (ts, s'') \<Rightarrow> (t # ts, s'')))"

lemma drain_held:
  "proper s \<Longrightarrow> drain n s = (ts, s') \<Longrightarrow> held s = image_mset text_of (mset ts) + held s'"
proof (induction n arbitrary: s ts s')
  case (Suc n)
  have p: "proper (promote s)" "held (promote s) = held s"
    using Suc.prems(1) promote_proper promote_held by auto
  obtain x u where u: "pop (promote s) = (x, u)" by (cases "pop (promote s)")
  show ?case
  proof (cases x)
    case None
    with Suc.prems(2) u p pop_None[of "promote s" u] show ?thesis by simp
  next
    case (Some t)
    obtain us v where d: "drain n u = (us, v)" by (cases "drain n u")
    from Some u have "held s = add_mset (text_of t) (held u)" using pop_Some p(2) by metis
    moreover have "proper u" using pop_proper p(1) u by blast
    ultimately show ?thesis using Suc.IH[OF _ d] Suc.prems(2) u Some d by auto
  qed
qed simp

end

section \<open>Redis is a broker\<close>

definition delayed_text :: "json dict \<times> time \<Rightarrow> string" where
  "delayed_text ts = encode_task (fst ts)"

definition queue_held :: "redis_db \<Rightarrow> string multiset" where
  "queue_held rd = mset (map encode_task (r_queue rd)) + mset (map delayed_text (r_delayed rd))"

definition delayed_proper :: "redis_db \<Rightarrow> bool" where
  "delayed_proper rd \<longleftrightarrow> distinct (map delayed_text (r_delayed rd))"

lemma zmember_iff: "zmember task z \<longleftrightarrow> encode_task task \<in> delayed_text ` set z"
  by (simp add: zmember_def delayed_text_def image_image)

lemma zrem_eq: "zrem task z = filter (\<lambda>ts. delayed_text ts \<noteq> encode_task task) z"
  by (simp add: zrem_def row_del_def delayed_text_def)

lemma zrem_mset:
  assumes "distinct (map delayed_text z)" "zmember task z"
  shows "mset (map delayed_text z) = add_mset (encode_task task) (mset (map delayed_text (zrem task z)))"
  using assms
proof (induction z)
  case (Cons x z)
  show ?case
  proof (cases "delayed_text x = encode_task task")
    case True
    with Cons.prems have "filter (\<lambda>ts. delayed_text ts \<noteq> encode_task task) z = z"
      by (force simp: filter_id_conv)
    with True show ?thesis by (simp add: zrem_eq)
  next
    case False
    with Cons show ?thesis by (simp add: zrem_eq zmember_iff)
  qed
qed (simp add: zmember_iff)

lemma promote_loop_held:
  "delayed_proper rd \<Longrightarrow> promote_loop ts rd n = (m, rd') \<Longrightarrow>
   queue_held rd' = queue_held rd \<and> delayed_proper rd' \<and> r_dead rd' = r_dead rd"
proof (induction ts rd n rule: promote_loop.induct)
  case (2 task ts rd n)
  let ?rd = "rpush task (rd\<lparr>r_delayed := zrem task (r_delayed rd)\<rparr>)"
  show ?case
  proof (cases "zmember task (r_delayed rd)")
    case True
    have "delayed_proper ?rd"
      using 2(3) by (simp add: delayed_proper_def rpush_def zrem_eq distinct_map_filter)
    moreover have "queue_held ?rd = queue_held rd"
      using zrem_mset[OF _ True] 2(3) by (simp add: queue_held_def rpush_def delayed_proper_def)
    moreover have "r_dead ?rd = r_dead rd" by (simp add: rpush_def)
    ultimately show ?thesis using 2(1)[OF True] 2(4) True by simp
  next
    case False
    with 2 show ?thesis by simp
  qed
qed simp

interpretation broker: task_broker encode_task queue_held rpush
    "\<lambda>rd. snd (promote_due_tasks env limit rd)" blpop delayed_proper for env limit
proof unfold_locales
  fix t s
  show "queue_held (rpush t s) = add_mset (encode_task t) (queue_held s)"
    by (simp add: queue_held_def rpush_def)
  show "delayed_proper s \<Longrightarrow> delayed_proper (rpush t s)"
    by (simp add: delayed_proper_def rpush_def)
next
  fix s assume "delayed_proper s"
  then show "queue_held (snd (promote_due_tasks env limit s)) = queue_held s"
    "delayed_proper (snd (promote_due_tasks env limit s))"
    using promote_loop_held[of s "zdue (e_now env) limit (r_delayed s)" 0]
    unfolding promote_due_tasks_def by (metis prod.collapse)+
qed (auto simp: blpop_def queue_held_def delayed_proper_def split: list.splits)

text \<open>Promotion appends exactly the due tasks, in the order of their times, up to the limit.\<close>

lemma promote_loop_all:
  assumes "distinct (map encode_task ts)" "\<forall>t \<in> set ts. zmember t (r_delayed rd)"
  shows "promote_loop ts rd n = (n + length ts,
    rd\<lparr>r_queue := r_queue rd @ ts,
       r_delayed := filter (\<lambda>x. delayed_text x \<notin> encode_task ` set ts) (r_delayed rd)\<rparr>)"
  using assms
proof (induction ts arbitrary: rd n)
  case (Cons t ts)
  let ?rd = "rpush t (rd\<lparr>r_delayed := zrem t (r_delayed rd)\<rparr>)"
  have "\<forall>u \<in> set ts. zmember u (r_delayed ?rd)"
    using Cons.prems by (force simp: zmember_iff zrem_eq rpush_def)
  with Cons have "promote_loop ts ?rd (Suc n) = (Suc n + length ts,
      ?rd\<lparr>r_queue := r_queue ?rd @ ts,
        r_delayed := filter (\<lambda>x. delayed_text x \<notin> encode_task ` set ts) (r_delayed ?rd)\<rparr>)"
    by simp
  with Cons.prems show ?case by (simp add: rpush_def zrem_eq conj_commute)
qed simp

lemma zdue_members:
  assumes "distinct (map delayed_text z)"
  shows "distinct (map encode_task (zdue now limit z))" "\<forall>t \<in> set (zdue now limit z). zmember t z"
proof -
  let ?s = "sort_key zorder (filter (\<lambda>ts. 0 \<le> snd ts \<and> snd ts \<le> now) z)"
  have e: "map encode_task (zdue now limit z) = take limit (map delayed_text ?s)"
    by (simp add: zdue_def take_map delayed_text_def)
  have m: "mset (map delayed_text ?s) = mset (map delayed_text (filter (\<lambda>ts. 0 \<le> snd ts \<and> snd ts \<le> now) z))"
    by simp
  have "distinct (map delayed_text (filter (\<lambda>ts. 0 \<le> snd ts \<and> snd ts \<le> now) z))"
    using assms by (rule distinct_map_filter)
  then have "distinct (map delayed_text ?s)" by (simp only: mset_eq_imp_distinct_iff[OF m])
  then show "distinct (map encode_task (zdue now limit z))" unfolding e by simp
  show "\<forall>t \<in> set (zdue now limit z). zmember t z"
    by (auto simp: zdue_def zmember_iff delayed_text_def image_image dest!: in_set_takeD)
qed

lemma promote_due_tasks_eq:
  assumes "delayed_proper rd"
  shows "promote_due_tasks env limit rd =
    (let due = zdue (e_now env) limit (r_delayed rd) in
     (length due, rd\<lparr>r_queue := r_queue rd @ due,
        r_delayed := filter (\<lambda>x. delayed_text x \<notin> encode_task ` set due) (r_delayed rd)\<rparr>))"
  using promote_loop_all[OF zdue_members[of "r_delayed rd"]] assms
  by (simp add: promote_due_tasks_def delayed_proper_def Let_def)

section \<open>Retries\<close>

lemma registry_error_not_retryable: "is_registry_error e \<Longrightarrow> \<not> is_retryable_task_error e"
  by (simp add: is_retryable_task_error_def error_retryable_def)

lemma redacted_no_token:
  assumes "dict_get ''payload'' (redacted_task task) = Some (JObj payload)"
  shows "dict_get ''temporary_token'' payload = None"
  using assms by (auto simp: redacted_task_def split: option.splits json.splits if_splits)

definition attempts_of :: "json dict \<Rightarrow> int option" where
  "attempts_of task = (case json_int (or_zero (get_or_null ''attempts'' task)) of Inl _ \<Rightarrow> None | Inr n \<Rightarrow> Some n)"

lemma get_or_null_set: "get_or_null k (dict_set j v d) = (if k = j then v else get_or_null k d)"
  by (simp add: get_or_null_def)

lemma json_int_or_zero [simp]: "json_int (or_zero (JInt n)) = Inr n"
  by (simp add: or_zero_def json_or_def)

text \<open>The three queues, and what leaves them alone.\<close>

definition queues_of :: "redis_db \<Rightarrow> json dict list \<times> (json dict \<times> time) list \<times> json dict list" where
  "queues_of rd = (r_queue rd, r_delayed rd, r_dead rd)"

definition queues :: "world \<Rightarrow> (json dict list \<times> (json dict \<times> time) list \<times> json dict list) option" where
  "queues w = map_option queues_of (redis w)"

lemma queues_fill [simp]: "queues (fill_config env w) = queues w"
  by (auto simp: queues_def queues_of_def fill_config_def split: option.splits)

lemma queues_world [simp]: "queues (w\<lparr>sess := D\<rparr>) = queues w" "queues (w\<lparr>committed := D\<rparr>) = queues w"
  "queues (w\<lparr>uuid_next := n\<rparr>) = queues w"
  by (simp_all add: queues_def)

lemma frames_queues_basic:
  "keeps (\<lambda>w. queues w = x) (stage f)" "keeps (\<lambda>w. queues w = x) commit"
  "keeps (\<lambda>w. queues w = x) (runtime_int env k i)"
  by (auto simp: keeps_def commit_def runtime_get_apply)

lemma frames_queues_marks:
  "keeps (\<lambda>w. queues w = x) (mark_task_retrying env i a e n)"
  "keeps (\<lambda>w. queues w = x) (mark_task_dead env i a e)"
  "keeps (\<lambda>w. queues w = x) (create_worker_task env tt pl ti m d)"
  unfolding mark_task_retrying_def mark_task_dead_def update_task_def create_worker_task_def
  by (intro keeps_intros frames_queues_basic)+

lemma attempts_of_retry [simp]: "attempts_of (retry_task t e n) = Some n"
  by (simp add: attempts_of_def retry_task_def get_or_null_set)

definition push_queues ::
  "env \<Rightarrow> json dict \<Rightarrow> int \<Rightarrow> json dict list \<times> (json dict \<times> time) list \<times> json dict list \<Rightarrow>
   json dict list \<times> (json dict \<times> time) list \<times> json dict list" where
  "push_queues env task delay = (\<lambda>(q, z, d).
     if 0 < delay then (q, zadd task (e_now env + delay) z, d) else (q @ [task], z, d))"

definition dead_queues ::
  "json dict \<Rightarrow> json dict list \<times> (json dict \<times> time) list \<times> json dict list \<Rightarrow>
   json dict list \<times> (json dict \<times> time) list \<times> json dict list" where
  "dead_queues task = (\<lambda>(q, z, d). (q, z, d @ [task]))"

lemma queues_push [simp]:
  "queues_of (push_task env task delay rd) = push_queues env task delay (queues_of rd)"
  "queues_of (push_dead task rd) = dead_queues task (queues_of rd)"
  by (simp_all add: queues_of_def push_task_def rpush_def push_dead_def push_queues_def dead_queues_def)

lemma queues_after_push:
  "queues (w\<lparr>redis := map_option (push_task env task delay) (redis w)\<rparr>) =
     map_option (push_queues env task delay) (queues w)"
  "queues (w\<lparr>redis := map_option (push_dead task) (redis w)\<rparr>) = map_option (dead_queues task) (queues w)"
  by (cases "redis w"; simp add: queues_def)+

lemma bury_task_queues:
  assumes "bury_task env task n text has_db w = (Inr b, v)"
  shows "\<not> b \<and> queues v = map_option (dead_queues (redacted_task task)) (queues w)"
proof -
  from assms obtain u where m: "when_op has_db (mark_task_dead env (get_or_null ''id'' task) n text) w = (Inr (), u)"
    and v: "\<not> b" "v = u\<lparr>redis := map_option (push_dead (redacted_task task)) (redis u)\<rparr>"
    by (auto simp: bury_task_def bind_op_eq_Inr_iff simp del: when_op_apply)
  have "queues u = queues w"
    using m by (rule frame_eqD) (intro keeps_intros frames_queues_marks)
  with v show ?thesis by (simp add: queues_after_push)
qed

text \<open>What a requeue does to the queues: a retry with one attempt more, still below the limit, or a
  redacted dead letter.\<close>

definition limit_ok :: "json dict \<Rightarrow> int \<Rightarrow> bool" where
  "limit_ok task m \<longleftrightarrow> (json_truthy (get_or_null ''max_attempts'' task) \<longrightarrow>
     json_int (get_or_null ''max_attempts'' task) = Inr m)"

lemma retry_later_queues:
  assumes "retry_later env task n text has_db w = (Inr b, v)"
  shows "b \<and> (\<exists>delay. queues v = map_option (push_queues env task delay) (queues w))"
proof -
  from assms obtain d u1 u2 where d: "runtime_task_retry_delay_seconds env has_db w = (Inr d, u1)"
    and m: "when_op has_db (mark_task_retrying env (get_or_null ''id'' task) n text d) u1 = (Inr (), u2)"
    and v: "b" "v = u2\<lparr>redis := map_option (push_task env task (d * us_per_second)) (redis u2)\<rparr>"
    by (auto simp: retry_later_def bind_op_eq_Inr_iff simp del: when_op_apply)
  have "queues u1 = queues w"
    using d by (auto simp: runtime_task_retry_delay_seconds_def runtime_get_apply split: if_splits)
  moreover have "queues u2 = queues u1"
    using m by (rule frame_eqD) (intro keeps_intros frames_queues_marks)
  ultimately show ?thesis using v by (auto simp: queues_after_push)
qed

lemma task_limit_queues:
  "task_limit env task has_db w = (Inr m, u) \<Longrightarrow> queues u = queues w \<and> limit_ok task m"
  by (auto simp: task_limit_def runtime_task_max_attempts_def runtime_get_apply limit_ok_def split: if_splits)

lemma limit_ok_retry [simp]: "limit_ok (retry_task task e n) m = limit_ok task m"
  by (simp add: limit_ok_def retry_task_def get_or_null_set)

lemma requeue_task_cases:
  assumes "requeue_task env task e has_db w = (Inr b, v)" "redis w \<noteq> None"
  obtains (retry) n m delay where "b" "attempts_of task = Some n" "is_retryable_task_error e" "n + 1 < m"
      "limit_ok task m" "queues v = map_option (push_queues env (retry_task task e (n + 1)) delay) (queues w)"
  | (dead) n where "\<not> b" "attempts_of task = Some n"
      "queues v = map_option (dead_queues (redacted_task (retry_task task e (n + 1)))) (queues w)"
proof -
  obtain n where n: "json_int (or_zero (get_or_null ''attempts'' task)) = Inr n"
    using assms by (auto simp: requeue_task_def bind_op_eq_Inr_iff)
  then have a: "attempts_of task = Some n" by (simp add: attempts_of_def)
  let ?t = "retry_task task e (n + 1)" and ?bury = "\<lambda>task. bury_task env task (n + 1) (exn_message e) has_db"
  have body: "(if \<not> is_retryable_task_error e then ?bury ?t
      else bind_op (task_limit env ?t has_db) (\<lambda>m. if m \<le> n + 1 then ?bury ?t
        else retry_later env ?t (n + 1) (exn_message e) has_db)) w = (Inr b, v)"
    using assms n by (auto simp: requeue_task_def bind_op_eq_Inr_iff Let_def)
  show ?thesis
  proof (cases "is_retryable_task_error e")
    case False
    with body have "?bury ?t w = (Inr b, v)" by simp
    from bury_task_queues[OF this] a show ?thesis by (blast intro: dead)
  next
    case True
    with body obtain m u where lim: "task_limit env ?t has_db w = (Inr m, u)"
      and rest: "(if m \<le> n + 1 then ?bury ?t else retry_later env ?t (n + 1) (exn_message e) has_db) u = (Inr b, v)"
      by (auto simp: bind_op_eq_Inr_iff)
    note q = task_limit_queues[OF lim]
    show ?thesis
    proof (cases "m \<le> n + 1")
      case True
      with rest have "?bury ?t u = (Inr b, v)" by simp
      from bury_task_queues[OF this] a q show ?thesis by (simp add: dead)
    next
      case False
      with rest have "retry_later env ?t (n + 1) (exn_message e) has_db u = (Inr b, v)" by simp
      from retry_later_queues[OF this] a q True False show ?thesis
        by (auto intro: retry[of n m])
    qed
  qed
qed

lemma keeps_world_ok_queue [keeps_intros]:
  "keeps world_ok (enqueue_task env tt p has_db d)" "keeps world_ok (requeue_task env t e has_db)"
proof -
  have i: "keeps world_ok (runtime_int env k n)" for k n by (rule keeps_get_runtime_value) simp
  show "keeps world_ok (enqueue_task env tt p has_db d)"
    unfolding enqueue_task_def runtime_task_max_attempts_def
    by (intro keeps_intros keeps_world_ok_basic i)
  show "keeps world_ok (requeue_task env t e has_db)"
    unfolding requeue_task_def task_limit_def retry_later_def bury_task_def runtime_task_max_attempts_def
      runtime_task_retry_delay_seconds_def
    by (intro keeps_intros keeps_world_ok_basic i)
qed

section \<open>Properties\<close>

text \<open>Promotion moves exactly the tasks that are due, at most as many as asked for and in the order of
  their times, from the delayed set to the end of the queue; nothing else in Redis changes and no task
  is lost or doubled.\<close>

theorem promote_exactly_due:
  assumes "delayed_proper rd"
  shows "(let due = zdue (e_now env) limit (r_delayed rd) in
      promote_due_tasks env limit rd = (length due, rd\<lparr>r_queue := r_queue rd @ due,
        r_delayed := filter (\<lambda>x. delayed_text x \<notin> encode_task ` set due) (r_delayed rd)\<rparr>))
    \<and> queue_held (snd (promote_due_tasks env limit rd)) = queue_held rd"
  using promote_due_tasks_eq[OF assms, of env limit] broker.promote_held[OF assms, of env limit] by (simp add: Let_def)

theorem promote_exactly_due_witness:
  "fst (promote_due_tasks sample_env 5 (empty_redis\<lparr>r_delayed := [([(''id'', JStr ''b'')], 20), ([(''id'', JStr ''a'')], 10)]\<rparr>)) = 2"
proof -
  let ?rd = "empty_redis\<lparr>r_delayed := [([(''id'', JStr ''b'')], 20), ([(''id'', JStr ''a'')], 10)]\<rparr>"
  have p: "delayed_proper ?rd" by code_simp
  have "length (zdue (e_now sample_env) 5 (r_delayed ?rd)) = 2" by code_simp
  with promote_exactly_due[OF p, of sample_env 5] show ?thesis by (simp add: Let_def)
qed

text \<open>C28 (invariant). A worker that promotes and takes tasks any number of times loses none and doubles none: what it
  took and what is still waiting or delayed is what was there.\<close>

theorem drain_loses_nothing:
  assumes "delayed_proper rd"
    and "task_broker.drain (\<lambda>rd. snd (promote_due_tasks env limit rd)) blpop n rd = (ts, rd')"
  shows "queue_held rd = image_mset encode_task (mset ts) + queue_held rd'"
  using assms by (rule broker.drain_held)

theorem drain_loses_nothing_witness:
  "\<exists>ts rd'. task_broker.drain (\<lambda>rd. snd (promote_due_tasks sample_env 5 rd)) blpop 3
      (empty_redis\<lparr>r_queue := [[(''id'', JStr ''a'')]]\<rparr>) = (ts, rd')
    \<and> queue_held (empty_redis\<lparr>r_queue := [[(''id'', JStr ''a'')]]\<rparr>) = image_mset encode_task (mset ts) + queue_held rd'"
proof -
  let ?rd = "empty_redis\<lparr>r_queue := [[(''id'', JStr ''a'')]]\<rparr>"
  obtain ts rd' where d: "task_broker.drain (\<lambda>rd. snd (promote_due_tasks sample_env 5 rd)) blpop 3 ?rd = (ts, rd')"
    by (cases "task_broker.drain (\<lambda>rd. snd (promote_due_tasks sample_env 5 rd)) blpop 3 ?rd")
  have "delayed_proper ?rd" by (simp add: delayed_proper_def empty_redis_def)
  from drain_loses_nothing[OF this d] d show ?thesis by blast
qed



text \<open>Failures one after the other: how often a task is put back.\<close>

fun times_requeued :: "env \<Rightarrow> bool \<Rightarrow> json dict \<Rightarrow> exn list \<Rightarrow> world \<Rightarrow> nat" where
  "times_requeued env has_db task [] w = 0"
| "times_requeued env has_db task (e # es) w =
     (case requeue_task env task e has_db w of
       (Inr True, v) \<Rightarrow> Suc (times_requeued env has_db (retry_task task e (the (attempts_of task) + 1)) es v)
     | _ \<Rightarrow> 0)"



end
