(* ===== verification/ScanService.thy ===== *)
theory ScanService
  imports PluginService TaskQueue
begin

text \<open>
  The part of \<open>services/scan_service.py\<close> that changes scan results: running the providers, marking a scan
  pending or skipped, polling VirusTotal, and publishing after a scan. The scans of the configured
  providers run in parallel in the code and touch nothing they share; here they run in the order of
  the registry, and the first exception in this order is the one raised.
\<close>

section \<open>Rows\<close>

definition get_or_create_scan :: "env \<Rightarrow> uuid \<Rightarrow> (version \<times> scan) act" where
  "get_or_create_scan env vid =
     bind_op (query (get_version vid)) (\<lambda>x.
     case x of
       None \<Rightarrow> raise (ValueError ''Version not found'')
     | Some v \<Rightarrow>
         bind_op (query (\<lambda>D. row_get s_version_id vid (scans D))) (\<lambda>found.
         case found of
           Some s \<Rightarrow> ret (v, s)
         | None \<Rightarrow>
             let s = new_scan vid (e_now env) in
             bind_op (stage (\<lambda>D. D\<lparr>scans := scans D @ [s]\<rparr>)) (\<lambda>_. ret (v, s))))"

text \<open>The row, and whether it is new (its defaults are set by the flush).\<close>

definition get_or_create_provider_result :: "env \<Rightarrow> uuid \<Rightarrow> string \<Rightarrow> (provider_result \<times> bool) act" where
  "get_or_create_provider_result env vid provider =
     bind_op (query (\<lambda>D. row_get result_key (vid, provider) (results D))) (\<lambda>found.
     case found of
       Some r \<Rightarrow> ret (r, False)
     | None \<Rightarrow>
         let r = new_result vid provider KScan (e_now env) in
         bind_op (stage (\<lambda>D. D\<lparr>results := results D @ [r]\<rparr>)) (\<lambda>_. ret (r, True)))"

definition edit_scan :: "uuid \<Rightarrow> (scan \<Rightarrow> scan) \<Rightarrow> db \<Rightarrow> db" where
  "edit_scan vid f D = D\<lparr>scans := rows_update (\<lambda>s. s_version_id s = vid) f (scans D)\<rparr>"

text \<open>\<open>updated_at\<close> moves when a row really changes.\<close>

definition edit_result :: "env \<Rightarrow> uuid \<Rightarrow> string \<Rightarrow> (provider_result \<Rightarrow> provider_result) \<Rightarrow> db \<Rightarrow> db" where
  "edit_result env vid provider f D = D\<lparr>results := rows_update (\<lambda>r. result_key r = (vid, provider))
     (\<lambda>r. if f r = r then r else (f r)\<lparr>pr_updated_at := e_now env\<rparr>) (results D)\<rparr>"

definition set_provider_result ::
  "string \<Rightarrow> bool option \<Rightarrow> string \<Rightarrow> scan_mode \<Rightarrow> scan \<Rightarrow> exn + scan" where
  "set_provider_result provider passed message mode s =
     (if provider = ''virustotal'' then
        Inr (s\<lparr>s_virustotal_pass := passed, s_virustotal_msg := Some message, s_virustotal_mode := mode\<rparr>)
      else if provider = ''llm_agent'' then
        Inr (s\<lparr>s_llm_agent_pass := passed, s_llm_agent_msg := Some message, s_llm_agent_mode := mode\<rparr>)
      else Inl (ValueError (''Invalid scan provider: '' @ provider)))"

definition set_review_provider_result ::
  "env \<Rightarrow> string \<Rightarrow> outcome \<Rightarrow> provider_result \<Rightarrow> provider_result" where
  "set_review_provider_result env provider oc r0 =
     (let r = r0\<lparr>pr_provider := provider, pr_kind := KScan, pr_passed := o_passed oc,
                pr_message := Some (o_message oc), pr_mode := o_mode oc,
                pr_completed_at := (if o_mode oc \<noteq> MPending then Some (e_now env) else None)\<rparr>
      in if provider = ''virustotal'' then
           r\<lparr>pr_external_id := o_analysis_id oc, pr_submitted_at := o_submitted_at oc,
             pr_deadline_at := o_deadline_at oc,
             pr_next_poll_at := (if o_mode oc = MPending then o_next_poll_at oc else None),
             pr_attempts := (case o_poll_attempts oc of None \<Rightarrow> pr_attempts r | Some n \<Rightarrow> n),
             pr_details_json := (if truthy (o_file_sha256 oc)
               then Some (JObj [(''file_sha256'', JStr (or_str (o_file_sha256 oc) []))]) else pr_details_json r)\<rparr>
         else
           r\<lparr>pr_external_id := None, pr_submitted_at := None, pr_deadline_at := None,
             pr_next_poll_at := None, pr_attempts := 0\<rparr>)"

definition provider_file_sha256 :: "provider_result \<Rightarrow> string option" where
  "provider_file_sha256 r =
     (case pr_details_json r of
       Some (JObj d) \<Rightarrow>
         (let value = get_or_null ''file_sha256'' d in if json_truthy value then Some (py_str value) else None)
     | _ \<Rightarrow> None)"

definition has_artifact :: "version \<Rightarrow> bool" where
  "has_artifact v \<longleftrightarrow> truthy (v_s3_key v) \<and> truthy (v_download_url v)"

definition can_mark_build_scanning :: "version \<Rightarrow> bool" where
  "can_mark_build_scanning v =
     (if \<not> has_artifact v then False else \<not> (v_is_latest v \<and> v_version_status v = VActive))"

definition seconds_until :: "env \<Rightarrow> time \<Rightarrow> int" where
  "seconds_until env value = max 0 (value - e_now env)"

text \<open>\<open>if version.s3_key and version.download_url: version.build_status = ...\<close>.\<close>

definition mark_built :: "uuid \<Rightarrow> build_status \<Rightarrow> db \<Rightarrow> db" where
  "mark_built vid st = edit_version vid (\<lambda>v. if has_artifact v then v\<lparr>v_build_status := st\<rparr> else v)"

definition set_legacy :: "uuid \<Rightarrow> string \<Rightarrow> bool option \<Rightarrow> string \<Rightarrow> scan_mode \<Rightarrow> unit act" where
  "set_legacy vid provider passed message mode =
     bind_op (query (\<lambda>D. row_get s_version_id vid (scans D))) (\<lambda>x.
     case x of
       None \<Rightarrow> ret ()
     | Some s \<Rightarrow>
         bind_op (lift_res (set_provider_result provider passed message mode s)) (\<lambda>s'.
         stage (edit_scan vid (\<lambda>_. s'))))"

definition apply_provider_tracking :: "uuid \<Rightarrow> string \<Rightarrow> outcome \<Rightarrow> db \<Rightarrow> db" where
  "apply_provider_tracking vid provider oc D =
     (case registry_get scan_registry provider of
       None \<Rightarrow> D | Some p \<Rightarrow> edit_scan vid (\<lambda>s. sp_apply_tracking p s oc) D)"

definition clear_provider_tracking :: "uuid \<Rightarrow> string \<Rightarrow> db \<Rightarrow> db" where
  "clear_provider_tracking vid provider D =
     (case registry_get scan_registry provider of
       None \<Rightarrow> D | Some p \<Rightarrow> edit_scan vid (sp_clear_tracking p) D)"

definition touch_scanned_at :: "env \<Rightarrow> uuid \<Rightarrow> db \<Rightarrow> db" where
  "touch_scanned_at env vid = edit_scan vid (\<lambda>s. s\<lparr>s_scanned_at := e_now env\<rparr>)"

definition get_scan :: "uuid \<Rightarrow> db \<Rightarrow> scan option" where
  "get_scan vid D = row_get s_version_id vid (scans D)"

definition selected_scan_providers :: "env \<Rightarrow> string list option \<Rightarrow> string list act" where
  "selected_scan_providers env providers =
     (case providers of
       None \<Rightarrow> bind_op (runtime_scan_enabled_providers env) (\<lambda>ps. lift_res (registry_validate scan_registry ps))
     | Some ps \<Rightarrow> lift_res (registry_validate scan_registry ps))"

section \<open>Publishing after a scan\<close>

text \<open>\<open>except (InvalidStateError, NotFoundError, ValidationError): return False\<close>.\<close>

fun except_not_published :: "exn \<Rightarrow> bool act" where
  "except_not_published (InvalidStateError _) = ret False"
| "except_not_published (NotFoundError _) = ret False"
| "except_not_published (ValidationError _) = ret False"
| "except_not_published e = raise e"

lemma keeps_except_not_published [keeps_intros]: "keeps I (except_not_published e)"
  by (cases e) (simp_all add: keeps_ret keeps_raise)

definition try_auto_publish_after_scan :: "env \<Rightarrow> uuid \<Rightarrow> bool act" where
  "try_auto_publish_after_scan env vid =
     bind_op (runtime_review_policy env) (\<lambda>policy.
     if \<not> auto_publish policy \<or> require_human_review policy then ret False
     else
       bind_op (query (get_version vid)) (\<lambda>x.
       case x of
         None \<Rightarrow> ret False
       | Some v \<Rightarrow>
           try_op (bind_op (publish_plugin_version env (v_plugin_id v) (v_id v) RSkipped) (\<lambda>_. ret True))
             except_not_published))"

section \<open>Scanning\<close>

text \<open>The loop of \<open>_scan_selected_providers\<close>: an outcome for a provider that is not configured, a scan
  for one that is.\<close>

fun plan_scans ::
  "env \<Rightarrow> version \<Rightarrow> string list \<Rightarrow> scan_defaults \<Rightarrow> artifact option \<Rightarrow> string list \<Rightarrow>
   (string \<times> outcome) list \<times> (string \<times> (exn + outcome)) list \<Rightarrow>
   ((string \<times> outcome) list \<times> (string \<times> (exn + outcome)) list) act" where
  "plan_scans env v selected defaults local_path [] acc = ret acc"
| "plan_scans env v selected defaults local_path (p # ps) (outcomes, running) =
     (if p \<notin> set selected then plan_scans env v selected defaults local_path ps (outcomes, running)
      else (case registry_get scan_registry p of
          None \<Rightarrow> plan_scans env v selected defaults local_path ps (outcomes, running)
        | Some definition_p \<Rightarrow>
            bind_op (sp_load_config definition_p env) (\<lambda>config.
            if sp_is_configured definition_p config then
              plan_scans env v selected defaults local_path ps
                (outcomes, running @ [(p, sp_scan definition_p env v config local_path)])
            else
              plan_scans env v selected defaults local_path ps
                (outcomes @ [(p, plain_outcome (Some (pass_when_unconfigured defaults))
                   (unconfigured_message defaults) MSkipped)], running))))"

definition scan_selected_providers ::
  "env \<Rightarrow> version \<Rightarrow> string list \<Rightarrow> scan_defaults \<Rightarrow> artifact option \<Rightarrow> (string \<times> outcome) list act" where
  "scan_selected_providers env v selected defaults local_path =
     bind_op (plan_scans env v selected defaults local_path (registry_names scan_registry) ([], [])) (\<lambda>(outcomes, running).
     bind_op (lift_res (map_res (\<lambda>(p, r). bind_res r (\<lambda>oc. Inr (p, oc))) running)) (\<lambda>scanned.
     ret (outcomes @ scanned)))"

text \<open>One outcome of \<open>scan_version\<close>, in the tables.\<close>

definition record_outcome :: "env \<Rightarrow> uuid \<Rightarrow> string \<times> outcome \<Rightarrow> unit act" where
  "record_outcome env vid = (\<lambda>(provider, oc).
     bind_op (get_or_create_provider_result env vid provider) (\<lambda>_.
     bind_op (when_op (provider \<in> set (legacy_public_names scan_registry))
       (set_legacy vid provider (o_passed oc) (o_message oc) (o_mode oc))) (\<lambda>_.
     bind_op (stage (edit_result env vid provider (set_review_provider_result env provider oc))) (\<lambda>_.
     stage (apply_provider_tracking vid provider oc)))))"

definition followup_delay :: "env \<Rightarrow> (string \<times> outcome) list \<Rightarrow> int option" where
  "followup_delay env outcomes =
     (case filter (\<lambda>(p, oc). p = ''virustotal'' \<and> truthy (o_analysis_id oc) \<and> o_next_poll_at oc \<noteq> None) outcomes of
       [] \<Rightarrow> None
     | xs \<Rightarrow> Some (seconds_until env (the (o_next_poll_at (snd (last xs))))))"

definition poll_payload :: "uuid \<Rightarrow> json dict" where
  "poll_payload vid = [(''version_id'', JStr vid)]"

definition scan_version ::
  "env \<Rightarrow> uuid \<Rightarrow> artifact option \<Rightarrow> string list option \<Rightarrow> scan option act" where
  "scan_version env vid local_path providers =
     bind_op (selected_scan_providers env providers) (\<lambda>selected.
     bind_op (get_or_create_scan env vid) (\<lambda>(v, _).
     bind_op (when_op (can_mark_build_scanning v)
       (bind_op (stage (edit_version vid (\<lambda>v. v\<lparr>v_build_status := BScanning\<rparr>))) (\<lambda>_. commit))) (\<lambda>_.
     bind_op (runtime_scan_defaults env) (\<lambda>defaults.
     bind_op (scan_selected_providers env v selected defaults local_path) (\<lambda>outcomes.
     bind_op (foreach (record_outcome env vid) outcomes) (\<lambda>_.
     bind_op (stage (touch_scanned_at env vid)) (\<lambda>_.
     bind_op (stage (mark_built vid
       (if list_ex (\<lambda>(p, oc). o_mode oc = MPending) outcomes then BScanning else BSuccess))) (\<lambda>_.
     bind_op commit (\<lambda>_.
     bind_op (case followup_delay env outcomes of
         None \<Rightarrow> ret ()
       | Some d \<Rightarrow> bind_op (enqueue_task env ''virustotal_poll'' (poll_payload vid) True d) (\<lambda>_. ret ())) (\<lambda>_.
     bind_op (refresh_cache env) (\<lambda>_.
     bind_op (when_op (followup_delay env outcomes = None)
       (bind_op (try_auto_publish_after_scan env vid) (\<lambda>_. ret ()))) (\<lambda>_.
     query (get_scan vid)))))))))))))"

text \<open>What \<open>mark_scan_pending\<close> and \<open>mark_scan_skipped\<close> do for one provider.\<close>

definition mark_provider :: "env \<Rightarrow> uuid \<Rightarrow> outcome \<Rightarrow> string \<Rightarrow> unit act" where
  "mark_provider env vid oc provider =
     bind_op (get_or_create_provider_result env vid provider) (\<lambda>_.
     bind_op (when_op (provider \<in> set (legacy_public_names scan_registry))
       (set_legacy vid provider (o_passed oc) (o_message oc) (o_mode oc))) (\<lambda>_.
     bind_op (stage (edit_result env vid provider (set_review_provider_result env provider oc))) (\<lambda>_.
     stage (clear_provider_tracking vid provider))))"

definition mark_scan_pending :: "env \<Rightarrow> uuid \<Rightarrow> string list option \<Rightarrow> scan option act" where
  "mark_scan_pending env vid providers =
     bind_op (get_or_create_scan env vid) (\<lambda>(v, _).
     bind_op (selected_scan_providers env providers) (\<lambda>selected.
     bind_op (foreach (mark_provider env vid (plain_outcome None ''Scan queued'' MPending)) selected) (\<lambda>_.
     bind_op (stage (touch_scanned_at env vid)) (\<lambda>_.
     bind_op (when_op (can_mark_build_scanning v)
       (stage (edit_version vid (\<lambda>v. v\<lparr>v_build_status := BScanning\<rparr>)))) (\<lambda>_.
     bind_op commit (\<lambda>_.
     bind_op (refresh_cache env) (\<lambda>_. query (get_scan vid))))))))"

definition mark_scan_skipped :: "env \<Rightarrow> uuid \<Rightarrow> string list option \<Rightarrow> scan option act" where
  "mark_scan_skipped env vid providers =
     bind_op (get_or_create_scan env vid) (\<lambda>_.
     bind_op (runtime_scan_defaults env) (\<lambda>defaults.
     bind_op (selected_scan_providers env providers) (\<lambda>selected.
     bind_op (foreach (mark_provider env vid
        (plain_outcome (Some (pass_when_unconfigured defaults)) ''Manually skipped'' MSkipped)) selected) (\<lambda>_.
     bind_op (stage (touch_scanned_at env vid)) (\<lambda>_.
     bind_op (stage (mark_built vid BSuccess)) (\<lambda>_.
     bind_op commit (\<lambda>_.
     bind_op (refresh_cache env) (\<lambda>_. query (get_scan vid)))))))))"

section \<open>Polling VirusTotal\<close>

definition complete_provider_outcome :: "env \<Rightarrow> uuid \<Rightarrow> string \<Rightarrow> outcome \<Rightarrow> scan option act" where
  "complete_provider_outcome env vid provider oc =
     bind_op (get_or_create_provider_result env vid provider) (\<lambda>_.
     bind_op (when_op (provider \<in> set (legacy_public_names scan_registry))
       (set_legacy vid provider (o_passed oc) (o_message oc) (o_mode oc))) (\<lambda>_.
     bind_op (stage (edit_result env vid provider (set_review_provider_result env provider oc))) (\<lambda>_.
     bind_op (stage (if o_mode oc = MPending then apply_provider_tracking vid provider oc
        else clear_provider_tracking vid provider)) (\<lambda>_.
     bind_op (stage (touch_scanned_at env vid)) (\<lambda>_.
     bind_op (stage (mark_built vid (if o_mode oc = MPending then BScanning else BSuccess))) (\<lambda>_.
     bind_op commit (\<lambda>_.
     bind_op (refresh_cache env) (\<lambda>_.
     bind_op (when_op (o_mode oc \<noteq> MPending)
       (bind_op (try_auto_publish_after_scan env vid) (\<lambda>_. ret ()))) (\<lambda>_.
     query (get_scan vid))))))))))"

definition skipped_poll_outcome :: "bool \<Rightarrow> string \<Rightarrow> string \<Rightarrow> outcome" where
  "skipped_poll_outcome passed message analysis_id =
     (plain_outcome (Some passed) message MSkipped)\<lparr>o_analysis_id := Some analysis_id\<rparr>"

definition pending_poll_outcome ::
  "env \<Rightarrow> vt_config \<Rightarrow> scan \<Rightarrow> provider_result \<Rightarrow> string \<Rightarrow> time \<Rightarrow> int \<Rightarrow> outcome" where
  "pending_poll_outcome env config s r analysis_id deadline attempts =
     (let delay = next_virustotal_delay config attempts;
          next_poll_at = min (e_now env + delay * us_per_second) deadline
      in \<lparr>o_passed = None,
          o_message = ''VirusTotal analysis pending: analysis_id='' @ analysis_id @ '', attempt='' @ str_int attempts
            @ '', next_poll_at='' @ isoformat next_poll_at @ '', deadline_at='' @ isoformat deadline,
          o_mode = MPending, o_analysis_id = Some analysis_id,
          o_file_sha256 = or_opt (provider_file_sha256 r) (s_virustotal_file_sha256 s),
          o_submitted_at = (if pr_submitted_at r \<noteq> None then pr_submitted_at r else s_virustotal_submitted_at s),
          o_deadline_at = Some deadline, o_next_poll_at = Some next_poll_at, o_poll_attempts = Some attempts\<rparr>)"

text \<open>The outcome of one poll: what the service answered, or after a pending answer the next poll or,
  when the polls are used up, the time-out.\<close>

definition poll_outcome ::
  "env \<Rightarrow> vt_config \<Rightarrow> scan \<Rightarrow> provider_result \<Rightarrow> string \<Rightarrow> time \<Rightarrow> int \<Rightarrow> exn + outcome" where
  "poll_outcome env config s r analysis_id deadline attempts_so_far =
     bind_res (poll_virustotal_analysis_once env analysis_id config) (\<lambda>oc.
     if o_mode oc = MPending then
       (let attempts = attempts_so_far + 1;
            max_attempts = max 1 (vt_max_poll_attempts config)
        in if max_attempts \<le> attempts
           then Inr (virustotal_timeout_outcome analysis_id attempts (max 1 (vt_max_wait_seconds config)))
           else Inr (pending_poll_outcome env config s r analysis_id deadline attempts))
     else Inr oc)"

definition store_poll_outcome :: "env \<Rightarrow> uuid \<Rightarrow> outcome \<Rightarrow> scan option act" where
  "store_poll_outcome env vid oc =
     bind_op (set_legacy vid ''virustotal'' (o_passed oc) (o_message oc) (o_mode oc)) (\<lambda>_.
     bind_op (stage (edit_result env vid ''virustotal'' (set_review_provider_result env ''virustotal'' oc))) (\<lambda>_.
     bind_op (stage (apply_provider_tracking vid ''virustotal'' oc)) (\<lambda>_.
     bind_op (stage (touch_scanned_at env vid)) (\<lambda>_.
     bind_op (stage (mark_built vid (if o_mode oc = MPending then BScanning else BSuccess))) (\<lambda>_.
     bind_op commit (\<lambda>_.
     bind_op (case o_next_poll_at oc of
         Some t \<Rightarrow>
           if o_mode oc = MPending then
             bind_op (enqueue_task env ''virustotal_poll'' (poll_payload vid) True (seconds_until env t)) (\<lambda>_. ret ())
           else ret ()
       | None \<Rightarrow> ret ()) (\<lambda>_.
     bind_op (refresh_cache env) (\<lambda>_.
     bind_op (when_op (o_mode oc \<noteq> MPending)
       (bind_op (try_auto_publish_after_scan env vid) (\<lambda>_. ret ()))) (\<lambda>_.
     query (get_scan vid))))))))))"

definition poll_deadline :: "env \<Rightarrow> vt_config \<Rightarrow> scan \<Rightarrow> provider_result \<Rightarrow> time" where
  "poll_deadline env config s r =
     (case pr_deadline_at r of
       Some d \<Rightarrow> d
     | None \<Rightarrow> (case s_virustotal_deadline_at s of
           Some d \<Rightarrow> d
         | None \<Rightarrow> e_now env + max 1 (vt_max_wait_seconds config) * us_per_second))"

definition poll_configured ::
  "env \<Rightarrow> uuid \<Rightarrow> scan \<Rightarrow> provider_result \<Rightarrow> string \<Rightarrow> vt_config \<Rightarrow> scan option act" where
  "poll_configured env vid s r analysis_id config =
     (if vt_api_key config = [] then
        bind_op (runtime_scan_defaults env) (\<lambda>defaults.
        complete_provider_outcome env vid ''virustotal''
          (skipped_poll_outcome (pass_when_unconfigured defaults) (unconfigured_message defaults) analysis_id))
      else
        let deadline = poll_deadline env config s r;
            attempts_so_far = max (pr_attempts r) (s_virustotal_poll_attempts s)
        in if deadline \<le> e_now env then
             complete_provider_outcome env vid ''virustotal''
               (virustotal_timeout_outcome analysis_id attempts_so_far (max 1 (vt_max_wait_seconds config)))
           else
             bind_op (lift_res (poll_outcome env config s r analysis_id deadline attempts_so_far)) (\<lambda>oc.
             store_poll_outcome env vid oc))"

definition poll_analysis :: "env \<Rightarrow> uuid \<Rightarrow> scan \<Rightarrow> provider_result \<Rightarrow> string \<Rightarrow> scan option act" where
  "poll_analysis env vid s r analysis_id =
     bind_op (runtime_scan_enabled_providers env) (\<lambda>enabled.
     if ''virustotal'' \<notin> set enabled then
       complete_provider_outcome env vid ''virustotal''
         (skipped_poll_outcome True ''Scan provider disabled: virustotal'' analysis_id)
     else bind_op (runtime_virustotal_config env) (poll_configured env vid s r analysis_id))"

definition poll_virustotal_analysis :: "env \<Rightarrow> uuid \<Rightarrow> scan option act" where
  "poll_virustotal_analysis env vid =
     bind_op (get_or_create_scan env vid) (\<lambda>(v, s).
     bind_op (get_or_create_provider_result env vid ''virustotal'') (\<lambda>(r, fresh).
     let analysis = or_opt (pr_external_id r) (s_virustotal_analysis_id s);
         mode = (if fresh then s_virustotal_mode s else pr_mode r)
     in if \<not> truthy analysis \<or> mode \<noteq> MPending then ret (Some s)
        else poll_analysis env vid s r (or_str analysis [])))"

section \<open>The rows an outcome leaves\<close>

lemma row_get_update_key:
  assumes "\<And>r. key r = k0 \<Longrightarrow> key (f r) = k0"
  shows "row_get key k (rows_update (\<lambda>r. key r = k0) f rs) =
    (if k = k0 then map_option f (row_get key k0 rs) else row_get key k rs)"
  using assms by (induction rs) (auto simp: rows_update_def)

definition get_result :: "uuid \<Rightarrow> string \<Rightarrow> db \<Rightarrow> provider_result option" where
  "get_result vid provider D = row_get result_key (vid, provider) (results D)"

definition ensure_result :: "env \<Rightarrow> uuid \<Rightarrow> string \<Rightarrow> db \<Rightarrow> db" where
  "ensure_result env vid provider D =
     (if get_result vid provider D = None
      then D\<lparr>results := results D @ [new_result vid provider KScan (e_now env)]\<rparr> else D)"

definition legacy_row :: "string \<Rightarrow> outcome \<Rightarrow> scan \<Rightarrow> scan" where
  "legacy_row provider oc s =
     (if provider = ''virustotal'' then
        s\<lparr>s_virustotal_pass := o_passed oc, s_virustotal_msg := Some (o_message oc), s_virustotal_mode := o_mode oc\<rparr>
      else s\<lparr>s_llm_agent_pass := o_passed oc, s_llm_agent_msg := Some (o_message oc), s_llm_agent_mode := o_mode oc\<rparr>)"

definition legacy_db :: "uuid \<Rightarrow> string \<Rightarrow> outcome \<Rightarrow> db \<Rightarrow> db" where
  "legacy_db vid provider oc D =
     (if provider \<notin> {''virustotal'', ''llm_agent''} then D
      else (case get_scan vid D of
          None \<Rightarrow> D | Some s \<Rightarrow> edit_scan vid (\<lambda>_. legacy_row provider oc s) D))"

text \<open>What \<open>record_outcome\<close>, \<open>mark_provider\<close> and the polls share: the result row and the legacy columns.\<close>

definition outcome_db :: "env \<Rightarrow> uuid \<Rightarrow> string \<Rightarrow> outcome \<Rightarrow> db \<Rightarrow> db" where
  "outcome_db env vid provider oc D =
     edit_result env vid provider (set_review_provider_result env provider oc)
       (legacy_db vid provider oc (ensure_result env vid provider D))"

lemma get_or_create_provider_result_apply:
  "get_or_create_provider_result env vid p w =
     (case get_result vid p (sess w) of
       Some r \<Rightarrow> (Inr (r, False), w)
     | None \<Rightarrow> (Inr (new_result vid p KScan (e_now env), True), w\<lparr>sess := ensure_result env vid p (sess w)\<rparr>))"
  by (simp add: get_or_create_provider_result_def bind_eval get_result_def ensure_result_def Let_def
      split: option.splits)

lemma set_legacy_apply:
  "p \<in> {''virustotal'', ''llm_agent''} \<Longrightarrow>
   set_legacy vid p (o_passed oc) (o_message oc) (o_mode oc) w = (Inr (), w\<lparr>sess := legacy_db vid p oc (sess w)\<rparr>)"
  by (cases "row_get s_version_id vid (scans (sess w))")
     (auto simp: set_legacy_def bind_eval bind_op_def[of "lift_res r" for r] set_provider_result_def legacy_db_def
       get_scan_def legacy_row_def)

lemma bind_outcome:
  "bind_op (get_or_create_provider_result env vid p) (\<lambda>_.
     bind_op (when_op (p \<in> set (legacy_public_names scan_registry))
       (set_legacy vid p (o_passed oc) (o_message oc) (o_mode oc))) (\<lambda>_.
     bind_op (stage (edit_result env vid p (set_review_provider_result env p oc))) f)) w =
   f () (w\<lparr>sess := outcome_db env vid p oc (sess w)\<rparr>)"
proof -
  have legacy: "p \<notin> {''virustotal'', ''llm_agent''} \<Longrightarrow> legacy_db vid p oc D = D" for D
    by (simp add: legacy_db_def)
  have ensure: "get_result vid p (sess w) = Some r \<Longrightarrow> ensure_result env vid p (sess w) = sess w" for r
    by (simp add: ensure_result_def)
  show ?thesis
    by (cases "get_result vid p (sess w)"; cases "p \<in> {''virustotal'', ''llm_agent''}")
       (auto simp: bind_op_def[of "get_or_create_provider_result e v q" for e v q] scan_registry_legacy bind_eval
         get_or_create_provider_result_apply set_legacy_apply outcome_db_def legacy ensure)
qed

lemma record_outcome_apply:
  "record_outcome env vid (p, oc) w =
     (Inr (), w\<lparr>sess := apply_provider_tracking vid p oc (outcome_db env vid p oc (sess w))\<rparr>)"
  by (simp add: record_outcome_def bind_outcome)

lemma mark_provider_apply:
  "mark_provider env vid oc p w =
     (Inr (), w\<lparr>sess := clear_provider_tracking vid p (outcome_db env vid p oc (sess w))\<rparr>)"
  by (simp add: mark_provider_def bind_outcome)

text \<open>Recording touches the scan row and the results of its version alone.\<close>

lemma legacy_db_scans: "legacy_db vid p oc D = D\<lparr>scans := scans (legacy_db vid p oc D)\<rparr>"
  by (auto simp: legacy_db_def edit_scan_def split: option.splits)

lemma tracking_db_scans:
  "apply_provider_tracking vid p oc D = D\<lparr>scans := scans (apply_provider_tracking vid p oc D)\<rparr>"
  "clear_provider_tracking vid p D = D\<lparr>scans := scans (clear_provider_tracking vid p D)\<rparr>"
  by (auto simp: apply_provider_tracking_def clear_provider_tracking_def edit_scan_def split: option.splits)

lemma legacy_db_fields [simp]:
  "versions (legacy_db vid p oc D) = versions D" "plugins (legacy_db vid p oc D) = plugins D"
  "configs (legacy_db vid p oc D) = configs D" "results (legacy_db vid p oc D) = results D"
  by (subst legacy_db_scans; simp)+

lemma tracking_db_fields [simp]:
  "versions (apply_provider_tracking vid p oc D) = versions D" "plugins (apply_provider_tracking vid p oc D) = plugins D"
  "configs (apply_provider_tracking vid p oc D) = configs D" "results (apply_provider_tracking vid p oc D) = results D"
  "versions (clear_provider_tracking vid p D) = versions D" "plugins (clear_provider_tracking vid p D) = plugins D"
  "configs (clear_provider_tracking vid p D) = configs D" "results (clear_provider_tracking vid p D) = results D"
  by (subst tracking_db_scans; simp)+

lemma outcome_db_fields [simp]:
  "versions (outcome_db env vid p oc D) = versions D" "plugins (outcome_db env vid p oc D) = plugins D"
  "configs (outcome_db env vid p oc D) = configs D"
  "scans (outcome_db env vid p oc D) = scans (legacy_db vid p oc (ensure_result env vid p D))"
  by (simp_all add: outcome_db_def edit_result_def ensure_result_def)

lemma set_review_key: "result_key r = (vid, p) \<Longrightarrow> result_key (set_review_provider_result env p oc r) = (vid, p)"
  by (simp add: set_review_provider_result_def result_key_def Let_def)

text \<open>The row written for an outcome: a new row or the old one, with \<open>updated_at\<close> when it changes.\<close>

definition outcome_row :: "env \<Rightarrow> string \<Rightarrow> outcome \<Rightarrow> provider_result \<Rightarrow> provider_result" where
  "outcome_row env p oc r = (let r' = set_review_provider_result env p oc r
     in if r' = r then r else r'\<lparr>pr_updated_at := e_now env\<rparr>)"

lemma outcome_row_key: "result_key r = (vid, p) \<Longrightarrow> result_key (outcome_row env p oc r) = (vid, p)"
  using set_review_key[of r vid p env oc] by (auto simp: outcome_row_def Let_def result_key_def)

lemma outcome_row_payload:
  "pr_kind (outcome_row env p oc r) = KScan \<and> provider_result_payload (outcome_row env p oc r) =
     \<lparr>pay_pass = o_passed oc, pay_msg = Some (o_message oc), pay_mode = o_mode oc\<rparr>"
proof -
  let ?r = "set_review_provider_result env p oc r"
  have "pr_kind ?r = KScan \<and> pr_passed ?r = o_passed oc \<and> pr_message ?r = Some (o_message oc) \<and> pr_mode ?r = o_mode oc"
    by (simp add: set_review_provider_result_def Let_def)
  then show ?thesis by (cases "?r = r") (simp_all add: outcome_row_def provider_result_payload_def)
qed

lemma get_result_outcome_db:
  "get_result u q (outcome_db env vid p oc D) =
     (if (u, q) = (vid, p)
      then Some (outcome_row env p oc (case get_result vid p D of
          None \<Rightarrow> new_result vid p KScan (e_now env) | Some r \<Rightarrow> r))
      else get_result u q D)"
proof -
  let ?E = "legacy_db vid p oc (ensure_result env vid p D)"
  have new: "result_key (new_result vid p KScan t) = (vid, p)" for t
    by (simp add: new_result_def result_key_def)
  have E: "get_result u q ?E = (if (u, q) = (vid, p)
      then Some (case get_result vid p D of None \<Rightarrow> new_result vid p KScan (e_now env) | Some r \<Rightarrow> r)
      else get_result u q D)" for u q
    by (auto simp: ensure_result_def get_result_def row_get_append new split: option.splits)
  have "get_result u q (outcome_db env vid p oc D) =
      (if (u, q) = (vid, p) then map_option (outcome_row env p oc) (get_result vid p ?E) else get_result u q ?E)"
    unfolding outcome_db_def edit_result_def get_result_def outcome_row_def Let_def
    by (simp del: legacy_db_fields add: row_get_update_key set_review_key)
       (auto simp: row_get_update_key outcome_row_key[unfolded outcome_row_def Let_def])
  then show ?thesis by (simp add: E)
qed

section \<open>Recording all outcomes\<close>

definition record_db :: "env \<Rightarrow> uuid \<Rightarrow> string \<times> outcome \<Rightarrow> db \<Rightarrow> db" where
  "record_db env vid po D =
     apply_provider_tracking vid (fst po) (snd po) (outcome_db env vid (fst po) (snd po) D)"

definition mark_db :: "env \<Rightarrow> uuid \<Rightarrow> outcome \<Rightarrow> string \<Rightarrow> db \<Rightarrow> db" where
  "mark_db env vid oc p D = clear_provider_tracking vid p (outcome_db env vid p oc D)"

lemma foreach_sess:
  assumes "\<And>x w. f x w = (Inr (), w\<lparr>sess := g x (sess w)\<rparr>)"
  shows "foreach f xs w = (Inr (), w\<lparr>sess := fold g xs (sess w)\<rparr>)"
  by (induction xs arbitrary: w) (simp_all add: bind_op_def assms)

lemma foreach_record_apply:
  "foreach (record_outcome env vid) pos w = (Inr (), w\<lparr>sess := fold (record_db env vid) pos (sess w)\<rparr>)"
  by (rule foreach_sess) (auto simp: record_outcome_apply record_db_def split: prod.splits)

lemma foreach_mark_apply:
  "foreach (mark_provider env vid oc) ps w = (Inr (), w\<lparr>sess := fold (mark_db env vid oc) ps (sess w)\<rparr>)"
  by (rule foreach_sess) (simp add: mark_provider_apply mark_db_def)

lemma record_db_fields [simp]:
  "versions (record_db env vid po D) = versions D" "plugins (record_db env vid po D) = plugins D"
  "configs (record_db env vid po D) = configs D"
  "versions (mark_db env vid oc p D) = versions D" "plugins (mark_db env vid oc p D) = plugins D"
  "configs (mark_db env vid oc p D) = configs D"
  by (simp_all add: record_db_def mark_db_def)

lemma fold_record_fields [simp]:
  "versions (fold (record_db env vid) pos D) = versions D" "plugins (fold (record_db env vid) pos D) = plugins D"
  "configs (fold (record_db env vid) pos D) = configs D"
  by (induction pos arbitrary: D) simp_all

lemma fold_mark_fields [simp]:
  "versions (fold (mark_db env vid oc) ps D) = versions D" "plugins (fold (mark_db env vid oc) ps D) = plugins D"
  "configs (fold (mark_db env vid oc) ps D) = configs D"
  by (induction ps arbitrary: D) simp_all

definition shows_outcome :: "uuid \<Rightarrow> string \<Rightarrow> outcome \<Rightarrow> db \<Rightarrow> bool" where
  "shows_outcome vid p oc D \<longleftrightarrow>
     (\<exists>r. get_result vid p D = Some r \<and> pr_kind r = KScan \<and>
        provider_result_payload r = \<lparr>pay_pass = o_passed oc, pay_msg = Some (o_message oc), pay_mode = o_mode oc\<rparr>)"

lemma get_result_record_db:
  "get_result u q (record_db env vid po D) =
     (if (u, q) = (vid, fst po)
      then Some (outcome_row env (fst po) (snd po) (case get_result vid (fst po) D of
          None \<Rightarrow> new_result vid (fst po) KScan (e_now env) | Some r \<Rightarrow> r))
      else get_result u q D)"
  using get_result_outcome_db[of u q env vid "fst po" "snd po" D]
  by (simp add: record_db_def get_result_def)

lemma get_result_mark_db:
  "get_result u q (mark_db env vid oc p D) =
     (if (u, q) = (vid, p)
      then Some (outcome_row env p oc (case get_result vid p D of
          None \<Rightarrow> new_result vid p KScan (e_now env) | Some r \<Rightarrow> r))
      else get_result u q D)"
  using get_result_outcome_db[of u q env vid p oc D] by (simp add: mark_db_def get_result_def)

lemma shows_outcome_record:
  "distinct (map fst pos) \<Longrightarrow> (p, oc) \<in> set pos \<Longrightarrow> shows_outcome vid p oc (fold (record_db env vid) pos D)"
proof (induction pos arbitrary: D)
  case (Cons po pos)
  have other: "get_result vid q (fold (record_db env vid) pos E) = get_result vid q E" if "q \<notin> fst ` set pos" for q E
    using that by (induction pos arbitrary: E) (auto simp: get_result_record_db)
  show ?case
  proof (cases "po = (p, oc)")
    case True
    with Cons.prems have "get_result vid p (fold (record_db env vid) pos (record_db env vid po D))
        = get_result vid p (record_db env vid po D)" by (intro other) auto
    with True outcome_row_payload[of env p oc] show ?thesis
      by (auto simp: shows_outcome_def get_result_record_db)
  qed (use Cons in auto)
qed simp

lemma shows_outcome_mark:
  "p \<in> set ps \<Longrightarrow> shows_outcome vid p oc (fold (mark_db env vid oc) ps D)"
proof (induction ps arbitrary: D rule: rev_induct)
  case (snoc q ps)
  then show ?case
    using outcome_row_payload[of env q oc] by (cases "p = q") (auto simp: shows_outcome_def get_result_mark_db)
qed simp

text \<open>What the gate sees of such a row.\<close>

lemma load_view_results_distinct: "results_ok D \<Longrightarrow> distinct (map pr_provider (vv_results (load_view D v)))"
proof -
  assume "results_ok D"
  then have "inj_on result_key (set (results D))" "distinct (results D)"
    by (auto simp: results_ok_def distinct_map)
  then show ?thesis by (auto simp: load_view_def distinct_map inj_on_def result_key_def)
qed

lemma load_view_result: "row_get pr_provider p (vv_results (load_view D v)) = get_result (v_id v) p D"
proof -
  have "row_get pr_provider p (filter (\<lambda>r. pr_version_id r = i) rs) = row_get result_key (i, p) rs" for i rs
    by (induction rs) (auto simp: result_key_def)
  then show ?thesis by (simp add: load_view_def get_result_def)
qed

lemma gate_sees_outcome:
  assumes "results_ok D" "shows_outcome (v_id v) p oc D"
  shows "dict_get p (scan_provider_results (load_view D v) None) =
    Some \<lparr>pay_pass = o_passed oc, pay_msg = Some (o_message oc), pay_mode = o_mode oc\<rparr>"
proof -
  note d = load_view_results_distinct[OF assms(1), of v]
  obtain r where r: "get_result (v_id v) p D = Some r" "pr_kind r = KScan"
    "provider_result_payload r = \<lparr>pay_pass = o_passed oc, pay_msg = Some (o_message oc), pay_mode = o_mode oc\<rparr>"
    using assms(2) by (auto simp: shows_outcome_def)
  have "dict_get p (row_results (load_view D v) None) = Some (provider_result_payload r)"
    unfolding row_results_get[OF d] load_view_result r(1) by (simp add: r(2) selects_def)
  with r(3) show ?thesis unfolding scan_provider_results_get by simp
qed

definition outcome_passes :: "outcome \<Rightarrow> bool" where
  "outcome_passes oc \<longleftrightarrow> o_mode oc = MSkipped \<or> (o_mode oc = MReal \<and> o_passed oc = Some True)"

text \<open>The gate after the outcomes of the providers are recorded: open iff every one of them passes.\<close>

lemma gate_of_outcomes:
  assumes "results_ok D" and "\<forall>p \<in> set ps. shows_outcome (v_id v) p (f p) D"
  shows "scan_passed (load_view D v) (Some ps) \<longleftrightarrow> (\<forall>p \<in> set ps. outcome_passes (f p))"
proof -
  have "(\<exists>r. dict_get p (scan_provider_results (load_view D v) None) = Some r \<and> payload_ok r) = outcome_passes (f p)"
    if "p \<in> set ps" for p
    using gate_sees_outcome[OF assms(1), of v p "f p"] assms(2) that by (simp add: payload_ok_def outcome_passes_def)
  then show ?thesis unfolding scan_passed_def scan_gate_iff by simp
qed

section \<open>Which outcome each provider gives\<close>

text \<open>What changes nothing but the cached configuration.\<close>

definition same_config :: "env \<Rightarrow> world \<Rightarrow> world \<Rightarrow> bool" where
  "same_config env w u \<longleftrightarrow> sess u = sess w \<and> committed u = committed w \<and> runtime_values env u = runtime_values env w
     \<and> queues u = queues w \<and> uuid_next u = uuid_next w \<and> (redis u = None \<longleftrightarrow> redis w = None)"

lemma same_config_refl [simp]: "same_config env w w" "same_config env w (fill_config env w)"
  by (simp_all add: same_config_def)

lemma same_config_trans: "same_config env w u \<Longrightarrow> same_config env u v \<Longrightarrow> same_config env w v"
  by (simp add: same_config_def)

lemma cfg_values:
  assumes "runtime_values env u = runtime_values env w"
  shows "cfg_str env u = cfg_str env w" "cfg_int env u = cfg_int env w" "cfg_list env u = cfg_list env w"
    "cfg_bool env u = cfg_bool env w" "enabled_providers env u = enabled_providers env w"
    "scan_defaults_of env u = scan_defaults_of env w" "review_policy_of env u = review_policy_of env w"
    "cache_ttl env u = cache_ttl env w"
proof -
  have "cfg_raw env u = cfg_raw env w" using assms by (simp add: cfg_raw_def fun_eq_iff)
  then show "cfg_str env u = cfg_str env w" "cfg_int env u = cfg_int env w" "cfg_list env u = cfg_list env w"
    "cfg_bool env u = cfg_bool env w" "enabled_providers env u = enabled_providers env w"
    "scan_defaults_of env u = scan_defaults_of env w" "review_policy_of env u = review_policy_of env w"
    "cache_ttl env u = cache_ttl env w"
    by (simp_all add: cfg_str_def cfg_int_def cfg_list_def cfg_bool_def fun_eq_iff enabled_providers_def
        scan_defaults_of_def review_policy_of_def cache_ttl_def)
qed

definition loaded_config :: "scan_provider \<Rightarrow> env \<Rightarrow> world \<Rightarrow> exn + provider_config" where
  "loaded_config p env w = fst (sp_load_config p env w)"

text \<open>Readers of the configuration: the state after is the filled cache, and the value depends on the
  configured values alone.\<close>

definition by_values :: "env \<Rightarrow> 'a act \<Rightarrow> bool" where
  "by_values env m \<longleftrightarrow> (\<forall>w u. runtime_values env u = runtime_values env w \<longrightarrow> fst (m u) = fst (m w))"

definition reads_config :: "env \<Rightarrow> 'a act \<Rightarrow> bool" where
  "reads_config env m \<longleftrightarrow> by_values env m \<and> (\<forall>w. snd (m w) = fill_config env w)"

definition reads_at_most :: "env \<Rightarrow> 'a act \<Rightarrow> bool" where
  "reads_at_most env m \<longleftrightarrow> by_values env m \<and> (\<forall>w. snd (m w) = w \<or> snd (m w) = fill_config env w)"

lemma reads_getters:
  "reads_config env (runtime_str env k s)" "reads_config env (runtime_int env k i)"
proof -
  have "cfg_str env u = cfg_str env w" "cfg_int env u = cfg_int env w"
    if "runtime_values env u = runtime_values env w" for u w
    by (rule cfg_values[OF that])+
  then show "reads_config env (runtime_str env k s)" "reads_config env (runtime_int env k i)"
    unfolding reads_config_def by_values_def runtime_get_apply fst_conv snd_conv by metis+
qed

lemma reads_at_most: "reads_at_most env (ret x)" "reads_config env m \<Longrightarrow> reads_at_most env m"
proof -
  show "reads_at_most env (ret x)" by (simp add: reads_at_most_def by_values_def)
  show "reads_config env m \<Longrightarrow> reads_at_most env m" unfolding reads_at_most_def reads_config_def by blast
qed

lemma reads_bind:
  assumes m: "reads_config env m" and f: "\<And>x. reads_at_most env (f x)"
  shows "reads_config env (bind_op m f)"
proof -
  have s: "snd (bind_op m f w) = fill_config env w" for w
    using m f by (cases rule: bind_op_cases[of m w f])
      (metis fill_config_idem reads_at_most_def reads_config_def snd_conv)+
  have "fst (bind_op m f u) = fst (bind_op m f w)" if rv: "runtime_values env u = runtime_values env w" for u w
  proof -
    have 1: "m w = (fst (m w), fill_config env w)" "m u = (fst (m u), fill_config env u)" for w u
      using m by (metis prod.collapse reads_config_def)+
    have 2: "fst (m u) = fst (m w)" using m rv unfolding reads_config_def by_values_def by blast
    have 3: "fst (f x (fill_config env u)) = fst (f x (fill_config env w))" for x
      using f[of x] rv unfolding reads_at_most_def by_values_def by (metis runtime_values_fill)
    show ?thesis
    proof (cases "fst (m w)")
      case (Inl e)
      then have "m w = (Inl e, fill_config env w)" "m u = (Inl e, fill_config env u)"
        using 1(1)[of w] 1(1)[of u] 2 by simp_all
      then show ?thesis by simp
    next
      case (Inr x)
      then have "m w = (Inr x, fill_config env w)" "m u = (Inr x, fill_config env u)"
        using 1(1)[of w] 1(1)[of u] 2 by simp_all
      then show ?thesis using 3[of x] by simp
    qed
  qed
  with s show ?thesis unfolding reads_config_def by_values_def by blast
qed

lemmas reads_intros = reads_at_most(1) reads_at_most(2)[OF reads_bind] reads_at_most(2)[OF reads_getters(1)]
  reads_at_most(2)[OF reads_getters(2)] reads_getters

lemma reads_provider_configs:
  "reads_config env (runtime_clamav_config env)" "reads_config env (runtime_virustotal_config env)"
  "reads_config env (runtime_llm_agent_config env)"
  unfolding runtime_clamav_config_def runtime_virustotal_config_def runtime_llm_agent_config_def Let_def
  by (rule reads_bind; intro reads_intros)+

lemma reads_load_config:
  assumes "registry_get scan_registry name = Some p"
  shows "reads_config env (sp_load_config p env)"
proof -
  have "p \<in> {clamav_provider, virustotal_provider, llm_provider}"
    using assms by (auto simp: registry_get_def scan_registry_eq split: if_splits)
  then show ?thesis
    by (auto simp: clamav_provider_def virustotal_provider_def llm_provider_def
        intro!: reads_bind reads_provider_configs reads_at_most(1))
qed

lemma load_config_apply:
  "registry_get scan_registry name = Some p \<Longrightarrow> sp_load_config p env w = (loaded_config p env w, fill_config env w)"
  using reads_load_config[of name p env] by (metis loaded_config_def prod.collapse reads_config_def)

lemma loaded_config_same:
  "registry_get scan_registry name = Some p \<Longrightarrow> runtime_values env u = runtime_values env w \<Longrightarrow>
   loaded_config p env u = loaded_config p env w"
  using reads_load_config[of name p env] unfolding loaded_config_def reads_config_def by_values_def by blast

text \<open>The outcome of a provider: its scan when it is configured, the default when it is not.\<close>

definition provider_outcome :: "env \<Rightarrow> world \<Rightarrow> version \<Rightarrow> artifact option \<Rightarrow> string \<Rightarrow> exn + outcome" where
  "provider_outcome env w v local_path name =
     (case registry_get scan_registry name of
       None \<Rightarrow> Inl (KeyError name)
     | Some p \<Rightarrow> bind_res (loaded_config p env w) (\<lambda>config.
         if sp_is_configured p config then sp_scan p env v config local_path
         else Inr (plain_outcome (Some (pass_when_unconfigured (scan_defaults_of env w)))
           (unconfigured_message (scan_defaults_of env w)) MSkipped)))"

lemma plan_scans_result:
  assumes "plan_scans env v sel (scan_defaults_of env w0) lp ps (a, b) w = (Inr (a', b'), u)"
    and "runtime_values env w = runtime_values env w0"
  shows "same_config env w u \<and> (\<exists>a1 b1. a' = a @ a1 \<and> b' = b @ b1
    \<and> mset (map fst a1 @ map fst b1) = mset (filter (\<lambda>p. p \<in> set sel \<and> registry_get scan_registry p \<noteq> None) ps)
    \<and> (\<forall>(p, oc) \<in> set a1. provider_outcome env w0 v lp p = Inr oc)
    \<and> (\<forall>(p, r) \<in> set b1. provider_outcome env w0 v lp p = r))"
  using assms
proof (induction ps arbitrary: a b w)
  case (Cons p ps)
  show ?case
  proof (cases "p \<in> set sel \<and> registry_get scan_registry p \<noteq> None")
    case False
    with Cons.prems have "plan_scans env v sel (scan_defaults_of env w0) lp ps (a, b) w = (Inr (a', b'), u)"
      by (auto split: if_splits option.splits)
    from Cons.IH[OF this Cons.prems(2)] False show ?thesis by auto
  next
    case True
    then obtain d where d: "registry_get scan_registry p = Some d" by auto
    from Cons.prems(1) True d obtain c where c: "loaded_config d env w = Inr c"
      by (auto simp: bind_op_def load_config_apply split: sum.splits)
    note c0 = c[unfolded loaded_config_same[OF d Cons.prems(2)]]
    let ?w = "fill_config env w"
    have rv: "runtime_values env ?w = runtime_values env w0" using Cons.prems(2) by simp
    show ?thesis
    proof (cases "sp_is_configured d c")
      case conf: True
      with Cons.prems(1) True d c have "plan_scans env v sel (scan_defaults_of env w0) lp ps
          (a, b @ [(p, sp_scan d env v c lp)]) ?w = (Inr (a', b'), u)"
        by (simp add: bind_op_def load_config_apply)
      from Cons.IH[OF this rv] obtain a1 b1 where IH: "same_config env ?w u" "a' = a @ a1"
        "b' = b @ [(p, sp_scan d env v c lp)] @ b1"
        "mset (map fst a1 @ map fst b1) = mset (filter (\<lambda>p. p \<in> set sel \<and> registry_get scan_registry p \<noteq> None) ps)"
        "\<forall>(p, oc) \<in> set a1. provider_outcome env w0 v lp p = Inr oc"
        "\<forall>(p, r) \<in> set b1. provider_outcome env w0 v lp p = r" by auto
      have "provider_outcome env w0 v lp p = sp_scan d env v c lp"
        using d c0 conf by (simp add: provider_outcome_def)
      with IH True show ?thesis
        by (intro conjI exI[of _ a1] exI[of _ "(p, sp_scan d env v c lp) # b1"])
          (auto intro: same_config_trans[OF same_config_refl(2)])
    next
      case conf: False
      let ?oc = "plain_outcome (Some (pass_when_unconfigured (scan_defaults_of env w0)))
           (unconfigured_message (scan_defaults_of env w0)) MSkipped"
      from conf Cons.prems(1) True d c have "plan_scans env v sel (scan_defaults_of env w0) lp ps
          (a @ [(p, ?oc)], b) ?w = (Inr (a', b'), u)"
        by (simp add: bind_op_def load_config_apply)
      from Cons.IH[OF this rv] obtain a1 b1 where IH: "same_config env ?w u" "a' = a @ [(p, ?oc)] @ a1" "b' = b @ b1"
        "mset (map fst a1 @ map fst b1) = mset (filter (\<lambda>p. p \<in> set sel \<and> registry_get scan_registry p \<noteq> None) ps)"
        "\<forall>(p, oc) \<in> set a1. provider_outcome env w0 v lp p = Inr oc"
        "\<forall>(p, r) \<in> set b1. provider_outcome env w0 v lp p = r" by auto
      have "provider_outcome env w0 v lp p = Inr ?oc"
        using d c0 conf by (simp add: provider_outcome_def)
      with IH True show ?thesis
        by (intro conjI exI[of _ "(p, ?oc) # a1"] exI[of _ b1])
          (auto intro: same_config_trans[OF same_config_refl(2)])
    qed
  qed
qed simp

lemma map_res_outcomes:
  assumes "map_res (\<lambda>(p, r). bind_res r (\<lambda>oc. Inr (p, oc))) running = Inr scanned"
  shows "map fst scanned = map fst running \<and> (\<forall>(p, oc) \<in> set scanned. (p, Inr oc) \<in> set running)"
  using assms
proof (induction running arbitrary: scanned)
  case (Cons x running)
  then show ?case by (cases x) (auto simp: bind_res_Inr_iff)
qed simp

definition outcomes_of :: "env \<Rightarrow> world \<Rightarrow> version \<Rightarrow> artifact option \<Rightarrow> string list \<Rightarrow> (string \<times> outcome) list \<Rightarrow> bool" where
  "outcomes_of env w v local_path sel pos \<longleftrightarrow>
     distinct (map fst pos) \<and> set (map fst pos) = set sel
   \<and> (\<forall>(p, oc) \<in> set pos. provider_outcome env w v local_path p = Inr oc)"

lemma scan_selected_providers_result:
  assumes "scan_selected_providers env v sel (scan_defaults_of env w0) lp w = (Inr pos, u)"
    and "runtime_values env w = runtime_values env w0"
    and sel: "set sel \<subseteq> set (registry_names scan_registry)"
  shows "same_config env w u \<and> outcomes_of env w0 v lp sel pos"
proof -
  let ?names = "registry_names scan_registry"
  let ?P = "\<lambda>p. p \<in> set sel \<and> registry_get scan_registry p \<noteq> None"
  have names: "filter ?P ?names = filter (\<lambda>p. p \<in> set sel) ?names"
    by (auto simp: registry_names_def registry_get_def scan_registry_eq)
  from assms(1) obtain a b x where plan:
      "plan_scans env v sel (scan_defaults_of env w0) lp ?names ([], []) w = (Inr (a, b), x)"
    and run: "map_res (\<lambda>(p, r). bind_res r (\<lambda>oc. Inr (p, oc))) b = Inr (drop (length a) pos)" "pos = a @ drop (length a) pos" "u = x"
    by (auto simp: scan_selected_providers_def bind_op_eq_Inr_iff)
  from plan_scans_result[OF plan assms(2)] obtain a1 b1 where r: "same_config env w x" "a = a1" "b = b1"
    "mset (map fst a1 @ map fst b1) = mset (filter ?P ?names)"
    "\<forall>(p, oc) \<in> set a1. provider_outcome env w0 v lp p = Inr oc"
    "\<forall>(p, r) \<in> set b1. provider_outcome env w0 v lp p = r" by auto
  note s = map_res_outcomes[OF run(1)]
  have fsts: "map fst pos = map fst a @ map fst b" using s run(2) by (metis map_append)
  then have m: "mset (map fst pos) = mset (filter (\<lambda>p. p \<in> set sel) ?names)"
    using r(2-4) unfolding names by simp
  have "distinct (map fst pos)"
    unfolding mset_eq_imp_distinct_iff[OF m]
    by (simp add: registry_names_distinct scan_registry_def)
  moreover have "set (map fst pos) = set sel" using mset_eq_setD[OF m] sel by auto
  moreover have "provider_outcome env w0 v lp p = Inr oc" if "(p, oc) \<in> set pos" for p oc
  proof -
    have "(p, oc) \<in> set a \<or> (p, Inr oc) \<in> set b" using that s run(2) by (metis Un_iff case_prodD set_append)
    then show ?thesis using r(2,3,5,6) by fastforce
  qed
  ultimately show ?thesis using r(1) run(3) by (auto simp: outcomes_of_def)
qed

lemma selected_apply:
  "selected_scan_providers env providers w =
     (case providers of
       None \<Rightarrow> (Inr (enabled_providers env w), fill_config env w)
     | Some ps \<Rightarrow> (registry_validate scan_registry ps, w))"
  by (cases providers)
     (simp_all add: selected_scan_providers_def bind_op_def runtime_scan_enabled_providers_apply validate_enabled)

lemma selected_result:
  assumes "selected_scan_providers env providers w = (Inr sel, u)"
  shows "same_config env w u \<and> set sel \<subseteq> set (registry_names scan_registry)
    \<and> set sel = (case providers of None \<Rightarrow> set (enabled_providers env w) | Some ps \<Rightarrow> set ps)"
proof (cases providers)
  case None
  with assms enabled_providers_known[of env w] show ?thesis by (auto simp: selected_apply scan_registry_names)
next
  case (Some ps)
  with assms have "registry_validate scan_registry ps = Inr sel" "u = w" by (simp_all add: selected_apply)
  then show ?thesis using Some by (auto simp: registry_validate_Inr_iff)
qed

definition scan_db :: "env \<Rightarrow> uuid \<Rightarrow> db \<Rightarrow> db" where
  "scan_db env vid D =
     (if get_scan vid D = None then D\<lparr>scans := scans D @ [new_scan vid (e_now env)]\<rparr> else D)"

lemma scan_db_fields [simp]:
  "versions (scan_db env vid D) = versions D" "plugins (scan_db env vid D) = plugins D"
  "configs (scan_db env vid D) = configs D" "results (scan_db env vid D) = results D"
  by (simp_all add: scan_db_def)

lemma get_or_create_scan_apply:
  "get_or_create_scan env vid w =
     (case get_version vid (sess w) of
       None \<Rightarrow> (Inl (ValueError ''Version not found''), w)
     | Some v \<Rightarrow> (Inr (v, case get_scan vid (sess w) of None \<Rightarrow> new_scan vid (e_now env) | Some s \<Rightarrow> s),
         w\<lparr>sess := scan_db env vid (sess w)\<rparr>))"
  by (auto simp: get_or_create_scan_def bind_eval get_scan_def scan_db_def Let_def split: option.splits)

section \<open>One scan\<close>

lemma bind_assoc: "bind_op (bind_op m f) g = bind_op m (\<lambda>x. bind_op (f x) g)"
  by (rule ext) (auto simp: bind_op_def split: prod.splits sum.splits)

lemma bind_ret: "bind_op (ret x) f = f x"
  by (simp add: bind_op_def fun_eq_iff)

text \<open>A scan up to its commit, and from there on.\<close>

definition scan_outcomes :: "env \<Rightarrow> uuid \<Rightarrow> artifact option \<Rightarrow> string list option \<Rightarrow> (string \<times> outcome) list act" where
  "scan_outcomes env vid local_path providers =
     bind_op (selected_scan_providers env providers) (\<lambda>selected.
     bind_op (get_or_create_scan env vid) (\<lambda>(v, _).
     bind_op (when_op (can_mark_build_scanning v)
       (bind_op (stage (edit_version vid (\<lambda>v. v\<lparr>v_build_status := BScanning\<rparr>))) (\<lambda>_. commit))) (\<lambda>_.
     bind_op (runtime_scan_defaults env) (\<lambda>defaults.
     bind_op (scan_selected_providers env v selected defaults local_path) (\<lambda>outcomes.
     bind_op (foreach (record_outcome env vid) outcomes) (\<lambda>_.
     bind_op (stage (touch_scanned_at env vid)) (\<lambda>_.
     bind_op (stage (mark_built vid
       (if list_ex (\<lambda>(p, oc). o_mode oc = MPending) outcomes then BScanning else BSuccess))) (\<lambda>_.
     ret outcomes))))))))"

definition scan_tail :: "env \<Rightarrow> uuid \<Rightarrow> (string \<times> outcome) list \<Rightarrow> scan option act" where
  "scan_tail env vid outcomes =
     bind_op (case followup_delay env outcomes of
         None \<Rightarrow> ret ()
       | Some d \<Rightarrow> bind_op (enqueue_task env ''virustotal_poll'' (poll_payload vid) True d) (\<lambda>_. ret ())) (\<lambda>_.
     bind_op (refresh_cache env) (\<lambda>_.
     bind_op (when_op (followup_delay env outcomes = None)
       (bind_op (try_auto_publish_after_scan env vid) (\<lambda>_. ret ()))) (\<lambda>_.
     query (get_scan vid))))"

lemma scan_version_split:
  "scan_version env vid lp providers =
     bind_op (scan_outcomes env vid lp providers) (\<lambda>pos. bind_op commit (\<lambda>_. scan_tail env vid pos))"
proof -
  have pair: "bind_op (case p of (a, b) \<Rightarrow> f a b) g = (case p of (a, b) \<Rightarrow> bind_op (f a b) g)"
    for p :: "version \<times> scan" and f :: "version \<Rightarrow> scan \<Rightarrow> (string \<times> outcome) list act" and g :: "_ \<Rightarrow> scan option act"
    by (cases p) simp
  show ?thesis
    unfolding scan_version_def scan_outcomes_def scan_tail_def bind_assoc pair bind_ret ..
qed

definition start_db :: "env \<Rightarrow> uuid \<Rightarrow> version \<Rightarrow> db \<Rightarrow> db" where
  "start_db env vid v D =
     (if can_mark_build_scanning v then edit_version vid (\<lambda>v. v\<lparr>v_build_status := BScanning\<rparr>) (scan_db env vid D)
      else scan_db env vid D)"

definition scanned_db :: "env \<Rightarrow> uuid \<Rightarrow> version \<Rightarrow> (string \<times> outcome) list \<Rightarrow> db \<Rightarrow> db" where
  "scanned_db env vid v pos D = mark_built vid
     (if list_ex (\<lambda>(p, oc). o_mode oc = MPending) pos then BScanning else BSuccess)
     (touch_scanned_at env vid (fold (record_db env vid) pos (start_db env vid v D)))"

lemma start_db_fields [simp]:
  "configs (start_db env vid v D) = configs D" "results (start_db env vid v D) = results D"
  "plugins (start_db env vid v D) = plugins D"
  by (simp_all add: start_db_def edit_version_def)

lemma scan_outcomes_result:
  assumes "scan_outcomes env vid lp providers w = (Inr pos, u)"
  obtains v sel where "get_version vid (sess w) = Some v"
    "set sel = (case providers of None \<Rightarrow> set (enabled_providers env w) | Some ps \<Rightarrow> set ps)"
    "outcomes_of env w v lp sel pos" "sess u = scanned_db env vid v pos (sess w)"
    "committed u = (if can_mark_build_scanning v then start_db env vid v (sess w) else committed w)"
    "redis u = None \<longleftrightarrow> redis w = None"
proof -
  from assms obtain sel w1 where sel: "selected_scan_providers env providers w = (Inr sel, w1)"
    by (auto simp: scan_outcomes_def bind_op_eq_Inr_iff)
  note s = selected_result[OF sel]
  then have rv1: "runtime_values env w1 = runtime_values env w" "sess w1 = sess w" "committed w1 = committed w"
    by (simp_all add: same_config_def)
  from assms sel obtain v sc where v: "get_version vid (sess w) = Some v"
    and goc: "get_or_create_scan env vid w1 = (Inr (v, sc), w1\<lparr>sess := scan_db env vid (sess w)\<rparr>)"
    by (cases "get_version vid (sess w)")
      (auto simp: scan_outcomes_def bind_op_eq_Inr_iff get_or_create_scan_apply rv1)
  let ?w2 = "w1\<lparr>sess := scan_db env vid (sess w)\<rparr>"
  let ?w3 = "?w2\<lparr>sess := start_db env vid v (sess w),
    committed := (if can_mark_build_scanning v then start_db env vid v (sess w) else committed w)\<rparr>"
  let ?mark = "when_op (can_mark_build_scanning v)
       (bind_op (stage (edit_version vid (\<lambda>v. v\<lparr>v_build_status := BScanning\<rparr>))) (\<lambda>_. commit)) :: unit act"
  from assms sel goc obtain w3 where mark: "?mark ?w2 = (Inr (), w3)"
    and rest: "bind_op (runtime_scan_defaults env) (\<lambda>defaults.
     bind_op (scan_selected_providers env v sel defaults lp) (\<lambda>outcomes.
     bind_op (foreach (record_outcome env vid) outcomes) (\<lambda>_.
     bind_op (stage (touch_scanned_at env vid)) (\<lambda>_.
     bind_op (stage (mark_built vid
       (if list_ex (\<lambda>(p, oc). o_mode oc = MPending) outcomes then BScanning else BSuccess))) (\<lambda>_.
     ret outcomes))))) w3 = (Inr pos, u)"
    by (simp del: when_op_apply add: scan_outcomes_def bind_op_eq_Inr_iff) blast
  have w3: "w3 = ?w3"
    using mark by (auto simp: start_db_def bind_op_def commit_def rv1 split: if_splits)
  have rv3: "runtime_values env w3 = runtime_values env w"
  proof -
    have "runtime_values env w3 = runtime_values env (w1\<lparr>sess := start_db env vid v (sess w)\<rparr>)"
      unfolding w3 by (cases "redis w1") (simp_all add: runtime_values_def)
    also have "\<dots> = runtime_values env w1" by (rule runtime_values_sess) (simp add: rv1)
    finally show ?thesis using rv1 by simp
  qed
  have d: "scan_defaults_of env (fill_config env w3) = scan_defaults_of env w"
    by (rule cfg_values) (simp add: rv3)
  from rest obtain x where run: "scan_selected_providers env v sel (scan_defaults_of env w) lp (fill_config env w3) = (Inr pos, x)"
    and u: "u = x\<lparr>sess := mark_built vid (if list_ex (\<lambda>(p, oc). o_mode oc = MPending) pos then BScanning else BSuccess)
        (touch_scanned_at env vid (fold (record_db env vid) pos (sess x)))\<rparr>"
    using d by (auto simp: bind_op_eq_Inr_iff runtime_scan_defaults_apply foreach_record_apply cfg_values[OF rv3])
  from scan_selected_providers_result[OF run] rv3 s
  have r: "same_config env (fill_config env w3) x" "outcomes_of env w v lp sel pos" by auto
  then show ?thesis
    using that[OF v _ r(2)] s u w3 by (auto simp: same_config_def scanned_db_def)
qed

section \<open>The results of the scanners stay after the commit\<close>

definition scanner_results :: "db \<Rightarrow> provider_result list" where
  "scanner_results D = filter (\<lambda>r. pr_provider r \<noteq> ''human'') (results D)"

definition scanner_results_are :: "provider_result list \<Rightarrow> world \<Rightarrow> bool" where
  "scanner_results_are rs w \<longleftrightarrow> scanner_results (sess w) = rs \<and> scanner_results (committed w) = rs"

lemma get_result_scanner:
  "p \<noteq> ''human'' \<Longrightarrow> get_result vid p D = row_get result_key (vid, p) (scanner_results D)"
proof -
  assume "p \<noteq> ''human''"
  then have "row_get result_key (vid, p) rs = row_get result_key (vid, p) (filter (\<lambda>r. pr_provider r \<noteq> ''human'') rs)" for rs
    by (induction rs) (auto simp: result_key_def)
  then show ?thesis by (simp add: get_result_def scanner_results_def)
qed

lemma scanner_results_fields [simp]:
  "scanner_results (D\<lparr>versions := a\<rparr>) = scanner_results D" "scanner_results (D\<lparr>plugins := b\<rparr>) = scanner_results D"
  "scanner_results (D\<lparr>tasks := c\<rparr>) = scanner_results D" "scanner_results (D\<lparr>scans := d\<rparr>) = scanner_results D"
  by (simp_all add: scanner_results_def)

lemma scanner_results_edits [simp]:
  "scanner_results (edit_version vid f D) = scanner_results D" "scanner_results (edit_plugin pid g D) = scanner_results D"
  "scanner_results (unset_latest pid D) = scanner_results D" "scanner_results (make_latest pid vid D) = scanner_results D"
  "scanner_results (finish_scanning vid D) = scanner_results D" "scanner_results (mark_built vid st D) = scanner_results D"
  "scanner_results (touch_scanned_at env vid D) = scanner_results D"
  by (simp_all add: edit_version_def edit_plugin_def unset_latest_def make_latest_def finish_scanning_def
      mark_built_def touch_scanned_at_def edit_scan_def)

lemma human_db_scanner_results [simp]: "scanner_results (human_db env vid review D) = scanner_results D"
proof -
  let ?P = "\<lambda>r. pr_provider r \<noteq> ''human''"
  have put: "filter ?P (row_put result_key r rs) = filter ?P rs" if "pr_provider r = ''human''" for r rs
  proof (cases "row_get result_key (result_key r) rs")
    case (Some a)
    have "filter ?P (map (\<lambda>x. if result_key x = result_key r then r else x) rs) = filter ?P rs"
      using that by (induction rs) (auto simp: result_key_def)
    with Some show ?thesis by (simp add: row_put_def)
  qed (simp add: row_put_def that)
  have "pr_provider (human_row env vid review (case row_get result_key (vid, ''human'') (results D) of
      None \<Rightarrow> new_result vid ''human'' KHuman (e_now env) | Some r \<Rightarrow> r)) = ''human''"
    by (auto simp: human_row_def new_result_def result_key_def split: option.splits dest: row_get_SomeD)
  from put[OF this] show ?thesis by (simp add: human_db_def scanner_results_def)
qed

lemma keeps_scanner_results_basic [keeps_intros]:
  "keeps (scanner_results_are rs) commit" "keeps (scanner_results_are rs) (on_redis f)"
  "keeps (scanner_results_are rs) (uuid4 env)" "keeps (scanner_results_are rs) (refresh_cache env)"
  "keeps (scanner_results_are rs) (runtime_int env k i)" "keeps (scanner_results_are rs) (runtime_review_policy env)"
  "keeps (scanner_results_are rs) (check_gate env vv m n)"
  "keeps (scanner_results_are rs) (set_human_review_result env vid rv)"
proof -
  show "keeps (scanner_results_are rs) (refresh_cache env)"
  proof (rule keepsI)
    fix w assume "scanner_results_are rs w"
    then show "scanner_results_are rs (snd (refresh_cache env w))"
      by (cases "refresh_cache env w") (simp add: scanner_results_are_def refresh_cache_db)
  qed
qed (auto simp: keeps_def scanner_results_are_def commit_def runtime_get_apply runtime_review_policy_apply
    check_gate_apply set_human_review_result_apply)

lemma keeps_scanner_results_stage:
  "(\<And>D. scanner_results (f D) = scanner_results D) \<Longrightarrow> keeps (scanner_results_are rs) (stage f)"
  by (simp add: keeps_def scanner_results_are_def)

lemma keeps_scanner_results_publish: "keeps (scanner_results_are rs) (publish_plugin_version env pid vid rv)"
  unfolding publish_plugin_version_def commit_and_refresh_def
  by (intro keeps_intros keeps_scanner_results_stage) simp_all

lemma keeps_scanner_results_auto: "keeps (scanner_results_are rs) (try_auto_publish_after_scan env vid)"
proof -
  show ?thesis
    unfolding try_auto_publish_after_scan_def Let_def
    by (intro keeps_intros keeps_scanner_results_publish)
qed

lemma keeps_scanner_results_tail: "keeps (scanner_results_are rs) (scan_tail env vid pos)"
  unfolding scan_tail_def enqueue_task_def create_worker_task_def runtime_task_max_attempts_def Let_def
  by (intro keeps_intros keeps_scanner_results_auto keeps_scanner_results_stage) simp_all

lemma keeps_world_ok_tail: "keeps world_ok (scan_tail env vid pos)"
proof -
  have g: "keeps world_ok (runtime_int env k i)" "keeps world_ok (runtime_bool env k b)"
    "keeps world_ok (runtime_scan_enabled_providers env)" for k i b
    by (simp_all add: keeps_def runtime_get_apply runtime_scan_enabled_providers_apply)
  show ?thesis
    unfolding scan_tail_def try_auto_publish_after_scan_def publish_plugin_version_def check_gate_def
      set_human_review_result_def runtime_review_policy_def Let_def
    by (intro keeps_intros g keeps_world_ok_basic)
qed

text \<open>A scan that returns has committed an outcome of every provider that was asked for.\<close>

lemma scan_version_committed:
  assumes "scan_version env vid lp providers w = (Inr x, u)"
  obtains v sel pos where "get_version vid (sess w) = Some v"
    "set sel = (case providers of None \<Rightarrow> set (enabled_providers env w) | Some ps \<Rightarrow> set ps)"
    "outcomes_of env w v lp sel pos" "db_ok (scanned_db env vid v pos (sess w))"
    "scanner_results (committed u) = scanner_results (scanned_db env vid v pos (sess w))" "results_ok (committed u)"
proof -
  from assms obtain pos a b where run: "scan_outcomes env vid lp providers w = (Inr pos, a)"
    and c: "commit a = (Inr (), b)" and tail: "scan_tail env vid pos b = (Inr x, u)"
    unfolding scan_version_split by (auto simp: bind_op_eq_Inr_iff)
  from run obtain v sel where v: "get_version vid (sess w) = Some v"
    "set sel = (case providers of None \<Rightarrow> set (enabled_providers env w) | Some ps \<Rightarrow> set ps)"
    "outcomes_of env w v lp sel pos" "sess a = scanned_db env vid v pos (sess w)"
    by (rule scan_outcomes_result)
  let ?rs = "scanner_results (sess a)"
  have "scanner_results_are ?rs b" "db_ok (sess a)" using c by (auto simp: commit_Inr_iff scanner_results_are_def)
  moreover have "world_ok b" using c by (auto simp: commit_Inr_iff world_ok_def)
  then have "results_ok (committed u)"
    using keepsD[OF keeps_world_ok_tail _ tail] by (simp add: world_ok_def db_ok_def)
  ultimately show ?thesis
    using keepsD[OF keeps_scanner_results_tail _ tail, of ?rs]
    by (auto intro!: that[OF v(1-3)] simp: scanner_results_are_def v(4))
qed

section \<open>Scans keep the registry invariant\<close>

text \<open>The rows of a version have their artifact, in the session and in what is committed.\<close>

definition built_rows :: "uuid \<Rightarrow> db \<Rightarrow> bool" where
  "built_rows vid D \<longleftrightarrow> (\<forall>u \<in> set (versions D). v_id u = vid \<longrightarrow> artifact_present u)"

definition scan_inv :: "bool \<Rightarrow> uuid \<Rightarrow> world \<Rightarrow> bool" where
  "scan_inv b vid w \<longleftrightarrow> reg_inv w \<and> (b \<longrightarrow> built_rows vid (sess w) \<and> built_rows vid (committed w))"

lemma has_artifact_present: "has_artifact v \<Longrightarrow> artifact_present v"
  by (auto simp: has_artifact_def artifact_present_def truthy_def split: option.splits)

lemma built_rows_edit:
  assumes "\<And>v. v_id (f v) = v_id v \<and> v_s3_key (f v) = v_s3_key v \<and> v_download_url (f v) = v_download_url v"
    "built_rows vid D"
  shows "built_rows vid (edit_version i f D)"
proof -
  have "artifact_present (f v) = artifact_present v" for v using assms(1)[of v] by (simp add: artifact_present_def)
  with assms show ?thesis by (fastforce simp: built_rows_def edit_version_def rows_update_def)
qed

lemma built_rows_version:
  assumes "db_ok D" "get_version vid D = Some v" "can_mark_build_scanning v"
  shows "built_rows vid D"
proof -
  have v: "v \<in> set (versions D)" "v_id v = vid" using assms(2) by (auto simp: get_version_def dest: row_get_SomeD)
  have a: "artifact_present v"
    using assms(3) by (auto simp: can_mark_build_scanning_def has_artifact_present split: if_splits)
  have "u = v" if "u \<in> set (versions D)" "v_id u = vid" for u
    using version_unique[OF assms(1) that(1) v(1)] that(2) v(2) by simp
  with a show ?thesis by (auto simp: built_rows_def)
qed

lemma scan_inv_stage:
  assumes "\<And>D. versions (f D) = versions D" "\<And>D. plugins (f D) = plugins D"
  shows "keeps (scan_inv b vid) (stage f)"
  using assms soft_same[of "f D" D for D] by (auto simp: keeps_def scan_inv_def reg_inv_def built_rows_def)

lemma edit_scan_fields [simp]:
  "versions (edit_scan vid f D) = versions D" "plugins (edit_scan vid f D) = plugins D"
  "versions (edit_result env vid p g D) = versions D" "plugins (edit_result env vid p g D) = plugins D"
  "versions (touch_scanned_at env vid D) = versions D" "plugins (touch_scanned_at env vid D) = plugins D"
  by (simp_all add: edit_scan_def edit_result_def touch_scanned_at_def)

lemma keeps_scan_inv_commit [keeps_intros]: "keeps (scan_inv b vid) commit"
  by (auto simp: keeps_def scan_inv_def reg_inv_def commit_def)

lemma keeps_scan_inv_scanning: "b \<Longrightarrow> keeps (scan_inv b vid) (stage (edit_version vid (\<lambda>v. v\<lparr>v_build_status := BScanning\<rparr>)))"
proof (rule keepsI)
  fix w assume b: b and w: "scan_inv b vid w"
  have soft: "registry_soft (edit_version vid (\<lambda>v. v\<lparr>v_build_status := BScanning\<rparr>) (sess w))"
    using w b unfolding edit_version_def rows_update_def scan_inv_def reg_inv_def built_rows_def
    by (intro soft_edit_versions) (auto simp: artifact_present_def)
  have "built_rows vid (edit_version vid (\<lambda>v. v\<lparr>v_build_status := BScanning\<rparr>) (sess w))"
    using w b by (auto simp: scan_inv_def intro: built_rows_edit)
  with soft w show "scan_inv b vid (snd (stage (edit_version vid (\<lambda>v. v\<lparr>v_build_status := BScanning\<rparr>)) w))"
    by (simp add: scan_inv_def reg_inv_def)
qed

lemma keeps_reg_inv_built: "keeps reg_inv (stage (mark_built vid st))"
  unfolding mark_built_def edit_version_def rows_update_def
  by (rule keeps_reg_inv_stage, rule soft_edit_versions)
     (auto dest: has_artifact_present simp: artifact_present_def)

lemma keeps_scan_inv_built: "keeps (scan_inv b vid) (stage (mark_built vid st))"
proof (rule keepsI)
  fix w assume w: "scan_inv b vid w"
  have "reg_inv (snd (stage (mark_built vid st) w))"
    using keeps_reg_inv_built w by (auto simp: keeps_def scan_inv_def)
  moreover have "built_rows vid (sess w) \<Longrightarrow> built_rows vid (mark_built vid st (sess w))"
    unfolding mark_built_def by (rule built_rows_edit) auto
  ultimately show "scan_inv b vid (snd (stage (mark_built vid st) w))" using w by (simp add: scan_inv_def)
qed

lemma keeps_scan_inv_marks [keeps_intros]:
  "keeps (scan_inv b vid) (foreach (record_outcome env v1) pos)"
  "keeps (scan_inv b vid) (foreach (mark_provider env v1 oc) ps)"
  "keeps (scan_inv b vid) (stage (touch_scanned_at env v1))"
proof -
  have "keeps (scan_inv b vid) (record_outcome env v1 po)" for po
    using scan_inv_stage[of "record_db env v1 po" b vid]
    by (cases po) (simp add: keeps_def record_outcome_apply record_db_def)
  then show "keeps (scan_inv b vid) (foreach (record_outcome env v1) pos)" by (rule keeps_foreach)
  have "keeps (scan_inv b vid) (mark_provider env v1 oc p)" for p
    using scan_inv_stage[of "mark_db env v1 oc p" b vid]
    by (simp add: keeps_def mark_provider_apply mark_db_def)
  then show "keeps (scan_inv b vid) (foreach (mark_provider env v1 oc) ps)" by (rule keeps_foreach)
  show "keeps (scan_inv b vid) (stage (touch_scanned_at env v1))" by (rule scan_inv_stage) simp_all
qed

lemma keeps_scan_inv_config:
  assumes "reads_at_most env m"
  shows "keeps (scan_inv b vid) m"
proof (rule keepsI)
  fix w assume "scan_inv b vid w"
  then show "scan_inv b vid (snd (m w))"
    using assms unfolding reads_at_most_def by (metis (mono_tags, lifting) fill_config_fields(1,2) reg_inv_fill scan_inv_def)
qed

lemma keeps_scan_selected:
  assumes fill: "\<And>w. I w \<Longrightarrow> I (fill_config env w)"
  shows "keeps I (scan_selected_providers env v sel d lp)" "keeps I (selected_scan_providers env providers)"
    "keeps I (runtime_scan_defaults env)"
proof -
  have "keeps I (plan_scans env v sel d lp ps acc)" for ps acc
  proof (induction ps arbitrary: acc)
    case (Cons p ps)
    obtain a b where acc: "acc = (a, b)" by (cases acc)
    have l: "keeps I (sp_load_config q env)" if "registry_get scan_registry p = Some q" for q
      using load_config_apply[OF that] fill by (simp add: keeps_def)
    show ?case unfolding acc plan_scans.simps by (intro keeps_intros Cons.IH l)
  qed (simp add: keeps_ret)
  then show "keeps I (scan_selected_providers env v sel d lp)"
    unfolding scan_selected_providers_def by (intro keeps_intros)
  show "keeps I (selected_scan_providers env providers)"
    using fill by (auto simp: keeps_def selected_apply split: option.splits)
  show "keeps I (runtime_scan_defaults env)"
    using fill by (simp add: keeps_def runtime_scan_defaults_apply)
qed

lemma scan_inv_fill: "scan_inv b vid w \<Longrightarrow> scan_inv b vid (fill_config env w)"
  by (simp add: scan_inv_def)

text \<open>Opening the scan row of a settled state.\<close>

lemma scan_inv_opened:
  assumes "settled w" "get_version vid (sess w) = Some v"
  shows "scan_inv (can_mark_build_scanning v) vid (w\<lparr>sess := scan_db env vid (sess w)\<rparr>)"
proof -
  have "db_ok (sess w)" using assms(1) by (simp add: settled_def inv_db_def)
  from built_rows_version[OF this assms(2)] assms(1) soft_same[of "scan_db env vid (sess w)" "sess w"]
  show ?thesis by (auto simp: scan_inv_def settled_def reg_inv_def inv_db_def built_rows_def)
qed

lemma keeps_bind_weaken:
  assumes "keeps I m" "\<And>w. I w \<Longrightarrow> J w" "\<And>x. keeps J (f x)" "I w"
  shows "J (snd (bind_op m f w))"
  using assms by (cases rule: bind_op_cases[of m w f]) (metis keeps_def snd_conv)+

lemma after_get_or_create:
  assumes "settled w" "\<And>v s. keeps (scan_inv (can_mark_build_scanning v) vid) (f (v, s))"
  shows "reg_inv (snd (bind_op (get_or_create_scan env vid) f w))"
proof (cases "get_version vid (sess w)")
  case None
  with assms(1) show ?thesis by (simp add: bind_op_def get_or_create_scan_apply settled_reg_inv)
next
  case (Some v)
  with assms(2) scan_inv_opened[OF assms(1) Some, of env] show ?thesis
    by (simp add: bind_op_def get_or_create_scan_apply) (metis keeps_def scan_inv_def)
qed

text \<open>What follows the commit of a scan starts and ends settled.\<close>

lemma keeps_settled_tail_parts:
  "keeps settled (create_worker_task env tt p i m d)" "keeps settled (enqueue_task env tt p b d)"
  "keeps settled (try_auto_publish_after_scan env vid)"
proof -
  show c: "keeps settled (create_worker_task env tt p i m d)" for tt p i m d
  proof (rule keepsI)
    fix w assume "settled w"
    then have "reg_inv (w\<lparr>sess := (sess w)\<lparr>tasks := ts\<rparr>\<rparr>)" for ts
      by (simp add: settled_def reg_inv_def inv_db_def)
    then have "settled (snd (commit (w\<lparr>sess := (sess w)\<lparr>tasks := ts\<rparr>\<rparr>)))" for ts by (rule settled_commit)
    then show "settled (snd (create_worker_task env tt p i m d w))"
      by (auto simp: create_worker_task_def bind_eval Let_def bind_op_def[of commit] split: prod.splits sum.splits)
        (metis snd_conv)+
  qed
  show "keeps settled (enqueue_task env tt p b d)"
    unfolding enqueue_task_def runtime_task_max_attempts_def by (intro keeps_intros c)
  show "keeps settled (try_auto_publish_after_scan env vid)"
    unfolding try_auto_publish_after_scan_def Let_def by (intro keeps_intros keeps_settled_publish)
qed

lemma reg_inv_after_commit:
  assumes "reg_inv (snd (m w))" "\<And>x. keeps settled (f x)"
  shows "reg_inv (snd (bind_op m (\<lambda>x. bind_op commit (\<lambda>_. f x)) w))"
proof (cases rule: bind_op_cases[of m w "\<lambda>x. bind_op commit (\<lambda>_. f x)"])
  case (Inr x v)
  have "settled (snd (commit v))" using assms(1) Inr(1) by (simp add: settled_commit)
  then have "settled (snd (bind_op commit (\<lambda>_. f x) v))"
    using assms(2)[of x] by (cases rule: bind_op_cases[of commit v "\<lambda>_. f x"]) (metis keeps_def snd_conv)+
  with Inr show ?thesis by (simp add: settled_reg_inv)
qed (use assms in simp)

lemma keeps_settled_tail: "keeps settled (scan_tail env vid pos)"
  unfolding scan_tail_def by (intro keeps_intros keeps_settled_tail_parts)

lemma scan_version_inv:
  assumes "settled w"
  shows "reg_inv (snd (scan_version env vid lp providers w))"
  unfolding scan_version_split
proof (rule reg_inv_after_commit[OF _ keeps_settled_tail])
  let ?rest = "\<lambda>selected. \<lambda>(v, _ :: scan). bind_op (when_op (can_mark_build_scanning v)
       (bind_op (stage (edit_version vid (\<lambda>v. v\<lparr>v_build_status := BScanning\<rparr>))) (\<lambda>_. commit))) (\<lambda>_.
     bind_op (runtime_scan_defaults env) (\<lambda>defaults.
     bind_op (scan_selected_providers env v selected defaults lp) (\<lambda>outcomes.
     bind_op (foreach (record_outcome env vid) outcomes) (\<lambda>_.
     bind_op (stage (touch_scanned_at env vid)) (\<lambda>_.
     bind_op (stage (mark_built vid
       (if list_ex (\<lambda>(p, oc). o_mode oc = MPending) outcomes then BScanning else BSuccess))) (\<lambda>_.
     ret outcomes))))))"
  have k: "keeps (scan_inv (can_mark_build_scanning v) vid) (?rest sel (v, s))" for sel v s
    unfolding prod.case
    by (intro keeps_intros keeps_scan_inv_scanning keeps_scan_selected scan_inv_fill keeps_scan_inv_built)
  have s: "keeps settled (selected_scan_providers env providers)" by (rule keeps_scan_selected) simp
  show "reg_inv (snd (scan_outcomes env vid lp providers w))"
  proof (cases rule: bind_op_cases[of "selected_scan_providers env providers" w
      "\<lambda>sel. bind_op (get_or_create_scan env vid) (?rest sel)"])
    case (Inl e v)
    then show ?thesis using settled_reg_inv[OF keepsD[OF s assms Inl(1)]] by (simp add: scan_outcomes_def)
  next
    case (Inr sel v)
    from after_get_or_create[OF keepsD[OF s assms Inr(1)] k] show ?thesis
      unfolding scan_outcomes_def Inr(2) .
  qed
qed

lemma reg_inv_of_settled: "keeps settled m \<Longrightarrow> settled w \<Longrightarrow> reg_inv (snd (m w))"
  using settled_reg_inv by (auto simp: keeps_def)

lemma mark_scan_inv:
  assumes "settled w"
  shows "reg_inv (snd (mark_scan_pending env vid providers w))"
    and "reg_inv (snd (mark_scan_skipped env vid providers w))"
proof -
  have tail: "keeps settled (bind_op (refresh_cache env) (\<lambda>_. query (get_scan vid)))"
    by (intro keeps_intros)
  have refresh: "keeps (scan_inv b vid) (refresh_cache env)" for b
  proof (rule keepsI)
    fix w assume "scan_inv b vid w"
    then show "scan_inv b vid (snd (refresh_cache env w))"
      by (cases "refresh_cache env w") (simp add: scan_inv_def reg_inv_def refresh_cache_db)
  qed
  show "reg_inv (snd (mark_scan_pending env vid providers w))"
    unfolding mark_scan_pending_def
    by (rule after_get_or_create[OF assms], unfold prod.case)
       (intro keeps_intros keeps_scan_inv_scanning keeps_scan_selected scan_inv_fill refresh; assumption)
  show "reg_inv (snd (mark_scan_skipped env vid providers w))"
    unfolding mark_scan_skipped_def
    by (rule after_get_or_create[OF assms])
       (intro keeps_intros keeps_scan_inv_built keeps_scan_selected scan_inv_fill refresh)
qed

text \<open>A poll keeps the invariant too: it changes rows, commits, and goes on from the settled state.\<close>

lemma keeps_commit_then: "keeps settled f \<Longrightarrow> keeps reg_inv (bind_op commit (\<lambda>_. f))"
proof (rule keepsI)
  fix w assume f: "keeps settled f" and w: "reg_inv w"
  show "reg_inv (snd (bind_op commit (\<lambda>_. f) w))"
    using settled_commit[OF w] f
    by (cases rule: bind_op_cases[of commit w "\<lambda>_. f"]) (metis keeps_def settled_reg_inv snd_conv)+
qed

lemma keeps_reg_inv_same:
  "(\<And>D. versions (f D) = versions D) \<Longrightarrow> (\<And>D. plugins (f D) = plugins D) \<Longrightarrow> keeps reg_inv (stage f)"
  using soft_same[of "f D" D for D] by (intro keeps_reg_inv_stage) auto

lemma keeps_reg_inv_tracking:
  "keeps reg_inv (stage (apply_provider_tracking vid p oc))" "keeps reg_inv (stage (clear_provider_tracking vid p))"
  "keeps reg_inv (stage (touch_scanned_at env vid))"
  by (rule keeps_reg_inv_same; simp)+

lemma reg_inv_outcome: "reg_inv w \<Longrightarrow> reg_inv (w\<lparr>sess := outcome_db env vid p oc (sess w)\<rparr>)"
  using soft_same[of "outcome_db env vid p oc (sess w)" "sess w"] by (simp add: reg_inv_def)

lemma keeps_complete_outcome: "keeps reg_inv (complete_provider_outcome env vid p oc)"
proof (rule keepsI)
  fix w assume "reg_inv w"
  then have w: "reg_inv (w\<lparr>sess := outcome_db env vid p oc (sess w)\<rparr>)" by (rule reg_inv_outcome)
  have "keeps settled (bind_op (refresh_cache env) (\<lambda>_.
     bind_op (when_op (o_mode oc \<noteq> MPending)
       (bind_op (try_auto_publish_after_scan env vid) (\<lambda>_. ret ()))) (\<lambda>_. query (get_scan vid))))"
    by (intro keeps_intros keeps_settled_tail_parts)
  note tail = keeps_commit_then[OF this]
  have k: "keeps reg_inv (stage (if o_mode oc = MPending then apply_provider_tracking vid p oc else clear_provider_tracking vid p))"
    by (simp add: keeps_reg_inv_tracking)
  have "keeps reg_inv (bind_op (stage (if o_mode oc = MPending then apply_provider_tracking vid p oc
        else clear_provider_tracking vid p)) (\<lambda>_.
     bind_op (stage (touch_scanned_at env vid)) (\<lambda>_.
     bind_op (stage (mark_built vid (if o_mode oc = MPending then BScanning else BSuccess))) (\<lambda>_.
     bind_op commit (\<lambda>_.
     bind_op (refresh_cache env) (\<lambda>_.
     bind_op (when_op (o_mode oc \<noteq> MPending)
       (bind_op (try_auto_publish_after_scan env vid) (\<lambda>_. ret ()))) (\<lambda>_. query (get_scan vid))))))))"
    by (rule keeps_bind_op[OF k], rule keeps_bind_op[OF keeps_reg_inv_tracking(3)],
        rule keeps_bind_op[OF keeps_reg_inv_built], rule tail)
  then show "reg_inv (snd (complete_provider_outcome env vid p oc w))"
    unfolding complete_provider_outcome_def bind_outcome keeps_def using w by blast
qed

lemma keeps_store_poll: "keeps reg_inv (store_poll_outcome env vid oc)"
proof -
  have legacy: "keeps reg_inv (set_legacy vid ''virustotal'' (o_passed oc) (o_message oc) (o_mode oc))"
    using keeps_reg_inv_same[of "legacy_db vid ''virustotal'' oc"] by (simp add: keeps_def set_legacy_apply)
  have edit: "keeps reg_inv (stage (edit_result env vid p f))" for p f by (rule keeps_reg_inv_same) simp_all
  have enqueue: "keeps settled (case o_next_poll_at oc of
         Some t \<Rightarrow>
           if o_mode oc = MPending then
             bind_op (enqueue_task env ''virustotal_poll'' (poll_payload vid) True (seconds_until env t)) (\<lambda>_. ret ())
           else ret ()
       | None \<Rightarrow> ret ())"
    by (intro keeps_intros keeps_settled_tail_parts)
  show ?thesis
    unfolding store_poll_outcome_def
    by (rule keeps_bind_op[OF legacy], rule keeps_bind_op[OF edit], rule keeps_bind_op[OF keeps_reg_inv_tracking(1)],
        rule keeps_bind_op[OF keeps_reg_inv_tracking(3)], rule keeps_bind_op[OF keeps_reg_inv_built],
        rule keeps_commit_then, rule keeps_bind_op[OF enqueue])
       (intro keeps_intros keeps_settled_tail_parts)
qed

lemma keeps_reg_inv_poll: "keeps reg_inv (poll_virustotal_analysis env vid)"
proof -
  have 1: "keeps reg_inv (get_or_create_scan env vid)"
  proof (rule keepsI)
    fix w assume "reg_inv w"
    then show "reg_inv (snd (get_or_create_scan env vid w))"
      using soft_same[of "scan_db env vid (sess w)" "sess w"]
      by (auto simp: get_or_create_scan_apply reg_inv_def split: option.splits)
  qed
  have 2: "keeps reg_inv (get_or_create_provider_result env vid p)" for p
  proof (rule keepsI)
    fix w assume "reg_inv w"
    then show "reg_inv (snd (get_or_create_provider_result env vid p w))"
      using soft_same[of "ensure_result env vid p (sess w)" "sess w"]
      by (auto simp: get_or_create_provider_result_apply reg_inv_def ensure_result_def split: option.splits)
  qed
  have 3: "keeps reg_inv (runtime_scan_enabled_providers env)" "keeps reg_inv (runtime_scan_defaults env)"
    by (simp_all add: keeps_def runtime_scan_enabled_providers_apply runtime_scan_defaults_apply)
  have 4: "keeps reg_inv (runtime_virustotal_config env)"
    using reads_provider_configs(2)[of env] by (simp add: keeps_def reads_config_def)
  show ?thesis
    unfolding poll_virustotal_analysis_def poll_analysis_def poll_configured_def[abs_def]
    by (intro keeps_intros 1 2 3 4 keeps_complete_outcome keeps_store_poll)
qed

section \<open>Properties\<close>

text \<open>C9 (functional). A scan that returns has committed, for every provider that was asked for, the outcome
  that this provider gives: that of its own scan when it is configured, the default verdict when it is
  not. The gate of the version for these providers is then open exactly when every outcome passed or
  was skipped.\<close>

theorem scan_version_records_outcomes:
  assumes "scan_version env vid lp providers w = (Inr x, u)"
  shows "\<exists>v oc. get_version vid (sess w) = Some v
    \<and> (\<forall>p \<in> (case providers of None \<Rightarrow> set (enabled_providers env w) | Some ps \<Rightarrow> set ps).
        provider_outcome env w v lp p = Inr (oc p) \<and> shows_outcome vid p (oc p) (committed u))
    \<and> (\<forall>ps v'. set ps \<subseteq> (case providers of None \<Rightarrow> set (enabled_providers env w) | Some ps \<Rightarrow> set ps) \<and> v_id v' = vid \<longrightarrow>
        scan_passed (load_view (committed u) v') (Some ps) = (\<forall>p \<in> set ps. outcome_passes (oc p)))"
proof -
  from assms obtain v sel pos where v: "get_version vid (sess w) = Some v"
    and sel: "set sel = (case providers of None \<Rightarrow> set (enabled_providers env w) | Some ps \<Rightarrow> set ps)"
    and oc: "outcomes_of env w v lp sel pos"
    and same: "scanner_results (committed u) = scanner_results (scanned_db env vid v pos (sess w))"
    and ok: "results_ok (committed u)"
    by (rule scan_version_committed)
  define f where "f p = the (map_of pos p)" for p
  have d: "distinct (map fst pos)" "fst ` set pos = set sel" using oc unfolding outcomes_of_def by simp_all
  have f: "(p, f p) \<in> set pos" if "p \<in> set sel" for p
  proof -
    have "p \<in> fst ` set pos" using that unfolding d(2) .
    then obtain y where y: "(p, y) \<in> set pos" by (metis imageE prod.collapse)
    with d(1) have "map_of pos p = Some y" by (rule map_of_is_SomeI)
    with y show ?thesis by (simp add: f_def)
  qed
  have names: "p \<noteq> ''human''" if "p \<in> set sel" for p
  proof -
    have "provider_outcome env w v lp p = Inr (f p)" using f[OF that] oc unfolding outcomes_of_def by blast
    then have "registry_get scan_registry p \<noteq> None"
      by (cases "registry_get scan_registry p") (simp_all add: provider_outcome_def)
    then show ?thesis by (auto simp: registry_get_def scan_registry_eq)
  qed
  have shown: "shows_outcome vid p (f p) (committed u)" if p: "p \<in> set sel" for p
  proof -
    have "get_result vid p (committed u) = get_result vid p (scanned_db env vid v pos (sess w))"
      unfolding get_result_scanner[OF names[OF p]] same ..
    also have "\<dots> = get_result vid p (fold (record_db env vid) pos (start_db env vid v (sess w)))"
      by (simp add: scanned_db_def get_result_def mark_built_def edit_version_def touch_scanned_at_def edit_scan_def)
    finally show ?thesis using shows_outcome_record[OF d(1) f[OF p]] by (simp add: shows_outcome_def)
  qed
  show ?thesis
    unfolding sel[symmetric]
  proof (intro exI[of _ v] exI[of _ f] conjI allI impI ballI)
    fix p assume "p \<in> set sel"
    then show "provider_outcome env w v lp p = Inr (f p)" "shows_outcome vid p (f p) (committed u)"
      using f oc shown unfolding outcomes_of_def by blast+
  next
    fix ps and v' :: version assume "set ps \<subseteq> set sel \<and> v_id v' = vid"
    then show "scan_passed (load_view (committed u) v') (Some ps) = (\<forall>p \<in> set ps. outcome_passes (f p))"
      using shown by (intro gate_of_outcomes[OF ok]) auto
  qed (rule v)
qed

theorem scan_version_records_outcomes_witness:
  "\<exists>x u. scan_version sample_env ''v1'' None (Some [''virustotal'']) (sample_world sample_db None) = (Inr x, u)
    \<and> scan_passed (load_view (committed u) sample_version) (Some [''virustotal''])"
proof -
  have "\<not> isl (fst (scan_version sample_env ''v1'' None (Some [''virustotal'']) (sample_world sample_db None)))"
    by code_simp
  then obtain x u where run: "scan_version sample_env ''v1'' None (Some [''virustotal'']) (sample_world sample_db None) = (Inr x, u)"
    by (metis isl_def old.sum.exhaust prod.collapse)
  from scan_version_records_outcomes[OF run] obtain oc where
    oc: "provider_outcome sample_env (sample_world sample_db None) sample_version None ''virustotal'' = Inr (oc ''virustotal'')"
    and gate: "scan_passed (load_view (committed u) sample_version) (Some [''virustotal'']) = outcome_passes (oc ''virustotal'')"
    by (auto simp: sample_version_def)
  have "case provider_outcome sample_env (sample_world sample_db None) sample_version None ''virustotal'' of
      Inr x \<Rightarrow> outcome_passes x | Inl e \<Rightarrow> False"
    by code_simp
  with oc gate run show ?thesis by auto
qed

text \<open>Up to its commit, a scan of a version that may not be marked as scanning commits nothing.\<close>

lemma scan_outcomes_frame:
  assumes "get_version vid (sess w) = Some v" "\<not> can_mark_build_scanning v"
  shows "committed (snd (scan_outcomes env vid lp providers w)) = committed w"
proof -
  let ?I = "\<lambda>u. committed u = committed w"
  have sc: "keeps ?I (scan_selected_providers env v selected d lp)" "keeps ?I (runtime_scan_defaults env)" for selected d
    by (rule keeps_scan_selected; simp)+
  have st: "keeps ?I (stage f)" for f by (simp add: keeps_def)
  have rec: "keeps ?I (foreach (record_outcome env vid) pos)" for pos by (simp add: keeps_def foreach_record_apply)
  have rest: "keeps ?I (bind_op (runtime_scan_defaults env) (\<lambda>defaults.
     bind_op (scan_selected_providers env v selected defaults lp) (\<lambda>outcomes.
     bind_op (foreach (record_outcome env vid) outcomes) (\<lambda>_.
     bind_op (stage (touch_scanned_at env vid)) (\<lambda>_.
     bind_op (stage (mark_built vid
       (if list_ex (\<lambda>(p, oc). o_mode oc = MPending) outcomes then BScanning else BSuccess))) (\<lambda>_.
     ret outcomes))))))" for selected
    by (intro keeps_intros sc rec st)
  obtain r u where sel: "selected_scan_providers env providers w = (r, u)" by (cases "selected_scan_providers env providers w")
  then have u: "committed u = committed w" "sess u = sess w" by (auto simp: selected_apply split: option.splits)
  show ?thesis
  proof (cases r)
    case (Inl e)
    with sel u show ?thesis by (simp add: scan_outcomes_def)
  next
    case (Inr selected)
    let ?u = "u\<lparr>sess := scan_db env vid (sess u)\<rparr>"
    have "scan_outcomes env vid lp providers w = bind_op (runtime_scan_defaults env) (\<lambda>defaults.
     bind_op (scan_selected_providers env v selected defaults lp) (\<lambda>outcomes.
     bind_op (foreach (record_outcome env vid) outcomes) (\<lambda>_.
     bind_op (stage (touch_scanned_at env vid)) (\<lambda>_.
     bind_op (stage (mark_built vid
       (if list_ex (\<lambda>(p, oc). o_mode oc = MPending) outcomes then BScanning else BSuccess))) (\<lambda>_.
     ret outcomes))))) ?u"
      using sel Inr assms u
      by (simp add: scan_outcomes_def bind_op_def[of "get_or_create_scan e i" for e i] get_or_create_scan_apply
          bind_op_def[of "when_op b m" for b m])
    with rest[of selected] u show ?thesis by (simp add: keeps_def)
  qed
qed

text \<open>Scanning a published latest version again while a provider answers that its analysis is pending
  never succeeds: the version would become latest and scanning, which the constraints forbid. Nothing
  of the scan is committed.\<close>

theorem scan_of_latest_with_pending_outcome_fails:
  assumes "get_version vid (sess w) = Some v" "v_is_latest v" "v_version_status v = VActive" "has_artifact v"
    and "p \<in> (case providers of None \<Rightarrow> set (enabled_providers env w) | Some ps \<Rightarrow> set ps)"
    and "provider_outcome env w v lp p = Inr oc" "o_mode oc = MPending"
  shows "isl (fst (scan_version env vid lp providers w))
    \<and> committed (snd (scan_version env vid lp providers w)) = committed w"
proof -
  have bad: "\<not> db_ok (scanned_db env vid v' pos (sess w))"
    if v': "get_version vid (sess w) = Some v'"
      and sel: "set sel = (case providers of None \<Rightarrow> set (enabled_providers env w) | Some ps \<Rightarrow> set ps)"
      and oc: "outcomes_of env w v' lp sel pos" for v' sel pos
  proof
    assume ok: "db_ok (scanned_db env vid v' pos (sess w))"
    have vv: "v' = v" using v' assms(1) by simp
    have can: "\<not> can_mark_build_scanning v" using assms(2,3) by (simp add: can_mark_build_scanning_def)
    have "p \<in> fst ` set pos" using oc assms(5) sel by (auto simp: outcomes_of_def)
    then obtain oc' where o: "(p, oc') \<in> set pos" by (metis imageE prod.collapse)
    with oc vv assms(6) have "oc' = oc" unfolding outcomes_of_def by fastforce
    with o assms(7) have pend: "list_ex (\<lambda>(p, oc). o_mode oc = MPending) pos" by (auto simp: list_ex_iff)
    have "v \<in> set (versions (sess w))" "v_id v = vid" using assms(1) by (auto simp: get_version_def dest: row_get_SomeD)
    then have "v\<lparr>v_build_status := BScanning\<rparr> \<in> set (versions (scanned_db env vid v' pos (sess w)))"
      using can vv pend assms(4)
      by (auto simp: scanned_db_def mark_built_def edit_version_def set_rows_update start_db_def image_iff)
    from version_row_of[OF ok this] assms(2) show False by (simp add: latest_ok_def)
  qed
  obtain r u where run: "scan_version env vid lp providers w = (r, u)" by (cases "scan_version env vid lp providers w")
  have "isl r"
  proof (cases r)
    case (Inr x)
    from scan_version_committed[OF run[unfolded Inr]] bad show ?thesis by metis
  qed simp
  moreover have "committed u = committed w"
  proof -
    have can: "\<not> can_mark_build_scanning v" using assms(2,3) by (simp add: can_mark_build_scanning_def)
    obtain q a where so: "scan_outcomes env vid lp providers w = (q, a)" by (cases "scan_outcomes env vid lp providers w")
    have ca: "committed a = committed w" using scan_outcomes_frame[OF assms(1) can] so by (metis snd_conv)
    show ?thesis
    proof (cases q)
      case (Inl e)
      with so run ca show ?thesis by (simp add: scan_version_split)
    next
      case (Inr pos)
      with so have "\<not> db_ok (sess a)" using bad by (auto elim!: scan_outcomes_result)
      with so Inr run ca show ?thesis by (auto simp: scan_version_split commit_bad)
    qed
  qed
  ultimately show ?thesis by (simp add: run)
qed

definition sample_vt_env :: env where
  "sample_vt_env = sample_env\<lparr>e_settings := default_settings\<lparr>virustotal_api_key := ''key''\<rparr>\<rparr>"

theorem scan_of_latest_with_pending_outcome_fails_witness:
  "isl (fst (scan_version sample_vt_env ''v1'' None (Some [''virustotal'']) (sample_world sample_published None)))"
proof -
  let ?v = "sample_version\<lparr>v_version_status := VActive, v_is_latest := True\<rparr>"
  have "case provider_outcome sample_vt_env (sample_world sample_published None) ?v None ''virustotal'' of
      Inr x \<Rightarrow> o_mode x = MPending | Inl e \<Rightarrow> False"
    by code_simp
  then obtain oc where "provider_outcome sample_vt_env (sample_world sample_published None) ?v None ''virustotal'' = Inr oc"
    "o_mode oc = MPending"
    by (auto split: sum.splits)
  from scan_of_latest_with_pending_outcome_fails[OF _ _ _ _ _ this, of "''v1''" "Some [''virustotal'']"] show ?thesis
    by (simp add: has_artifact_def sample_version_def truthy_def)
qed

section \<open>Skipping\<close>

definition skipped_db :: "env \<Rightarrow> uuid \<Rightarrow> outcome \<Rightarrow> string list \<Rightarrow> db \<Rightarrow> db" where
  "skipped_db env vid oc sel D =
     mark_built vid BSuccess (touch_scanned_at env vid (fold (mark_db env vid oc) sel (scan_db env vid D)))"

lemma mark_scan_skipped_result:
  assumes "mark_scan_skipped env vid providers w = (Inr x, u)"
  obtains v sel where "get_version vid (sess w) = Some v"
    "set sel = (case providers of None \<Rightarrow> set (enabled_providers env w) | Some ps \<Rightarrow> set ps)"
    "committed u = skipped_db env vid (plain_outcome (Some (pass_when_unconfigured (scan_defaults_of env w)))
       ''Manually skipped'' MSkipped) sel (sess w)" "db_ok (committed u)"
proof -
  from assms obtain v where v: "get_version vid (sess w) = Some v"
    by (cases "get_version vid (sess w)") (auto simp: mark_scan_skipped_def bind_op_def get_or_create_scan_apply)
  let ?w = "w\<lparr>sess := scan_db env vid (sess w)\<rparr>"
  have rv: "runtime_values env ?w = runtime_values env w" by (rule runtime_values_sess) simp
  have d: "scan_defaults_of env ?w = scan_defaults_of env w" by (rule cfg_values(6)[OF rv])
  have e: "enabled_providers env (fill_config env ?w) = enabled_providers env w" by (rule cfg_values(5)) (simp add: rv)
  let ?oc = "plain_outcome (Some (pass_when_unconfigured (scan_defaults_of env w))) ''Manually skipped'' MSkipped"
  from assms v d obtain sel a b where sel: "selected_scan_providers env providers (fill_config env ?w) = (Inr sel, a)"
    and c: "commit (a\<lparr>sess := mark_built vid BSuccess (touch_scanned_at env vid (fold (mark_db env vid ?oc) sel (sess a)))\<rparr>) = (Inr (), b)"
    and r: "refresh_cache env b = (Inr (), u)"
    by (auto simp: mark_scan_skipped_def bind_op_eq_Inr_iff get_or_create_scan_apply runtime_scan_defaults_apply foreach_mark_apply)
  from selected_result[OF sel] e have s: "sess a = sess ?w"
    "set sel = (case providers of None \<Rightarrow> set (enabled_providers env w) | Some ps \<Rightarrow> set ps)"
    by (auto simp: same_config_def split: option.splits)
  show ?thesis
    using that[OF v s(2)] c refresh_cache_db(1)[OF r] s(1) by (simp add: commit_Inr_iff skipped_db_def)
qed

text \<open>Skipping the scan of a version that returns marks every provider asked for as skipped and, when the
  version has an artifact, turns its build status into success whatever it was before, so that its
  gate is open for these providers: a version whose build failed can be published this way.\<close>

theorem mark_scan_skipped_opens_gate:
  assumes "mark_scan_skipped env vid providers w = (Inr x, u)"
    and "set ps \<subseteq> (case providers of None \<Rightarrow> set (enabled_providers env w) | Some qs \<Rightarrow> set qs)"
  shows "\<exists>v. get_version vid (sess w) = Some v
    \<and> get_version vid (committed u) = Some (if has_artifact v then v\<lparr>v_build_status := BSuccess\<rparr> else v)
    \<and> (\<forall>v'. v_id v' = vid \<longrightarrow> scan_passed (load_view (committed u) v') (Some ps))
    \<and> (has_artifact v \<longrightarrow> build_ready_for_scan_policy (load_view (committed u) (v\<lparr>v_build_status := BSuccess\<rparr>)) (Some ps))"
proof -
  let ?oc = "plain_outcome (Some (pass_when_unconfigured (scan_defaults_of env w))) ''Manually skipped'' MSkipped"
  from assms(1) obtain v sel where v: "get_version vid (sess w) = Some v"
    and sel: "set sel = (case providers of None \<Rightarrow> set (enabled_providers env w) | Some ps \<Rightarrow> set ps)"
    and E: "committed u = skipped_db env vid ?oc sel (sess w)" and ok: "db_ok (committed u)"
    by (rule mark_scan_skipped_result)
  have "shows_outcome vid p ?oc (committed u)" if "p \<in> set ps" for p
  proof -
    have "get_result vid p (committed u) = get_result vid p (fold (mark_db env vid ?oc) sel (scan_db env vid (sess w)))"
      by (simp add: E skipped_db_def get_result_def mark_built_def edit_version_def touch_scanned_at_def edit_scan_def)
    moreover have "p \<in> set sel" using that assms(2) sel by auto
    ultimately show ?thesis using shows_outcome_mark[of p sel vid ?oc env] by (simp add: shows_outcome_def)
  qed
  then have gate: "scan_passed (load_view (committed u) v') (Some ps)" if "v_id v' = vid" for v'
    using that ok gate_of_outcomes[of "committed u" ps v' "\<lambda>_. ?oc"] by (simp add: db_ok_def outcome_passes_def)
  have "versions (committed u) = map (\<lambda>v. if v_id v = vid \<and> has_artifact v then v\<lparr>v_build_status := BSuccess\<rparr> else v) (versions (sess w))"
    by (simp add: E skipped_db_def mark_built_def edit_version_def rows_update_def if_distrib cong: if_cong)
  then have "get_version vid (committed u) = map_option (\<lambda>v. if v_id v = vid \<and> has_artifact v then v\<lparr>v_build_status := BSuccess\<rparr> else v)
      (get_version vid (sess w))"
    by (intro get_version_map) auto
  then have gv: "get_version vid (committed u) = Some (if has_artifact v then v\<lparr>v_build_status := BSuccess\<rparr> else v)"
    using v by (auto simp: get_version_def dest: row_get_SomeD)
  show ?thesis
    by (intro exI[of _ v] conjI allI impI v gv gate)
       (simp_all add: build_ready_for_scan_policy_def load_view_def)
qed

theorem mark_scan_skipped_opens_gate_witness:
  "\<exists>x u. mark_scan_skipped sample_env ''v1'' None (sample_world (sample_db\<lparr>versions := [sample_version\<lparr>v_build_status := BFailed\<rparr>]\<rparr>) None) = (Inr x, u)
    \<and> get_version ''v1'' (committed u) = Some (sample_version\<lparr>v_build_status := BSuccess\<rparr>)"
proof -
  let ?w = "sample_world (sample_db\<lparr>versions := [sample_version\<lparr>v_build_status := BFailed\<rparr>]\<rparr>) None"
  have "\<not> isl (fst (mark_scan_skipped sample_env ''v1'' None ?w))" by code_simp
  then obtain x u where run: "mark_scan_skipped sample_env ''v1'' None ?w = (Inr x, u)"
    by (metis isl_def old.sum.exhaust prod.collapse)
  have "get_version ''v1'' (sess ?w) = Some (sample_version\<lparr>v_build_status := BFailed\<rparr>)"
    "has_artifact (sample_version\<lparr>v_build_status := BFailed\<rparr>)"
    by (simp_all add: get_version_def sample_version_def has_artifact_def truthy_def)
  with mark_scan_skipped_opens_gate[OF run, of "[]"] run show ?thesis by auto
qed

section \<open>Polling\<close>

text \<open>What a poll stores, up to its commit, and what follows leaves the scanners' results alone.\<close>

lemma keeps_scanner_results_poll_tails:
  "keeps (scanner_results_are rs) (bind_op (refresh_cache env) (\<lambda>_. bind_op (when_op b
      (bind_op (try_auto_publish_after_scan env vid) (\<lambda>_. ret ()))) (\<lambda>_. query (get_scan vid))))"
  "keeps (scanner_results_are rs) (enqueue_task env tt p hb d)"
proof -
  show "keeps (scanner_results_are rs) (bind_op (refresh_cache env) (\<lambda>_. bind_op (when_op b
      (bind_op (try_auto_publish_after_scan env vid) (\<lambda>_. ret ()))) (\<lambda>_. query (get_scan vid))))"
    by (intro keeps_intros keeps_scanner_results_auto)
  show "keeps (scanner_results_are rs) (enqueue_task env tt p hb d)"
    unfolding enqueue_task_def create_worker_task_def runtime_task_max_attempts_def Let_def
    by (intro keeps_intros keeps_scanner_results_stage) simp_all
qed

lemma after_commit_results:
  assumes "bind_op commit (\<lambda>_. f) w = (Inr x, u)" "\<And>rs. keeps (scanner_results_are rs) f"
  shows "scanner_results (committed u) = scanner_results (sess w)"
proof -
  from assms(1) obtain v where v: "db_ok (sess w)" "v = w\<lparr>committed := sess w\<rparr>" "f v = (Inr x, u)"
    by (auto simp: bind_op_eq_Inr_iff commit_Inr_iff)
  then have "scanner_results_are (scanner_results (sess w)) v" by (simp add: scanner_results_are_def)
  from keepsD[OF assms(2) this v(3)] show ?thesis by (simp add: scanner_results_are_def)
qed

definition polled_row :: "env \<Rightarrow> outcome \<Rightarrow> provider_result \<Rightarrow> provider_result" where
  "polled_row env oc r = outcome_row env ''virustotal'' oc r"

lemma get_result_edits [simp]:
  "get_result i q (mark_built vid st D) = get_result i q D" "get_result i q (touch_scanned_at env vid D) = get_result i q D"
  "get_result i q (apply_provider_tracking vid p oc D) = get_result i q D"
  "get_result i q (clear_provider_tracking vid p D) = get_result i q D"
  "get_result i q (scan_db env vid D) = get_result i q D"
  "get_result i q (legacy_db vid p oc D) = get_result i q D"
  by (simp_all add: get_result_def mark_built_def edit_version_def touch_scanned_at_def edit_scan_def)

lemma get_result_committed:
  "scanner_results (committed u) = scanner_results D \<Longrightarrow> p \<noteq> ''human'' \<Longrightarrow> get_result vid p (committed u) = get_result vid p D"
  by (simp add: get_result_scanner)

lemma complete_outcome_row:
  assumes "complete_provider_outcome env vid ''virustotal'' oc w = (Inr x, u)" "get_result vid ''virustotal'' (sess w) = Some r"
  shows "get_result vid ''virustotal'' (committed u) = Some (polled_row env oc r)"
proof -
  let ?D = "outcome_db env vid ''virustotal'' oc (sess w)"
  let ?E = "mark_built vid (if o_mode oc = MPending then BScanning else BSuccess) (touch_scanned_at env vid
    ((if o_mode oc = MPending then apply_provider_tracking vid ''virustotal'' oc else clear_provider_tracking vid ''virustotal'') ?D))"
  have "bind_op commit (\<lambda>_. bind_op (refresh_cache env) (\<lambda>_. bind_op (when_op (o_mode oc \<noteq> MPending)
      (bind_op (try_auto_publish_after_scan env vid) (\<lambda>_. ret ()))) (\<lambda>_. query (get_scan vid)))) (w\<lparr>sess := ?E\<rparr>) = (Inr x, u)"
    using assms(1) unfolding complete_provider_outcome_def bind_outcome
    by (simp add: bind_op_def[of "stage f" for f] del: when_op_apply)
  from after_commit_results[OF this keeps_scanner_results_poll_tails(1)]
  have "get_result vid ''virustotal'' (committed u) = get_result vid ''virustotal'' ?E"
    by (intro get_result_committed) simp_all
  also have "\<dots> = get_result vid ''virustotal'' ?D" by simp
  finally show ?thesis using assms(2) by (simp add: get_result_outcome_db polled_row_def)
qed

lemma store_poll_row:
  assumes "store_poll_outcome env vid oc w = (Inr x, u)" "get_result vid ''virustotal'' (sess w) = Some r"
  shows "get_result vid ''virustotal'' (committed u) = Some (polled_row env oc r)"
proof -
  let ?D = "outcome_db env vid ''virustotal'' oc (sess w)"
  let ?E = "mark_built vid (if o_mode oc = MPending then BScanning else BSuccess) (touch_scanned_at env vid
    (apply_provider_tracking vid ''virustotal'' oc ?D))"
  let ?enqueue = "case o_next_poll_at oc of
         Some t \<Rightarrow>
           if o_mode oc = MPending then
             bind_op (enqueue_task env ''virustotal_poll'' (poll_payload vid) True (seconds_until env t)) (\<lambda>_. ret ())
           else ret ()
       | None \<Rightarrow> ret ()"
  have "ensure_result env vid ''virustotal'' (sess w) = sess w" using assms(2) by (simp add: ensure_result_def)
  then have D: "?D = edit_result env vid ''virustotal'' (set_review_provider_result env ''virustotal'' oc)
      (legacy_db vid ''virustotal'' oc (sess w))" by (simp add: outcome_db_def)
  have "bind_op commit (\<lambda>_. bind_op ?enqueue (\<lambda>_. bind_op (refresh_cache env) (\<lambda>_. bind_op (when_op (o_mode oc \<noteq> MPending)
      (bind_op (try_auto_publish_after_scan env vid) (\<lambda>_. ret ()))) (\<lambda>_. query (get_scan vid))))) (w\<lparr>sess := ?E\<rparr>) = (Inr x, u)"
    using assms(1) unfolding store_poll_outcome_def D
    by (simp add: bind_op_def[of "set_legacy i p a m b" for i p a m b] set_legacy_apply
        bind_op_def[of "stage f" for f] del: when_op_apply)
  moreover have "keeps (scanner_results_are rs) (bind_op ?enqueue (\<lambda>_. bind_op (refresh_cache env) (\<lambda>_. bind_op (when_op (o_mode oc \<noteq> MPending)
      (bind_op (try_auto_publish_after_scan env vid) (\<lambda>_. ret ()))) (\<lambda>_. query (get_scan vid)))))" for rs
    by (intro keeps_intros keeps_scanner_results_poll_tails keeps_scanner_results_auto)
  ultimately have "scanner_results (committed u) = scanner_results ?E"
    by (drule_tac after_commit_results) auto
  then have "get_result vid ''virustotal'' (committed u) = get_result vid ''virustotal'' ?E"
    by (intro get_result_committed) simp_all
  also have "\<dots> = get_result vid ''virustotal'' ?D" by simp
  finally show ?thesis using assms(2) by (simp add: get_result_outcome_db polled_row_def)
qed

text \<open>One poll of a pending analysis: an outcome that is not pending, or one attempt more, below the limit.\<close>

lemma poll_outcome_pending:
  assumes "poll_outcome env config s r i deadline n = Inr oc" "o_mode oc = MPending"
  shows "o_poll_attempts oc = Some (n + 1) \<and> n + 1 < max 1 (vt_max_poll_attempts config)
    \<and> o_analysis_id oc = Some i \<and> o_deadline_at oc = Some deadline
    \<and> o_next_poll_at oc = Some (min (e_now env + next_virustotal_delay config (n + 1) * us_per_second) deadline)"
  using assms
  by (auto simp: poll_outcome_def bind_res_Inr_iff Let_def virustotal_timeout_outcome_def pending_poll_outcome_def
      split: if_splits)

lemma polled_row_fields:
  "pr_mode (polled_row env oc r) = o_mode oc"
  "pr_attempts (polled_row env oc r) = (case o_poll_attempts oc of None \<Rightarrow> pr_attempts r | Some n \<Rightarrow> n)"
  "pr_next_poll_at (polled_row env oc r) = (if o_mode oc = MPending then o_next_poll_at oc else None)"
  "pr_deadline_at (polled_row env oc r) = o_deadline_at oc"
proof -
  let ?f = "set_review_provider_result env ''virustotal'' oc r"
  have f: "pr_mode ?f = o_mode oc" "pr_attempts ?f = (case o_poll_attempts oc of None \<Rightarrow> pr_attempts r | Some n \<Rightarrow> n)"
    "pr_next_poll_at ?f = (if o_mode oc = MPending then o_next_poll_at oc else None)" "pr_deadline_at ?f = o_deadline_at oc"
    by (cases "o_poll_attempts oc"; simp add: set_review_provider_result_def Let_def)+
  have "pr_mode (polled_row env oc r) = pr_mode ?f \<and> pr_attempts (polled_row env oc r) = pr_attempts ?f
    \<and> pr_next_poll_at (polled_row env oc r) = pr_next_poll_at ?f \<and> pr_deadline_at (polled_row env oc r) = pr_deadline_at ?f"
    by (cases "?f = r") (simp_all add: polled_row_def outcome_row_def Let_def)
  with f show "pr_mode (polled_row env oc r) = o_mode oc"
    "pr_attempts (polled_row env oc r) = (case o_poll_attempts oc of None \<Rightarrow> pr_attempts r | Some n \<Rightarrow> n)"
    "pr_next_poll_at (polled_row env oc r) = (if o_mode oc = MPending then o_next_poll_at oc else None)"
    "pr_deadline_at (polled_row env oc r) = o_deadline_at oc" by simp_all
qed

lemma final_outcome_modes:
  "o_mode (skipped_poll_outcome b m i) = MSkipped" "o_mode (virustotal_timeout_outcome i n k) = MError"
  by (simp_all add: skipped_poll_outcome_def virustotal_timeout_outcome_def)

text \<open>What a poll does once the provider is enabled and its configuration is read.\<close>

lemma poll_analysis_cases:
  assumes "poll_analysis env vid s r i w = (Inr x, u)"
  shows "(\<exists>msg. complete_provider_outcome env vid ''virustotal'' (skipped_poll_outcome True msg i) (fill_config env w) = (Inr x, u))
    \<or> (\<exists>config. fst (runtime_virustotal_config env w) = Inr config
         \<and> poll_configured env vid s r i config (fill_config env w) = (Inr x, u))"
proof (cases "''virustotal'' \<in> set (enabled_providers env w)")
  case False
  with assms show ?thesis
    by (auto simp: poll_analysis_def bind_op_Inr[of "runtime_scan_enabled_providers env", OF runtime_scan_enabled_providers_apply])
next
  case True
  note reads = reads_provider_configs(2)[of env, unfolded reads_config_def by_values_def]
  have cfg: "fst (runtime_virustotal_config env (fill_config env w)) = fst (runtime_virustotal_config env w)"
    using reads by (metis runtime_values_fill)
  have fill: "snd (runtime_virustotal_config env (fill_config env w)) = fill_config env w"
    using reads by (metis fill_config_idem)
  from assms True have "bind_op (runtime_virustotal_config env) (poll_configured env vid s r i) (fill_config env w) = (Inr x, u)"
    by (simp add: poll_analysis_def
        bind_op_Inr[of "runtime_scan_enabled_providers env", OF runtime_scan_enabled_providers_apply])
  then show ?thesis using cfg fill by (auto simp: bind_op_eq_Inr_iff)
qed

text \<open>The outcome that a configured poll stores: a final one, or that of one attempt more.\<close>

lemma poll_configured_progress:
  assumes run: "poll_configured env vid s r i config w = (Inr x, u)"
    and r: "get_result vid ''virustotal'' (sess w) = Some r"
  shows "\<exists>r'. get_result vid ''virustotal'' (committed u) = Some r' \<and>
    (pr_mode r' \<noteq> MPending \<or>
     (\<exists>t d. pr_attempts r < pr_attempts r' \<and> pr_attempts r' < max 1 (vt_max_poll_attempts config)
        \<and> pr_next_poll_at r' = Some t \<and> pr_deadline_at r' = Some d \<and> e_now env < t \<and> t \<le> d))"
proof -
  let ?d = "poll_deadline env config s r" and ?n = "max (pr_attempts r) (s_virustotal_poll_attempts s)"
  consider (final) oc y where "complete_provider_outcome env vid ''virustotal'' oc y = (Inr x, u)"
      "get_result vid ''virustotal'' (sess y) = Some r" "o_mode oc \<noteq> MPending"
    | (poll) oc where "poll_outcome env config s r i ?d ?n = Inr oc" "store_poll_outcome env vid oc w = (Inr x, u)"
        "e_now env < ?d"
    using run r
    by (auto simp: poll_configured_def Let_def bind_op_eq_Inr_iff runtime_scan_defaults_apply final_outcome_modes
        not_le split: if_splits)
  then show ?thesis
  proof cases
    case final
    then show ?thesis using complete_outcome_row[OF final(1,2)] by (auto simp: polled_row_fields)
  next
    case poll
    note row = store_poll_row[OF poll(2) r]
    show ?thesis
    proof (cases "o_mode oc = MPending")
      case True
      have "1 \<le> next_virustotal_delay config (?n + 1)" by (rule next_virustotal_delay_bounds)
      then have "e_now env < e_now env + next_virustotal_delay config (?n + 1) * us_per_second" by (simp add: us_per_second_def)
      with poll_outcome_pending[OF poll(1) True] True poll(3) row show ?thesis
        by (intro exI[of _ "polled_row env oc r"]) (auto simp: polled_row_fields)
    qed (use row in \<open>auto simp: polled_row_fields\<close>)
  qed
qed

text \<open>A poll of a pending analysis reads its rows and goes on with them.\<close>

lemma poll_starts:
  assumes "poll_virustotal_analysis env vid w = (Inr x, u)"
    and r: "get_result vid ''virustotal'' (sess w) = Some r" "pr_mode r = MPending" "truthy (pr_external_id r)"
  shows "\<exists>s i. poll_analysis env vid s r i (w\<lparr>sess := scan_db env vid (sess w)\<rparr>) = (Inr x, u)"
proof -
  obtain v where v: "get_version vid (sess w) = Some v"
    using assms(1) by (cases "get_version vid (sess w)")
      (auto simp: poll_virustotal_analysis_def bind_op_def get_or_create_scan_apply)
  obtain s where goc: "get_or_create_scan env vid w = (Inr (v, s), w\<lparr>sess := scan_db env vid (sess w)\<rparr>)"
    using v by (simp add: get_or_create_scan_apply)
  have "get_or_create_provider_result env vid ''virustotal'' (w\<lparr>sess := scan_db env vid (sess w)\<rparr>)
      = (Inr (r, False), w\<lparr>sess := scan_db env vid (sess w)\<rparr>)"
    using r(1) by (simp add: get_or_create_provider_result_apply)
  moreover have "or_opt (pr_external_id r) (s_virustotal_analysis_id s) = pr_external_id r" using r(3) by (simp add: or_opt_def)
  ultimately show ?thesis
    using assms(1) r(2,3) by (auto simp: poll_virustotal_analysis_def bind_op_def[of "get_or_create_scan env vid"] goc
        bind_op_def[of "get_or_create_provider_result env vid p" for p])
qed


text \<open>A poll whose answer is still open, run to its end.\<close>

lemma store_poll_returns:
  assumes "o_mode oc = MPending" "redis w = None" "get_result vid ''virustotal'' (sess w) = Some r"
    "db_ok (mark_built vid BScanning (touch_scanned_at env vid (apply_provider_tracking vid ''virustotal'' oc
       (outcome_db env vid ''virustotal'' oc (sess w)))))"
  shows "\<exists>x u. store_poll_outcome env vid oc w = (Inr x, u)"
proof -
  let ?D = "outcome_db env vid ''virustotal'' oc (sess w)"
  let ?E = "mark_built vid BScanning (touch_scanned_at env vid (apply_provider_tracking vid ''virustotal'' oc ?D))"
  have "ensure_result env vid ''virustotal'' (sess w) = sess w" using assms(3) by (simp add: ensure_result_def)
  then have D: "?D = edit_result env vid ''virustotal'' (set_review_provider_result env ''virustotal'' oc)
      (legacy_db vid ''virustotal'' oc (sess w))" by (simp add: outcome_db_def)
  let ?u = "w\<lparr>sess := ?E, committed := ?E\<rparr>"
  let ?enqueue = "case o_next_poll_at oc of
         Some t \<Rightarrow>
           if o_mode oc = MPending then
             bind_op (enqueue_task env ''virustotal_poll'' (poll_payload vid) True (seconds_until env t)) (\<lambda>_. ret ())
           else ret ()
       | None \<Rightarrow> ret ()"
  let ?tail = "\<lambda>_. bind_op (refresh_cache env) (\<lambda>_. bind_op (when_op (o_mode oc \<noteq> MPending)
      (bind_op (try_auto_publish_after_scan env vid) (\<lambda>_. ret ()))) (\<lambda>_. query (get_scan vid)))"
  have "store_poll_outcome env vid oc w = bind_op commit (\<lambda>_. bind_op ?enqueue ?tail) (w\<lparr>sess :=
    mark_built vid (if o_mode oc = MPending then BScanning else BSuccess) (touch_scanned_at env vid
    (apply_provider_tracking vid ''virustotal'' oc ?D))\<rparr>)"
    unfolding store_poll_outcome_def D
    by (simp add: bind_op_def[of "set_legacy i p a m b" for i p a m b] set_legacy_apply
        bind_op_def[of "stage f" for f] del: when_op_apply)
  also have "\<dots> = bind_op commit (\<lambda>_. bind_op ?enqueue ?tail) (w\<lparr>sess := ?E\<rparr>)" unfolding if_P[OF assms(1)] ..
  also have "commit (w\<lparr>sess := ?E\<rparr>) = (Inr (), ?u)"
    using assms(4) by (simp add: commit_ok)
  then have "bind_op commit f (w\<lparr>sess := ?E\<rparr>) = f () ?u" for f by (simp add: bind_op_def)
  also have "enqueue_task env tt p b d ?u = (Inr None, ?u)" for tt p b d
    using assms(2) by (simp add: enqueue_task_def bind_op_def)
  then have "bind_op ?enqueue f ?u = f () ?u" for f
    by (cases "o_next_poll_at oc") (simp_all add: bind_op_def assms(1))
  also have "refresh_cache env ?u = (Inr (), ?u)" using assms(2) by (simp add: refresh_cache_no_redis)
  then have "bind_op (refresh_cache env) f ?u = f () ?u" for f by (simp add: bind_op_def)
  finally show ?thesis by (simp add: bind_op_def assms(1))
qed

lemma poll_analysis_pending:
  assumes "''virustotal'' \<in> set (enabled_providers env w)" "runtime_virustotal_config env (fill_config env w) = (Inr config, u)"
    "vt_api_key config \<noteq> []" "e_now env < poll_deadline env config s r"
    "poll_outcome env config s r i (poll_deadline env config s r) (max (pr_attempts r) (s_virustotal_poll_attempts s)) = Inr oc"
  shows "poll_analysis env vid s r i w = store_poll_outcome env vid oc u"
  using assms
  by (simp add: poll_analysis_def poll_configured_def bind_op_def[of "runtime_scan_enabled_providers env"] runtime_scan_enabled_providers_apply
      bind_op_def[of "runtime_virustotal_config env"] bind_op_def[of "lift_res x" for x] Let_def)


section \<open>Publishing by itself\<close>

lemma find_of_map: "find P (map f xs) = map_option f (find (\<lambda>x. P (f x)) xs)"
  by (induction xs) simp_all

lemma find_view_of_version:
  assumes "db_ok D" "get_version vid D = Some v"
  shows "find_view (v_plugin_id v) vid D = Some (load_view D v)" "get_plugin (v_plugin_id v) D \<noteq> None" "v_id v = vid"
proof -
  have v: "v \<in> set (versions D)" "v_id v = vid" using assms(2) by (auto simp: get_version_def dest: row_get_SomeD)
  have d: "distinct (map v_id (versions D))" using assms(1) by (simp add: db_ok_def versions_ok_def)
  have "find (\<lambda>x. v_id x = vid) (plugin_versions D (v_plugin_id v)) = Some v"
    using v d row_get_distinct[of v_id "plugin_versions D (v_plugin_id v)" v]
    by (auto simp: plugin_versions_def row_get_def distinct_map_filter)
  then show "find_view (v_plugin_id v) vid D = Some (load_view D v)"
    by (auto simp: find_view_def find_of_map load_view_def)
  show "get_plugin (v_plugin_id v) D \<noteq> None" using assms(1) v(1)
    by (auto simp: db_ok_def versions_ok_def get_plugin_def row_get_None_iff list_all_iff simp del: image_iff)
  show "v_id v = vid" by (rule v(2))
qed

definition auto_publishes :: "env \<Rightarrow> world \<Rightarrow> version \<Rightarrow> bool" where
  "auto_publishes env w v \<longleftrightarrow> auto_publish (review_policy_of env w) \<and> \<not> require_human_review (review_policy_of env w)
     \<and> gate_open env w (load_view (committed w) v)"

text \<open>The attempt to publish: it succeeds when the gate is open and is otherwise answered with no.\<close>

lemma publish_attempt:
  assumes "settled w" "cache_healthy env w" "get_version vid (committed w) = Some v"
  shows "\<exists>u. try_op (bind_op (publish_plugin_version env (v_plugin_id v) vid RSkipped) (\<lambda>_. ret True)) except_not_published
      (fill_config env w) = (Inr (gate_open env w (load_view (committed w) v)), u)
    \<and> committed u = (if gate_open env w (load_view (committed w) v)
        then publish_db env (v_plugin_id v) vid RSkipped (committed w) else committed w)"
proof -
  let ?f = "fill_config env w" and ?vv = "load_view (committed w) v"
  have s: "sess w = committed w" "db_ok (committed w)" using assms(1) by (simp_all add: settled_def inv_db_def)
  have f: "settled ?f" "cache_healthy env ?f" using assms(1,2) by (simp_all add: settled_def)
  note v = find_view_of_version[OF s(2) assms(3)]
  show ?thesis
  proof (cases "gate_open env w ?vv")
    case True
    then have "gate_open env ?f ?vv" by (simp add: gate_open_def)
    with publish_returns[of ?f env RSkipped "v_plugin_id v" vid ?vv] f v
    obtain u where "publish_plugin_version env (v_plugin_id v) vid RSkipped ?f
        = (Inr (get_version vid (publish_db env (v_plugin_id v) vid RSkipped (committed w))), u)"
      "committed u = publish_db env (v_plugin_id v) vid RSkipped (committed w)" by auto
    then show ?thesis using True by (simp add: try_op_def)
  next
    case False
    have "\<exists>e. publish_plugin_version env (v_plugin_id v) vid RSkipped ?f = (Inl (InvalidStateError e), fill_config env ?f)"
      using v False by (cases "build_ready_for_scan_policy ?vv (Some (enabled_providers env w))")
        (auto simp: publish_plugin_version_apply gate_open_def s(1))
    then show ?thesis using False by (auto simp: try_op_def bind_op_def)
  qed
qed

text \<open>C30 (functional). After a scan the version is published, with the review skipped, exactly when the
  policy asks for automatic publication without human review and the gate is open; otherwise the answer
  is no, nothing is committed, and no refusal of the publication reaches the caller.\<close>

theorem auto_publish_iff:
  assumes "settled w" "cache_healthy env w"
  shows "\<exists>u. case get_version vid (committed w) of
      None \<Rightarrow> try_auto_publish_after_scan env vid w = (Inr False, u) \<and> committed u = committed w
    | Some v \<Rightarrow> try_auto_publish_after_scan env vid w = (Inr (auto_publishes env w v), u)
        \<and> committed u = (if auto_publishes env w v
            then publish_db env (v_plugin_id v) vid RSkipped (committed w) else committed w)"
proof -
  have s: "sess w = committed w" "db_ok (committed w)" using assms(1) by (simp_all add: settled_def inv_db_def)
  show ?thesis
  proof (cases "get_version vid (committed w)")
    case None
    then show ?thesis
      by (simp add: try_auto_publish_after_scan_def bind_op_def runtime_review_policy_apply s(1))
  next
    case (Some v)
    show ?thesis
    proof (cases "auto_publish (review_policy_of env w) \<and> \<not> require_human_review (review_policy_of env w)")
      case False
      then show ?thesis using Some
        by (auto simp: try_auto_publish_after_scan_def bind_op_def runtime_review_policy_apply s(1) auto_publishes_def)
    next
      case True
      then have "try_auto_publish_after_scan env vid w =
          try_op (bind_op (publish_plugin_version env (v_plugin_id v) vid RSkipped) (\<lambda>_. ret True)) except_not_published
            (fill_config env w)"
        using Some find_view_of_version(3)[OF s(2) Some]
        by (simp add: try_auto_publish_after_scan_def bind_op_def[of "runtime_review_policy e" for e]
            bind_op_def[of "query q" for q] runtime_review_policy_apply s(1))
      with publish_attempt[OF assms Some] True Some show ?thesis by (auto simp: auto_publishes_def)
    qed
  qed
qed

theorem auto_publish_iff_witness:
  "\<exists>u. try_auto_publish_after_scan sample_env ''v1'' (sample_world sample_db None)
      = (Inr (auto_publishes sample_env (sample_world sample_db None) sample_version), u)"
  using auto_publish_iff[of "sample_world sample_db None" sample_env "''v1''"] by auto

end
