(* ===== verification/Invariants.thy ===== *)
theory Invariants
  imports ScanService TaskQueue
begin

text \<open>
  Which predicates on the state the operations keep. \<open>session_invariant\<close> is the contract of a predicate that
  survives commits, roll-backs, Redis, identifiers, stored objects and rows of tasks; \<open>scan_invariant\<close> adds
  edits that keep what a version is, \<open>latest_invariant\<close> every edit that names no new latest version. Each
  gives, once, that the operations built from such steps keep the predicate.
\<close>

section \<open>Invariants of a session\<close>

lemma config_blind_puts:
  "config_blind env (\<lambda>rd. put_registry_md5 y (put_registry_json x rd))" "config_blind env (put_registry_json x)"
  "config_blind env (put_registry_md5 y)"
  by simp_all

lemma config_blind_queues: "config_blind env (push_task env' t d)" "config_blind env (push_dead t)"
  by (simp_all add: config_blind_def cached_config_def push_task_def push_dead_def rpush_def)

text \<open>What makes a predicate on the state an invariant of everything that only reads rows, fills the cached
  configuration, writes Redis, draws identifiers, keeps rows of tasks and commits.\<close>

locale session_invariant =
  fixes env :: env and I :: "world \<Rightarrow> bool"
  assumes commits: "I w \<Longrightarrow> db_ok (sess w) \<Longrightarrow> I (w\<lparr>committed := sess w\<rparr>)"
    and rolls_back: "I w \<Longrightarrow> I (w\<lparr>sess := committed w\<rparr>)"
    and writes_redis: "config_blind env f \<Longrightarrow> I w \<Longrightarrow> I (w\<lparr>redis := map_option f (redis w)\<rparr>)"
    and draws: "I w \<Longrightarrow> I (w\<lparr>uuid_next := n\<rparr>)"
    and stores: "I w \<Longrightarrow> I (w\<lparr>s3_keys := ks\<rparr>)"
    and task_rows: "I w \<Longrightarrow> I (w\<lparr>sess := (sess w)\<lparr>tasks := ts\<rparr>\<rparr>)"
    and caches: "I w \<Longrightarrow> I (fill_config env w)"
begin

lemma basic: "keeps I commit" "keeps I flush" "keeps I (uuid4 env')" "config_blind env f \<Longrightarrow> keeps I (on_redis f)"
  "keeps I (runtime_int env k i)" "keeps I (runtime_str env k s)" "keeps I (runtime_bool env k b)"
  "keeps I (runtime_list env k l)"
  using keeps_get_runtime_value[of I env] caches
  by (auto simp: keeps_def commit_def flush_def commits rolls_back writes_redis draws)

lemma set_ex: "config_blind env (put (Some (v, e_now env' + ttl * us_per_second))) \<Longrightarrow> keeps I (set_ex put (e_now env') v ttl)"
  unfolding set_ex_def by (intro keeps_intros basic)

lemma refresh: "keeps I (refresh_cache env)"
  unfolding refresh_cache_def get_registry_md5_def generate_registry_json_def runtime_s3_public_url_def
    runtime_scan_enabled_providers_def runtime_redis_cache_ttl_def runtime_review_policy_def Let_def
  by (intro keeps_intros basic set_ex) (simp_all add: config_blind_puts)

lemma commit_and_refresh: "keeps I (commit_and_refresh env)"
  unfolding commit_and_refresh_def by (intro keeps_intros basic refresh)

lemma marks: "keeps I (update_task i f)"
proof -
  have "keeps I (stage (\<lambda>D. D\<lparr>tasks := row_put t_id (f t) (tasks D)\<rparr>))" for t
    by (simp add: keeps_def task_rows)
  then show ?thesis unfolding update_task_def by (intro keeps_intros basic)
qed

lemma create_task: "keeps I (create_worker_task env tt p i m d)"
proof -
  have "keeps I (stage (\<lambda>D. D\<lparr>tasks := tasks D @ [t]\<rparr>))" for t by (simp add: keeps_def task_rows)
  then show ?thesis unfolding create_worker_task_def by (intro keeps_intros basic)
qed

lemma queues: "keeps I (enqueue_task env tt p b d)" "keeps I (requeue_task env t e b)"
proof -
  show "keeps I (enqueue_task env tt p b d)"
    unfolding enqueue_task_def runtime_task_max_attempts_def
    by (intro keeps_intros basic create_task) (simp_all add: config_blind_queues)
  show "keeps I (requeue_task env t e b)"
    unfolding requeue_task_def task_limit_def retry_later_def bury_task_def runtime_task_max_attempts_def
      runtime_task_retry_delay_seconds_def mark_task_dead_def mark_task_retrying_def
    by (intro keeps_intros basic marks) (simp_all add: config_blind_queues)
qed

lemma uploads: "keeps I (upload_file env content k)" "keeps I (delete_file env k)"
  by (auto simp: upload_file_def delete_file_def keeps_def stores split: option.splits)

end

interpretation reg: session_invariant env reg_inv for env
  by unfold_locales (auto simp: reg_inv_def)

section \<open>Edits of rows\<close>

definition latest_ids :: "db \<Rightarrow> uuid set" where
  "latest_ids D = {v_id v |v. v \<in> set (versions D) \<and> v_is_latest v}"

text \<open>Edits of the session that name no new latest version and leave the configuration.\<close>

definition no_new_latest :: "(db \<Rightarrow> db) \<Rightarrow> bool" where
  "no_new_latest f \<longleftrightarrow> (\<forall>D. latest_ids (f D) \<subseteq> latest_ids D \<and> configs (f D) = configs D)"

lemma no_new_latest_same:
  "(\<And>D. versions (f D) = versions D) \<Longrightarrow> (\<And>D. configs (f D) = configs D) \<Longrightarrow> no_new_latest f"
  by (simp add: no_new_latest_def latest_ids_def)

lemma no_new_latest_map:
  assumes "\<And>D. versions (f D) = map g (versions D)" "\<And>D. configs (f D) = configs D"
    "\<And>v. v_id (g v) = v_id v \<and> (v_is_latest (g v) \<longrightarrow> v_is_latest v)"
  shows "no_new_latest f"
  using assms by (auto simp: no_new_latest_def latest_ids_def)

lemma no_new_latest_version:
  "(\<And>v. v_id (f v) = v_id v \<and> (v_is_latest (f v) \<longrightarrow> v_is_latest v)) \<Longrightarrow> no_new_latest (edit_version vid f)"
  by (rule no_new_latest_map[of _ "\<lambda>v. if v_id v = vid then f v else v"]) (simp_all add: edit_version_def rows_update_def)

lemma no_new_latest_edits [intro]:
  "no_new_latest (edit_plugin pid h)" "no_new_latest (edit_scan vid k)" "no_new_latest (edit_result env vid p r)"
  "no_new_latest (mark_built vid st)" "no_new_latest (finish_scanning vid)" "no_new_latest (unset_latest pid)"
  "no_new_latest (touch_scanned_at env vid)" "no_new_latest (apply_provider_tracking vid p oc)"
  "no_new_latest (clear_provider_tracking vid p)" "no_new_latest (set_plugin_tags pid names)"
proof -
  show "no_new_latest (mark_built vid st)" "no_new_latest (finish_scanning vid)"
    unfolding mark_built_def finish_scanning_def by (rule no_new_latest_version, simp)+
  show "no_new_latest (unset_latest pid)"
    by (rule no_new_latest_map[of _ "\<lambda>v. if v_plugin_id v = pid then v\<lparr>v_is_latest := False\<rparr> else v"])
      (simp_all add: unset_latest_def rows_update_def)
qed (rule no_new_latest_same; simp add: edit_plugin_def edit_scan_def edit_result_def touch_scanned_at_def
  apply_provider_tracking_def clear_provider_tracking_def set_plugin_tags_def split: option.split)+

lemma no_new_latest_deletes [intro]: "no_new_latest (delete_versions P)" "no_new_latest (delete_plugin_row pid)"
  by (auto simp: no_new_latest_def latest_ids_def delete_versions_def delete_plugin_row_def Let_def)

text \<open>Edits that keep what a version is (its number, source and artifact) and name no new latest one.\<close>

definition core_edit :: "(db \<Rightarrow> db) \<Rightarrow> bool" where
  "core_edit f \<longleftrightarrow> (\<forall>D. configs (f D) = configs D \<and> (\<exists>g. versions (f D) = map g (versions D)
     \<and> (\<forall>v. v_core (g v) = v_core v \<and> (v_is_latest (g v) \<longrightarrow> v_is_latest v))))"

lemma core_edit_same:
  assumes "\<And>D. versions (f D) = versions D" "\<And>D. configs (f D) = configs D"
  shows "core_edit f"
  unfolding core_edit_def using assms by (intro allI conjI exI[of _ "\<lambda>v. v"]) simp_all

lemma core_edit_map:
  assumes "\<And>D. versions (f D) = map g (versions D)" "\<And>D. configs (f D) = configs D"
    "\<And>v. v_core (g v) = v_core v \<and> (v_is_latest (g v) \<longrightarrow> v_is_latest v)"
  shows "core_edit f"
  unfolding core_edit_def using assms by (intro allI conjI exI[of _ g]) simp_all

lemma core_edit_version:
  assumes "\<And>v. v_core (f v) = v_core v \<and> (v_is_latest (f v) \<longrightarrow> v_is_latest v)"
  shows "core_edit (edit_version vid f)"
  by (rule core_edit_map[of _ "\<lambda>v. if v_id v = vid then f v else v"]) (simp_all add: edit_version_def rows_update_def assms)

lemma core_edit_facts [intro]:
  "core_edit (edit_plugin pid h)" "core_edit (edit_scan vid k)" "core_edit (edit_result env vid p r)"
  "core_edit (mark_built vid st)" "core_edit (finish_scanning vid)" "core_edit (unset_latest pid)"
  "core_edit (touch_scanned_at env vid)" "core_edit (apply_provider_tracking vid p oc)"
  "core_edit (clear_provider_tracking vid p)" "core_edit (set_plugin_tags pid names)"
  "core_edit (edit_version vid (\<lambda>v. v\<lparr>v_build_status := st\<rparr>))"
proof -
  show "core_edit (mark_built vid st)" "core_edit (finish_scanning vid)"
    "core_edit (edit_version vid (\<lambda>v. v\<lparr>v_build_status := st\<rparr>))"
    unfolding mark_built_def finish_scanning_def by (rule core_edit_version, simp add: v_core_def)+
  show "core_edit (unset_latest pid)"
    by (rule core_edit_map[of _ "\<lambda>v. if v_plugin_id v = pid then v\<lparr>v_is_latest := False\<rparr> else v"])
      (simp_all add: unset_latest_def rows_update_def v_core_def)
qed (rule core_edit_same; simp add: edit_plugin_def edit_scan_def edit_result_def touch_scanned_at_def
  apply_provider_tracking_def clear_provider_tracking_def set_plugin_tags_def split: option.split)+

text \<open>What a scan does to the rows before it may publish.\<close>

locale scan_invariant = session_invariant +
  assumes core_edits: "core_edit f \<Longrightarrow> I w \<Longrightarrow> I (w\<lparr>sess := f (sess w)\<rparr>)"
begin

lemma core_stages: "core_edit f \<Longrightarrow> keeps I (stage f)"
  by (simp add: keeps_def core_edits)

lemma core_rows: "(\<And>D. versions (f D) = versions D) \<Longrightarrow> (\<And>D. configs (f D) = configs D) \<Longrightarrow> keeps I (stage f)"
  by (rule core_stages) (rule core_edit_same)

lemmas gate_checks = keeps_scan_selected[where I = I and env = env]

lemma scan_rows: "keeps I (get_or_create_scan env vid)" "keeps I (get_or_create_provider_result env vid p)"
  "keeps I (set_legacy vid p b msg mode)" "keeps I (record_outcome env vid q)" "keeps I (mark_provider env vid oc p)"
proof -
  show g: "keeps I (get_or_create_scan env vid)" "keeps I (get_or_create_provider_result env vid p)"
    "keeps I (set_legacy vid p b msg mode)" for p b msg mode
    unfolding get_or_create_scan_def get_or_create_provider_result_def set_legacy_def Let_def
    by (intro keeps_intros core_rows core_stages core_edit_facts; simp)+
  show "keeps I (record_outcome env vid q)" "keeps I (mark_provider env vid oc p)"
    unfolding record_outcome_def mark_provider_def
    by (intro keeps_intros g core_stages core_edit_facts)+
qed

lemma scan_marks: "keeps I (mark_scan_pending env vid ps)" "keeps I (mark_scan_skipped env vid ps)"
  unfolding mark_scan_pending_def mark_scan_skipped_def
  by (intro keeps_intros scan_rows gate_checks caches core_stages core_edit_facts basic refresh; assumption)+

lemma scan_head: "keeps I (scan_outcomes env vid lp ps)"
  unfolding scan_outcomes_def
  by (intro keeps_intros gate_checks caches scan_rows core_stages core_edit_facts basic; assumption)

end

locale latest_invariant = session_invariant +
  assumes edits: "no_new_latest f \<Longrightarrow> I w \<Longrightarrow> I (w\<lparr>sess := f (sess w)\<rparr>)"
begin

lemma stages: "no_new_latest f \<Longrightarrow> keeps I (stage f)"
  by (simp add: keeps_def edits)

lemma rows: "(\<And>D. versions (f D) = versions D) \<Longrightarrow> (\<And>D. configs (f D) = configs D) \<Longrightarrow> keeps I (stage f)"
  by (rule stages) (rule no_new_latest_same)

lemma gate: "keeps I (check_gate env vv m n)"
  unfolding check_gate_def runtime_scan_enabled_providers_def by (intro keeps_intros basic)

lemma tags: "keeps I (ensure_tags names)"
  unfolding ensure_tags_def Let_def by (intro keeps_intros rows basic) simp_all

lemma updates: "keeps I (apply_update pid u)"
proof (cases u)
  case (UpdTags x)
  show ?thesis unfolding UpdTags apply_update.simps by (intro keeps_intros tags stages no_new_latest_edits)
qed (simp_all add: stages no_new_latest_edits)

lemma plugin_operations:
  "keeps I (create_plugin env m url)" "keeps I (update_plugin env pid us)" "keeps I (set_plugin_status env pid st rv)"
  "keeps I (delete_plugin env pid)" "keeps I (delete_version env pid vid)"
proof -
  show "keeps I (create_plugin env m url)"
    unfolding create_plugin_def Let_def
    by (intro keeps_intros basic tags commit_and_refresh rows) (simp_all add: set_plugin_tags_def)
  show "keeps I (update_plugin env pid us)"
    unfolding update_plugin_def by (intro keeps_intros updates commit_and_refresh)
  show "keeps I (set_plugin_status env pid st rv)"
    unfolding set_plugin_status_def by (intro keeps_intros stages no_new_latest_edits commit_and_refresh)
  show "keeps I (delete_plugin env pid)" "keeps I (delete_version env pid vid)"
    unfolding delete_plugin_def delete_version_def
    by (intro keeps_intros stages no_new_latest_edits no_new_latest_deletes uploads commit_and_refresh)+
qed

lemma adds_version: "\<not> v_is_latest v \<Longrightarrow> keeps I (stage (\<lambda>D. D\<lparr>versions := versions D @ [v]\<rparr>))"
  by (rule stages) (auto simp: no_new_latest_def latest_ids_def)

lemma version_operations:
  "keeps I (create_version env a)" "keeps I (create_version_from_upload env p m bs n cl by')"
  "keeps I (update_version_after_build env vid m k url n' sha)" "keeps I (set_version_status env vid vst)"
proof -
  show c: "keeps I (create_version env a)" for a
    unfolding create_version_def Let_def by (intro keeps_intros basic adds_version commit_and_refresh) simp
  show "keeps I (create_version_from_upload env p m bs n cl by')"
    unfolding create_version_from_upload_def runtime_s3_layout_def runtime_s3_public_url_def Let_def
    by (intro keeps_intros basic uploads c)
  show "keeps I (update_version_after_build env vid m k url n' sha)" "keeps I (set_version_status env vid vst)"
    unfolding update_version_after_build_def set_version_status_def
    by (intro keeps_intros stages no_new_latest_edits no_new_latest_version gate commit_and_refresh; simp)+
qed

end

lemma core_edit_no_new: "core_edit f \<Longrightarrow> no_new_latest f"
proof -
  assume f: "core_edit f"
  have "latest_ids (f D) \<subseteq> latest_ids D \<and> configs (f D) = configs D" for D
  proof -
    from f obtain g where g: "versions (f D) = map g (versions D)" "configs (f D) = configs D"
      "\<And>v. v_core (g v) = v_core v" "\<And>v. v_is_latest (g v) \<Longrightarrow> v_is_latest v"
      using f[unfolded core_edit_def, rule_format, of D] by blast
    have "v_id (g v) = v_id v" for v using v_coreD(1)[OF g(3)] .
    with g show ?thesis by (auto simp: latest_ids_def)
  qed
  then show ?thesis by (simp add: no_new_latest_def)
qed

sublocale latest_invariant \<subseteq> scan_invariant
  by unfold_locales (rule edits[OF core_edit_no_new])

section \<open>Predicates that no row matters to\<close>

text \<open>What is kept whatever happens to the rows: everything the services do keeps it.\<close>

locale blind_invariant = latest_invariant +
  assumes blind: "I w \<Longrightarrow> I (w\<lparr>sess := D\<rparr>)"
begin

lemma any_stage: "keeps I (stage f)"
  by (simp add: keeps_def blind)

lemma publish: "keeps I (publish_plugin_version env pid vid review)"
  unfolding publish_plugin_version_def set_human_review_result_def Let_def
  by (intro keeps_intros gate any_stage commit_and_refresh)

lemma auto_publish: "keeps I (try_auto_publish_after_scan env vid)"
proof -
  have e: "keeps I (except_not_published e)" for e by (cases e) simp_all
  show ?thesis
    unfolding try_auto_publish_after_scan_def runtime_review_policy_def
    by (intro keeps_intros basic publish e)
qed

lemma scans: "keeps I (scan_version env vid lp ps)"
  unfolding scan_version_def
  by (intro keeps_intros gate_checks caches scan_rows any_stage basic queues refresh auto_publish; assumption)

lemma poll_ends: "keeps I (complete_provider_outcome env vid p oc)" "keeps I (store_poll_outcome env vid oc)"
  unfolding complete_provider_outcome_def store_poll_outcome_def
  by (intro keeps_intros scan_rows any_stage basic queues refresh auto_publish)+

lemma polls: "keeps I (poll_virustotal_analysis env vid)"
  unfolding poll_virustotal_analysis_def poll_analysis_def poll_configured_def[abs_def] runtime_virustotal_config_def
    runtime_scan_enabled_providers_def Let_def
  by (intro keeps_intros scan_rows basic gate_checks caches poll_ends; assumption)

end

text \<open>The tasks that wait in line stay, in their order, in front of those that are added.\<close>

definition waiting :: "json dict list \<Rightarrow> world \<Rightarrow> bool" where
  "waiting q w \<longleftrightarrow> (\<exists>rd new. redis w = Some rd \<and> r_queue rd = q @ new)"

lemma waiting_redis: "config_blind env f \<Longrightarrow> waiting q w \<Longrightarrow> waiting q (w\<lparr>redis := map_option f (redis w)\<rparr>)"
  unfolding waiting_def config_blind_def by clarsimp (metis append_assoc)

interpretation line: blind_invariant env "waiting q" for env q
proof unfold_locales
  show "waiting q w \<Longrightarrow> waiting q (fill_config env w)" for w
    by (auto simp: waiting_def fill_config_def split: option.splits)
  show "config_blind env f \<Longrightarrow> waiting q w \<Longrightarrow> waiting q (w\<lparr>redis := map_option f (redis w)\<rparr>)" for f w
    by (rule waiting_redis)
qed (auto simp: waiting_def)

end
