(* ===== verification/BuildService.thy ===== *)
theory BuildService
  imports GitProviders Invariants
begin

text \<open>
  \<open>services/build_service.py\<close> and \<open>services/submit_service.py\<close>: a repository is cloned, its metadata read, its
  files packed and stored, and the version scanned; \<open>services/repo_inspection_service.py\<close>: what the registry
  knows of an inspected commit. The file system of the checkout is \<open>git_world\<close>: \<open>g_tree\<close> lists what \<open>rglob\<close>
  finds, in its order.
\<close>

section \<open>Packing\<close>

definition rel_name :: "tree_file \<Rightarrow> string" where
  "rel_name f = (if tf_parts f = [] then [] else last (tf_parts f))"

definition should_skip :: "tree_file \<Rightarrow> bool" where
  "should_skip f =
     (let parts = set (tf_parts f); name = rel_name f in
      if ''.git'' \<in> parts then True
      else if ''__pycache__'' \<in> parts then True
      else if ''node_modules'' \<in> parts then True
      else if ''.venv'' \<in> parts \<or> ''venv'' \<in> parts then True
      else if ''dist'' \<in> parts \<or> ''build'' \<in> parts then True
      else if ''.DS_Store'' \<in> parts \<or> name = ''.DS_Store'' then True
      else if name = ''.env'' \<or> name = ''.env.local'' then True
      else if ends_with name ''.pyc'' then True
      else if name = ''.python-version'' then True
      else False)"

text \<open>The loop of \<open>_create_zip\<close>: the files that are written.\<close>

fun zip_files :: "int \<Rightarrow> int \<Rightarrow> tree_file list \<Rightarrow> exn + tree_file list" where
  "zip_files limit total_size [] = Inr []"
| "zip_files limit total_size (f # fs) =
     (if \<not> tf_is_file f then zip_files limit total_size fs
      else if should_skip f then zip_files limit total_size fs
      else if limit < total_size + tf_size f then Inl (ValidationError ''release zip is too large'')
      else bind_res (zip_files limit (total_size + tf_size f) fs) (\<lambda>gs. Inr (f # gs)))"

definition create_zip :: "git_world \<Rightarrow> tree_file list \<Rightarrow> string \<Rightarrow> string \<Rightarrow> int \<Rightarrow> exn + artifact" where
  "create_zip g tree plugin_key ver max_zip =
     bind_res (zip_files max_zip 0 tree) (\<lambda>files.
     Inr \<lparr>a_name = last_segment (plugin_key @ ''-'' @ ver @ ''.zip''), a_bytes = g_zip g files\<rparr>)"

section \<open>Metadata of a checkout\<close>

definition parse_metadata_yaml :: "git_world \<Rightarrow> string \<Rightarrow> exn + plugin_metadata" where
  "parse_metadata_yaml g repo_dir = bind_res (g_metadata g repo_dir) (parse_metadata_yaml_text g)"

text \<open>The new text of \<open>metadata.yaml\<close>, and the files with it.\<close>

definition overwrite_metadata_version :: "git_world \<Rightarrow> string \<Rightarrow> string \<Rightarrow> exn + string" where
  "overwrite_metadata_version g repo_dir ver =
     bind_res (g_metadata g repo_dir) (\<lambda>content.
     bind_res (g_yaml_load g content) (\<lambda>data.
     case data of
       JObj d \<Rightarrow> Inr (g_yaml_dump g (dict_set ''version'' (JStr ver) d))
     | _ \<Rightarrow> Inl (ValueError ''metadata.yaml must be a YAML mapping'')))"

definition with_metadata :: "string \<Rightarrow> tree_file list \<Rightarrow> tree_file list" where
  "with_metadata content =
     map (\<lambda>f. if tf_parts f = [''metadata.yaml''] then f\<lparr>tf_size := int (length (utf8 content)), tf_bytes := utf8 content\<rparr> else f)"

section \<open>Building\<close>

record checkout =
  co_metadata :: plugin_metadata
  co_version :: string
  co_sha :: string
  co_tree :: "tree_file list"

definition uuid_arg :: "string option \<Rightarrow> exn + uuid option" where
  "uuid_arg x =
     (if \<not> truthy x then Inr None
      else (case parse_uuid (or_str x []) of
          None \<Rightarrow> Inl (ValueError ''badly formed hexadecimal UUID string'') | Some i \<Rightarrow> Inr (Some i)))"

text \<open>What is read from the clone: the metadata, with the version that was asked for written into it, and the
  commit.\<close>

definition read_checkout :: "git_world \<Rightarrow> plugin \<Rightarrow> string option \<Rightarrow> exn + checkout" where
  "read_checkout g p ver =
     (let repo_dir = g_tmp g in
      bind_res (parse_metadata_yaml g repo_dir) (\<lambda>metadata.
      let effective_version = or_str (or_opt ver (Some (m_version metadata))) [] in
      bind_res (case ver of
          None \<Rightarrow> Inr (metadata, g_tree g repo_dir)
        | Some v \<Rightarrow>
            if m_version metadata \<noteq> v then
              bind_res (overwrite_metadata_version g repo_dir v) (\<lambda>content.
              bind_res (parse_metadata_yaml_text g content) (\<lambda>metadata.
              Inr (metadata, with_metadata content (g_tree g repo_dir))))
            else Inr (metadata, g_tree g repo_dir)) (\<lambda>(metadata, tree).
      bind_res (assert_metadata_matches_plugin metadata p) (\<lambda>_.
      bind_res (get_commit_sha g repo_dir) (\<lambda>commit_sha.
      Inr \<lparr>co_metadata = metadata, co_version = effective_version, co_sha = commit_sha, co_tree = tree\<rparr>)))))"

definition clone_checked ::
  "env \<Rightarrow> git_world \<Rightarrow> string \<Rightarrow> git_credential \<Rightarrow> string option \<Rightarrow> int \<Rightarrow> string list \<Rightarrow> string \<Rightarrow> exn + unit" where
  "clone_checked env g url credential ref max_size_kb hosts proxy =
     bind_res (preflight_repo_size env g url credential max_size_kb (Some hosts) (Some proxy)) (\<lambda>_.
     clone_with_provider env g url (g_tmp g) credential ref (Some hosts) (Some proxy))"

definition effective_token :: "env \<Rightarrow> string option \<Rightarrow> string act" where
  "effective_token env token = (if truthy token then ret (or_str token []) else runtime_github_token env)"

text \<open>Until the row exists, an exception leaves nothing behind.\<close>

definition build_start ::
  "env \<Rightarrow> git_world \<Rightarrow> plugin \<Rightarrow> string option \<Rightarrow> string option \<Rightarrow> string option \<Rightarrow> string option \<Rightarrow> string \<Rightarrow>
   string option \<Rightarrow> (version \<times> checkout \<times> s3_layout \<times> string \<times> int) act" where
  "build_start env g p ver ref credential token changelog created_by =
     bind_op (guard_op (truthy (p_repo_url p)) (InvalidStateError ''Plugin has no repository URL'')) (\<lambda>_.
     bind_op (runtime_s3_layout env) (\<lambda>layout.
     bind_op (runtime_s3_public_url env) (\<lambda>public_url.
     bind_op (runtime_git_clone_timeout env) (\<lambda>_.
     bind_op (runtime_git_preflight_timeout env) (\<lambda>_.
     bind_op (runtime_git_max_repo_size_kb env) (\<lambda>max_kb.
     bind_op (runtime_git_allowed_hosts env) (\<lambda>hosts.
     bind_op (runtime_git_http_proxy env) (\<lambda>proxy.
     bind_op (effective_token env token) (\<lambda>tok.
     bind_op (runtime_max_release_zip_bytes env) (\<lambda>max_zip.
     let url = or_str (p_repo_url p) [] in
     bind_op (lift_res (get_git_provider_for_url env url (Some hosts))) (\<lambda>_.
     bind_op (lift_res (clone_checked env g url \<lparr>temporary_token = Some tok, credential_id = credential\<rparr> ref max_kb hosts proxy)) (\<lambda>_.
     bind_op (lift_res (read_checkout g p ver)) (\<lambda>co.
     bind_op (query (get_version_by_plugin_and_commit (p_id p) (co_sha co))) (\<lambda>existing.
     bind_op (guard_op (existing = None)
       (ConflictError (''Commit '' @ take 12 (co_sha co) @ '' already exists for plugin '' @ p_plugin_key p))) (\<lambda>_.
     let placeholder_key = build_s3_key_with_layout p (co_version co) ''git_auto'' None layout in
     bind_op (lift_res (uuid_arg created_by)) (\<lambda>creator.
     bind_op (create_version env \<lparr>nv_plugin_id = p_id p, nv_version = co_version co,
        nv_metadata = normalize_metadata \<lparr>m_name = p_plugin_key p, m_display_name = None, m_desc = None,
          m_short_desc = None, m_author = p_author p, m_version = co_version co, m_repo = None, m_tags = [],
          m_category = None, m_social_link = None, m_logo = None, m_astrbot_version = None,
          m_support_platforms = [], m_i18n = []\<rparr>,
        nv_s3_key = Some placeholder_key,
        nv_download_url = Some (build_public_url_with_base placeholder_key public_url), nv_file_size = 0,
        nv_source_type = GitAuto, nv_commit_sha = None, nv_source_ref = ref, nv_changelog = changelog,
        nv_created_by = creator, nv_build_status = BBuilding\<rparr>) (\<lambda>pv.
     ret (pv, co, layout, public_url, max_zip))))))))))))))))))"

text \<open>From then on it marks the row as failed.\<close>

definition build_rest ::
  "env \<Rightarrow> git_world \<Rightarrow> plugin \<Rightarrow> version \<Rightarrow> checkout \<Rightarrow> s3_layout \<Rightarrow> string \<Rightarrow> int \<Rightarrow> version option act" where
  "build_rest env g p pv co layout public_url max_zip =
     bind_op (lift_res (create_zip g (co_tree co) (p_plugin_key p) (co_version co) max_zip)) (\<lambda>zip.
     let k = build_s3_key_with_layout p (co_version co) ''git_auto'' (Some (co_sha co)) layout in
     bind_op (upload_file env (a_bytes zip) k) (\<lambda>_.
     bind_op (update_version_after_build env (v_id pv) (co_metadata co) k (build_public_url_with_base k public_url)
        (int (length (a_bytes zip))) (Some (co_sha co))) (\<lambda>_.
     bind_op (scan_version env (v_id pv) (Some zip) None) (\<lambda>_.
     query (get_version (v_id pv))))))"

definition fail_build :: "uuid \<Rightarrow> exn \<Rightarrow> 'a act" where
  "fail_build vid exc =
     bind_op (stage (edit_version vid (\<lambda>v. v\<lparr>v_build_status := BFailed, v_build_log := Some (exn_message exc)\<rparr>))) (\<lambda>_.
     bind_op commit (\<lambda>_. raise exc))"

definition build_from_repo ::
  "env \<Rightarrow> git_world \<Rightarrow> plugin \<Rightarrow> string option \<Rightarrow> string option \<Rightarrow> string option \<Rightarrow> string option \<Rightarrow> string \<Rightarrow>
   string option \<Rightarrow> version option act" where
  "build_from_repo env g p ver ref credential token changelog created_by =
     bind_op (build_start env g p ver ref credential token changelog created_by) (\<lambda>(pv, co, layout, public_url, max_zip).
     try_op (build_rest env g p pv co layout public_url max_zip) (fail_build (v_id pv)))"

section \<open>Submitting\<close>

definition submit_repo ::
  "env \<Rightarrow> git_world \<Rightarrow> string \<Rightarrow> string option \<Rightarrow> string option \<Rightarrow> string option \<Rightarrow> string option \<Rightarrow> string \<Rightarrow>
   string option \<Rightarrow> unit act" where
  "submit_repo env g repo_url ver ref credential token changelog user_id =
     bind_op (runtime_git_clone_timeout env) (\<lambda>_.
     bind_op (runtime_git_preflight_timeout env) (\<lambda>_.
     bind_op (runtime_git_max_repo_size_kb env) (\<lambda>max_kb.
     bind_op (runtime_git_allowed_hosts env) (\<lambda>hosts.
     bind_op (runtime_git_http_proxy env) (\<lambda>proxy.
     bind_op (effective_token env token) (\<lambda>tok.
     bind_op (lift_res (get_git_provider_for_url env repo_url (Some hosts))) (\<lambda>_.
     bind_op (lift_res (normalize_url env repo_url (Some hosts))) (\<lambda>r.
     bind_op (lift_res (clone_checked env g (n_repo_url r) \<lparr>temporary_token = Some tok, credential_id = credential\<rparr>
        ref max_kb hosts proxy)) (\<lambda>_.
     bind_op (lift_res (parse_metadata_yaml g (g_tmp g))) (\<lambda>metadata.
     bind_op (query (get_plugin_by_key (infer_plugin_key (m_name metadata)))) (\<lambda>found.
     bind_op (lift_res found) (\<lambda>existing.
     bind_op (case existing of
         None \<Rightarrow> bind_op (lift_res (uuid_arg user_id)) (\<lambda>_. create_plugin env metadata (n_repo_url r))
       | Some p \<Rightarrow> bind_op (lift_res (assert_metadata_matches_plugin metadata p)) (\<lambda>_. ret p)) (\<lambda>p.
     bind_op (build_from_repo env g p (Some (or_str (or_opt ver (Some (m_version metadata))) [])) ref credential token
        changelog user_id) (\<lambda>_. ret ()))))))))))))))"

section \<open>Matching an inspected commit\<close>

datatype match_status = NewPlugin | NewCommit | DuplicateCommit

record repo_match =
  rm_status :: match_status
  rm_plugin_id :: "uuid option"
  rm_plugin_key :: string
  rm_duplicate_versions :: nat
  rm_duplicate_commit :: "uuid option"

definition match_repo_metadata :: "metadata_view \<Rightarrow> string \<Rightarrow> db \<Rightarrow> exn + repo_match" where
  "match_repo_metadata metadata commit_sha D =
     bind_res (get_plugin_by_key (mp_plugin_key metadata) D) (\<lambda>found.
     case found of
       None \<Rightarrow> Inr \<lparr>rm_status = NewPlugin, rm_plugin_id = None, rm_plugin_key = mp_plugin_key metadata,
           rm_duplicate_versions = 0, rm_duplicate_commit = None\<rparr>
     | Some p \<Rightarrow>
         (let existing_commit = get_version_by_plugin_and_commit (p_id p) commit_sha D
          in Inr \<lparr>rm_status = (if existing_commit \<noteq> None then DuplicateCommit else NewCommit),
               rm_plugin_id = Some (p_id p), rm_plugin_key = p_plugin_key p,
               rm_duplicate_versions = length (filter (\<lambda>v. v_plugin_id v = p_id p \<and> v_version v = mp_version metadata) (versions D)),
               rm_duplicate_commit = map_option v_id existing_commit\<rparr>))"

definition inspect_git_repo ::
  "env \<Rightarrow> git_world \<Rightarrow> string \<Rightarrow> string option \<Rightarrow> string option \<Rightarrow> string option \<Rightarrow> string option \<Rightarrow> bool \<Rightarrow>
   string list option \<Rightarrow> string option \<Rightarrow> (inspected_repo \<times> repo_match) act" where
  "inspect_git_repo env g repo_url token credential ref_type ref include_refs allowed_hosts proxy_url =
     bind_op (lift_res (get_git_provider_for_url env repo_url allowed_hosts)) (\<lambda>_.
     bind_op (lift_res (normalize_url env repo_url allowed_hosts)) (\<lambda>normalized.
     bind_op (effective_token env token) (\<lambda>tok.
     bind_op (lift_res (inspect_repo env g normalized \<lparr>temporary_token = Some tok, credential_id = credential\<rparr>
        ref_type ref include_refs proxy_url)) (\<lambda>raw.
     bind_op (query (match_repo_metadata (sel_metadata (in_selected raw)) (ci_sha (sel_commit (in_selected raw))))) (\<lambda>m.
     bind_op (lift_res m) (\<lambda>m. ret (raw, m)))))))"

definition resolve_git_ref ::
  "env \<Rightarrow> git_world \<Rightarrow> string \<Rightarrow> string option \<Rightarrow> string option \<Rightarrow> string option \<Rightarrow> string option \<Rightarrow>
   string list option \<Rightarrow> string option \<Rightarrow> (resolved_ref \<times> repo_match) act" where
  "resolve_git_ref env g repo_url token credential ref_type ref allowed_hosts proxy_url =
     bind_op (lift_res (get_git_provider_for_url env repo_url allowed_hosts)) (\<lambda>_.
     bind_op (lift_res (normalize_url env repo_url allowed_hosts)) (\<lambda>normalized.
     bind_op (effective_token env token) (\<lambda>tok.
     bind_op (lift_res (resolve_ref env g normalized \<lparr>temporary_token = Some tok, credential_id = credential\<rparr>
        ref_type ref proxy_url)) (\<lambda>raw.
     bind_op (query (match_repo_metadata (sel_metadata raw) (ci_sha (sel_commit raw)))) (\<lambda>m.
     bind_op (lift_res m) (\<lambda>m. ret (raw, m)))))))"

section \<open>A row through a build\<close>

text \<open>The row of a version exists, in the session and committed, and \<open>Q\<close> holds of what it is.\<close>

definition row_holds :: "uuid \<Rightarrow> (_ \<Rightarrow> bool) \<Rightarrow> world \<Rightarrow> bool" where
  "row_holds vid Q w \<longleftrightarrow> (\<forall>D \<in> {sess w, committed w}. \<exists>v. get_version vid D = Some v \<and> Q (v_core v))"

lemma row_holds_sess:
  assumes "row_holds vid Q w" "versions E = map g (versions (sess w))" "\<And>v. v_core (g v) = v_core v"
  shows "row_holds vid Q (w\<lparr>sess := E\<rparr>)"
proof -
  have "get_version vid E = map_option g (get_version vid (sess w))"
    by (rule get_version_map[OF v_coreD(1)[OF assms(3)] assms(2)])
  with assms(1,3) show ?thesis by (auto simp: row_holds_def)
qed

interpretation kept: scan_invariant env "row_holds vid Q" for env vid Q
proof unfold_locales
  fix f w assume f: "core_edit f" and w: "row_holds vid Q w"
  obtain g where "versions (f (sess w)) = map g (versions (sess w))" "\<And>v. v_core (g v) = v_core v"
    using f[unfolded core_edit_def, rule_format, of "sess w"] by blast
  with w show "row_holds vid Q (w\<lparr>sess := f (sess w)\<rparr>)" by (rule row_holds_sess)
qed (auto simp: row_holds_def get_version_def)

lemma keeps_row_publish: "keeps (row_holds vid Q) (publish_plugin_version env pid i review)"
proof (rule keepsI)
  fix w assume w: "row_holds vid Q w"
  have fin: "row_holds vid Q (snd (finish_with env i u))" if "row_holds vid Q u" for u
  proof -
    have "keeps (row_holds vid Q) (finish_with env i)"
      unfolding finish_with_def query_def by (intro keeps_intros kept.commit_and_refresh)
    with that show ?thesis by (simp add: keeps_def)
  qed
  have fill: "row_holds vid Q (fill_config env w)" by (rule kept.caches[OF w])
  have "row_holds vid Q ((fill_config env w)\<lparr>sess := publish_db env pid i review (sess w)\<rparr>)"
    by (rule row_holds_sess[OF fill _ publish_row_core[of pid i]]) (simp add: publish_db_parts)
  with w fill fin show "row_holds vid Q (snd (publish_plugin_version env pid i review w))"
    by (auto simp: publish_plugin_version_apply split: option.split)
qed

lemma keeps_row_scan: "keeps (row_holds vid Q) (scan_version env i lp ps)"
proof -
  have a: "keeps (row_holds vid Q) (try_auto_publish_after_scan env i)"
    unfolding try_auto_publish_after_scan_def Let_def runtime_review_policy_def
    by (intro keeps_intros kept.basic keeps_row_publish)
  show ?thesis
    unfolding scan_version_split scan_tail_def query_def
    by (intro keeps_intros kept.scan_head kept.basic kept.refresh kept.queues a)
qed

lemma update_after_build_row:
  assumes "row_holds vid (\<lambda>c. c = (vid, pid, n, sha0, ref, src, url0, k0, size0, by)) w"
  shows "row_holds vid (\<lambda>_. True) (snd (update_version_after_build env vid m k url z sha w))"
    and "update_version_after_build env vid m k url z sha w = (Inr x, u) \<Longrightarrow>
      row_holds vid (\<lambda>c. c = (vid, pid, n, sha, ref, src, Some url, Some k, Some z, by)) u"
proof -
  let ?f = "\<lambda>v. v\<lparr>v_s3_key := Some k, v_download_url := Some url, v_file_size := Some z,
      v_metadata_raw := Some (metadata_json m), v_commit_sha := sha, v_build_status := BSuccess\<rparr>"
  let ?w = "w\<lparr>sess := edit_version vid ?f (sess w)\<rparr>"
  obtain v where v: "get_version vid (sess w) = Some v" "v_core v = (vid, pid, n, sha0, ref, src, url0, k0, size0, by)"
    using assms by (auto simp: row_holds_def)
  have "get_version vid (edit_version vid ?f (sess w)) = map_option (\<lambda>v. if v_id v = vid then ?f v else v) (get_version vid (sess w))"
    by (rule get_version_map) (simp_all add: edit_version_def rows_update_def)
  then have e: "get_version vid (edit_version vid ?f (sess w)) = Some (?f v)"
    "v_core (?f v) = (vid, pid, n, sha, ref, src, Some url, Some k, Some z, by)"
    using v by (simp_all add: v_core_def)
  have "row_holds vid (\<lambda>_. True) ?w" using assms e by (auto simp: row_holds_def)
  moreover have "keeps (row_holds vid (\<lambda>_. True)) (bind_op (commit_and_refresh env) (\<lambda>_. query (get_version vid)))"
    unfolding query_def by (intro keeps_intros kept.commit_and_refresh)
  ultimately show "row_holds vid (\<lambda>_. True) (snd (update_version_after_build env vid m k url z sha w))"
    unfolding update_version_after_build_def bind_op_def[of "stage f" for f] by (simp add: keeps_def)
  assume "update_version_after_build env vid m k url z sha w = (Inr x, u)"
  then obtain y where "commit_and_refresh env ?w = (Inr y, u)"
    by (auto simp: update_version_after_build_def bind_op_eq_Inr_iff)
  from commit_and_refresh_cases[OF this] e show "row_holds vid (\<lambda>c. c = (vid, pid, n, sha, ref, src, Some url, Some k, Some z, by)) u"
    by (auto simp: row_holds_def)
qed

lemma create_version_row:
  assumes "create_version env a w = (Inr v, u)"
  shows "row_holds (v_id v) (\<lambda>c. c = v_core v) u \<and> v = created_row env a (v_id v)"
proof -
  let ?v = "created_row env a (e_uuid env (uuid_next w))"
  let ?D = "(sess w)\<lparr>versions := versions (sess w) @ [?v]\<rparr>"
  from assms[unfolded create_version_apply bind_op_eq_Inr_iff] obtain y u' where
    b: "commit_and_refresh env (w\<lparr>uuid_next := Suc (uuid_next w), sess := ?D\<rparr>) = (Inr y, u')" "ret ?v u' = (Inr v, u)"
    by blast
  from b(2) have r: "u' = u" "v = ?v" by (simp_all add: ret_def)
  note c = b(1)[unfolded r(1)] r(2)
  from commit_and_refresh_cases[OF c(1)] have d: "db_ok ?D" "committed u = ?D" "sess u = ?D" by auto
  then have "distinct (map v_id (versions ?D))" by (simp add: db_ok_def versions_ok_def)
  from row_get_distinct[OF this, of ?v] have "get_version (v_id v) ?D = Some v" by (simp add: get_version_def c(2))
  with d have "row_holds (v_id v) (\<lambda>c. c = v_core v) u" by (simp add: row_holds_def)
  moreover have "v = created_row env a (v_id v)" unfolding c(2) by (simp add: created_row_def)
  ultimately show ?thesis by blast
qed

lemma build_start_row:
  assumes "build_start env g p ver ref cred token changelog by w = (Inr (pv, co, layout, url, max_zip), u)"
  shows "read_checkout g p ver = Inr co \<and> get_version_by_plugin_and_commit (p_id p) (co_sha co) (sess w) = None
    \<and> v_build_status pv = BBuilding
    \<and> (\<exists>k0 url0 creator. uuid_arg by = Inr creator \<and> row_holds (v_id pv)
         (\<lambda>c. c = (v_id pv, p_id p, co_version co, None, ref, GitAuto, url0, k0, Some 0, creator)) u)"
proof -
  have f: "frames sess (runtime_s3_layout env)" "frames sess (runtime_s3_public_url env)"
    "frames sess (runtime_git_clone_timeout env)" "frames sess (runtime_git_preflight_timeout env)"
    "frames sess (runtime_git_max_repo_size_kb env)" "frames sess (runtime_git_allowed_hosts env)"
    "frames sess (runtime_git_http_proxy env)" "frames sess (effective_token env token)"
    "frames sess (runtime_max_release_zip_bytes env)"
    unfolding frames_keeps runtime_s3_layout_def runtime_s3_public_url_def runtime_git_clone_timeout_def
      runtime_git_preflight_timeout_def runtime_git_max_repo_size_kb_def runtime_git_allowed_hosts_def
      runtime_git_http_proxy_def effective_token_def runtime_github_token_def runtime_max_release_zip_bytes_def
    by (intro allI keeps_intros keeps_get_runtime_value; simp)+
  note frame = framesD[OF f(1)] framesD[OF f(2)] framesD[OF f(3)] framesD[OF f(4)] framesD[OF f(5)]
    framesD[OF f(6)] framesD[OF f(7)] framesD[OF f(8)] framesD[OF f(9)]
  have "\<exists>a w'. create_version env a w' = (Inr pv, u) \<and> uuid_arg by = Inr (nv_created_by a) \<and> nv_plugin_id a = p_id p
      \<and> nv_version a = co_version co \<and> nv_commit_sha a = None \<and> nv_source_ref a = ref \<and> nv_source_type a = GitAuto
      \<and> nv_file_size a = 0 \<and> nv_build_status a = BBuilding"
    using assms
    by (clarsimp simp: build_start_def bind_op_eq_Inr_iff Let_def) (rule exI, intro conjI, rule exI, assumption, simp_all)
  then obtain a w' where a: "create_version env a w' = (Inr pv, u)" "uuid_arg by = Inr (nv_created_by a)"
    "nv_plugin_id a = p_id p" "nv_version a = co_version co" "nv_commit_sha a = None" "nv_source_ref a = ref"
    "nv_source_type a = GitAuto" "nv_file_size a = 0" "nv_build_status a = BBuilding" by blast
  note pv = create_version_row[OF a(1), THEN conjunct2]
  have core: "v_core pv = (v_id pv, p_id p, co_version co, None, ref, GitAuto, nv_download_url a, nv_s3_key a, Some 0, nv_created_by a)"
    by (subst pv) (simp add: v_core_def created_row_def a)
  have st: "v_build_status pv = BBuilding" by (subst pv) (simp add: created_row_def a)
  have "read_checkout g p ver = Inr co \<and> get_version_by_plugin_and_commit (p_id p) (co_sha co) (sess w) = None"
    using assms
    by (auto simp: build_start_def bind_op_eq_Inr_iff Let_def dest!: frame split: if_splits)
  with create_version_row[OF a(1), THEN conjunct1] core st a(2) show ?thesis by metis
qed

lemma then_keeps: "J (snd (m w)) \<Longrightarrow> (\<And>x. keeps J (f x)) \<Longrightarrow> J (snd (bind_op m f w))"
  by (cases rule: bind_op_cases[of m w f]) (auto simp: keeps_def)

lemma keeps_exists_build_rest:
  assumes "row_holds (v_id pv) (\<lambda>c. c = (v_id pv, pid, n, sha0, ref, src, url0, k0, size0, creator)) w"
  shows "row_holds (v_id pv) (\<lambda>_. True) (snd (build_rest env g p pv co layout url max_zip w))"
proof -
  let ?I = "row_holds (v_id pv) (\<lambda>_. True)" and ?Q = "row_holds (v_id pv) (\<lambda>c. c = (v_id pv, pid, n, sha0, ref, src, url0, k0, size0, creator))"
  have weak: "?I u" if "?Q u" for u using that by (auto simp: row_holds_def)
  have last: "keeps ?I (bind_op (scan_version env (v_id pv) lp None) (\<lambda>_. query (get_version (v_id pv))))" for lp
    unfolding query_def by (intro keeps_intros keeps_row_scan)
  have update: "?I (snd (bind_op (update_version_after_build env (v_id pv) m k b z s) (\<lambda>_.
      bind_op (scan_version env (v_id pv) lp None) (\<lambda>_. query (get_version (v_id pv)))) u))" if "?Q u" for m k b z s lp u
    by (rule then_keeps[where m = "update_version_after_build env (v_id pv) m k b z s" and w = u])
      (rule update_after_build_row(1)[OF that], rule last)
  show ?thesis
  proof (cases "create_zip g (co_tree co) (p_plugin_key p) (co_version co) max_zip")
    case (Inl e)
    then show ?thesis using weak[OF assms] by (simp add: build_rest_def bind_op_def)
  next
    case (Inr z)
    let ?k = "build_s3_key_with_layout p (co_version co) ''git_auto'' (Some (co_sha co)) layout"
    have up: "?Q (snd (upload_file env (a_bytes z) ?k w))"
      using kept.uploads(1) assms by (simp add: keeps_def)
    show ?thesis
      using up update weak
      by (cases rule: bind_op_cases[of "upload_file env (a_bytes z) ?k" w])
        (auto simp: build_rest_def Inr Let_def bind_op_def[of "lift_res r" for r] bind_op_def[of "upload_file e c i" for e c i])
  qed
qed

section \<open>Properties\<close>

text \<open>The archive of a build holds exactly the regular files that are not skipped, in the order found, and is
  refused when their sizes exceed the limit; nothing below .git, no environment file and no bytecode is
  in it.\<close>

theorem release_zip_exact:
  assumes "\<forall>f \<in> set tree. 0 \<le> tf_size f" "0 \<le> limit"
  shows "create_zip g tree key ver limit =
      (let files = filter (\<lambda>f. tf_is_file f \<and> \<not> should_skip f) tree in
       if sum_list (map tf_size files) \<le> limit
       then Inr \<lparr>a_name = last_segment (key @ ''-'' @ ver @ ''.zip''), a_bytes = g_zip g files\<rparr>
       else Inl (ValidationError ''release zip is too large''))
    \<and> (\<forall>f \<in> set (filter (\<lambda>f. tf_is_file f \<and> \<not> should_skip f) tree).
        ''.git'' \<notin> set (tf_parts f) \<and> rel_name f \<notin> {''.env'', ''.env.local''} \<and> \<not> ends_with (rel_name f) ''.pyc'')"
proof -
  let ?keep = "filter (\<lambda>f. tf_is_file f \<and> \<not> should_skip f)"
  have nonneg: "0 \<le> sum_list (map tf_size (?keep fs))" if "\<forall>f \<in> set fs. 0 \<le> tf_size f" for fs
    using that by (induction fs) auto
  have "zip_files limit t fs = (if t + sum_list (map tf_size (?keep fs)) \<le> limit then Inr (?keep fs)
      else Inl (ValidationError ''release zip is too large''))" if "\<forall>f \<in> set fs. 0 \<le> tf_size f" "t \<le> limit" for t fs
    using that
  proof (induction fs arbitrary: t)
    case (Cons f fs)
    then show ?case using nonneg[of fs] by (auto simp: algebra_simps)
  qed simp
  from this[OF assms] have "create_zip g tree key ver limit =
      (let files = ?keep tree in
       if sum_list (map tf_size files) \<le> limit
       then Inr \<lparr>a_name = last_segment (key @ ''-'' @ ver @ ''.zip''), a_bytes = g_zip g files\<rparr>
       else Inl (ValidationError ''release zip is too large''))"
    by (simp add: create_zip_def Let_def)
  moreover have "\<forall>f \<in> set (?keep tree). ''.git'' \<notin> set (tf_parts f) \<and> rel_name f \<notin> {''.env'', ''.env.local''}
      \<and> \<not> ends_with (rel_name f) ''.pyc''"
    by (auto simp: should_skip_def Let_def split: if_splits)
  ultimately show ?thesis by blast
qed

definition sample_tree :: "tree_file list" where
  "sample_tree = map (\<lambda>(parts, n). \<lparr>tf_parts = parts, tf_is_file = True, tf_size = n, tf_bytes = []\<rparr>)
     [([''main.py''], 3), ([''.git'', ''config''], 9), ([''.env''], 2), ([''data'', ''x.json''], 4)]"

theorem release_zip_exact_witness:
  "create_zip (sample_git\<lparr>g_zip := (\<lambda>fs. concat (map rel_name fs))\<rparr>) sample_tree ''w'' ''1'' 7
     = Inr \<lparr>a_name = ''w-1.zip'', a_bytes = ''main.pyx.json''\<rparr>"
proof -
  have s: "\<forall>f \<in> set sample_tree. 0 \<le> tf_size f" "0 \<le> (7 :: int)" by code_simp+
  have k: "filter (\<lambda>f. tf_is_file f \<and> \<not> should_skip f) sample_tree
      = map (\<lambda>(parts, n). \<lparr>tf_parts = parts, tf_is_file = True, tf_size = n, tf_bytes = []\<rparr>) [([''main.py''], 3), ([''data'', ''x.json''], 4)]"
    by code_simp
  have n: "last_segment (''w'' @ ''-'' @ ''1'' @ ''.zip'') = ''w-1.zip''" by code_simp
  show ?thesis
    using release_zip_exact[OF s, of "sample_git\<lparr>g_zip := (\<lambda>fs. concat (map rel_name fs))\<rparr>" "''w''" "''1''"]
    unfolding k n by (simp add: rel_name_def)
qed



text \<open>A small plugin, its repository, and an object store that answers or fails.\<close>

definition small_plugin :: plugin where
  "small_plugin = sample_plugin\<lparr>p_id := ''p'', p_plugin_key := ''w'', p_display_name := None, p_description := Some [], p_author := ''a'',
     p_repo_url := Some ''http://github.com/a/w'', p_support_platforms := None\<rparr>"

definition small_metadata :: plugin_metadata where
  "small_metadata = \<lparr>m_name = ''w'', m_display_name = None, m_desc = None, m_short_desc = None, m_author = ''a'',
     m_version = ''1'', m_repo = None, m_tags = [], m_category = None, m_social_link = None, m_logo = None,
     m_astrbot_version = None, m_support_platforms = [], m_i18n = []\<rparr>"

definition small_git :: git_world where
  "small_git = sample_git\<lparr>g_fetch := (\<lambda>url headers proxy. ApiOk (Some (JObj [(''size'', JInt 1)]))),
     g_run := (\<lambda>argv vars. RunOk []), g_head := (\<lambda>dest. Some ''c''), g_tmp := ''/t'', g_metadata := (\<lambda>dest. Inr []),
     g_yaml_load := (\<lambda>s. Inr (JObj [])), g_validate := (\<lambda>d. Inr small_metadata)\<rparr>"

definition small_env :: env where
  "small_env = sample_env\<lparr>e_uuid := (\<lambda>n. ''v''), e_now := 0\<rparr>"

definition small_world :: world where
  "small_world = sample_world (empty_db\<lparr>plugins := [small_plugin]\<rparr>) None"


definition small_build :: "env \<Rightarrow> version option act" where
  "small_build env = build_from_repo env small_git small_plugin None None None None [] None"

definition small_start :: "env \<Rightarrow> (version \<times> checkout \<times> s3_layout \<times> string \<times> int) act" where
  "small_start env = build_start env small_git small_plugin None None None None [] None"

definition no_storage :: env where
  "no_storage = small_env\<lparr>e_s3_upload := (\<lambda>k c. Some (OSError ''s3''))\<rparr>"



end
