(* ===== verification/Lifecycle.thy ===== *)
theory Lifecycle
  imports BuildService TaskQueue Invariants
begin

text \<open>
  The registry over time. Every request of the API and every task of the worker runs one operation of the
  services in a session of its own; between two of them Redis may change in any way (the worker pops tasks,
  keys expire, the server restarts). \<open>step\<close> is one such event, \<open>reachable\<close> what comes of them
  from an empty database. A request that fails is a step like any other: what its operation had committed
  stays. Sessions do not overlap here: the steps are whole sessions, in the order in which they end.
\<close>

section \<open>Requests\<close>

datatype request =
    CreatePlugin plugin_metadata string
  | UpdatePlugin uuid "plugin_update list"
  | SetPluginStatus uuid plugin_status "review_status option"
  | DeletePlugin uuid
  | DeleteVersion uuid uuid
  | CreateVersion new_version
  | UploadVersion plugin plugin_metadata string string string "uuid option"
  | FinishBuild uuid plugin_metadata string string int "string option"
  | SetVersionStatus uuid version_status
  | SetLatest uuid uuid
  | Publish uuid uuid review_status
  | ScanVersion uuid "artifact option" "string list option"
  | MarkPending uuid "string list option"
  | MarkSkipped uuid "string list option"
  | PollAnalysis uuid
  | Requeue "json dict" exn bool
  | BuildRepo git_world plugin "string option" "string option" "string option" "string option" string "string option"
  | SubmitRepo git_world string "string option" "string option" "string option" "string option" string "string option"

definition ignore :: "'a act \<Rightarrow> unit act" where
  "ignore m = bind_op m (\<lambda>_. ret ())"

fun operation :: "env \<Rightarrow> request \<Rightarrow> unit act" where
  "operation env (CreatePlugin m url) = ignore (create_plugin env m url)"
| "operation env (UpdatePlugin pid us) = ignore (update_plugin env pid us)"
| "operation env (SetPluginStatus pid st review) = ignore (set_plugin_status env pid st review)"
| "operation env (DeletePlugin pid) = ignore (delete_plugin env pid)"
| "operation env (DeleteVersion pid vid) = ignore (delete_version env pid vid)"
| "operation env (CreateVersion a) = ignore (create_version env a)"
| "operation env (UploadVersion p m bs n cl by) = ignore (create_version_from_upload env p m bs n cl by)"
| "operation env (FinishBuild vid m k url n sha) = ignore (update_version_after_build env vid m k url n sha)"
| "operation env (SetVersionStatus vid st) = ignore (set_version_status env vid st)"
| "operation env (SetLatest pid vid) = ignore (set_latest_version env pid vid)"
| "operation env (Publish pid vid review) = ignore (publish_plugin_version env pid vid review)"
| "operation env (ScanVersion vid lp ps) = ignore (scan_version env vid lp ps)"
| "operation env (MarkPending vid ps) = ignore (mark_scan_pending env vid ps)"
| "operation env (MarkSkipped vid ps) = ignore (mark_scan_skipped env vid ps)"
| "operation env (PollAnalysis vid) = ignore (poll_virustotal_analysis env vid)"
| "operation env (Requeue t e has_db) = ignore (requeue_task env t e has_db)"
| "operation env (BuildRepo g p n ref cred token cl usr) = ignore (build_from_repo env g p n ref cred token cl usr)"
| "operation env (SubmitRepo g url n ref cred token cl usr) = ignore (submit_repo env g url n ref cred token cl usr)"

text \<open>The callers of \<open>create_version\<close> ask for the states \<open>building\<close> and \<open>success\<close>, never for
  \<open>scanning\<close>.\<close>

fun asked :: "request \<Rightarrow> bool" where
  "asked (CreateVersion a) \<longleftrightarrow> nv_build_status a \<noteq> BScanning"
| "asked _ \<longleftrightarrow> True"

definition perform :: "env \<Rightarrow> request \<Rightarrow> world \<Rightarrow> world" where
  "perform env r w = snd (in_session (operation env r) w)"

inductive step :: "world \<Rightarrow> world \<Rightarrow> bool" where
  step_request: "asked r \<Longrightarrow> step w (perform env r w)"
| step_redis: "step w (w\<lparr>redis := d\<rparr>)"

inductive reachable :: "world \<Rightarrow> bool" where
  start: "committed w = empty_db \<Longrightarrow> sess w = empty_db \<Longrightarrow> reachable w"
| after_step: "reachable w \<Longrightarrow> step w v \<Longrightarrow> reachable v"

inductive_cases stepE: "step w v"

section \<open>The invariant of every step\<close>

lemma ignore_snd: "snd (ignore m w) = snd (m w)"
  by (auto simp: ignore_def bind_op_def split: prod.splits sum.splits)

lemma reg_inv_keeps: "keeps reg_inv m \<Longrightarrow> settled w \<Longrightarrow> reg_inv (snd (m w))"
  using settled_reg_inv by (auto simp: keeps_def)

lemma keeps_reg_inv_upload: "keeps reg_inv (create_version_from_upload env p m bs n cl by)"
  unfolding create_version_from_upload_def Let_def runtime_s3_layout_def runtime_s3_public_url_def
  by (intro keeps_intros reg.basic reg.uploads keeps_reg_inv_versions) simp

text \<open>An operation that, begun in a settled state, ends in one when it returns, and keeps the invariant when it
  raises.\<close>

definition settles :: "'a act \<Rightarrow> bool" where
  "settles m \<longleftrightarrow> (\<forall>w r u. settled w \<longrightarrow> m w = (r, u) \<longrightarrow> reg_inv u \<and> (\<forall>x. r = Inr x \<longrightarrow> settled u))"

lemma settles_keeps: "keeps settled m \<Longrightarrow> settles m"
  unfolding settles_def by (metis keepsD settled_reg_inv)

lemma settles_bind:
  assumes "settles m" "\<And>x. settles (f x)"
  shows "settles (bind_op m f)"
  unfolding settles_def
proof (intro allI impI)
  fix w r u assume w: "settled w" and run: "bind_op m f w = (r, u)"
  show "reg_inv u \<and> (\<forall>x. r = Inr x \<longrightarrow> settled u)"
  proof (cases rule: bind_op_cases[of m w f])
    case (Inl e v)
    with assms(1) w run show ?thesis by (auto simp: settles_def)
  next
    case (Inr x v)
    then have "settled v" using assms(1) w by (auto simp: settles_def)
    moreover have "f x v = (r, u)" using Inr(2) run by simp
    ultimately show ?thesis using assms(2)[of x] unfolding settles_def by blast
  qed
qed

lemma settles_reg_inv: "settles m \<Longrightarrow> settled w \<Longrightarrow> reg_inv (snd (m w))"
  by (cases "m w") (auto simp: settles_def)

lemma settles_then:
  assumes "settles m" "\<And>x v. settled v \<Longrightarrow> reg_inv (snd (f x v))" "settled w"
  shows "reg_inv (snd (bind_op m f w))"
  using assms by (cases rule: bind_op_cases[of m w f]) (auto simp: settles_def)

lemma settles_try:
  assumes "\<And>v. settled v \<Longrightarrow> reg_inv (snd (m v))" "\<And>e. keeps reg_inv (h e)" "settled w"
  shows "reg_inv (snd (try_op m h w))"
  using assms(1)[OF assms(3)] assms(2) by (auto simp: try_op_def keeps_def split: prod.splits sum.splits)

lemma settles_committed:
  assumes "keeps reg_inv m" "\<And>w x u. m w = (Inr x, u) \<Longrightarrow> sess u = committed u"
  shows "settles m"
  unfolding settles_def
proof (intro allI impI)
  fix w r u assume w: "settled w" and run: "m w = (r, u)"
  have "reg_inv u" by (rule keepsD[OF assms(1) settled_reg_inv[OF w] run])
  moreover have "settled u" if "r = Inr x" for x
    using \<open>reg_inv u\<close> assms(2)[OF run[unfolded that]] by (simp add: settled_def reg_inv_def inv_db_def)
  ultimately show "reg_inv u \<and> (\<forall>x. r = Inr x \<longrightarrow> settled u)" by blast
qed

lemma refresh_committed: "commit_and_refresh env w = (Inr x, u) \<Longrightarrow> sess u = committed u"
  using commit_and_refresh_cases by fastforce

lemma settles_creations:
  "nv_build_status a \<noteq> BScanning \<Longrightarrow> settles (create_version env a)" "settles (create_plugin env m url)"
  "settles (update_version_after_build env vid m k url n sha)"
proof -
  show "nv_build_status a \<noteq> BScanning \<Longrightarrow> settles (create_version env a)"
    by (rule settles_committed[OF keeps_reg_inv_versions(1)])
      (auto simp: create_version_def Let_def bind_op_eq_Inr_iff dest: refresh_committed)
  show "settles (create_plugin env m url)"
    by (rule settles_committed[OF keeps_reg_inv_plugins(1)])
      (auto simp: create_plugin_def Let_def bind_op_eq_Inr_iff dest: refresh_committed)
  show "settles (update_version_after_build env vid m k url n sha)"
    by (rule settles_committed[OF keeps_reg_inv_versions(2)])
      (auto simp: update_version_after_build_def bind_op_eq_Inr_iff dest: refresh_committed)
qed

lemma settled_reads:
  "keeps settled (runtime_str env k s)" "keeps settled (runtime_list env k l)" "keeps settled (runtime_int env k i)"
  using keeps_get_runtime_value[of settled env] by simp_all

lemma settled_settings:
  "keeps settled (runtime_s3_layout env)" "keeps settled (runtime_s3_public_url env)"
  "keeps settled (runtime_git_clone_timeout env)" "keeps settled (runtime_git_preflight_timeout env)"
  "keeps settled (runtime_git_max_repo_size_kb env)" "keeps settled (runtime_git_allowed_hosts env)"
  "keeps settled (runtime_git_http_proxy env)" "keeps settled (effective_token env token)"
  "keeps settled (runtime_max_release_zip_bytes env)"
  unfolding runtime_s3_layout_def runtime_s3_public_url_def runtime_git_clone_timeout_def
    runtime_git_preflight_timeout_def runtime_git_max_repo_size_kb_def runtime_git_allowed_hosts_def
    runtime_git_http_proxy_def effective_token_def runtime_github_token_def runtime_max_release_zip_bytes_def
  by (intro keeps_intros settled_reads)+

lemma settles_basic: "settles (ret x)" "settles (lift_res r)" "settles (query f)" "settles (guard_op b e)"
  by (rule settles_keeps; simp add: query_def keeps_ret)+

lemma settles_build_start: "settles (build_start env g p n ref cred token cl usr)"
  unfolding build_start_def Let_def
  by (intro settles_bind settles_basic settles_keeps[OF settled_settings(1)] settles_keeps[OF settled_settings(2)]
      settles_keeps[OF settled_settings(3)] settles_keeps[OF settled_settings(4)] settles_keeps[OF settled_settings(5)]
      settles_keeps[OF settled_settings(6)] settles_keeps[OF settled_settings(7)] settles_keeps[OF settled_settings(8)]
      settles_keeps[OF settled_settings(9)] settles_creations) simp

lemma keeps_fail_build: "keeps reg_inv (fail_build vid e)"
  unfolding fail_build_def by (intro keeps_intros keeps_reg_inv_stage soft_edit_version) auto

lemma build_inv:
  assumes "settled w"
  shows "reg_inv (snd (build_from_repo env g p n ref cred token cl usr w))"
  unfolding build_from_repo_def
proof (rule settles_then[OF settles_build_start _ assms])
  fix x :: "version \<times> checkout \<times> s3_layout \<times> string \<times> int" and v assume v: "settled v"
  obtain pv co layout url max_zip where x: "x = (pv, co, layout, url, max_zip)" by (cases x)
  have up: "settles (upload_file env bs k)" for bs k
    by (rule settles_keeps) (auto simp: upload_file_def keeps_def settled_def split: option.splits)
  have scan: "reg_inv (snd (bind_op (scan_version env i lp ps) (\<lambda>_. query f) v))" if "settled v" for i lp ps f v
    using scan_version_inv[OF that, of env i lp ps] by (cases rule: bind_op_cases[of "scan_version env i lp ps" v]) auto
  have "reg_inv (snd (build_rest env g p pv co layout url max_zip v))" if "settled v" for v
    unfolding build_rest_def Let_def
    by (rule settles_then[OF settles_basic(2) _ that], rule settles_then[OF up], rule settles_then[OF settles_creations(3)])
      (rule scan)
  from settles_try[OF this keeps_fail_build v]
  show "reg_inv (snd ((case x of (pv, co, layout, url, max_zip) \<Rightarrow>
      try_op (build_rest env g p pv co layout url max_zip) (fail_build (v_id pv))) v))"
    unfolding x by simp
qed

lemma settles_case: "settles m \<Longrightarrow> (\<And>x. settles (f x)) \<Longrightarrow> settles (case z of None \<Rightarrow> m | Some x \<Rightarrow> f x)"
  by (cases z) auto

lemma submit_inv:
  assumes "settled w"
  shows "reg_inv (snd (submit_repo env g url n ref cred token cl usr w))"
proof -
  
  have last: "reg_inv (snd (bind_op (build_from_repo env g p n ref cred token cl usr) (\<lambda>_. ret ()) v))" if "settled v" for p n v
    using build_inv[OF that, of env g p n ref cred token cl usr]
    by (cases rule: bind_op_cases[of "build_from_repo env g p n ref cred token cl usr" v]) auto
  have found: "settles (case z of None \<Rightarrow> bind_op (lift_res (uuid_arg usr)) (\<lambda>_. create_plugin env m u)
       | Some p \<Rightarrow> bind_op (lift_res (assert_metadata_matches_plugin m p)) (\<lambda>_. ret p))" for z m u
    by (intro settles_case settles_bind settles_basic settles_creations)
  show ?thesis
    unfolding submit_repo_def
    by (rule settles_then[OF settles_keeps[OF settled_settings(3)] _ assms],
        rule settles_then[OF settles_keeps[OF settled_settings(4)]], rule settles_then[OF settles_keeps[OF settled_settings(5)]],
        rule settles_then[OF settles_keeps[OF settled_settings(6)]], rule settles_then[OF settles_keeps[OF settled_settings(7)]],
        rule settles_then[OF settles_keeps[OF settled_settings(8)]],
        rule settles_then[OF settles_basic(2)], rule settles_then[OF settles_basic(2)], rule settles_then[OF settles_basic(2)],
        rule settles_then[OF settles_basic(2)], rule settles_then[OF settles_basic(3)], rule settles_then[OF settles_basic(2)],
        rule settles_then[OF found]) (rule last)
qed

lemma operation_inv:
  assumes "settled w" "asked r"
  shows "reg_inv (snd (operation env r w))"
  using assms
  by (cases r)
    (auto simp: ignore_snd
      intro!: reg_inv_keeps[OF keeps_reg_inv_plugins(1)] reg_inv_keeps[OF keeps_reg_inv_plugins(2)]
        reg_inv_keeps[OF keeps_reg_inv_plugins(3)] reg_inv_keeps[OF keeps_reg_inv_plugins(4)]
        reg_inv_keeps[OF keeps_reg_inv_versions(1)] reg_inv_keeps[OF keeps_reg_inv_versions(2)]
        reg_inv_keeps[OF keeps_reg_inv_versions(3)] reg_inv_keeps[OF keeps_reg_inv_upload]
        reg_inv_of_settled[OF keeps_settled_publish] reg_inv_of_settled[OF keeps_settled_set_latest]
        reg_inv_of_settled[OF keeps_settled_set_plugin_status] scan_version_inv mark_scan_inv
        reg_inv_keeps[OF keeps_reg_inv_poll] reg_inv_keeps[OF reg.queues(2)] build_inv submit_inv)

lemma in_session_settled:
  assumes "reg_inv (snd (m (w\<lparr>sess := committed w\<rparr>)))"
  shows "settled (snd (in_session m w))"
  using assms by (auto simp: in_session_def settled_def reg_inv_def inv_db_def split: prod.splits)

lemma perform_settled:
  assumes "settled w" "asked r"
  shows "settled (perform env r w)"
proof -
  have "settled (w\<lparr>sess := committed w\<rparr>)" using assms(1) by (simp add: settled_def)
  then show ?thesis
    unfolding perform_def
    by (intro in_session_settled[where m = "operation env r" and w = w] operation_inv assms(2))
qed

lemma settled_redis [simp]: "settled (w\<lparr>redis := d\<rparr>) = settled w"
  by (simp add: settled_def)

lemma step_settled: "step w v \<Longrightarrow> settled w \<Longrightarrow> settled v"
  by (erule stepE) (auto intro: perform_settled)

lemma inv_empty: "inv_db empty_db"
  by (simp add: inv_db_def db_ok_def table_defs empty_db_def registry_soft_def commit_index_def some_list_def)

lemma reachable_settled: "reachable w \<Longrightarrow> settled w"
proof (induction rule: reachable.induct)
  case (start w)
  then show ?case using inv_empty by (simp add: settled_def)
next
  case (after_step w v)
  then show ?case by (blast intro: step_settled)
qed

section \<open>Before and after a publication\<close>

definition configured :: "env \<Rightarrow> system_config list \<Rightarrow> string list \<Rightarrow> world \<Rightarrow> bool" where
  "configured env cs ps w \<longleftrightarrow> configs (sess w) = cs \<and> configs (committed w) = cs \<and> enabled_providers env w = ps"

text \<open>The latest versions are among \<open>L\<close>; and the weaker law that a latest version outside \<open>L\<close> passes the
  gate of the providers \<open>ps\<close>.\<close>

definition among :: "uuid set \<Rightarrow> env \<Rightarrow> system_config list \<Rightarrow> string list \<Rightarrow> world \<Rightarrow> bool" where
  "among L env cs ps w \<longleftrightarrow> configured env cs ps w \<and> latest_ids (sess w) \<subseteq> L \<and> latest_ids (committed w) \<subseteq> L"

definition gate_law :: "uuid set \<Rightarrow> string list \<Rightarrow> db \<Rightarrow> bool" where
  "gate_law L ps D \<longleftrightarrow> (\<forall>u \<in> set (versions D). v_is_latest u \<longrightarrow> v_id u \<in> L \<or> scan_passed (load_view D u) (Some ps))"

definition behind_gate :: "uuid set \<Rightarrow> env \<Rightarrow> system_config list \<Rightarrow> string list \<Rightarrow> world \<Rightarrow> bool" where
  "behind_gate L env cs ps w \<longleftrightarrow> configured env cs ps w \<and> gate_law L ps (sess w) \<and> gate_law L ps (committed w)"

lemma among_behind: "among L env cs ps w \<Longrightarrow> behind_gate L env cs ps w"
  by (auto simp: among_def behind_gate_def gate_law_def latest_ids_def)

lemma configured_steps:
  assumes "configured env cs ps w"
  shows "configured env cs ps (w\<lparr>committed := sess w\<rparr>)" "configured env cs ps (w\<lparr>sess := committed w\<rparr>)"
    "configured env cs ps (w\<lparr>uuid_next := n\<rparr>)" "configured env cs ps (w\<lparr>s3_keys := ks\<rparr>)"
    "configured env cs ps (fill_config env w)"
    "configs D = cs \<Longrightarrow> configured env cs ps (w\<lparr>sess := D\<rparr>)"
    "config_blind env f \<Longrightarrow> configured env cs ps (w\<lparr>redis := map_option f (redis w)\<rparr>)"
proof -
  have "runtime_values env (w\<lparr>committed := C\<rparr>) = runtime_values env w"
    "runtime_values env (w\<lparr>uuid_next := n\<rparr>) = runtime_values env w"
    "runtime_values env (w\<lparr>s3_keys := ks\<rparr>) = runtime_values env w" for C
    by (simp_all add: runtime_values_def split: option.split)
  note other = this[THEN cfg_values(5)]
  have sess: "configured env cs ps (w\<lparr>sess := D\<rparr>)" if "configs D = cs" for D
    using assms that cfg_sess(2)[of D w env] by (simp add: configured_def)
  show "configured env cs ps (w\<lparr>committed := sess w\<rparr>)" "configured env cs ps (w\<lparr>uuid_next := n\<rparr>)"
    "configured env cs ps (w\<lparr>s3_keys := ks\<rparr>)" "configured env cs ps (fill_config env w)"
    using assms other by (simp_all add: configured_def)
  show "configs D = cs \<Longrightarrow> configured env cs ps (w\<lparr>sess := D\<rparr>)" by (rule sess)
  show "configured env cs ps (w\<lparr>sess := committed w\<rparr>)" using assms by (intro sess) (simp add: configured_def)
  show "config_blind env f \<Longrightarrow> configured env cs ps (w\<lparr>redis := map_option f (redis w)\<rparr>)"
    using assms cfg_reg_put(5)[of env f w] by (simp add: configured_def reg_put_def)
qed

interpretation early: latest_invariant env "among L env cs ps" for L env cs ps
proof unfold_locales
  show "among L env cs ps w \<Longrightarrow> among L env cs ps (w\<lparr>sess := (sess w)\<lparr>tasks := ts\<rparr>\<rparr>)" for w ts
    using configured_steps(6)[of env cs ps w] by (auto simp: among_def configured_def latest_ids_def)
  show "no_new_latest f \<Longrightarrow> among L env cs ps w \<Longrightarrow> among L env cs ps (w\<lparr>sess := f (sess w)\<rparr>)" for f w
    using configured_steps(6)[of env cs ps w "f (sess w)"] by (auto simp: among_def configured_def no_new_latest_def)
qed (auto simp: among_def intro: configured_steps)

text \<open>The gate reads the rows of the scanners, not the review.\<close>

lemma dict_get_fold_filter:
  "dict_get p (fold (\<lambda>(k, v) d. dict_set k v d) kvs d) =
   dict_get p (fold (\<lambda>(k, v) d. dict_set k v d) (filter (\<lambda>kv. fst kv = p) kvs) d)"
proof -
  have "dict_get p d = dict_get p e \<Longrightarrow> dict_get p (fold (\<lambda>(k, v) d. dict_set k v d) kvs d) =
   dict_get p (fold (\<lambda>(k, v) d. dict_set k v d) (filter (\<lambda>kv. fst kv = p) kvs) e)" for d e
  proof (induction kvs arbitrary: d e)
    case (Cons kv kvs)
    obtain k v where kv: "kv = (k, v)" by (cases kv)
    show ?case
    proof (cases "k = p")
      case True
      then show ?thesis using Cons.IH[of "dict_set p v d" "dict_set p v e"] by (simp add: kv)
    next
      case False
      then show ?thesis using Cons.IH[of "dict_set k v d" e] Cons.prems by (simp add: kv)
    qed
  qed simp
  then show ?thesis by blast
qed

lemma row_results_same:
  assumes "filter (\<lambda>r. pr_provider r = p) (vv_results vv) = filter (\<lambda>r. pr_provider r = p) (vv_results uu)"
  shows "dict_get p (row_results vv None) = dict_get p (row_results uu None)"
proof -
  have "filter (\<lambda>kv. fst kv = p) (map (\<lambda>r. (pr_provider r, provider_result_payload r)) (filter P rs)) =
      map (\<lambda>r. (pr_provider r, provider_result_payload r)) (filter P (filter (\<lambda>r. pr_provider r = p) rs))" for P rs
    by (induction rs) auto
  note f = this
  show ?thesis
    unfolding row_results_def dict_of_def by (subst (1 2) dict_get_fold_filter) (simp only: f assms)
qed

lemma scan_passed_same:
  assumes "scanner_results E = scanner_results D" "scans E = scans D" "v_id u = v_id v" "''human'' \<notin> set ps"
  shows "scan_passed (load_view E u) (Some ps) = scan_passed (load_view D v) (Some ps)"
proof -
  have "dict_get p (scan_provider_results (load_view E u) None) = dict_get p (scan_provider_results (load_view D v) None)"
    if "p \<noteq> ''human''" for p
  proof -
    have f: "filter (\<lambda>r. pr_provider r = p) (filter (\<lambda>r. pr_version_id r = i) rs) =
        filter (\<lambda>r. pr_provider r = p \<and> pr_version_id r = i) (filter (\<lambda>r. pr_provider r \<noteq> ''human'') rs)" for i rs
      using that by (induction rs) auto
    have "dict_get p (row_results (load_view E u) None) = dict_get p (row_results (load_view D v) None)"
      by (rule row_results_same, unfold load_view_def version_view.select_convs f)
        (simp only: assms(1,3) scanner_results_def[symmetric])
    note rows = this
    have "vv_scan (load_view E u) = vv_scan (load_view D v)" using assms(2,3) by (simp add: load_view_def)
    note scan = this
    show ?thesis unfolding scan_provider_results_get rows scan ..
  qed
  then show ?thesis unfolding scan_passed_def scan_gate_iff using assms(4) by metis
qed

lemma gate_law_edit:
  assumes "gate_law L ps D" "scanner_results E = scanner_results D" "scans E = scans D" "''human'' \<notin> set ps"
    and "\<And>u. u \<in> set (versions E) \<Longrightarrow> v_is_latest u \<Longrightarrow>
      \<exists>v \<in> set (versions D). v_id v = v_id u \<and> (v_is_latest v \<or> scan_passed (load_view D v) (Some ps))"
  shows "gate_law L ps E"
  unfolding gate_law_def
proof (intro ballI impI)
  fix u assume u: "u \<in> set (versions E)" "v_is_latest u"
  from assms(5)[OF this] obtain v where v: "v \<in> set (versions D)" "v_id v = v_id u"
    "v_is_latest v \<or> scan_passed (load_view D v) (Some ps)" by blast
  have "scan_passed (load_view E u) (Some ps) = scan_passed (load_view D v) (Some ps)"
    using scan_passed_same[OF assms(2,3) v(2)[symmetric] assms(4)] .
  with v assms(1) show "v_id u \<in> L \<or> scan_passed (load_view E u) (Some ps)" by (auto simp: gate_law_def)
qed

interpretation behind: session_invariant env "behind_gate L env cs ps" for L env cs ps
proof unfold_locales
  have "gate_law L ps (D\<lparr>tasks := ts\<rparr>) = gate_law L ps D" for D ts by (simp add: gate_law_def load_view_def)
  then show "behind_gate L env cs ps w \<Longrightarrow> behind_gate L env cs ps (w\<lparr>sess := (sess w)\<lparr>tasks := ts\<rparr>\<rparr>)" for w ts
    using configured_steps(6)[of env cs ps w] by (auto simp: behind_gate_def configured_def)
qed (auto simp: behind_gate_def intro: configured_steps)

lemma behind_stage:
  assumes w: "behind_gate L env cs ps w"
    and E: "scanner_results E = scanner_results (sess w)" "scans E = scans (sess w)" "configs E = configs (sess w)"
    and ps: "''human'' \<notin> set ps"
    and law: "\<And>u. u \<in> set (versions E) \<Longrightarrow> v_is_latest u \<Longrightarrow>
      \<exists>v \<in> set (versions (sess w)). v_id v = v_id u \<and> (v_is_latest v \<or> scan_passed (load_view (sess w) v) (Some ps))"
  shows "behind_gate L env cs ps (w\<lparr>sess := E\<rparr>)"
  using w gate_law_edit[OF _ E(1,2) ps law] E(3) configured_steps(6)[of env cs ps w E]
  by (auto simp: behind_gate_def configured_def)

lemma behind_finish: "behind_gate L env cs ps w \<Longrightarrow> behind_gate L env cs ps (snd (finish_with env vid w))"
proof -
  have "keeps (behind_gate L env cs ps) (finish_with env vid)"
    unfolding finish_with_def query_def by (intro keeps_intros behind.commit_and_refresh)
  then show "behind_gate L env cs ps w \<Longrightarrow> ?thesis" by (simp add: keeps_def)
qed

lemma publish_db_scanners:
  "scanner_results (publish_db env pid vid review D) = scanner_results D" "scans (publish_db env pid vid review D) = scans D"
proof -
  show "scanner_results (publish_db env pid vid review D) = scanner_results D" by (simp add: publish_db_def)
  show "scans (publish_db env pid vid review D) = scans D"
    by (simp add: publish_db_def human_db_def make_latest_def edit_version_def edit_plugin_def finish_scanning_def
        unset_latest_def)
qed

lemma behind_publish:
  assumes w: "behind_gate L env cs ps w" and ps: "''human'' \<notin> set ps"
  shows "behind_gate L env cs ps (snd (publish_plugin_version env pid vid review w))"
proof -
  have fill: "behind_gate L env cs ps (fill_config env w)" by (rule behind.caches[OF w])
  have "behind_gate L env cs ps ((fill_config env w)\<lparr>sess := publish_db env pid vid review (sess w)\<rparr>)"
    if vv: "find_view pid vid (sess w) = Some vv" "scan_passed vv (Some (enabled_providers env w))" for vv
  proof (rule behind_stage[OF fill _ _ _ ps])
    fix u assume u: "u \<in> set (versions (publish_db env pid vid review (sess w)))" "v_is_latest u"
    then obtain v where v: "v \<in> set (versions (sess w))" "u = publish_row pid vid v" by (auto simp: publish_db_parts)
    note x = find_view_SomeD[OF vv(1)]
    have "ps = enabled_providers env w" using w by (simp add: behind_gate_def configured_def)
    with vv(2) x(4) have pass: "scan_passed (load_view (sess w) (vv_version vv)) (Some ps)" by metis
    show "\<exists>v \<in> set (versions (sess (fill_config env w))). v_id v = v_id u
        \<and> (v_is_latest v \<or> scan_passed (load_view (sess (fill_config env w)) v) (Some ps))"
    proof (cases "v_id v = vid")
      case True
      then have "v_id u = vid" by (simp add: v(2) publish_row_def)
      with x(1,3) pass show ?thesis unfolding fill_config_fields by metis
    next
      case False
      then have "v_id u = v_id v" "v_is_latest v" using u(2) by (auto simp: v(2) publish_row_def split: if_splits)
      with v(1) show ?thesis unfolding fill_config_fields by metis
    qed
  qed (simp_all add: publish_db_scanners publish_db_parts)
  then show ?thesis
    using w fill by (auto simp: publish_plugin_version_apply intro: behind_finish split: option.split)
qed

lemma behind_set_latest:
  assumes w: "behind_gate L env cs ps w" and ps: "''human'' \<notin> set ps"
  shows "behind_gate L env cs ps (snd (set_latest_version env pid vid w))"
proof -
  have fill: "behind_gate L env cs ps (fill_config env w)" by (rule behind.caches[OF w])
  have "behind_gate L env cs ps ((fill_config env w)\<lparr>sess := latest_db pid vid (sess w)\<rparr>)"
    if vv: "find_view pid vid (sess w) = Some vv" "scan_passed vv (Some (enabled_providers env w))" for vv
  proof (rule behind_stage[OF fill _ _ _ ps])
    fix u assume u: "u \<in> set (versions (latest_db pid vid (sess w)))" "v_is_latest u"
    note x = find_view_SomeD[OF vv(1)]
    have "ps = enabled_providers env w" using w by (simp add: behind_gate_def configured_def)
    with vv(2) x(4) have pass: "scan_passed (load_view (sess w) (vv_version vv)) (Some ps)" by metis
    from u have "v_id u = vid \<or> (\<exists>v \<in> set (versions (sess w)). v_id v = v_id u \<and> v_is_latest v)"
      by (auto simp: latest_db_eq split: if_splits)
    with x(1,3) pass show "\<exists>v \<in> set (versions (sess (fill_config env w))). v_id v = v_id u
        \<and> (v_is_latest v \<or> scan_passed (load_view (sess (fill_config env w)) v) (Some ps))"
      unfolding fill_config_fields by metis
  qed (simp_all add: latest_db_eq scanner_results_def)
  then show ?thesis
    using w fill by (auto simp: set_latest_version_apply intro: behind_finish split: option.split)
qed

text \<open>A scan or a poll works among the latest versions it finds until its commit; then it may publish.\<close>

lemma behind_auto:
  assumes "''human'' \<notin> set ps"
  shows "keeps (behind_gate L env cs ps) (try_auto_publish_after_scan env vid)"
proof -
  have p: "keeps (behind_gate L env cs ps) (publish_plugin_version env pid i rv)" for pid i rv
    using behind_publish[OF _ assms] by (simp add: keeps_def)
  show ?thesis
    unfolding try_auto_publish_after_scan_def Let_def runtime_review_policy_def
    by (intro keeps_intros behind.basic p)
qed

definition ends_behind :: "uuid set \<Rightarrow> env \<Rightarrow> system_config list \<Rightarrow> string list \<Rightarrow> 'a act \<Rightarrow> bool" where
  "ends_behind L env cs ps m \<longleftrightarrow> (\<forall>w. among L env cs ps w \<longrightarrow> behind_gate L env cs ps (snd (m w)))"

lemma ends_bind:
  assumes "keeps (among L env cs ps) m" "\<And>x. ends_behind L env cs ps (f x)"
  shows "ends_behind L env cs ps (bind_op m f)"
  unfolding ends_behind_def
proof (intro allI impI)
  fix w assume w: "among L env cs ps w"
  show "behind_gate L env cs ps (snd (bind_op m f w))"
  proof (cases rule: bind_op_cases[of m w f])
    case (Inl e v)
    with keepsD[OF assms(1) w Inl(1)] show ?thesis by (simp add: among_behind)
  next
    case (Inr x v)
    with keepsD[OF assms(1) w Inr(1)] assms(2)[of x] show ?thesis by (simp add: ends_behind_def)
  qed
qed

lemma ends_kept: "keeps (behind_gate L env cs ps) m \<Longrightarrow> ends_behind L env cs ps m"
  and ends_among: "keeps (among L env cs ps) n \<Longrightarrow> ends_behind L env cs ps n"
  using among_behind by (auto simp: ends_behind_def keeps_def)

lemma ends_ret: "ends_behind L env cs ps (ret x)"
  by (rule ends_kept) simp

lemma ends_prod: "(\<And>a b. ends_behind L env cs ps (f a b)) \<Longrightarrow> ends_behind L env cs ps (case z of (a, b) \<Rightarrow> f a b)"
  by (cases z) simp

lemma ends_if: "ends_behind L env cs ps m \<Longrightarrow> ends_behind L env cs ps n \<Longrightarrow> ends_behind L env cs ps (if b then m else n)"
  by simp

lemma ends_auto:
  assumes "''human'' \<notin> set ps"
  shows "ends_behind L env cs ps (bind_op (when_op b (bind_op (try_auto_publish_after_scan env vid) (\<lambda>_. ret ()))) (\<lambda>_. query f))"
proof -
  have "keeps (behind_gate L env cs ps) (bind_op (when_op b (bind_op (try_auto_publish_after_scan env vid) (\<lambda>_. ret ()))) (\<lambda>_. query f))"
    unfolding query_def by (intro keeps_intros behind_auto assms)
  then show ?thesis by (rule ends_kept)
qed

lemma ends_scan:
  assumes "''human'' \<notin> set ps"
  shows "ends_behind L env cs ps (scan_version env vid lp prs)"
  unfolding scan_version_split scan_tail_def
  by (intro ends_bind early.scan_head early.basic early.refresh early.queues keeps_intros ends_auto assms)

lemma ends_complete:
  assumes "''human'' \<notin> set ps"
  shows "ends_behind L env cs ps (complete_provider_outcome env vid p oc)"
  unfolding complete_provider_outcome_def
  by (intro ends_bind early.basic early.refresh early.scan_rows early.stages no_new_latest_edits keeps_intros ends_auto assms)
    auto

lemma ends_store:
  assumes "''human'' \<notin> set ps"
  shows "ends_behind L env cs ps (store_poll_outcome env vid oc)"
  unfolding store_poll_outcome_def
  by (intro ends_bind early.basic early.refresh early.queues early.scan_rows early.stages no_new_latest_edits
      keeps_intros ends_auto assms)

lemma ends_poll:
  assumes "''human'' \<notin> set ps"
  shows "ends_behind L env cs ps (poll_virustotal_analysis env vid)"
proof -
  have vt: "keeps (among L env cs ps) (runtime_virustotal_config env)"
    unfolding runtime_virustotal_config_def by (intro keeps_intros early.basic)
  have a: "ends_behind L env cs ps (poll_analysis env vid s r aid)" for s r aid
    unfolding poll_analysis_def poll_configured_def[abs_def] Let_def runtime_scan_enabled_providers_def runtime_scan_defaults_def
    by (intro ends_bind ends_if ends_complete ends_store assms early.basic vt keeps_intros)
  show ?thesis
    unfolding poll_virustotal_analysis_def Let_def
    by (intro ends_bind ends_prod ends_if a ends_ret early.scan_rows)
qed

lemma ends_try:
  assumes "ends_behind L env cs ps m" "\<And>e. keeps (behind_gate L env cs ps) (h e)"
  shows "ends_behind L env cs ps (try_op m h)"
  unfolding ends_behind_def
proof (intro allI impI)
  fix w assume w: "among L env cs ps w"
  then have "behind_gate L env cs ps (snd (m w))" using assms(1) by (simp add: ends_behind_def)
  with assms(2) show "behind_gate L env cs ps (snd (try_op m h w))"
    by (auto simp: try_op_def keeps_def split: prod.splits sum.splits)
qed

lemma behind_fail_build:
  assumes "''human'' \<notin> set ps"
  shows "keeps (behind_gate L env cs ps) (fail_build vid e)"
proof -
  let ?f = "\<lambda>v. v\<lparr>v_build_status := BFailed, v_build_log := Some (exn_message e)\<rparr>"
  have "keeps (behind_gate L env cs ps) (stage (edit_version vid ?f))"
  proof (rule keepsI)
    fix w assume w: "behind_gate L env cs ps w"
    have "behind_gate L env cs ps (w\<lparr>sess := edit_version vid ?f (sess w)\<rparr>)"
      by (rule behind_stage[OF w _ _ _ assms])
        (auto simp: edit_version_def rows_update_def scanner_results_def split: if_splits)
    then show "behind_gate L env cs ps (snd (stage (edit_version vid ?f) w))" by simp
  qed
  then show ?thesis unfolding fail_build_def by (intro keeps_intros behind.basic)
qed

lemma among_settings:
  "keeps (among L env cs ps) (runtime_s3_layout env)" "keeps (among L env cs ps) (runtime_s3_public_url env)"
  "keeps (among L env cs ps) (runtime_git_clone_timeout env)" "keeps (among L env cs ps) (runtime_git_preflight_timeout env)"
  "keeps (among L env cs ps) (runtime_git_max_repo_size_kb env)" "keeps (among L env cs ps) (runtime_git_allowed_hosts env)"
  "keeps (among L env cs ps) (runtime_git_http_proxy env)" "keeps (among L env cs ps) (effective_token env token)"
  "keeps (among L env cs ps) (runtime_max_release_zip_bytes env)"
  unfolding runtime_s3_layout_def runtime_s3_public_url_def runtime_git_clone_timeout_def
    runtime_git_preflight_timeout_def runtime_git_max_repo_size_kb_def runtime_git_allowed_hosts_def
    runtime_git_http_proxy_def effective_token_def runtime_github_token_def runtime_max_release_zip_bytes_def
  by (intro keeps_intros early.basic)+

lemma ends_build:
  assumes "''human'' \<notin> set ps"
  shows "ends_behind L env cs ps (build_from_repo env g p n ref cred token cl usr)"
proof -
  have q: "ends_behind L env cs ps (bind_op (scan_version env i lp prs) (\<lambda>_. query f))" for i lp prs f
    unfolding ends_behind_def
  proof (intro allI impI)
    fix w assume "among L env cs ps w"
    with ends_scan[OF assms] have "behind_gate L env cs ps (snd (scan_version env i lp prs w))" by (simp add: ends_behind_def)
    then show "behind_gate L env cs ps (snd (bind_op (scan_version env i lp prs) (\<lambda>_. query f) w))"
      by (rule then_keeps) (simp add: query_def)
  qed
  have start: "keeps (among L env cs ps) (build_start env g p n ref cred token cl usr)"
    unfolding build_start_def Let_def query_def by (intro keeps_intros among_settings early.version_operations)
  have rest: "ends_behind L env cs ps (build_rest env g p pv co layout url z)" for pv co layout url z
    unfolding build_rest_def Let_def by (intro ends_bind keeps_intros early.uploads early.version_operations q)
  show ?thesis
    unfolding build_from_repo_def
    by (rule ends_bind[OF start], unfold split_def) (intro ends_try rest behind_fail_build assms)
qed

lemma ends_submit:
  assumes "''human'' \<notin> set ps"
  shows "ends_behind L env cs ps (submit_repo env g url n ref cred token cl usr)"
proof -
  have last: "ends_behind L env cs ps (bind_op (build_from_repo env g p n ref cred token cl usr) (\<lambda>_. ret ()))" for p n
    unfolding ends_behind_def
  proof (intro allI impI)
    fix w assume "among L env cs ps w"
    with ends_build[OF assms] have "behind_gate L env cs ps (snd (build_from_repo env g p n ref cred token cl usr w))"
      by (simp add: ends_behind_def)
    then show "behind_gate L env cs ps (snd (bind_op (build_from_repo env g p n ref cred token cl usr) (\<lambda>_. ret ()) w))"
      by (rule then_keeps) simp
  qed
  show ?thesis
    unfolding submit_repo_def query_def
    by (intro ends_bind last) (intro keeps_intros among_settings early.plugin_operations)+
qed

lemma operation_behind:
  assumes w: "among L env cs ps w" and ps: "''human'' \<notin> set ps"
  shows "behind_gate L env cs ps (snd (operation env r w))"
proof -
  have e: "behind_gate L env cs ps (snd (m w))" if "ends_behind L env cs ps m" for m :: "'b act"
    using that w by (simp add: ends_behind_def)
  have k: "behind_gate L env cs ps (snd (m w))" if "keeps (among L env cs ps) m" for m :: "'b act"
    by (rule e[OF ends_among[OF that]])
  show ?thesis
  proof (cases r)
    case (Publish pid vid review)
    then show ?thesis using behind_publish[OF among_behind[OF w] ps] by (simp add: ignore_snd)
  next
    case (SetLatest pid vid)
    then show ?thesis using behind_set_latest[OF among_behind[OF w] ps] by (simp add: ignore_snd)
  next
    case (ScanVersion vid lp prs)
    then show ?thesis using e[OF ends_scan[OF ps]] by (simp add: ignore_snd)
  next
    case (PollAnalysis vid)
    then show ?thesis using e[OF ends_poll[OF ps]] by (simp add: ignore_snd)
  next
    case (BuildRepo g p n ref cred token cl usr)
    then show ?thesis using e[OF ends_build[OF ps]] by (simp add: ignore_snd)
  next
    case (SubmitRepo g url n ref cred token cl usr)
    then show ?thesis using e[OF ends_submit[OF ps]] by (simp add: ignore_snd)
  qed (simp_all add: ignore_snd k early.plugin_operations early.version_operations early.scan_marks early.queues)
qed

section \<open>A run\<close>

text \<open>From the empty database: a plugin and its version are created, the scan is skipped, the version is
  published.\<close>

definition run_env :: env where
  "run_env = sample_env\<lparr>e_uuid := (\<lambda>n. if n = 1 then ''p'' else ''v'')\<rparr>"

definition run_metadata :: plugin_metadata where
  "run_metadata = sample_metadata\<lparr>m_name := ''w'', m_display_name := None, m_desc := Some ''f'', m_author := ''a'',
     m_version := ''1''\<rparr>"

definition run_version :: new_version where
  "run_version = \<lparr>nv_plugin_id = ''p'', nv_version = ''1'', nv_metadata = run_metadata, nv_s3_key = Some ''k'',
     nv_download_url = Some ''u'', nv_file_size = 2, nv_source_type = ManualUpload, nv_commit_sha = None,
     nv_source_ref = None, nv_changelog = [], nv_created_by = None, nv_build_status = BSuccess\<rparr>"

definition run_db :: "version list \<Rightarrow> db" where
  "run_db vs = empty_db\<lparr>plugins := [\<lparr>p_id = ''p'', p_plugin_key = ''w'', p_display_name = None,
     p_description = Some ''f'', p_author = ''a'', p_repo_url = Some ''g'', p_social_link = None, p_category = None,
     p_logo_s3_key = None, p_stars = 0, p_pinned = False, p_support_platforms = Some [], p_astrbot_version = None,
     p_status = PPending, p_review_status = RPending, p_created_at = 1700000000000000\<rparr>], versions := vs\<rparr>"

definition run_world :: "db \<Rightarrow> nat \<Rightarrow> world" where
  "run_world D n = \<lparr>committed = D, sess = D, uuid_next = n, redis = None, s3_keys = []\<rparr>"

lemma run_creates_plugin: "perform run_env (CreatePlugin run_metadata ''g'') (sample_world empty_db None) = run_world (run_db []) 2"
  by code_simp

definition run_row :: version where
  "run_row = created_row run_env run_version ''v''"

lemma run_creates_version: "perform run_env (CreateVersion run_version) (run_world (run_db []) 2) = run_world (run_db [run_row]) 3"
  by code_simp

definition run_skipped :: db where
  "run_skipped = (let skipped = (\<lambda>p. (new_result ''v'' p KScan (e_now run_env))\<lparr>pr_passed := Some True, pr_message := Some ''Manually skipped'',
       pr_mode := MSkipped, pr_completed_at := Some (e_now run_env)\<rparr>)
     in (run_db [run_row])\<lparr>scans := [(new_scan ''v'' (e_now run_env))\<lparr>s_virustotal_pass := Some True,
         s_virustotal_msg := Some ''Manually skipped'', s_virustotal_mode := MSkipped, s_llm_agent_pass := Some True,
         s_llm_agent_msg := Some ''Manually skipped'', s_llm_agent_mode := MSkipped\<rparr>],
       results := [skipped ''virustotal'', skipped ''llm_agent'']\<rparr>)"

lemma run_skips: "perform run_env (MarkSkipped ''v'' (Some [''virustotal'', ''llm_agent''])) (run_world (run_db [run_row]) 3) = run_world run_skipped 3"
  by code_simp

lemma reachable_run: "reachable (run_world run_skipped 3)"
proof -
  have "reachable (sample_world empty_db None)" by (rule start) simp_all
  from after_step[OF this step_request[of "CreatePlugin run_metadata ''g''" _ run_env]]
  have "reachable (run_world (run_db []) 2)" by (simp add: run_creates_plugin)
  from after_step[OF this step_request[of "CreateVersion run_version" _ run_env]]
  have "reachable (run_world (run_db [run_row]) 3)"
    by (simp add: run_creates_version) (simp add: run_version_def)
  from after_step[OF this step_request[of "MarkSkipped ''v'' (Some [''virustotal'', ''llm_agent''])" _ run_env]]
  show ?thesis by (simp add: run_skips)
qed

definition run_published :: world where
  "run_published = perform run_env (Publish ''p'' ''v'' RApproved) (run_world run_skipped 3)"

lemma run_publishes: "committed run_published = publish_db run_env ''p'' ''v'' RApproved run_skipped"
proof -
  let ?w = "run_world run_skipped 3"
  have g: "find_view ''p'' ''v'' run_skipped = Some (load_view run_skipped run_row)"
    "get_plugin ''p'' run_skipped \<noteq> None" by code_simp+
  have o: "gate_open run_env ?w (load_view run_skipped run_row)" by code_simp
  have f: "committed ?w = run_skipped" "sess ?w = committed ?w" "redis ?w = None" "?w\<lparr>sess := run_skipped\<rparr> = ?w"
    by (simp_all add: run_world_def)
  have "cache_healthy run_env ?w" by (simp add: cache_healthy_def f)
  from publish_returns[OF reachable_settled[OF reachable_run] this, of RApproved "''p''" "''v''"] g o
  show ?thesis by (auto simp: run_published_def perform_def in_session_def ignore_def bind_op_def f)
qed

section \<open>Properties\<close>





end
