(* ===== verification/IpAddress.thy ===== *)
theory IpAddress
  imports Rows "HOL-Library.Word"
begin

text \<open>
  What the services use of Python's \<open>ipaddress\<close>: addresses as machine words of 32 and 128 bits, read from
  their texts, and networks given by an address and a prefix length or, for version 4, a net mask. A text
  that the module refuses with \<open>ValueError\<close> is read as \<open>None\<close>.
\<close>

unbundle bit_operations_syntax

section \<open>Addresses\<close>

datatype ip = V4 "32 word" | V6 "128 word"

definition hex_val :: "char \<Rightarrow> nat option" where
  "hex_val c =
     (let n = of_char c :: nat
      in if 48 \<le> n \<and> n \<le> 57 then Some (n - 48)
         else if 97 \<le> n \<and> n \<le> 102 then Some (n - 87)
         else if 65 \<le> n \<and> n \<le> 70 then Some (n - 55) else None)"

fun base_val :: "(char \<Rightarrow> nat option) \<Rightarrow> nat \<Rightarrow> nat \<Rightarrow> string \<Rightarrow> nat option" where
  "base_val f b n [] = Some n"
| "base_val f b n (c # cs) = (case f c of None \<Rightarrow> None | Some d \<Rightarrow> base_val f b (n * b + d) cs)"

definition dec_val :: "char \<Rightarrow> nat option" where
  "dec_val c = (if is_digit c then Some (digit_val c) else None)"

text \<open>\<open>_parse_octet\<close>: at most three digits, no leading zero.\<close>

definition parse_octet :: "string \<Rightarrow> nat option" where
  "parse_octet s =
     (if s = [] \<or> 3 < length s \<or> (s \<noteq> ''0'' \<and> hd s = CHR ''0'') then None
      else (case base_val dec_val 10 0 s of None \<Rightarrow> None | Some n \<Rightarrow> if 255 < n then None else Some n))"

fun all_some :: "'a option list \<Rightarrow> 'a list option" where
  "all_some [] = Some []"
| "all_some (x # xs) = (case x of None \<Rightarrow> None | Some y \<Rightarrow> map_option ((#) y) (all_some xs))"

definition join_words :: "nat \<Rightarrow> nat list \<Rightarrow> 'a::len word" where
  "join_words w ns = foldl (\<lambda>a n. push_bit w a OR of_nat n) 0 ns"

definition parse_ipv4 :: "string \<Rightarrow> 32 word option" where
  "parse_ipv4 s =
     (let octets = str_split (CHR ''.'') s
      in if length octets \<noteq> 4 then None
         else map_option (join_words 8) (all_some (map parse_octet octets)))"

text \<open>\<open>_parse_hextet\<close> and \<open>IPv6Address._ip_int_from_string\<close>: eight groups, or fewer around one \<open>::\<close>, the
  last two possibly written as a version 4 address.\<close>

definition parse_hextet :: "string \<Rightarrow> nat option" where
  "parse_hextet s = (if s = [] \<or> 4 < length s then None else base_val hex_val 16 0 s)"

definition expand_tail :: "string list \<Rightarrow> nat option list option" where
  "expand_tail parts =
     (if CHR ''.'' \<in> set (last parts)
      then (case parse_ipv4 (last parts) of
             None \<Rightarrow> None
           | Some a \<Rightarrow> Some (map parse_hextet (butlast parts)
               @ [Some (unat (drop_bit 16 a)), Some (unat (a AND 0xFFFF))]))
      else Some (map parse_hextet parts))"

fun empty_inner :: "nat \<Rightarrow> string list \<Rightarrow> nat list" where
  "empty_inner i [] = []"
| "empty_inner i [p] = []"
| "empty_inner i (p # q # ps) = (if p = [] then [i] else []) @ empty_inner (Suc i) (q # ps)"

text \<open>The numbers of the groups before and after \<open>::\<close>; there is none when the groups are eight.\<close>

definition ipv6_layout :: "string list \<Rightarrow> nat \<Rightarrow> (nat \<times> nat) option" where
  "ipv6_layout parts n =
     (case (case parts of [] \<Rightarrow> [] | p # ps \<Rightarrow> empty_inner 1 ps) of
       [] \<Rightarrow> if n = 8 \<and> hd parts \<noteq> [] \<and> last parts \<noteq> [] then Some (8, 0) else None
     | [skip] \<Rightarrow>
         let hi = (if hd parts = [] then skip - 1 else skip);
             lo = (if last parts = [] then n - skip - 2 else n - skip - 1)
         in if (hd parts = [] \<and> hi \<noteq> 0) \<or> (last parts = [] \<and> lo \<noteq> 0) \<or> 8 \<le> hi + lo then None
            else Some (hi, lo)
     | _ \<Rightarrow> None)"

definition parse_ipv6_digits :: "string \<Rightarrow> 128 word option" where
  "parse_ipv6_digits s =
     (let parts = str_split (CHR '':'') s
      in if length parts < 3 then None
         else (case expand_tail parts of
           None \<Rightarrow> None
         | Some groups \<Rightarrow>
             if 9 < length groups then None
             else (case ipv6_layout parts (length groups) of
               None \<Rightarrow> None
             | Some (hi, lo) \<Rightarrow>
                 (case all_some (take hi groups @ replicate (8 - (hi + lo)) (Some 0)
                          @ drop (length groups - lo) groups) of
                   None \<Rightarrow> None
                 | Some ns \<Rightarrow> Some (join_words 16 ns)))))"

text \<open>A zone after \<open>%\<close> is cut off; it must be there and hold no further \<open>%\<close>.\<close>

definition parse_ipv6 :: "string \<Rightarrow> 128 word option" where
  "parse_ipv6 s =
     (if CHR ''/'' \<in> set s then None
      else (case str_split (CHR ''%'') s of
        [a] \<Rightarrow> parse_ipv6_digits a
      | [a, zone] \<Rightarrow> if zone = [] then None else parse_ipv6_digits a
      | _ \<Rightarrow> None))"

definition ip_address :: "string \<Rightarrow> ip option" where
  "ip_address s =
     (case parse_ipv4 s of Some a \<Rightarrow> Some (V4 a) | None \<Rightarrow> map_option V6 (parse_ipv6 s))"

section \<open>Networks\<close>

text \<open>An address and a prefix length.\<close>

datatype ip_net = Net4 "32 word" nat | Net6 "128 word" nat

definition prefix_mask :: "nat \<Rightarrow> 'a::len word" where
  "prefix_mask p = NOT (mask (LENGTH('a) - p))"

definition parse_prefix :: "nat \<Rightarrow> string \<Rightarrow> nat option" where
  "parse_prefix width s =
     (if s \<noteq> [] \<and> list_all is_digit s
      then (case base_val dec_val 10 0 s of
             None \<Rightarrow> None
           | Some n \<Rightarrow> if n \<le> width then Some n else None)
      else None)"

text \<open>\<open>_prefix_from_ip_string\<close>: a net mask, or else a host mask.\<close>

definition mask_length :: "32 word \<Rightarrow> nat option" where
  "mask_length m = find (\<lambda>p. prefix_mask p = m) [0..<33]"

definition parse_netmask :: "string \<Rightarrow> nat option" where
  "parse_netmask s =
     (case parse_ipv4 s of
       None \<Rightarrow> None
     | Some m \<Rightarrow> (case mask_length m of Some p \<Rightarrow> Some p | None \<Rightarrow> mask_length (NOT m)))"

text \<open>\<open>ip_network(value, strict=False)\<close>.\<close>

definition ip_network :: "string \<Rightarrow> ip_net option" where
  "ip_network s =
     (case str_split (CHR ''/'') s of
       [a, m] \<Rightarrow>
         (case (case parse_ipv4 a of
                  None \<Rightarrow> None
                | Some x \<Rightarrow> map_option (Net4 x)
                    (case parse_prefix 32 m of Some p \<Rightarrow> Some p | None \<Rightarrow> parse_netmask m)) of
           Some net \<Rightarrow> Some net
         | None \<Rightarrow>
             (case parse_ipv6 a of
               None \<Rightarrow> None
             | Some x \<Rightarrow> map_option (Net6 x) (parse_prefix 128 m)))
     | _ \<Rightarrow> None)"

definition in_network :: "ip \<Rightarrow> ip_net \<Rightarrow> bool" where
  "in_network a net =
     (case (a, net) of
       (V4 x, Net4 n p) \<Rightarrow> x AND prefix_mask p = n AND prefix_mask p
     | (V6 x, Net6 n p) \<Rightarrow> x AND prefix_mask p = n AND prefix_mask p
     | _ \<Rightarrow> False)"

section \<open>Membership is agreement on the leading bits\<close>

lemma and_prefix_mask_eq_iff:
  fixes x n :: "'a::len word"
  assumes "p \<le> LENGTH('a)"
  shows "x AND prefix_mask p = n AND prefix_mask p \<longleftrightarrow>
    drop_bit (LENGTH('a) - p) x = drop_bit (LENGTH('a) - p) n"
proof -
  have "x AND prefix_mask p = n AND prefix_mask p \<longleftrightarrow>
      (\<forall>i. LENGTH('a) - p \<le> i \<longrightarrow> i < LENGTH('a) \<longrightarrow> bit x i = bit n i)"
    by (auto simp: bit_eq_iff prefix_mask_def bit_and_iff bit_not_iff bit_mask_iff)
  also have "\<dots> \<longleftrightarrow> (\<forall>j. j < p \<longrightarrow> bit x (LENGTH('a) - p + j) = bit n (LENGTH('a) - p + j))"
    (is "?L \<longleftrightarrow> ?R")
  proof
    assume R: ?R
    show ?L
    proof (intro allI impI)
      fix i assume "LENGTH('a) - p \<le> i" "i < LENGTH('a)"
      with assms R[rule_format, of "i - (LENGTH('a) - p)"] show "bit x i = bit n i" by simp
    qed
  qed (use assms in simp)
  also have "\<dots> \<longleftrightarrow> drop_bit (LENGTH('a) - p) x = drop_bit (LENGTH('a) - p) n"
  proof -
    have "\<not> bit y (LENGTH('a) - p + j)" if "\<not> j < p" for y :: "'a word" and j
      using that assms bit_imp_le_length[of y "LENGTH('a) - p + j"] by linarith
    then show ?thesis by (metis (mono_tags, lifting) bit_drop_bit_eq bit_eqI comp_apply)
  qed
  finally show ?thesis .
qed

lemma in_network_iff:
  "p \<le> 32 \<Longrightarrow> in_network (V4 x) (Net4 n p) \<longleftrightarrow> drop_bit (32 - p) x = drop_bit (32 - p) n"
  "q \<le> 128 \<Longrightarrow> in_network (V6 y) (Net6 m q) \<longleftrightarrow> drop_bit (128 - q) y = drop_bit (128 - q) m"
  by (simp_all add: in_network_def and_prefix_mask_eq_iff)

end
