(* ===== verification/Security.thy ===== *)
theory Security
  imports World IpAddress
begin

text \<open>
  \<open>services/security_service.py\<close>: the checks of a production configuration, the limiter of failed
  attempts, and the address under which a client is counted. The limiter reads a monotonic clock; its
  readings are counted in microseconds from a moment before the process started.
\<close>

section \<open>Production settings\<close>

definition DEFAULT_JWT_SECRET :: string where "DEFAULT_JWT_SECRET = ''change-me-in-production''"
definition DEFAULT_BOOTSTRAP_PASSWORD :: string where "DEFAULT_BOOTSTRAP_PASSWORD = ''admin123456''"
definition DEFAULT_S3_ACCESS_KEY :: string where "DEFAULT_S3_ACCESS_KEY = ''admin''"
definition DEFAULT_S3_SECRET_KEY :: string where "DEFAULT_S3_SECRET_KEY = ''adminadmin''"

definition is_production :: "settings \<Rightarrow> bool" where
  "is_production S \<longleftrightarrow> str_lower (str_strip (deployment_mode S)) \<in> set [''prod'', ''production'']"

definition is_weak_secret :: "string \<Rightarrow> string \<Rightarrow> nat \<Rightarrow> bool" where
  "is_weak_secret v dflt min_length \<longleftrightarrow> v = [] \<or> v = dflt \<or> length v < min_length"

definition contains_wildcard :: "string list \<Rightarrow> bool" where
  "contains_wildcard vs \<longleftrightarrow> vs = [] \<or> ''*'' \<in> set vs"

definition security_errors :: "settings \<Rightarrow> string list" where
  "security_errors S =
     (if is_weak_secret (jwt_secret S) DEFAULT_JWT_SECRET 32
      then [''JWT_SECRET must be changed and at least 32 characters long''] else [])
   @ (if contains_wildcard (trusted_hosts S)
      then [''TRUSTED_HOSTS must be set to the public domain/IP, not '' @ [CHR 0x27] @ ''*'' @ [CHR 0x27]] else [])
   @ (if ''*'' \<in> set (cors_allow_origins S)
      then [''CORS_ALLOW_ORIGINS must not contain '' @ [CHR 0x27] @ ''*'' @ [CHR 0x27] @ '' in production''] else [])
   @ (if docs_enabled S then [''DOCS_ENABLED must be false in production''] else [])
   @ (if bootstrap_api_enabled S then [''BOOTSTRAP_API_ENABLED must be false in production''] else [])
   @ (if \<not> github_webhook_require_secret S
      then [''GITHUB_WEBHOOK_REQUIRE_SECRET must stay true in production''] else [])
   @ (if is_weak_secret (s3_secret_key S) DEFAULT_S3_SECRET_KEY 16
      then [''S3_SECRET_KEY must be changed and at least 16 characters long''] else [])
   @ (if s3_access_key S = DEFAULT_S3_ACCESS_KEY
      then [''S3_ACCESS_KEY must be changed from the development default''] else [])
   @ (if (bootstrap_admin_username S \<noteq> [] \<or> bootstrap_admin_password S \<noteq> [])
        \<and> is_weak_secret (bootstrap_admin_password S) DEFAULT_BOOTSTRAP_PASSWORD 12
      then [''BOOTSTRAP_ADMIN_PASSWORD must be changed and at least 12 characters long''] else [])"

definition validate_security_settings :: "settings \<Rightarrow> exn + unit" where
  "validate_security_settings S =
     (if \<not> is_production S then Inr ()
      else if security_errors S \<noteq> []
      then Inl (SecurityConfigurationError
             (''Unsafe production configuration: '' @ str_join ''; '' (security_errors S)))
      else Inr ())"

section \<open>The limiter\<close>

record rate_state =
  rl_attempts :: int
  rl_window_started_at :: time
  rl_blocked_until :: time

record rate_limiter =
  lim_attempts :: int
  lim_window_seconds :: int
  lim_block_seconds :: int
  lim_states :: "rate_state dict"

definition make_limiter :: "int \<Rightarrow> int \<Rightarrow> int \<Rightarrow> rate_limiter" where
  "make_limiter attempts window_seconds block_seconds =
     \<lparr>lim_attempts = max 1 attempts, lim_window_seconds = max 1 window_seconds,
      lim_block_seconds = max 1 block_seconds, lim_states = []\<rparr>"

text \<open>Has the window that began at \<open>s\<close> passed?\<close>

definition window_over :: "rate_limiter \<Rightarrow> rate_state \<Rightarrow> time \<Rightarrow> bool" where
  "window_over lim s now \<longleftrightarrow> lim_window_seconds lim * us_per_second < now - rl_window_started_at s"

definition ceil_seconds :: "time \<Rightarrow> int" where
  "ceil_seconds d = - ((- d) div us_per_second)"

definition retry_after :: "string \<Rightarrow> time \<Rightarrow> rate_limiter \<Rightarrow> int \<times> rate_limiter" where
  "retry_after key now lim =
     (case dict_get key (lim_states lim) of
       None \<Rightarrow> (0, lim)
     | Some s \<Rightarrow>
         if now < rl_blocked_until s then (max 1 (ceil_seconds (rl_blocked_until s - now)), lim)
         else (0, if window_over lim s now then lim\<lparr>lim_states := dict_del key (lim_states lim)\<rparr> else lim))"

definition record_failure :: "string \<Rightarrow> time \<Rightarrow> rate_limiter \<Rightarrow> rate_limiter" where
  "record_failure key now lim =
     (let fresh = \<lparr>rl_attempts = 0, rl_window_started_at = now, rl_blocked_until = 0\<rparr>;
          s = (case dict_get key (lim_states lim) of
                 None \<Rightarrow> fresh
               | Some s \<Rightarrow> if window_over lim s now then fresh else s);
          s = s\<lparr>rl_attempts := rl_attempts s + 1\<rparr>;
          s = (if lim_attempts lim \<le> rl_attempts s
               then s\<lparr>rl_blocked_until := now + lim_block_seconds lim * us_per_second\<rparr> else s)
      in lim\<lparr>lim_states := dict_set key s (lim_states lim)\<rparr>)"

definition record_success :: "string \<Rightarrow> rate_limiter \<Rightarrow> rate_limiter" where
  "record_success key lim = lim\<lparr>lim_states := dict_del key (lim_states lim)\<rparr>"

definition login_rate_limiter :: "settings \<Rightarrow> rate_limiter" where
  "login_rate_limiter S = make_limiter (login_rate_limit_attempts S)
     (login_rate_limit_window_seconds S) (login_rate_limit_block_seconds S)"

definition registration_challenge_rate_limiter :: "settings \<Rightarrow> rate_limiter" where
  "registration_challenge_rate_limiter S = make_limiter (registration_challenge_rate_limit_attempts S)
     (registration_challenge_rate_limit_window_seconds S) (registration_challenge_rate_limit_block_seconds S)"

definition registration_submit_rate_limiter :: "settings \<Rightarrow> rate_limiter" where
  "registration_submit_rate_limiter S = make_limiter (registration_submit_rate_limit_attempts S)
     (registration_submit_rate_limit_window_seconds S) (registration_submit_rate_limit_block_seconds S)"

section \<open>Whom an attempt is counted for\<close>

text \<open>A request: its headers under their names in lower case, and the address of the peer.\<close>

record request =
  req_headers :: "string dict"
  req_client_host :: "string option"

definition peer_ip :: "request \<Rightarrow> string" where
  "peer_ip req = or_str (req_client_host req) ''unknown''"

definition parse_proxy_network :: "string \<Rightarrow> ip_net option" where
  "parse_proxy_network v0 =
     (let v = str_strip v0
      in if CHR ''/'' \<in> set v then ip_network v
         else (case ip_address v of
             None \<Rightarrow> None
           | Some a \<Rightarrow> ip_network (v @ ''/'' @ (case a of V4 _ \<Rightarrow> ''32'' | V6 _ \<Rightarrow> ''128''))))"

definition is_trusted_proxy :: "string \<Rightarrow> string list \<Rightarrow> bool" where
  "is_trusted_proxy peer cidrs \<longleftrightarrow>
     (case ip_address peer of
       None \<Rightarrow> False
     | Some a \<Rightarrow> list_ex (\<lambda>cidr. case parse_proxy_network cidr of
           None \<Rightarrow> False | Some net \<Rightarrow> in_network a net) cidrs)"

definition client_ip :: "settings \<Rightarrow> request \<Rightarrow> string" where
  "client_ip S req =
     (let peer = peer_ip req
      in if trust_proxy_headers S \<and> is_trusted_proxy peer (trusted_proxy_cidrs S)
         then (if truthy (dict_get ''x-forwarded-for'' (req_headers req))
               then or_str (Some (str_strip (hd (str_split (CHR '','')
                      (or_str (dict_get ''x-forwarded-for'' (req_headers req)) []))))) peer
               else if truthy (dict_get ''x-real-ip'' (req_headers req))
               then or_str (Some (str_strip (or_str (dict_get ''x-real-ip'' (req_headers req)) []))) peer
               else peer)
         else peer)"

definition login_rate_limit_keys :: "settings \<Rightarrow> request \<Rightarrow> string \<Rightarrow> string list" where
  "login_rate_limit_keys S req username =
     [''user:'' @ or_str (Some (str_lower (str_strip username))) ''<empty>'', ''ip:'' @ client_ip S req]"

definition registration_challenge_rate_limit_key :: "settings \<Rightarrow> request \<Rightarrow> string" where
  "registration_challenge_rate_limit_key S req = ''register-challenge:ip:'' @ client_ip S req"

definition hash_key :: "env \<Rightarrow> string \<Rightarrow> string" where
  "hash_key env v = e_sha256 env (utf8 v)"

definition registration_submit_rate_limit_keys ::
  "env \<Rightarrow> request \<Rightarrow> string \<Rightarrow> string \<Rightarrow> string option \<Rightarrow> string list" where
  "registration_submit_rate_limit_keys env req username email invite_code =
     [''register-submit:ip:'' @ client_ip (e_settings env) req,
      ''register-submit:username:'' @ hash_key env (str_lower (str_strip username)),
      ''register-submit:email:'' @ hash_key env (str_lower (str_strip email))]
     @ (if truthy invite_code
        then [''register-submit:invite:'' @ hash_key env (str_strip (or_str invite_code []))] else [])"

section \<open>What the limiter does\<close>

lemma limits_fixed [simp]:
  "lim_attempts (record_failure key now lim) = lim_attempts lim"
  "lim_window_seconds (record_failure key now lim) = lim_window_seconds lim"
  "lim_block_seconds (record_failure key now lim) = lim_block_seconds lim"
  "lim_attempts (snd (retry_after key now lim)) = lim_attempts lim"
  "lim_window_seconds (snd (retry_after key now lim)) = lim_window_seconds lim"
  "lim_block_seconds (snd (retry_after key now lim)) = lim_block_seconds lim"
  "lim_attempts (record_success key lim) = lim_attempts lim"
  "lim_window_seconds (record_success key lim) = lim_window_seconds lim"
  "lim_block_seconds (record_success key lim) = lim_block_seconds lim"
  by (simp_all add: record_failure_def retry_after_def record_success_def Let_def split: option.splits)

lemma other_keys [simp]:
  "k \<noteq> key \<Longrightarrow> dict_get k (lim_states (record_failure key now lim)) = dict_get k (lim_states lim)"
  "k \<noteq> key \<Longrightarrow> dict_get k (lim_states (snd (retry_after key now lim))) = dict_get k (lim_states lim)"
  "dict_get k (lim_states (record_success key lim)) = (if k = key then None else dict_get k (lim_states lim))"
  by (simp_all add: record_failure_def retry_after_def record_success_def Let_def split: option.splits)

text \<open>What a limiter keeps for a key after failures at the times \<open>ts\<close> of one window.\<close>

definition counted :: "rate_limiter \<Rightarrow> time list \<Rightarrow> rate_state option" where
  "counted lim ts =
     (if ts = [] then None
      else Some \<lparr>rl_attempts = int (length ts), rl_window_started_at = hd ts,
        rl_blocked_until = (if lim_attempts lim \<le> int (length ts)
          then last ts + lim_block_seconds lim * us_per_second else 0)\<rparr>)"

definition one_window :: "rate_limiter \<Rightarrow> time list \<Rightarrow> bool" where
  "one_window lim ts \<longleftrightarrow> (\<forall>t \<in> set ts. t - hd ts \<le> lim_window_seconds lim * us_per_second)"

lemma one_window_snoc: "one_window lim (ts @ [t]) \<Longrightarrow> one_window lim ts"
  by (cases ts) (auto simp: one_window_def)

lemma counted_failure:
  assumes "dict_get key (lim_states lim) = counted lim ts" "one_window lim (ts @ [t])"
  shows "dict_get key (lim_states (record_failure key t lim)) = counted lim (ts @ [t])"
proof (cases "ts = []")
  case False
  with assms(2) have "\<not> window_over lim \<lparr>rl_attempts = a, rl_window_started_at = hd ts, rl_blocked_until = b\<rparr> t" for a b
    by (cases ts) (auto simp: one_window_def window_over_def)
  with False assms(1) show ?thesis by (simp add: record_failure_def counted_def Let_def)
qed (use assms in \<open>simp add: record_failure_def counted_def Let_def\<close>)

lemma ceil_seconds_pos: "0 < d \<Longrightarrow> 1 \<le> ceil_seconds d"
  by (simp add: ceil_seconds_def us_per_second_def)

lemma ceil_seconds_bounds: "d \<le> ceil_seconds d * us_per_second" "ceil_seconds d * us_per_second < d + us_per_second"
  using div_mult_mod_eq [of "- d" us_per_second] pos_mod_bound [of us_per_second "- d"]
    pos_mod_sign [of us_per_second "- d"]
  by (simp_all add: ceil_seconds_def us_per_second_def)

lemma retry_after_counted:
  assumes "dict_get key (lim_states lim) = counted lim ts" "0 \<le> now"
  shows "fst (retry_after key now lim) =
    (if ts \<noteq> [] \<and> lim_attempts lim \<le> int (length ts) \<and> now < last ts + lim_block_seconds lim * us_per_second
     then ceil_seconds (last ts + lim_block_seconds lim * us_per_second - now) else 0)"
  using assms ceil_seconds_pos [of "last ts + lim_block_seconds lim * us_per_second - now"]
  by (auto simp: retry_after_def counted_def)

lemma retry_after_keeps:
  assumes "dict_get key (lim_states lim) = counted lim ts" "one_window lim (ts @ [now])"
  shows "dict_get key (lim_states (snd (retry_after key now lim))) = counted lim ts"
  using assms by (cases ts) (auto simp: retry_after_def counted_def window_over_def one_window_def)

end
