(* ===== verification/Accounts.thy ===== *)
theory Accounts
  imports RuntimeConfig TaskObservability Security
begin

text \<open>
  \<open>services/auth_service.py\<close>, \<open>services/registration_service.py\<close>, \<open>services/bootstrap_service.py\<close>,
  \<open>api/auth.py\<close>, \<open>api/deps.py\<close> and the user, invite and login handlers of \<open>api/admin.py\<close>. Passwords are
  hashed by \<open>bcrypt\<close> and tokens signed by \<open>jose\<close>: their functions and the random generator are the
  parameters in \<open>auth_env\<close>. \<open>api_state\<close> is the state of an API process: what its services see, the three
  limiters, the challenges kept in memory when there is no Redis, and the tasks that are to run in this
  process after the response.
\<close>

section \<open>The state of the API process\<close>

record auth_env =
  a_checkpw :: "string \<Rightarrow> string \<Rightarrow> exn + bool"
  a_hashpw :: "string \<Rightarrow> string \<Rightarrow> exn + string"
  a_gensalt :: "nat \<Rightarrow> string"
  a_token_hex :: "nat \<Rightarrow> string"
  a_token_urlsafe :: "nat \<Rightarrow> string"
  a_jwt_encode :: "string \<Rightarrow> time \<Rightarrow> string \<Rightarrow> string \<Rightarrow> string"
  a_jwt_decode :: "string \<Rightarrow> string \<Rightarrow> string \<Rightarrow> time \<Rightarrow> json dict option"
  a_monotonic :: time

record api_state =
  api_world :: world
  login_limiter :: rate_limiter
  challenge_limiter :: rate_limiter
  submit_limiter :: rate_limiter
  memory_challenges :: "json dict dict"
  draws :: nat
  background :: "(string \<times> json dict) list"

type_synonym 'a api = "(api_state, 'a) op"

definition on_world :: "'a act \<Rightarrow> 'a api" where
  "on_world m = (\<lambda>s. case m (api_world s) of (r, w) \<Rightarrow> (r, s\<lparr>api_world := w\<rparr>))"

definition draw :: "(nat \<Rightarrow> 'a) \<Rightarrow> 'a api" where
  "draw f = (\<lambda>s. (Inr (f (draws s)), s\<lparr>draws := Suc (draws s)\<rparr>))"

definition http_error :: "nat \<Rightarrow> string \<Rightarrow> 'a api" where
  "http_error code detail = raise (HTTPException code detail)"

section \<open>Passwords and tokens\<close>

definition verify_password :: "auth_env \<Rightarrow> string \<Rightarrow> string \<Rightarrow> exn + bool" where
  "verify_password a plain_password hashed_password = a_checkpw a (utf8 plain_password) (utf8 hashed_password)"

definition get_password_hash :: "auth_env \<Rightarrow> string \<Rightarrow> string api" where
  "get_password_hash a password =
     bind_op (draw (a_gensalt a)) (\<lambda>salt. lift_res (a_hashpw a (utf8 password) salt))"

definition create_access_token :: "env \<Rightarrow> auth_env \<Rightarrow> uuid \<Rightarrow> string" where
  "create_access_token env a user_id =
     (let S = e_settings env
      in a_jwt_encode a user_id (e_now env + jwt_access_token_expire_minutes S * 60 * us_per_second)
           (jwt_secret S) (jwt_algorithm S))"

text \<open>A token that does not verify, has no subject, or whose subject is not an identifier is no token.\<close>

definition decode_token :: "env \<Rightarrow> auth_env \<Rightarrow> string \<Rightarrow> exn + uuid option" where
  "decode_token env a token =
     (case a_jwt_decode a token (jwt_secret (e_settings env)) (jwt_algorithm (e_settings env)) (e_now env) of
       None \<Rightarrow> Inr None
     | Some payload \<Rightarrow>
         (case get_or_null ''sub'' payload of
           JNull \<Rightarrow> Inr None
         | JStr s \<Rightarrow> Inr (parse_uuid s)
         | _ \<Rightarrow> Inl (AttributeError ''object has no attribute replace'')))"

definition authenticate_user :: "auth_env \<Rightarrow> string \<Rightarrow> string \<Rightarrow> user option act" where
  "authenticate_user a username password =
     bind_op (query (\<lambda>D. scalar_one_or_none (filter (\<lambda>u. u_username u = username) (users D)))) (\<lambda>r.
     bind_op (lift_res r) (\<lambda>found.
     case found of
       None \<Rightarrow> ret None
     | Some u \<Rightarrow>
         if \<not> u_is_active u \<or> u_status u \<noteq> UActive then ret None
         else bind_op (lift_res (verify_password a password (u_password_hash u))) (\<lambda>valid.
           ret (if valid then Some u else None))))"

definition get_user_by_id :: "uuid \<Rightarrow> user option act" where
  "get_user_by_id user_id = query (\<lambda>D. row_get u_id user_id (users D))"

section \<open>Dependencies of the handlers\<close>

definition get_current_user :: "env \<Rightarrow> auth_env \<Rightarrow> string \<Rightarrow> user api" where
  "get_current_user env a token =
     bind_op (lift_res (decode_token env a token)) (\<lambda>user_id.
     case user_id of
       None \<Rightarrow> http_error 401 ''Invalid authentication credentials''
     | Some i \<Rightarrow>
         bind_op (on_world (get_user_by_id i)) (\<lambda>found.
         case found of
           None \<Rightarrow> http_error 401 ''User not found''
         | Some u \<Rightarrow>
             if \<not> u_is_active u \<or> u_status u \<noteq> UActive then http_error 401 ''User not found'' else ret u))"

definition get_current_reviewer :: "env \<Rightarrow> auth_env \<Rightarrow> string \<Rightarrow> user api" where
  "get_current_reviewer env a token =
     bind_op (get_current_user env a token) (\<lambda>u.
     if u_role u \<notin> {RoleAdmin, RoleReviewer} then http_error 403 ''Reviewer privileges required'' else ret u)"

definition get_current_admin :: "env \<Rightarrow> auth_env \<Rightarrow> string \<Rightarrow> user api" where
  "get_current_admin env a token =
     bind_op (get_current_user env a token) (\<lambda>u.
     if u_role u \<noteq> RoleAdmin then http_error 403 ''Admin privileges required'' else ret u)"

section \<open>Login\<close>

text \<open>The limiters are addressed by a reader and a writer of their component of the state.\<close>

definition retry_after_op ::
  "(api_state \<Rightarrow> rate_limiter) \<Rightarrow> ((rate_limiter \<Rightarrow> rate_limiter) \<Rightarrow> api_state \<Rightarrow> api_state) \<Rightarrow>
   time \<Rightarrow> string \<Rightarrow> int api" where
  "retry_after_op get upd now key =
     (\<lambda>s. (Inr (fst (retry_after key now (get s))), upd (\<lambda>lim. snd (retry_after key now lim)) s))"

fun max_retry_after ::
  "(api_state \<Rightarrow> rate_limiter) \<Rightarrow> ((rate_limiter \<Rightarrow> rate_limiter) \<Rightarrow> api_state \<Rightarrow> api_state) \<Rightarrow>
   time \<Rightarrow> string list \<Rightarrow> int api" where
  "max_retry_after get upd now [] = ret 0"
| "max_retry_after get upd now (k # ks) =
     bind_op (retry_after_op get upd now k) (\<lambda>a.
     bind_op (max_retry_after get upd now ks) (\<lambda>b. ret (max a b)))"

definition login ::
  "env \<Rightarrow> auth_env \<Rightarrow> request \<Rightarrow> string \<Rightarrow> string \<Rightarrow> string api" where
  "login env a req username password =
     (let S = e_settings env;
          keys = login_rate_limit_keys S req username;
          now = a_monotonic a
      in
     bind_op (when_op (login_rate_limit_enabled S)
       (bind_op (max_retry_after login_limiter login_limiter_update now keys) (\<lambda>wait.
        if 0 < wait then http_error 429 ''Too many login attempts'' else ret ()))) (\<lambda>_.
     bind_op (on_world (authenticate_user a username password)) (\<lambda>found.
     case found of
       None \<Rightarrow>
         bind_op (when_op (login_rate_limit_enabled S)
           (foreach (\<lambda>k. modify (login_limiter_update (record_failure k now))) keys)) (\<lambda>_.
         http_error 401 ''Invalid username or password'')
     | Some u \<Rightarrow>
         bind_op (when_op (login_rate_limit_enabled S)
           (foreach (\<lambda>k. modify (login_limiter_update (record_success k))) keys)) (\<lambda>_.
         ret (create_access_token env a (u_id u))))))"

section \<open>Proof of work\<close>

text \<open>\<open>datetime.fromisoformat\<close> on the texts that \<open>isoformat\<close> writes: a date, \<open>T\<close>, a time with or without
  microseconds, and the offset of UTC.\<close>

definition days_from_civil :: "int \<Rightarrow> int \<Rightarrow> int \<Rightarrow> int" where
  "days_from_civil y m d =
     (let y1 = (if m \<le> 2 then y - 1 else y);
          era = y1 div 400;
          yoe = y1 mod 400;
          mp = (if 2 < m then m - 3 else m + 9);
          doy = (153 * mp + 2) div 5 + d - 1;
          doe = yoe * 365 + yoe div 4 - yoe div 100 + doy
      in era * 146097 + doe - 719468)"

definition digit_field :: "string \<Rightarrow> nat \<Rightarrow> nat \<Rightarrow> int option" where
  "digit_field s a n =
     (let t = take n (drop a s)
      in if length t = n \<and> list_all is_digit t then map_option int (base_val dec_val 10 0 t) else None)"

definition fraction_of :: "string \<Rightarrow> int option" where
  "fraction_of z =
     (if z = ''+00:00'' then Some 0
      else if take 1 z = ''.'' \<and> drop 7 z = ''+00:00'' then digit_field z 1 6 else None)"

definition fromisoformat :: "string \<Rightarrow> time option" where
  "fromisoformat s =
     (if map (\<lambda>i. if i < length s then [s ! i] else []) [4, 7, 10, 13, 16] \<noteq> [''-'', ''-'', ''T'', '':'', '':''] then None
      else (case all_some [digit_field s 0 4, digit_field s 5 2, digit_field s 8 2,
                digit_field s 11 2, digit_field s 14 2, digit_field s 17 2, fraction_of (drop 19 s)] of
        Some [y, m, d, hh, mi, se, us] \<Rightarrow>
          (let days = days_from_civil y m d
           in if 1 \<le> y \<and> 1 \<le> m \<and> m \<le> 12 \<and> civil_from_days days = (y, m, d) \<and> hh < 24 \<and> mi < 60 \<and> se < 60
              then Some ((days * 86400 + hh * 3600 + mi * 60 + se) * us_per_second + us) else None)
      | _ \<Rightarrow> None))"

definition challenge_prefix :: string where
  "challenge_prefix = ''registration_challenge:''"

record pow_challenge =
  ch_challenge_id :: string
  ch_salt :: string
  ch_difficulty :: int
  ch_expires_at :: time

definition put_challenge :: "string \<Rightarrow> (json \<times> time) option \<Rightarrow> redis_db \<Rightarrow> redis_db" where
  "put_challenge key x rd = rd\<lparr>r_challenges :=
     (case x of None \<Rightarrow> row_del fst key (r_challenges rd)
      | Some (payload, expires) \<Rightarrow> row_put fst (key, payload, expires) (r_challenges rd))\<rparr>"

definition get_challenge :: "time \<Rightarrow> string \<Rightarrow> redis_db \<Rightarrow> json option" where
  "get_challenge now key rd = alive now (map_option snd (row_get fst key (r_challenges rd)))"

text \<open>\<open>str(payload["expires_at"])\<close> read as a time; a payload without it, or with another text, is expired.\<close>

definition payload_expiry :: "json dict \<Rightarrow> time option" where
  "payload_expiry payload =
     (case dict_get ''expires_at'' payload of None \<Rightarrow> None | Some j \<Rightarrow> fromisoformat (py_str j))"

definition live_challenge :: "time \<Rightarrow> json dict \<Rightarrow> bool" where
  "live_challenge now payload \<longleftrightarrow> (case payload_expiry payload of None \<Rightarrow> False | Some t \<Rightarrow> now \<le> t)"

definition cleanup_memory_challenges :: "time \<Rightarrow> unit api" where
  "cleanup_memory_challenges now =
     modify (\<lambda>s. s\<lparr>memory_challenges := filter (\<lambda>kv. live_challenge now (snd kv)) (memory_challenges s)\<rparr>)"

definition create_pow_challenge :: "env \<Rightarrow> auth_env \<Rightarrow> pow_challenge api" where
  "create_pow_challenge env a =
     (let S = e_settings env in
     bind_op (on_world (uuid4 env)) (\<lambda>challenge_id.
     bind_op (draw (a_token_hex a)) (\<lambda>salt.
     let ttl = max 30 (registration_pow_challenge_ttl_seconds S);
         expires_at = e_now env + ttl * us_per_second;
         difficulty = max 1 (registration_pow_difficulty S);
         payload = [(''salt'', JStr salt), (''difficulty'', JInt difficulty),
                    (''expires_at'', JStr (isoformat expires_at))]
     in
     bind_op (gets (\<lambda>s. redis (api_world s))) (\<lambda>r.
     bind_op
       (if r \<noteq> None
        then on_world (set_ex (put_challenge (challenge_prefix @ challenge_id)) (e_now env) (JObj payload) ttl)
        else bind_op (cleanup_memory_challenges (e_now env)) (\<lambda>_.
             modify (\<lambda>s. s\<lparr>memory_challenges := dict_set challenge_id payload (memory_challenges s)\<rparr>))) (\<lambda>_.
     ret \<lparr>ch_challenge_id = challenge_id, ch_salt = salt, ch_difficulty = difficulty,
          ch_expires_at = expires_at\<rparr>)))))"

definition pop_challenge :: "env \<Rightarrow> string \<Rightarrow> json option api" where
  "pop_challenge env challenge_id =
     bind_op (gets (\<lambda>s. redis (api_world s))) (\<lambda>r.
     case r of
       Some rd \<Rightarrow>
         let key = challenge_prefix @ challenge_id
         in (case get_challenge (e_now env) key rd of
              None \<Rightarrow> ret None
            | Some payload \<Rightarrow> bind_op (on_world (on_redis (put_challenge key None))) (\<lambda>_. ret (Some payload)))
     | None \<Rightarrow>
         bind_op (cleanup_memory_challenges (e_now env)) (\<lambda>_.
         bind_op (gets (\<lambda>s. dict_get challenge_id (memory_challenges s))) (\<lambda>p.
         bind_op (modify (\<lambda>s. s\<lparr>memory_challenges := dict_del challenge_id (memory_challenges s)\<rparr>)) (\<lambda>_.
         ret (map_option JObj p)))))"

fun unhex :: "string \<Rightarrow> string" where
  "unhex (a # b # s) =
     char_of ((case hex_val a of None \<Rightarrow> 0 | Some m \<Rightarrow> m) * 16 + (case hex_val b of None \<Rightarrow> 0 | Some n \<Rightarrow> n)) # unhex s"
| "unhex _ = []"

fun leading_zero_bits_from :: "nat \<Rightarrow> string \<Rightarrow> nat" where
  "leading_zero_bits_from bits [] = bits"
| "leading_zero_bits_from bits (b # bs) =
     (if of_char b = (0 :: nat) then leading_zero_bits_from (bits + 8) bs
      else bits + (8 - bit_len (of_char b)))"

definition leading_zero_bits :: "string \<Rightarrow> nat" where
  "leading_zero_bits data = leading_zero_bits_from 0 data"

text \<open>\<open>sha256(...).digest()\<close>: the bytes of its hexadecimal form.\<close>

definition verify_pow :: "env \<Rightarrow> string \<Rightarrow> string \<Rightarrow> string \<Rightarrow> int \<Rightarrow> bool" where
  "verify_pow env challenge_id salt nonce difficulty \<longleftrightarrow>
     difficulty \<le> int (leading_zero_bits (unhex (e_sha256 env
       (utf8 (challenge_id @ '':'' @ salt @ '':'' @ nonce)))))"

definition rejected :: exn where
  "rejected = RegistrationError ''registration rejected''"

text \<open>\<open>except (KeyError, TypeError, ValueError)\<close> around the reading of the payload.\<close>

definition challenge_parts :: "json \<Rightarrow> (string \<times> int \<times> time) option" where
  "challenge_parts payload =
     (case payload of
       JObj d \<Rightarrow>
         (case (dict_get ''salt'' d, map_option json_int (dict_get ''difficulty'' d), payload_expiry d) of
           (Some salt, Some (Inr difficulty), Some expires_at) \<Rightarrow> Some (py_str salt, difficulty, expires_at)
         | _ \<Rightarrow> None)
     | _ \<Rightarrow> None)"

definition consume_pow_challenge :: "env \<Rightarrow> string \<Rightarrow> string \<Rightarrow> unit api" where
  "consume_pow_challenge env challenge_id nonce =
     bind_op (pop_challenge env challenge_id) (\<lambda>payload.
     case payload of
       None \<Rightarrow> raise rejected
     | Some p \<Rightarrow>
         (case challenge_parts p of
           None \<Rightarrow> raise rejected
         | Some (salt, difficulty, expires_at) \<Rightarrow>
             if expires_at < e_now env then raise rejected
             else guard_op (verify_pow env challenge_id salt nonce difficulty) rejected))"

section \<open>Registration\<close>

definition ensure_user_unique :: "string \<Rightarrow> string \<Rightarrow> unit act" where
  "ensure_user_unique username email =
     bind_op (query (\<lambda>D. scalar_one_or_none
       (filter (\<lambda>u. u_username u = username \<or> u_email u = Some email) (users D)))) (\<lambda>r.
     bind_op (lift_res r) (\<lambda>found. guard_op (found = None) rejected))"

definition invite_code_hash :: "env \<Rightarrow> string \<Rightarrow> string" where
  "invite_code_hash env code = e_sha256 env (utf8 (str_strip code))"

definition invite_usable :: "time \<Rightarrow> invite \<Rightarrow> bool" where
  "invite_usable now n \<longleftrightarrow> n_status n = IActive \<and> n_used_count n < n_max_uses n
   \<and> (case n_expires_at n of None \<Rightarrow> True | Some t \<Rightarrow> now \<le> t)"

definition get_usable_invite :: "env \<Rightarrow> string \<Rightarrow> invite option act" where
  "get_usable_invite env code =
     bind_op (query (\<lambda>D. scalar_one_or_none
       (filter (\<lambda>n. n_code_hash n = invite_code_hash env code) (invites D)))) (\<lambda>r.
     bind_op (lift_res r) (\<lambda>found.
     ret (case found of None \<Rightarrow> None | Some n \<Rightarrow> if invite_usable (e_now env) n then Some n else None)))"

definition edit_invite :: "uuid \<Rightarrow> (invite \<Rightarrow> invite) \<Rightarrow> db \<Rightarrow> db" where
  "edit_invite i f D = D\<lparr>invites := rows_update (\<lambda>n. n_id n = i) f (invites D)\<rparr>"

definition add_user :: "user \<Rightarrow> db \<Rightarrow> db" where
  "add_user u D = D\<lparr>users := users D @ [u]\<rparr>"

definition register_user ::
  "env \<Rightarrow> auth_env \<Rightarrow> string \<Rightarrow> string \<Rightarrow> string \<Rightarrow> string option \<Rightarrow> user api" where
  "register_user env a username email password invite_code =
     bind_op (on_world (runtime_registration_mode env)) (\<lambda>mode.
     bind_op (guard_op (mode \<noteq> ''disabled'') (RegistrationClosedError ''registration is disabled'')) (\<lambda>_.
     let normalized_username = str_strip username;
         normalized_email = str_lower (str_strip email)
     in
     bind_op (on_world (ensure_user_unique normalized_username normalized_email)) (\<lambda>_.
     bind_op
       (if mode = ''invite''
        then bind_op (guard_op (truthy invite_code) rejected) (\<lambda>_.
             bind_op (on_world (get_usable_invite env (or_str invite_code []))) (\<lambda>n.
             bind_op (guard_op (n \<noteq> None) rejected) (\<lambda>_. ret n)))
        else ret None) (\<lambda>inv.
     bind_op (get_password_hash a password) (\<lambda>password_hash.
     bind_op (on_world (uuid4 env)) (\<lambda>user_id.
     let u = \<lparr>u_id = user_id, u_username = normalized_username, u_email = Some normalized_email,
              u_password_hash = password_hash, u_role = RoleUser,
              u_status = (if mode = ''invite'' then UActive else UPendingApproval),
              u_is_active = True, u_created_at = e_now env\<rparr>
     in
     bind_op (on_world (stage (add_user u))) (\<lambda>_.
     bind_op (case inv of
                None \<Rightarrow> ret ()
              | Some n \<Rightarrow> on_world (stage (edit_invite (n_id n) (\<lambda>m. m\<lparr>n_used_count := n_used_count m + 1\<rparr>)))) (\<lambda>_.
     bind_op (on_world commit) (\<lambda>_. ret u)))))))))"

definition create_invite ::
  "env \<Rightarrow> auth_env \<Rightarrow> uuid option \<Rightarrow> string option \<Rightarrow> int \<Rightarrow> time option \<Rightarrow> string option \<Rightarrow>
   (invite \<times> string) api" where
  "create_invite env a created_by code max_uses expires_at note =
     bind_op (if truthy code then ret (or_str code []) else draw (a_token_urlsafe a)) (\<lambda>plain_code.
     bind_op (on_world (uuid4 env)) (\<lambda>i.
     let n = \<lparr>n_id = i, n_code_hash = invite_code_hash env plain_code, n_status = IActive,
              n_max_uses = max 1 max_uses, n_used_count = 0, n_expires_at = expires_at, n_note = note,
              n_created_by = created_by, n_created_at = e_now env\<rparr>
     in
     bind_op (on_world (stage (\<lambda>D. D\<lparr>invites := invites D @ [n]\<rparr>))) (\<lambda>_.
     bind_op (on_world commit) (\<lambda>_. ret (n, plain_code)))))"

section \<open>The registration handlers\<close>

record registration_config =
  rc_mode :: string
  rc_pow_required :: bool
  rc_invite_required :: bool
  rc_approval_required :: bool

definition register_config :: "env \<Rightarrow> registration_config api" where
  "register_config env =
     bind_op (on_world (runtime_registration_mode env)) (\<lambda>mode.
     ret \<lparr>rc_mode = mode, rc_pow_required = True, rc_invite_required = (mode = ''invite''),
          rc_approval_required = (mode = ''approval'')\<rparr>)"

definition register_challenge :: "env \<Rightarrow> auth_env \<Rightarrow> request \<Rightarrow> pow_challenge api" where
  "register_challenge env a req =
     (let S = e_settings env;
          key = registration_challenge_rate_limit_key S req;
          now = a_monotonic a
      in
     bind_op (on_world (runtime_registration_mode env)) (\<lambda>mode.
     if mode = ''disabled'' then http_error 403 ''registration is disabled''
     else
       bind_op (when_op (registration_rate_limit_enabled S)
         (bind_op (retry_after_op challenge_limiter challenge_limiter_update now key) (\<lambda>wait.
          if 0 < wait then http_error 429 ''Too many registration attempts''
          else modify (challenge_limiter_update (record_failure key now))))) (\<lambda>_.
       create_pow_challenge env a)))"

text \<open>\<open>RegisterRequest\<close> with its validators; a request that fails them is answered before the handler runs.\<close>

record register_request =
  rr_username :: string
  rr_email :: string
  rr_password :: string
  rr_invite_code :: "string option"
  rr_challenge_id :: string
  rr_nonce :: string

definition register_request :: "register_request \<Rightarrow> register_request option" where
  "register_request d =
     (let username = str_strip (rr_username d); email = str_lower (str_strip (rr_email d))
      in if 1 \<le> length (rr_username d) \<and> length (rr_username d) \<le> 100
          \<and> 3 \<le> length (rr_email d) \<and> length (rr_email d) \<le> 255
          \<and> 12 \<le> length (rr_password d) \<and> length (rr_password d) \<le> 1024
          \<and> (case rr_invite_code d of None \<Rightarrow> True | Some c \<Rightarrow> length c \<le> 255)
          \<and> 1 \<le> length (rr_challenge_id d) \<and> length (rr_challenge_id d) \<le> 100
          \<and> 1 \<le> length (rr_nonce d) \<and> length (rr_nonce d) \<le> 128
          \<and> username \<noteq> []
          \<and> CHR ''@'' \<in> set email \<and> \<not> starts_with email ''@'' \<and> \<not> ends_with email ''@''
         then Some (d\<lparr>rr_username := username, rr_email := email\<rparr>) else None)"

definition record_registration_failure :: "env \<Rightarrow> auth_env \<Rightarrow> string list \<Rightarrow> unit api" where
  "record_registration_failure env a keys =
     when_op (registration_rate_limit_enabled (e_settings env))
       (foreach (\<lambda>k. modify (submit_limiter_update (record_failure k (a_monotonic a)))) keys)"

definition registration_except :: "env \<Rightarrow> auth_env \<Rightarrow> string list \<Rightarrow> exn \<Rightarrow> 'a api" where
  "registration_except env a keys e =
     (case e of
       RegistrationClosedError s \<Rightarrow>
         bind_op (record_registration_failure env a keys) (\<lambda>_. http_error 403 s)
     | RegistrationError s \<Rightarrow>
         bind_op (record_registration_failure env a keys) (\<lambda>_. http_error 400 ''registration rejected'')
     | _ \<Rightarrow> raise e)"

definition register :: "env \<Rightarrow> auth_env \<Rightarrow> request \<Rightarrow> register_request \<Rightarrow> (user_status \<times> uuid \<times> string) api" where
  "register env a req d =
     (let S = e_settings env;
          keys = registration_submit_rate_limit_keys env req (rr_username d) (rr_email d) (rr_invite_code d);
          now = a_monotonic a
      in
     bind_op (when_op (registration_rate_limit_enabled S)
       (bind_op (max_retry_after submit_limiter submit_limiter_update now keys) (\<lambda>wait.
        if 0 < wait then http_error 429 ''Too many registration attempts'' else ret ()))) (\<lambda>_.
     bind_op (try_op
       (bind_op (consume_pow_challenge env (rr_challenge_id d) (rr_nonce d)) (\<lambda>_.
        register_user env a (rr_username d) (rr_email d) (rr_password d) (rr_invite_code d)))
       (registration_except env a keys)) (\<lambda>u.
     bind_op (foreach (\<lambda>k. modify (submit_limiter_update (record_success k))) keys) (\<lambda>_.
     ret (u_status u, u_id u,
          if u_status u = UActive then ''registered'' else ''waiting for administrator approval'')))))"

section \<open>Bootstrap and the administration of users\<close>

text \<open>\<open>bootstrap_admin_user\<close>; the role of the settings is a text.\<close>

definition role_of :: "string \<Rightarrow> user_role option" where
  "role_of s = (if s = ''admin'' then Some RoleAdmin else if s = ''reviewer'' then Some RoleReviewer else None)"

definition new_user ::
  "env \<Rightarrow> uuid \<Rightarrow> string \<Rightarrow> string option \<Rightarrow> string \<Rightarrow> user_role \<Rightarrow> user_status \<Rightarrow> bool \<Rightarrow> user" where
  "new_user env i username email password_hash role status active =
     \<lparr>u_id = i, u_username = username, u_email = email, u_password_hash = password_hash, u_role = role,
      u_status = status, u_is_active = active, u_created_at = e_now env\<rparr>"

definition bootstrap_admin_user :: "env \<Rightarrow> auth_env \<Rightarrow> unit api" where
  "bootstrap_admin_user env a =
     (let S = e_settings env;
          username = str_strip (bootstrap_admin_username S);
          password = bootstrap_admin_password S;
          role = or_str (Some (str_strip (bootstrap_admin_role S))) ''admin''
      in if username = [] \<or> password = [] then ret ()
         else (case role_of role of
           None \<Rightarrow> ret ()
         | Some r \<Rightarrow>
             bind_op (on_world (query (\<lambda>D. length (users D)))) (\<lambda>n.
             if 0 < n then ret ()
             else
               bind_op (get_password_hash a password) (\<lambda>password_hash.
               bind_op (on_world (uuid4 env)) (\<lambda>i.
               bind_op (on_world (stage (add_user (new_user env i username None password_hash r UActive True)))) (\<lambda>_.
               on_world commit))))))"

record user_create =
  uc_username :: string
  uc_email :: "string option"
  uc_password :: string
  uc_role :: user_role
  uc_status :: user_status

definition create_user :: "env \<Rightarrow> auth_env \<Rightarrow> user_create \<Rightarrow> user api" where
  "create_user env a d =
     bind_op (get_password_hash a (uc_password d)) (\<lambda>password_hash.
     bind_op (on_world (uuid4 env)) (\<lambda>i.
     let u = new_user env i (uc_username d)
               (if truthy (uc_email d) then map_option (\<lambda>e. str_lower (str_strip e)) (uc_email d) else None)
               password_hash (uc_role d) (uc_status d) (uc_status d \<noteq> UDisabled)
     in
     bind_op (on_world (stage (add_user u))) (\<lambda>_.
     bind_op (on_world commit) (\<lambda>_. ret u))))"

fun user_role_str :: "user_role \<Rightarrow> string" where
  "user_role_str RoleAdmin = ''admin''"
| "user_role_str RoleReviewer = ''reviewer''"
| "user_role_str RoleUser = ''user''"

fun user_status_str :: "user_status \<Rightarrow> string" where
  "user_status_str UPendingApproval = ''pending_approval''"
| "user_status_str UActive = ''active''"
| "user_status_str UDisabled = ''disabled''"

text \<open>\<open>UserResponse\<close>, what is shown of an account, and \<open>CurrentUserResponse\<close>.\<close>

record user_response =
  ur_id :: uuid
  ur_username :: string
  ur_email :: "string option"
  ur_role :: string
  ur_status :: string
  ur_is_active :: bool
  ur_created_at :: time

definition user_response :: "user \<Rightarrow> user_response" where
  "user_response u =
     \<lparr>ur_id = u_id u, ur_username = u_username u, ur_email = u_email u, ur_role = user_role_str (u_role u),
      ur_status = user_status_str (u_status u), ur_is_active = u_is_active u, ur_created_at = u_created_at u\<rparr>"

record current_user_response =
  me_id :: uuid
  me_username :: string
  me_email :: "string option"
  me_role :: string
  me_status :: string

definition current_user :: "env \<Rightarrow> auth_env \<Rightarrow> string \<Rightarrow> current_user_response api" where
  "current_user env a token =
     bind_op (get_current_user env a token) (\<lambda>u.
     ret \<lparr>me_id = u_id u, me_username = u_username u, me_email = u_email u,
          me_role = user_role_str (u_role u), me_status = user_status_str (u_status u)\<rparr>)"

definition bootstrap_user :: "env \<Rightarrow> auth_env \<Rightarrow> user_create \<Rightarrow> user_response api" where
  "bootstrap_user env a d =
     (if \<not> bootstrap_api_enabled (e_settings env) then http_error 403 ''Bootstrap API is disabled''
      else
        bind_op (on_world (query (\<lambda>D. length (users D)))) (\<lambda>n.
        if 0 < n then http_error 403 ''Bootstrap already completed'' else bind_op (create_user env a d) (\<lambda>u. ret (user_response u))))"

definition create_user_endpoint :: "env \<Rightarrow> auth_env \<Rightarrow> string \<Rightarrow> user_create \<Rightarrow> user_response api" where
  "create_user_endpoint env a token d =
     bind_op (get_current_admin env a token) (\<lambda>_.
     bind_op (create_user env a d) (\<lambda>u. ret (user_response u)))"

definition list_users_endpoint ::
  "env \<Rightarrow> auth_env \<Rightarrow> string \<Rightarrow> string option \<Rightarrow> string option \<Rightarrow> user_response list api" where
  "list_users_endpoint env a token role status =
     bind_op (get_current_admin env a token) (\<lambda>_.
     on_world (query (\<lambda>D. map user_response (sort_key (\<lambda>u. - u_created_at u)
       (filter (\<lambda>u. (truthy role \<longrightarrow> role = Some (user_role_str (u_role u)))
          \<and> (truthy status \<longrightarrow> status = Some (user_status_str (u_status u)))) (users D))))))"

definition edit_user :: "uuid \<Rightarrow> (user \<Rightarrow> user) \<Rightarrow> db \<Rightarrow> db" where
  "edit_user i f D = D\<lparr>users := rows_update (\<lambda>u. u_id u = i) f (users D)\<rparr>"

definition set_user ::
  "env \<Rightarrow> auth_env \<Rightarrow> string \<Rightarrow> uuid \<Rightarrow> (user \<Rightarrow> user) \<Rightarrow> user_response api" where
  "set_user env a token user_id f =
     bind_op (get_current_admin env a token) (\<lambda>_.
     bind_op (on_world (get_user_by_id user_id)) (\<lambda>found.
     case found of
       None \<Rightarrow> http_error 404 ''User not found''
     | Some u \<Rightarrow>
         bind_op (on_world (stage (edit_user user_id f))) (\<lambda>_.
         bind_op (on_world commit) (\<lambda>_. ret (user_response (f u))))))"

definition approve_user_endpoint :: "env \<Rightarrow> auth_env \<Rightarrow> string \<Rightarrow> uuid \<Rightarrow> user_response api" where
  "approve_user_endpoint env a token user_id =
     set_user env a token user_id (\<lambda>u. u\<lparr>u_status := UActive, u_is_active := True\<rparr>)"

definition disable_user_endpoint :: "env \<Rightarrow> auth_env \<Rightarrow> string \<Rightarrow> uuid \<Rightarrow> user_response api" where
  "disable_user_endpoint env a token user_id =
     set_user env a token user_id (\<lambda>u. u\<lparr>u_status := UDisabled, u_is_active := False\<rparr>)"

text \<open>\<open>InviteResponse\<close>: the code is known only when the invite is created.\<close>

record invite_response =
  ir_id :: uuid
  ir_code :: "string option"
  ir_status :: invite_status
  ir_max_uses :: int
  ir_used_count :: int
  ir_expires_at :: "time option"
  ir_note :: "string option"
  ir_created_at :: time

definition invite_response :: "invite \<Rightarrow> invite_response" where
  "invite_response n =
     \<lparr>ir_id = n_id n, ir_code = None, ir_status = n_status n, ir_max_uses = n_max_uses n,
      ir_used_count = n_used_count n, ir_expires_at = n_expires_at n, ir_note = n_note n,
      ir_created_at = n_created_at n\<rparr>"

definition list_invites_endpoint :: "env \<Rightarrow> auth_env \<Rightarrow> string \<Rightarrow> invite_response list api" where
  "list_invites_endpoint env a token =
     bind_op (get_current_admin env a token) (\<lambda>_.
     on_world (query (\<lambda>D. map invite_response (sort_key (\<lambda>n. - n_created_at n) (invites D)))))"

record invite_create =
  ic_code :: "string option"
  ic_max_uses :: int
  ic_expires_at :: "time option"
  ic_note :: "string option"

definition create_invite_endpoint :: "env \<Rightarrow> auth_env \<Rightarrow> string \<Rightarrow> invite_create \<Rightarrow> invite_response api" where
  "create_invite_endpoint env a token d =
     bind_op (get_current_admin env a token) (\<lambda>u.
     bind_op (create_invite env a (Some (u_id u)) (ic_code d) (ic_max_uses d) (ic_expires_at d) (ic_note d))
       (\<lambda>(n, code). ret ((invite_response n)\<lparr>ir_code := Some code\<rparr>)))"

definition disable_invite_endpoint :: "env \<Rightarrow> auth_env \<Rightarrow> string \<Rightarrow> uuid \<Rightarrow> invite_response api" where
  "disable_invite_endpoint env a token invite_id =
     bind_op (get_current_admin env a token) (\<lambda>_.
     bind_op (on_world (query (\<lambda>D. row_get n_id invite_id (invites D)))) (\<lambda>found.
     case found of
       None \<Rightarrow> http_error 404 ''Invite not found''
     | Some n \<Rightarrow>
         bind_op (on_world (stage (edit_invite invite_id (\<lambda>m. m\<lparr>n_status := IDisabled\<rparr>)))) (\<lambda>_.
         bind_op (on_world commit) (\<lambda>_. ret (invite_response (n\<lparr>n_status := IDisabled\<rparr>))))))"

section \<open>Evaluation\<close>

lemma on_world_apply: "on_world m s = (fst (m (api_world s)), s\<lparr>api_world := snd (m (api_world s))\<rparr>)"
  by (simp add: on_world_def split: prod.splits)

lemma http_error_apply [simp, op_simps]: "http_error code detail s = (Inl (HTTPException code detail), s)"
  by (simp add: http_error_def)

lemma draw_apply [simp, op_simps]: "draw f s = (Inr (f (draws s)), s\<lparr>draws := Suc (draws s)\<rparr>)"
  by (simp add: draw_def)

section \<open>Repeated failures block the login\<close>

lemma counted_cong:
  "lim_attempts lim = lim_attempts lim' \<Longrightarrow> lim_block_seconds lim = lim_block_seconds lim' \<Longrightarrow>
   counted lim ts = counted lim' ts"
  by (simp add: counted_def)

lemma one_window_cong: "lim_window_seconds lim = lim_window_seconds lim' \<Longrightarrow> one_window lim ts = one_window lim' ts"
  by (simp add: one_window_def)

lemma login_keys:
  obtains u i where "login_rate_limit_keys S req un = [u, i]" "u \<noteq> i"
proof
  show "login_rate_limit_keys S req un = [''user:'' @ or_str (Some (str_lower (str_strip un))) ''<empty>'',
      ''ip:'' @ client_ip S req]"
    by (simp add: login_rate_limit_keys_def)
qed simp

lemma authenticate_state [simp]: "snd (authenticate_user a un pw w) = w"
  by (auto simp: authenticate_user_def bind_op_def split: prod.splits sum.splits option.splits)

text \<open>The limiter after a login that was refused for its password, and the answer while it blocks.\<close>

lemma login_apply:
  assumes "login_rate_limit_enabled (e_settings env)"
    "login_rate_limit_keys (e_settings env) req un = [u, i]"
  shows "login env a req un pw s =
    (let lim1 = snd (retry_after u (a_monotonic a) (login_limiter s));
         lim2 = snd (retry_after i (a_monotonic a) lim1);
         s2 = s\<lparr>login_limiter := lim2\<rparr>
     in if 0 < fst (retry_after u (a_monotonic a) (login_limiter s)) \<or> 0 < fst (retry_after i (a_monotonic a) lim1)
        then (Inl (HTTPException 429 ''Too many login attempts''), s2)
        else (case fst (authenticate_user a un pw (api_world s)) of
            Inl e \<Rightarrow> (Inl e, s2)
          | Inr None \<Rightarrow> (Inl (HTTPException 401 ''Invalid username or password''),
              s2\<lparr>login_limiter := record_failure i (a_monotonic a) (record_failure u (a_monotonic a) lim2)\<rparr>)
          | Inr (Some x) \<Rightarrow> (Inr (create_access_token env a (u_id x)),
              s2\<lparr>login_limiter := record_success i (record_success u lim2)\<rparr>)))"
  using assms
  by (auto simp: login_def retry_after_op_def bind_op_def on_world_apply Let_def
      split: sum.splits option.splits prod.splits)

lemma authenticate_no_http:
  assumes "\<forall>p h. \<exists>b. a_checkpw a p h = Inr b"
  shows "fst (authenticate_user a un pw w) \<noteq> Inl (HTTPException c m)"
proof -
  obtain f where f: "a_checkpw a p h = Inr (f p h)" for p h using assms by metis
  show ?thesis
    by (auto simp: authenticate_user_def verify_password_def f scalar_one_or_none_def
        split: option.splits list.splits)
qed


lemma login_401_counts:
  assumes en: "login_rate_limit_enabled (e_settings env)"
    and chk: "\<forall>p h. \<exists>b. a_checkpw a p h = Inr b"
    and k: "k \<in> set (login_rate_limit_keys (e_settings env) req un)"
    and st: "dict_get k (lim_states (login_limiter s)) = counted (login_limiter s) ts"
    and win: "one_window (login_limiter s) (ts @ [a_monotonic a])"
    and run: "login env a req un pw s = (Inl (HTTPException 401 ''Invalid username or password''), s')"
  shows "dict_get k (lim_states (login_limiter s')) = counted (login_limiter s') (ts @ [a_monotonic a])
    \<and> lim_attempts (login_limiter s') = lim_attempts (login_limiter s)
    \<and> lim_window_seconds (login_limiter s') = lim_window_seconds (login_limiter s)
    \<and> lim_block_seconds (login_limiter s') = lim_block_seconds (login_limiter s)"
proof -
  obtain u i where ui: "login_rate_limit_keys (e_settings env) req un = [u, i]" "u \<noteq> i"
    by (rule login_keys)
  let ?t = "a_monotonic a" and ?lim = "login_limiter s"
  let ?lim1 = "snd (retry_after u ?t ?lim)"
  let ?lim2 = "snd (retry_after i ?t ?lim1)"
  have s': "login_limiter s' = record_failure i ?t (record_failure u ?t ?lim2)"
    using run authenticate_no_http [OF chk, of un pw "api_world s"]
    by (auto simp: login_apply [OF en ui(1)] Let_def split: if_splits sum.splits option.splits)
  have "dict_get k (lim_states ?lim2) = counted ?lim ts"
    using k ui st retry_after_keeps [OF st win]
      retry_after_keeps [of k ?lim1 ts ?t] win
    by (auto simp: counted_cong [of ?lim1 ?lim] one_window_cong [of ?lim1 ?lim])
  then have "dict_get k (lim_states ?lim2) = counted ?lim2 ts"
    by (simp add: counted_cong [of ?lim2 ?lim])
  moreover have win2: "one_window ?lim2 (ts @ [?t])" using win by (simp add: one_window_cong [of ?lim2 ?lim])
  ultimately have at_k: "dict_get k (lim_states (record_failure k ?t ?lim2)) = counted ?lim2 (ts @ [?t])"
    by (rule counted_failure)
  let ?lim3 = "record_failure u ?t ?lim2"
  have "dict_get k (lim_states (record_failure i ?t ?lim3)) = counted ?lim2 (ts @ [?t])"
  proof (cases "k = i")
    case True
    then have "dict_get k (lim_states ?lim3) = counted ?lim3 ts"
      using ui(2) \<open>dict_get k (lim_states ?lim2) = counted ?lim2 ts\<close>
      by (simp add: counted_cong [of ?lim3 ?lim2])
    with True win2 have "dict_get i (lim_states (record_failure i ?t ?lim3)) = counted ?lim3 (ts @ [?t])"
      by (intro counted_failure) (simp_all add: one_window_cong [of ?lim3 ?lim2])
    with True show ?thesis by (simp add: counted_cong [of ?lim3 ?lim2])
  next
    case False
    with k ui at_k show ?thesis by auto
  qed
  then have "dict_get k (lim_states (login_limiter s')) = counted ?lim2 (ts @ [?t])"
    by (simp add: s')
  then show ?thesis by (simp add: s' counted_cong [of ?lim2 "login_limiter s'"])
qed

text \<open>Several logins, one after the other, each at a reading of the monotonic clock.\<close>

fun run_logins ::
  "env \<Rightarrow> auth_env \<Rightarrow> (time \<times> request \<times> string \<times> string) list \<Rightarrow> api_state \<Rightarrow> (exn + string) list \<times> api_state" where
  "run_logins env a [] s = ([], s)"
| "run_logins env a ((t, req, un, pw) # as) s =
     (case login env (a\<lparr>a_monotonic := t\<rparr>) req un pw s of
       (r, s1) \<Rightarrow> (case run_logins env a as s1 of (rs, s2) \<Rightarrow> (r # rs, s2)))"

lemma run_logins_counts:
  assumes "login_rate_limit_enabled (e_settings env)" "\<forall>p h. \<exists>b. a_checkpw a p h = Inr b"
    "\<forall>(t, req, un, pw) \<in> set as. k \<in> set (login_rate_limit_keys (e_settings env) req un)"
    "dict_get k (lim_states (login_limiter s)) = counted (login_limiter s) ts"
    "one_window (login_limiter s) (ts @ map fst as)"
    "run_logins env a as s = (rs, s')"
    "\<forall>r \<in> set rs. r = Inl (HTTPException 401 ''Invalid username or password'')"
  shows "dict_get k (lim_states (login_limiter s')) = counted (login_limiter s') (ts @ map fst as)
    \<and> lim_attempts (login_limiter s') = lim_attempts (login_limiter s)
    \<and> lim_window_seconds (login_limiter s') = lim_window_seconds (login_limiter s)
    \<and> lim_block_seconds (login_limiter s') = lim_block_seconds (login_limiter s)"
  using assms(3-)
proof (induction as arbitrary: s ts rs)
  case (Cons x as)
  obtain t req un pw where x: "x = (t, req, un, pw)" by (cases x) auto
  let ?a = "a\<lparr>a_monotonic := t\<rparr>"
  obtain r s1 where l: "login env ?a req un pw s = (r, s1)" by (cases "login env ?a req un pw s")
  obtain rs2 s2 where rest: "run_logins env a as s1 = (rs2, s2)" by (cases "run_logins env a as s1")
  have rs: "rs = r # rs2" "s' = s2" using Cons.prems(4) l rest by (simp_all add: x)
  have win: "one_window (login_limiter s) (ts @ [a_monotonic ?a])"
    using Cons.prems(3) by (auto simp: one_window_def x hd_append)
  have "\<forall>p h. \<exists>b. a_checkpw ?a p h = Inr b" using assms(2) by simp
  from login_401_counts [OF assms(1) this _ Cons.prems(2) win] Cons.prems(1,5) l rs x
  have one: "dict_get k (lim_states (login_limiter s1)) = counted (login_limiter s1) (ts @ [t])"
    "lim_attempts (login_limiter s1) = lim_attempts (login_limiter s)"
    "lim_window_seconds (login_limiter s1) = lim_window_seconds (login_limiter s)"
    "lim_block_seconds (login_limiter s1) = lim_block_seconds (login_limiter s)"
    by auto
  have "one_window (login_limiter s1) ((ts @ [t]) @ map fst as)"
    using Cons.prems(3) one by (simp add: x one_window_def)
  moreover have "run_logins env a as s1 = (rs2, s')" using rest rs(2) by simp
  ultimately show ?case using Cons.IH [OF _ one(1)] Cons.prems(1,5) rs(1) one(2-4) x by auto
qed simp


section \<open>Samples\<close>

definition sample_auth :: auth_env where
  "sample_auth = \<lparr>a_checkpw = (\<lambda>p h. Inr (p = h)), a_hashpw = (\<lambda>p salt. Inr p), a_gensalt = (\<lambda>n. ''salt''),
     a_token_hex = (\<lambda>n. ''5a17''), a_token_urlsafe = (\<lambda>n. ''code''),
     a_jwt_encode = (\<lambda>u e s alg. u), a_jwt_decode = (\<lambda>tok s alg now. Some [(''sub'', JStr tok)]),
     a_monotonic = 5000000\<rparr>"

definition sample_api :: "db \<Rightarrow> redis_db option \<Rightarrow> api_state" where
  "sample_api D r = \<lparr>api_world = sample_world D r, login_limiter = make_limiter 2 300 900,
     challenge_limiter = make_limiter 10 60 60, submit_limiter = make_limiter 5 3600 3600,
     memory_challenges = [], draws = 0, background = []\<rparr>"

definition sample_request :: "string \<Rightarrow> request" where
  "sample_request ip = \<lparr>req_headers = [(''x-forwarded-for'', ip)], req_client_host = Some ''192.0.2.7''\<rparr>"

definition sample_user :: user where
  "sample_user = \<lparr>u_id = ''00000000-0000-4000-8000-0000000000aa'', u_username = ''alice'',
     u_email = Some ''alice@example.org'', u_password_hash = ''correct horse battery'', u_role = RoleUser,
     u_status = UActive, u_is_active = True, u_created_at = 1600000000000000\<rparr>"


text \<open>The proof of work asks for a hash below a threshold: read as a number, the digest has to be smaller than
  two to the power of its length in bits less the difficulty.\<close>

definition bytes_val :: "string \<Rightarrow> nat" where
  "bytes_val d = foldl (\<lambda>n c. n * 256 + of_char c) 0 d"

lemma foldl_bytes: "foldl (\<lambda>n c. n * 256 + of_char c) m d = m * 256 ^ length d + bytes_val d"
  unfolding bytes_val_def
proof (induction d arbitrary: m)
  case (Cons c d)
  from Cons [of "m * 256 + of_char c"] Cons [of "of_char c"] show ?case by (simp add: algebra_simps)
qed simp

lemma bytes_val_simps [simp]:
  "bytes_val [] = 0" "bytes_val (c # d) = of_char c * 256 ^ length d + bytes_val d"
  using foldl_bytes [of "of_char c" d] by (simp_all add: bytes_val_def)

lemma bytes_val_bound: "bytes_val d < 256 ^ length d"
proof (induction d)
  case (Cons c d)
  have "(of_char c :: nat) * 256 ^ length d \<le> 255 * 256 ^ length d"
    using of_char_less_256 [of c] by (intro mult_right_mono) linarith+
  moreover have "bytes_val d < 256 ^ length d" by (rule Cons.IH)
  ultimately show ?case by (simp only: bytes_val_simps length_Cons power_Suc)
qed simp

lemma bit_len_le_iff: "bit_len n \<le> k \<longleftrightarrow> n < 2 ^ k"
proof (induction n arbitrary: k rule: bit_len.induct)
  case (1 n)
  show ?case
  proof (cases "n = 0")
    case False
    show ?thesis
    proof (cases k)
      case 0
      with False show ?thesis by (simp add: bit_len.simps [of n])
    next
      case (Suc j)
      with False 1 [OF False, of j] show ?thesis by (auto simp: bit_len.simps [of n])
    qed
  qed (simp add: bit_len.simps [of 0])
qed

lemma leading_zero_bits_from_add: "leading_zero_bits_from b d = b + leading_zero_bits d"
proof (induction d arbitrary: b)
  case (Cons c d)
  from Cons [of "b + 8"] Cons [of 8] show ?case by (simp add: leading_zero_bits_def)
qed (simp add: leading_zero_bits_def)

lemma leading_zero_bits_simps [simp]:
  "leading_zero_bits [] = 0"
  "leading_zero_bits (c # d) =
     (if of_char c = (0 :: nat) then 8 + leading_zero_bits d else 8 - bit_len (of_char c))"
  using leading_zero_bits_from_add [of 8 d] by (simp_all add: leading_zero_bits_def)

lemma leading_zero_bits_iff:
  "k \<le> 8 * length d \<Longrightarrow> k \<le> leading_zero_bits d \<longleftrightarrow> bytes_val d < 2 ^ (8 * length d - k)"
proof (induction d arbitrary: k)
  case (Cons c d)
  let ?l = "length d" and ?n = "of_char c :: nat"
  have p: "(256 :: nat) ^ ?l = 2 ^ (8 * ?l)" by (simp add: power_mult)
  have v: "bytes_val d < 2 ^ (8 * ?l)" using bytes_val_bound [of d] by (simp add: p)
  show ?case
  proof (cases "8 < k")
    case False
    then have e: "8 * length (c # d) - k = (8 - k) + 8 * ?l" by simp
    have "bytes_val (c # d) < 2 ^ (8 * length (c # d) - k) \<longleftrightarrow> ?n * 2 ^ (8 * ?l) + bytes_val d < 2 ^ (8 - k) * 2 ^ (8 * ?l)"
      unfolding e by (simp add: p power_add)
    also have "\<dots> \<longleftrightarrow> ?n < 2 ^ (8 - k)"
    proof
      assume "?n * 2 ^ (8 * ?l) + bytes_val d < 2 ^ (8 - k) * 2 ^ (8 * ?l)"
      then have "?n * 2 ^ (8 * ?l) < 2 ^ (8 - k) * (2 :: nat) ^ (8 * ?l)" by linarith
      then show "?n < 2 ^ (8 - k)" by simp
    next
      assume "?n < 2 ^ (8 - k)"
      then have "Suc ?n * 2 ^ (8 * ?l) \<le> 2 ^ (8 - k) * (2 :: nat) ^ (8 * ?l)" by (intro mult_right_mono) auto
      with v show "?n * 2 ^ (8 * ?l) + bytes_val d < 2 ^ (8 - k) * 2 ^ (8 * ?l)" by simp
    qed
    also have "\<dots> \<longleftrightarrow> k \<le> leading_zero_bits (c # d)"
      using False bit_len_le_iff [of ?n "8 - k"] bit_len_le_iff [of ?n 8] of_char_less_256 [of c] by auto
    finally show ?thesis by simp
  next
    case True
    show ?thesis
    proof (cases "?n = 0")
      case True
      with Cons.IH [of "k - 8"] Cons.prems \<open>8 < k\<close> show ?thesis by (simp add: le_diff_conv add.commute)
    next
      case False
      have "(2 :: nat) ^ (8 * length (c # d) - k) \<le> 2 ^ (8 * ?l)"
        using \<open>8 < k\<close> by (intro power_increasing) auto
      also have "\<dots> \<le> ?n * 2 ^ (8 * ?l)" using False by simp
      also have "\<dots> \<le> bytes_val (c # d)" by (simp add: p)
      finally show ?thesis using False True by simp
    qed
  qed
qed simp

text \<open>The proof of work is a threshold on the hash: a nonce is accepted exactly when the
  digest of challenge, salt and nonce, read as a number, is below two to the power of the digest's length in
  bits less the difficulty, so each further bit of difficulty halves the accepted digests.\<close>

theorem pow_is_threshold:
  assumes "0 \<le> difficulty"
    and "digest = unhex (e_sha256 env (utf8 (challenge_id @ '':'' @ salt @ '':'' @ nonce)))"
    and "difficulty \<le> 8 * int (length digest)"
  shows "verify_pow env challenge_id salt nonce difficulty \<longleftrightarrow>
    bytes_val digest < 2 ^ (8 * length digest - nat difficulty)"
  using leading_zero_bits_iff [of "nat difficulty" digest] assms by (simp add: verify_pow_def nat_le_iff)

lemma pow_is_threshold_witness:
  "verify_pow (sample_env\<lparr>e_sha256 := \<lambda>s. ''001f''\<rparr>) ''c'' ''salt'' ''nonce'' 11
   \<and> \<not> verify_pow (sample_env\<lparr>e_sha256 := \<lambda>s. ''001f''\<rparr>) ''c'' ''salt'' ''nonce'' 12"
proof -
  have d: "bytes_val (unhex ''001f'') = 31" "length (unhex ''001f'') = 2" by code_simp+
  show ?thesis
    using pow_is_threshold [of 11 "unhex ''001f''" "sample_env\<lparr>e_sha256 := \<lambda>s. ''001f''\<rparr>" "''c''" "''salt''" "''nonce''"]
      pow_is_threshold [of 12 "unhex ''001f''" "sample_env\<lparr>e_sha256 := \<lambda>s. ''001f''\<rparr>" "''c''" "''salt''" "''nonce''"] d
    by (simp del: unhex.simps)
qed

section \<open>A challenge is spent by its first use\<close>

definition stored_challenge :: "env \<Rightarrow> string \<Rightarrow> api_state \<Rightarrow> json option" where
  "stored_challenge env i s =
     (case redis (api_world s) of
       Some rd \<Rightarrow> get_challenge (e_now env) (challenge_prefix @ i) rd
     | None \<Rightarrow> map_option JObj (dict_get i (filter (\<lambda>kv. live_challenge (e_now env) (snd kv)) (memory_challenges s))))"

lemma get_challenge_del [simp]: "get_challenge now key (put_challenge key None rd) = None"
  by (simp add: get_challenge_def put_challenge_def row_get_del)

lemma get_challenge_later: "get_challenge now key rd = None \<Longrightarrow> now \<le> now2 \<Longrightarrow> get_challenge now2 key rd = None"
  by (auto simp: get_challenge_def split: if_splits option.splits) (cases "row_get fst key (r_challenges rd)"; auto split: if_splits)+

lemma dict_get_filter_gone: "dict_get k (filter P (dict_del k d)) = None"
  by (auto simp: dict_get_None_iff dict_del_def row_del_def)

lemma pop_challenge_apply:
  "pop_challenge env i s = (Inr (stored_challenge env i s),
     case redis (api_world s) of
       Some rd \<Rightarrow> if get_challenge (e_now env) (challenge_prefix @ i) rd = None then s
         else s\<lparr>api_world := (api_world s)\<lparr>redis := Some (put_challenge (challenge_prefix @ i) None rd)\<rparr>\<rparr>
     | None \<Rightarrow> s\<lparr>memory_challenges := dict_del i (filter (\<lambda>kv. live_challenge (e_now env) (snd kv)) (memory_challenges s))\<rparr>)"
  by (auto simp: pop_challenge_def stored_challenge_def bind_op_def on_world_apply cleanup_memory_challenges_def
      Let_def split: option.splits)

lemma spent_after_pop:
  assumes "e_now env \<le> e_now env2"
  shows "stored_challenge env2 i (snd (pop_challenge env i s)) = None"
proof (cases "redis (api_world s)")
  case None
  then show ?thesis by (simp add: pop_challenge_apply stored_challenge_def dict_get_filter_gone)
next
  case (Some rd)
  then show ?thesis
    using get_challenge_later [of "e_now env" "challenge_prefix @ i" rd "e_now env2"] assms
    by (cases "get_challenge (e_now env) (challenge_prefix @ i) rd")
      (simp_all add: pop_challenge_apply stored_challenge_def)
qed

lemma consume_apply:
  "consume_pow_challenge env i nonce s =
    (case stored_challenge env i s of
       None \<Rightarrow> Inl rejected
     | Some p \<Rightarrow> (case challenge_parts p of
         None \<Rightarrow> Inl rejected
       | Some (salt, difficulty, expires_at) \<Rightarrow>
           if expires_at < e_now env \<or> \<not> verify_pow env i salt nonce difficulty then Inl rejected else Inr ()),
     snd (pop_challenge env i s))"
  by (simp add: consume_pow_challenge_def bind_op_def pop_challenge_apply split: option.splits prod.splits)

text \<open>C18 (safety). A challenge is spent by its first use: whatever the outcome of redeeming it, redeeming it
  again is refused, and it is accepted only when it was issued, has not expired, and the nonce solves it at
  the stored difficulty.\<close>

theorem challenge_is_spent:
  assumes "consume_pow_challenge env i nonce s = (r, s')" "e_now env \<le> e_now env2"
  shows "fst (consume_pow_challenge env2 i nonce2 s') = Inl rejected
    \<and> (r = Inr () \<longleftrightarrow> (\<exists>p salt difficulty expires_at. stored_challenge env i s = Some p
         \<and> challenge_parts p = Some (salt, difficulty, expires_at) \<and> e_now env \<le> expires_at
         \<and> verify_pow env i salt nonce difficulty))"
proof -
  have "s' = snd (pop_challenge env i s)" using assms(1) by (simp add: consume_apply)
  then have "fst (consume_pow_challenge env2 i nonce2 s') = Inl rejected"
    using spent_after_pop [OF assms(2), of i s] by (simp add: consume_apply)
  moreover have "r = Inr () \<longleftrightarrow> (\<exists>p salt difficulty expires_at. stored_challenge env i s = Some p
         \<and> challenge_parts p = Some (salt, difficulty, expires_at) \<and> e_now env \<le> expires_at
         \<and> verify_pow env i salt nonce difficulty)"
    using assms(1) by (auto simp: consume_apply rejected_def split: option.splits if_splits)
  ultimately show ?thesis ..
qed

lemma challenge_is_spent_witness:
  "let env = sample_env\<lparr>e_sha256 := \<lambda>s. ''00000f''\<rparr>;
       s = snd (create_pow_challenge env sample_auth (sample_api empty_db None));
       i = ''00000000-0000-4000-8000-000000000001''
   in fst (consume_pow_challenge env i ''42'' s) = Inr ()
    \<and> fst (consume_pow_challenge env i ''42'' (snd (consume_pow_challenge env i ''42'' s))) = Inl rejected"
proof -
  let ?env = "sample_env\<lparr>e_sha256 := \<lambda>s. ''00000f''\<rparr>"
  let ?s = "snd (create_pow_challenge ?env sample_auth (sample_api empty_db None))"
  let ?i = "''00000000-0000-4000-8000-000000000001''"
  have one: "fst (consume_pow_challenge ?env ?i ''42'' ?s) = Inr ()" by code_simp
  have "consume_pow_challenge ?env ?i ''42'' ?s = (fst (consume_pow_challenge ?env ?i ''42'' ?s),
      snd (consume_pow_challenge ?env ?i ''42'' ?s))" by simp
  from challenge_is_spent [OF this, of ?env "''42''"] one show ?thesis by (simp add: Let_def)
qed

section \<open>What a registration does\<close>

definition registration_mode_of :: "env \<Rightarrow> world \<Rightarrow> string" where
  "registration_mode_of env w = normalize_registration_mode
     (cfg_str env w ''USER_REGISTRATION_MODE'' (user_registration_mode (e_settings env)))"

lemma runtime_registration_mode_apply [op_simps]:
  "runtime_registration_mode env w = (Inr (registration_mode_of env w), fill_config env w)"
  by (simp add: runtime_registration_mode_def registration_mode_of_def runtime_get_apply)

lemma scalar_none: "scalar_one_or_none xs = Inr None \<longleftrightarrow> xs = []"
  and scalar_some: "scalar_one_or_none xs = Inr (Some x) \<longleftrightarrow> xs = [x]"
  by (auto simp: scalar_one_or_none_def split: list.splits)

lemma ensure_user_unique_apply:
  "ensure_user_unique un em w =
    (case scalar_one_or_none (filter (\<lambda>u. u_username u = un \<or> u_email u = Some em) (users (sess w))) of
       Inl e \<Rightarrow> Inl e | Inr None \<Rightarrow> Inr () | Inr (Some _) \<Rightarrow> Inl rejected, w)"
  by (simp add: ensure_user_unique_def bind_op_def split: sum.splits option.splits)

lemma get_usable_invite_apply:
  "get_usable_invite env code w =
    (case scalar_one_or_none (filter (\<lambda>n. n_code_hash n = invite_code_hash env code) (invites (sess w))) of
       Inl e \<Rightarrow> Inl e
     | Inr None \<Rightarrow> Inr None
     | Inr (Some n) \<Rightarrow> Inr (if invite_usable (e_now env) n then Some n else None), w)"
  by (simp add: get_usable_invite_def bind_op_def split: sum.splits option.splits)

lemma get_password_hash_apply:
  "get_password_hash a pw s = (a_hashpw a (utf8 pw) (a_gensalt a (draws s)), s\<lparr>draws := Suc (draws s)\<rparr>)"
  by (simp add: get_password_hash_def bind_op_def)

lemma on_world_Inr: "on_world m s = (Inr x, s') \<longleftrightarrow>
    (\<exists>w. m (api_world s) = (Inr x, w) \<and> s' = s\<lparr>api_world := w\<rparr>)"
  by (auto simp: on_world_def split: prod.splits)

lemma register_user_Inr:
  assumes "register_user env a un em pw code s = (Inr u, s')"
  shows "\<exists>hash i. registration_mode_of env (api_world s) \<noteq> ''disabled''
    \<and> filter (\<lambda>x. u_username x = str_strip un \<or> u_email x = Some (str_lower (str_strip em))) (users (sess (api_world s))) = []
    \<and> u = new_user env i (str_strip un) (Some (str_lower (str_strip em))) hash RoleUser
        (if registration_mode_of env (api_world s) = ''invite'' then UActive else UPendingApproval) True
    \<and> (if registration_mode_of env (api_world s) = ''invite''
       then \<exists>n. truthy code \<and> filter (\<lambda>n. n_code_hash n = invite_code_hash env (or_str code [])) (invites (sess (api_world s))) = [n]
         \<and> invite_usable (e_now env) n
         \<and> committed (api_world s') = edit_invite (n_id n) (\<lambda>m. m\<lparr>n_used_count := n_used_count m + 1\<rparr>) (add_user u (sess (api_world s)))
       else committed (api_world s') = add_user u (sess (api_world s)))"
  using assms
  by (cases "registration_mode_of env (api_world s) = ''invite''")
    (clarsimp simp: register_user_def bind_op_eq_Inr_iff on_world_Inr runtime_registration_mode_apply Let_def
      ensure_user_unique_apply get_usable_invite_apply get_password_hash_apply commit_Inr_iff scalar_none
      scalar_some new_user_def split: sum.splits option.splits if_splits)+

lemma on_world_Inl: "on_world m s = (Inl e, s') \<longleftrightarrow>
    (\<exists>w. m (api_world s) = (Inl e, w) \<and> s' = s\<lparr>api_world := w\<rparr>)"
  by (auto simp: on_world_def split: prod.splits)

lemma register_user_Inl:
  assumes "register_user env a un em pw code s = (Inl e, s')"
  shows "committed (api_world s') = committed (api_world s)"
  using assms
  by (cases "registration_mode_of env (api_world s) = ''invite''")
    (auto simp: register_user_def bind_op_eq_Inr_iff bind_op_eq_Inl_iff on_world_Inr on_world_Inl
      runtime_registration_mode_apply Let_def ensure_user_unique_apply get_usable_invite_apply
      get_password_hash_apply commit_Inl_iff commit_Inr_iff
      split: sum.splits option.splits if_splits)

text \<open>C19 (safety). A registration that fails leaves the database as it was. One that succeeds was allowed by the
  mode, took a name and an e-mail address nobody had, and adds exactly one user, of the lowest role: active
  when an invite that exists, is enabled, not expired and not used up was given, whose count of uses grows by
  one, and otherwise waiting for approval.\<close>

theorem registration_effect:
  assumes "sess (api_world s) = committed (api_world s)"
  shows "case register_user env a un em pw code s of
      (Inl e, s') \<Rightarrow> committed (api_world s') = committed (api_world s)
    | (Inr u, s') \<Rightarrow>
        registration_mode_of env (api_world s) \<noteq> ''disabled''
      \<and> (\<forall>x \<in> set (users (committed (api_world s))).
           u_username x \<noteq> str_strip un \<and> u_email x \<noteq> Some (str_lower (str_strip em)))
      \<and> u_username u = str_strip un \<and> u_email u = Some (str_lower (str_strip em)) \<and> u_role u = RoleUser
      \<and> (if registration_mode_of env (api_world s) = ''invite''
         then u_status u = UActive \<and> (\<exists>n \<in> set (invites (committed (api_world s))).
             n_code_hash n = invite_code_hash env (or_str code []) \<and> invite_usable (e_now env) n
           \<and> committed (api_world s') = edit_invite (n_id n) (\<lambda>m. m\<lparr>n_used_count := n_used_count m + 1\<rparr>)
               (add_user u (committed (api_world s))))
         else u_status u = UPendingApproval \<and> committed (api_world s') = add_user u (committed (api_world s)))"
proof (cases "register_user env a un em pw code s")
  case (Pair r s')
  show ?thesis
  proof (cases r)
    case (Inl e)
    with Pair register_user_Inl show ?thesis by fastforce
  next
    case (Inr u)
    with Pair have "register_user env a un em pw code s = (Inr u, s')" by simp
    from register_user_Inr [OF this] Pair Inr assms show ?thesis
      by (auto simp: new_user_def filter_empty_conv filter_eq_Cons_iff split: if_splits)
  qed
qed

lemma registration_effect_witness:
  "case register_user (sample_env\<lparr>e_settings := default_settings\<lparr>user_registration_mode := ''approval''\<rparr>\<rparr>) sample_auth
      '' bob'' ''BOB@example.org'' ''long enough password'' None (sample_api (empty_db\<lparr>users := [sample_user]\<rparr>) None) of
      (Inl e, s') \<Rightarrow> False
    | (Inr u, s') \<Rightarrow> u_status u = UPendingApproval \<and> map u_username (users (committed (api_world s'))) = [''alice'', ''bob'']"
proof -
  let ?env = "sample_env\<lparr>e_settings := default_settings\<lparr>user_registration_mode := ''approval''\<rparr>\<rparr>"
  let ?s = "sample_api (empty_db\<lparr>users := [sample_user]\<rparr>) None"
  have m: "registration_mode_of ?env (api_world ?s) = ''approval''" by code_simp
  have ok: "(case fst (register_user ?env sample_auth '' bob'' ''BOB@example.org'' ''long enough password'' None ?s) of
      Inl e \<Rightarrow> False | Inr u \<Rightarrow> u_username u = ''bob'')" by code_simp
  have "sess (api_world ?s) = committed (api_world ?s)" by (simp add: sample_api_def)
  from registration_effect [OF this, where env = ?env and a = sample_auth and un = "'' bob''"
      and em = "''BOB@example.org''" and pw = "''long enough password''" and code = None] m ok
  show ?thesis
    by (auto simp: add_user_def sample_api_def sample_user_def split: prod.splits sum.splits)
qed

text \<open>A name that belongs to one user and an e-mail address that belongs to another are two rows: the request
  ends in an exception that no handler turns into an answer.\<close>

lemma registration_conflict_raises:
  assumes "filter (\<lambda>u. u_username u = un \<or> u_email u = Some em) (users (sess w)) = [x, y]"
  shows "ensure_user_unique un em w = (Inl MultipleResultsFound, w)
    \<and> registration_except env a keys MultipleResultsFound s = (Inl MultipleResultsFound, s)"
  using assms by (simp add: ensure_user_unique_apply scalar_one_or_none_def registration_except_def)

end
