(* ===== verification/Worker.thy ===== *)
theory Worker
  imports BuildService TaskQueue
begin

text \<open>
  \<open>worker.py\<close>: what a task does, and the loop that takes tasks from the queue. An iteration has two halves,
  taking a task and processing it; each has its own reading of the clock and of the outside services. A
  worker that an exception ends is started again by its supervisor, which is a further iteration here.
\<close>

section \<open>Tasks\<close>

text \<open>\<open>payload[key]\<close>, \<open>payload.get(key)\<close> and \<open>uuid.UUID(value)\<close>. What the producers write under the keys that
  are read as texts is a text or nothing.\<close>

definition task_payload :: "json dict \<Rightarrow> json" where
  "task_payload task = json_or (get_or_null ''payload'' task) (JObj [])"

fun json_uuid :: "json \<Rightarrow> exn + uuid" where
  "json_uuid (JStr s) = (case parse_uuid s of
      None \<Rightarrow> Inl (ValueError ''badly formed hexadecimal UUID string'') | Some i \<Rightarrow> Inr i)"
| "json_uuid JNull = Inl (TypeError ''one of the hex, bytes, bytes_le, fields, or int arguments must be given'')"
| "json_uuid _ = Inl (AttributeError ''object has no attribute replace'')"

fun json_text :: "json \<Rightarrow> string option" where
  "json_text (JStr s) = Some s"
| "json_text _ = None"

fun json_texts :: "json \<Rightarrow> string list option" where
  "json_texts (JList xs) = Some (concat (map (\<lambda>j. case json_text j of None \<Rightarrow> [] | Some s \<Rightarrow> [s]) xs))"
| "json_texts _ = None"

definition text_or :: "json \<Rightarrow> string \<Rightarrow> string" where
  "text_or j d = (case json_text j of None \<Rightarrow> d | Some s \<Rightarrow> s)"

definition payload_text :: "string \<Rightarrow> json \<Rightarrow> string option" where
  "payload_text k payload = (case json_get k payload of Inl _ \<Rightarrow> None | Inr j \<Rightarrow> json_text j)"

definition handle_build :: "env \<Rightarrow> git_world \<Rightarrow> json \<Rightarrow> unit act" where
  "handle_build env g payload =
     bind_op (lift_res (bind_res (json_item ''plugin_id'' payload) json_uuid)) (\<lambda>pid.
     bind_op (query (get_plugin pid)) (\<lambda>found.
     case found of
       None \<Rightarrow> ret ()
     | Some p \<Rightarrow>
         bind_op (lift_res (json_item ''version'' payload)) (\<lambda>ver.
         bind_op (build_from_repo env g p (json_text ver) (payload_text ''ref'' payload)
           (payload_text ''credential_id'' payload) (payload_text ''temporary_token'' payload)
           (or_str (payload_text ''changelog'' payload) []) (payload_text ''user_id'' payload)) (\<lambda>_. ret ()))))"

definition handle_submit :: "env \<Rightarrow> git_world \<Rightarrow> json \<Rightarrow> unit act" where
  "handle_submit env g payload =
     bind_op (lift_res (json_item ''repo_url'' payload)) (\<lambda>url.
     submit_repo env g (text_or url []) (payload_text ''version'' payload) (payload_text ''ref'' payload)
       (payload_text ''credential_id'' payload) (payload_text ''temporary_token'' payload)
       (or_str (payload_text ''changelog'' payload) []) (payload_text ''user_id'' payload))"

definition handle_scan :: "env \<Rightarrow> json \<Rightarrow> unit act" where
  "handle_scan env payload =
     bind_op (lift_res (bind_res (json_item ''version_id'' payload) json_uuid)) (\<lambda>vid.
     bind_op (lift_res (json_get ''providers'' payload)) (\<lambda>providers.
     bind_op (scan_version env vid None (json_texts providers)) (\<lambda>_. ret ())))"

definition handle_poll :: "env \<Rightarrow> json \<Rightarrow> unit act" where
  "handle_poll env payload =
     bind_op (lift_res (bind_res (json_item ''version_id'' payload) json_uuid)) (\<lambda>vid.
     bind_op (poll_virustotal_analysis env vid) (\<lambda>_. ret ()))"

definition handle_task :: "env \<Rightarrow> git_world \<Rightarrow> json dict \<Rightarrow> unit act" where
  "handle_task env g task =
     (let task_type = get_or_null ''type'' task;
          payload = task_payload task
      in in_session
        (if task_type = JStr ''build'' then handle_build env g payload
         else if task_type = JStr ''scan'' then handle_scan env payload
         else if task_type = JStr ''virustotal_poll'' then handle_poll env payload
         else if task_type = JStr ''submit'' then handle_submit env g payload
         else ret ()))"

section \<open>The loop\<close>

definition promote_op :: "env \<Rightarrow> unit act" where
  "promote_op env = on_redis (\<lambda>rd. snd (promote_due_tasks env 100 rd))"

definition pop_op :: "json dict option act" where
  "pop_op = (\<lambda>w. case redis w of
      None \<Rightarrow> (Inr None, w)
    | Some rd \<Rightarrow> (case pop_task rd of (t, rd') \<Rightarrow> (Inr t, w\<lparr>redis := Some rd'\<rparr>)))"

definition take_task :: "env \<Rightarrow> string \<Rightarrow> json dict option act" where
  "take_task env wid =
     bind_op (write_worker_heartbeat env wid JNull) (\<lambda>_.
     bind_op (promote_op env) (\<lambda>_. pop_op))"

text \<open>The body of the \<open>try\<close> after a task was taken, its handler, and both together.\<close>

definition run_task :: "env \<Rightarrow> git_world \<Rightarrow> string \<Rightarrow> json dict \<Rightarrow> unit act" where
  "run_task env g wid task =
     bind_op (in_session
       (bind_op (lift_res (json_int (or_zero (get_or_null ''attempts'' task)))) (\<lambda>attempts.
        mark_task_running env (get_or_null ''id'' task) wid attempts))) (\<lambda>_.
     bind_op (write_worker_heartbeat env wid (get_or_null ''id'' task)) (\<lambda>_.
     bind_op (handle_task env g task) (\<lambda>_.
     bind_op (in_session (mark_task_succeeded env (get_or_null ''id'' task))) (\<lambda>_.
     write_worker_heartbeat env wid JNull))))"

definition task_failed :: "env \<Rightarrow> string \<Rightarrow> json dict \<Rightarrow> exn \<Rightarrow> unit act" where
  "task_failed env wid task exc =
     bind_op (in_session (requeue_task env task exc True)) (\<lambda>_.
     write_worker_heartbeat env wid JNull)"

definition process_task :: "env \<Rightarrow> git_world \<Rightarrow> string \<Rightarrow> json dict \<Rightarrow> unit act" where
  "process_task env g wid task = try_op (run_task env g wid task) (task_failed env wid task)"

definition worker_step :: "env \<Rightarrow> env \<Rightarrow> git_world \<Rightarrow> string \<Rightarrow> unit act" where
  "worker_step env env' g wid =
     bind_op (take_task env wid) (\<lambda>task.
     case task of None \<Rightarrow> ret () | Some t \<Rightarrow> process_task env' g wid t)"

text \<open>\<open>run_worker\<close>: iterations until it is told to stop, after as many as the list has. An iteration that
  raises ends the process; the next one is that of the process that replaces it.\<close>

fun run_iterations :: "(env \<times> env \<times> git_world) list \<Rightarrow> string \<Rightarrow> world \<Rightarrow> world" where
  "run_iterations [] wid w = w"
| "run_iterations ((env, env', g) # its) wid w =
     run_iterations its wid (snd (worker_step env env' g wid w))"

definition run_worker :: "(env \<times> env \<times> git_world) list \<Rightarrow> string \<Rightarrow> unit act" where
  "run_worker its wid =
     bind_op (gets redis) (\<lambda>r.
     if r = None then raise (RuntimeError ''Redis is required to run the worker'')
     else modify (run_iterations its wid))"

section \<open>What the worker keeps\<close>

context blind_invariant begin

lemma sessions: "keeps I m \<Longrightarrow> keeps I (in_session m)"
  by (auto simp: keeps_def in_session_def blind split: prod.splits) (metis blind snd_conv)

lemma getters: "keeps I (runtime_s3_layout env)" "keeps I (runtime_s3_public_url env)" "keeps I (runtime_git_clone_timeout env)"
  "keeps I (runtime_git_preflight_timeout env)" "keeps I (runtime_git_max_repo_size_kb env)"
  "keeps I (runtime_git_allowed_hosts env)" "keeps I (runtime_git_http_proxy env)" "keeps I (effective_token env tok)"
  "keeps I (runtime_max_release_zip_bytes env)"
  unfolding getter_defs effective_token_def by (intro keeps_intros basic)+

lemma builds: "keeps I (build_from_repo env g p ver ref cred tok cl usr)"
  unfolding build_from_repo_def build_start_def build_rest_def fail_build_def Let_def
  by (intro keeps_intros getters version_operations uploads scans any_stage basic)

lemma submits: "keeps I (submit_repo env g url ver ref cred tok cl usr)"
  unfolding submit_repo_def by (intro keeps_intros getters plugin_operations builds)

lemma handles: "keeps I (handle_task env g t)"
  unfolding handle_task_def Let_def handle_build_def handle_scan_def handle_poll_def handle_submit_def
  by (intro sessions keeps_intros builds scans polls submits)

lemma heartbeats: "keeps I (write_worker_heartbeat env wid j)"
  unfolding write_worker_heartbeat_def
  by (rule set_ex) (simp add: config_blind_def cached_config_def put_heartbeat_def)

lemma processes: "keeps I (process_task env g wid t)"
  unfolding process_task_def run_task_def task_failed_def mark_task_running_def mark_task_succeeded_def
  by (intro keeps_intros sessions marks heartbeats handles queues)

end

section \<open>Every waiting task is taken\<close>

lemma promote_loop_appends: "\<exists>new. r_queue (snd (promote_loop ts rd n)) = r_queue rd @ new"
  by (induction ts rd n rule: promote_loop.induct) (auto simp: rpush_def)

lemma heartbeat_apply:
  "write_worker_heartbeat env wid j w =
     (Inr (), w\<lparr>redis := map_option (put_heartbeat (''registry_worker:'' @ wid)
        (Some (heartbeat_payload env wid j, e_now env + WORKER_HEARTBEAT_TTL_SECONDS * us_per_second))) (redis w)\<rparr>)"
  by (simp add: write_worker_heartbeat_def set_ex_def WORKER_HEARTBEAT_TTL_SECONDS_def bind_op_def)

lemma take_task_first:
  assumes "waiting (t # q) w"
  shows "\<exists>w'. take_task env wid w = (Inr (Some (normalize_popped t)), w') \<and> waiting q w'"
proof -
  obtain rd new where rd: "redis w = Some rd" "r_queue rd = t # q @ new"
    using assms by (auto simp: waiting_def)
  let ?hb = "put_heartbeat (''registry_worker:'' @ wid)
    (Some (heartbeat_payload env wid JNull, e_now env + WORKER_HEARTBEAT_TTL_SECONDS * us_per_second)) rd"
  obtain more where "r_queue (snd (promote_due_tasks env 100 ?hb)) = r_queue ?hb @ more"
    unfolding promote_due_tasks_def using promote_loop_appends by blast
  moreover have "r_queue ?hb = t # q @ new" using rd(2) by (simp add: put_heartbeat_def)
  ultimately have "r_queue (snd (promote_due_tasks env 100 ?hb)) = t # q @ new @ more" by simp
  then show ?thesis
    using rd(1)
    by (simp add: take_task_def heartbeat_apply promote_op_def pop_op_def pop_task_def blpop_def waiting_def bind_op_def)
qed

text \<open>The tasks that the iterations take, in order.\<close>

fun taken :: "(env \<times> env \<times> git_world) list \<Rightarrow> string \<Rightarrow> world \<Rightarrow> json dict list" where
  "taken [] wid w = []"
| "taken ((env, env', g) # its) wid w =
     (case fst (take_task env wid w) of Inr (Some t) \<Rightarrow> [t] | _ \<Rightarrow> [])
     @ taken its wid (snd (worker_step env env' g wid w))"

lemma worker_step_keeps_line:
  assumes "take_task env wid w = (Inr (Some t), w')" "waiting q w'"
  shows "waiting q (snd (worker_step env env' g wid w))"
  using assms line.processes[of q env' g wid t]
  by (simp add: worker_step_def bind_op_def keeps_def)

lemma taken_waiting:
  "waiting q w \<Longrightarrow> length q \<le> length its \<Longrightarrow> \<exists>more. taken its wid w = map normalize_popped q @ more"
proof (induction its arbitrary: q w)
  case (Cons it its)
  show ?case
  proof (cases q)
    case (Cons t q')
    obtain env env' g where it: "it = (env, env', g)" by (cases it) auto
    from take_task_first[OF Cons.prems(1)[unfolded \<open>q = t # q'\<close>]] obtain w' where
      w': "take_task env wid w = (Inr (Some (normalize_popped t)), w')" "waiting q' w'" by blast
    have "waiting q' (snd (worker_step env env' g wid w))" by (rule worker_step_keeps_line[OF w'])
    from Cons.IH[OF this] Cons.prems(2) \<open>q = t # q'\<close> obtain more where
      "taken its wid (snd (worker_step env env' g wid w)) = map normalize_popped q' @ more" by auto
    with w'(1) \<open>q = t # q'\<close> show ?thesis by (simp add: it)
  qed simp
qed simp

text \<open>C13 (liveness). Every task that waits in the queue is taken: as many iterations as there are tasks waiting take
  all of them, in the order of the queue, whatever the tasks do, however many of them fail, and also when
  an iteration ends the worker and a new one goes on.\<close>

theorem worker_serves_queue:
  assumes "redis w = Some rd" "length (r_queue rd) \<le> length its"
  shows "\<exists>more. taken its wid w = map normalize_popped (r_queue rd) @ more"
  by (rule taken_waiting[OF _ assms(2)]) (simp add: waiting_def assms(1))

section \<open>A task is done, retried or dead\<close>

text \<open>A failed task is back in the queue or the delayed set with the next attempt count, or a dead letter.\<close>

definition parked :: "json dict \<Rightarrow> exn \<Rightarrow> redis_db \<Rightarrow> bool" where
  "parked t e rd \<longleftrightarrow> (\<exists>n. attempts_of t = Some n \<and>
     (retry_task t e (n + 1) \<in> set (r_queue rd) \<or> retry_task t e (n + 1) \<in> fst ` set (r_delayed rd)
      \<or> redacted_task (retry_task t e (n + 1)) \<in> set (r_dead rd)))"

lemma queues_heartbeat: "queues (snd (write_worker_heartbeat env wid j w)) = queues w"
  by (cases "redis w") (simp_all add: heartbeat_apply queues_def queues_of_def put_heartbeat_def)

lemma parked_queues:
  "parked t e rd \<longleftrightarrow> (\<exists>n. attempts_of t = Some n \<and> (case queues_of rd of (q, z, d) \<Rightarrow>
     retry_task t e (n + 1) \<in> set q \<or> retry_task t e (n + 1) \<in> fst ` set z \<or> redacted_task (retry_task t e (n + 1)) \<in> set d))"
  by (simp add: parked_def queues_of_def)

lemma zadd_member: "task \<in> fst ` set (zadd task score z)"
  by (force simp: zadd_def set_row_put)

lemma task_failed_parks:
  assumes "task_failed env wid t e w = (Inr (), v)" "redis w = Some rd"
  shows "\<exists>rd'. redis v = Some rd' \<and> parked t e rd'"
proof -
  from assms(1) obtain b u where req: "in_session (requeue_task env t e True) w = (Inr b, u)"
    and v: "v = snd (write_worker_heartbeat env wid JNull u)"
    by (auto simp: task_failed_def bind_op_eq_Inr_iff)
  then obtain u' where u': "requeue_task env t e True (w\<lparr>sess := committed w\<rparr>) = (Inr b, u')" "redis u = redis u'"
    by (auto simp: in_session_def split: prod.splits)
  have r: "redis (w\<lparr>sess := committed w\<rparr>) \<noteq> None" "queues (w\<lparr>sess := committed w\<rparr>) = Some (queues_of rd)"
    using assms(2) by (simp_all add: queues_def)
  have q: "queues v = queues u'" using queues_heartbeat[of env wid JNull u] u'(2) by (simp add: v queues_def)
  obtain q z d where qs: "queues_of rd = (q, z, d)" by (cases "queues_of rd") auto
  have qw: "queues w = Some (q, z, d)" using r(2) qs by simp
  from u'(1) r(1) show ?thesis
  proof (cases rule: requeue_task_cases)
    case (retry n m delay)
    then have "queues v = Some (push_queues env (retry_task t e (n + 1)) delay (q, z, d))" by (simp add: q qw)
    with retry(2) zadd_member show ?thesis
      by (auto simp: queues_def parked_queues push_queues_def split: if_splits)
  next
    case (dead n)
    then have "queues v = Some (dead_queues (redacted_task (retry_task t e (n + 1))) (q, z, d))" by (simp add: q qw)
    with dead(2) show ?thesis by (auto simp: queues_def parked_queues dead_queues_def)
  qed
qed

lemma run_task_keeps_redis: "redis w \<noteq> None \<Longrightarrow> redis (snd (run_task env g wid t w)) \<noteq> None"
proof -
  assume "redis w \<noteq> None"
  then have "waiting [] w" by (auto simp: waiting_def)
  moreover have "keeps (waiting []) (run_task env g wid t)"
    unfolding run_task_def mark_task_running_def mark_task_succeeded_def
    by (intro keeps_intros line.sessions line.marks line.heartbeats line.handles)
  ultimately have "waiting [] (snd (run_task env g wid t w))" by (simp add: keeps_def)
  then show ?thesis by (auto simp: waiting_def)
qed


text \<open>A retry delay in the configuration that is no number makes the requeueing itself raise: the worker ends and
  the task, which no queue holds any more, is lost.\<close>

lemma bad_retry_delay_loses_task:
  assumes "redis w = Some rd" "attempts_of t = Some n" "\<not> is_registry_error e"
    and "limit_ok t m" "json_truthy (get_or_null ''max_attempts'' t)" "n + 1 < m"
    and "cfg_int env w ''TASK_RETRY_DELAY_SECONDS'' (task_retry_delay_seconds (e_settings env)) = Inl bad"
  shows "fst (requeue_task env t e True w) = Inl bad \<and> queues (snd (requeue_task env t e True w)) = queues w"
proof -
  have "json_int (or_zero (get_or_null ''attempts'' t)) = Inr n"
    using assms(2) by (auto simp: attempts_of_def split: sum.splits)
  moreover have "json_int (get_or_null ''max_attempts'' t) = Inr m" using assms(4,5) by (simp add: limit_ok_def)
  moreover have "get_or_null ''max_attempts'' (retry_task t e k) = get_or_null ''max_attempts'' t" for k
    by (simp add: retry_task_def get_or_null_set)
  ultimately show ?thesis
    using assms(1,3,5-7)
    by (simp add: requeue_task_def bind_op_def Let_def is_retryable_task_error_def task_limit_def retry_later_def
        runtime_task_retry_delay_seconds_def runtime_get_apply)
qed

definition sample_task_envelope :: "string \<Rightarrow> string \<Rightarrow> json dict" where
  "sample_task_envelope kind i = create_task_envelope sample_env kind [(''version_id'', JStr ''none'')] i 0 3 []"

lemma worker_serves_queue_witness:
  "\<exists>more. taken (replicate 2 (sample_env, sample_env, sample_git)) ''w1'' (sample_world empty_db
      (Some (empty_redis\<lparr>r_queue := [sample_task_envelope ''noop'' ''a'', sample_task_envelope ''scan'' ''b'']\<rparr>)))
    = map normalize_popped [sample_task_envelope ''noop'' ''a'', sample_task_envelope ''scan'' ''b''] @ more"
  using worker_serves_queue[where rd = "empty_redis\<lparr>r_queue := [sample_task_envelope ''noop'' ''a'',
      sample_task_envelope ''scan'' ''b'']\<rparr>" and its = "replicate 2 (sample_env, sample_env, sample_git)"]
  by simp


end
