(* ===== verification/Archives.thy ===== *)
theory Archives
  imports GitProviders "HOL-Library.Word"
begin

text \<open>
  \<open>utils/zip_utils.py\<close>, \<open>services/artifact_service.py\<close> and the upload handling of \<open>api/admin.py\<close>: what
  an uploaded archive must satisfy, its extraction below a directory, where its metadata is looked for, and
  the listing and preview of a stored archive. The reader of the zip format and the decoding of text outside
  the modelled range of code points are parameters, in \<open>zip_world\<close>. A file system is a table of absolute
  paths, each a directory or a file with its bytes; there are no symbolic links in it.
\<close>

unbundle bit_operations_syntax

section \<open>Members of an archive\<close>

record zip_info =
  zi_filename :: string
  zi_file_size :: int
  zi_external_attr :: "32 word"
  zi_data :: "exn + string"

record zip_world =
  zw_infolist :: "string \<Rightarrow> exn + zip_info list"
  zw_testzip :: "string \<Rightarrow> exn + string option"
  zw_text :: "string \<Rightarrow> exn + string"
  zw_preview :: "string \<Rightarrow> string"

definition zi_is_dir :: "zip_info \<Rightarrow> bool" where
  "zi_is_dir info \<longleftrightarrow> ends_with (zi_filename info) ''/''"

definition is_symlink :: "zip_info \<Rightarrow> bool" where
  "is_symlink info \<longleftrightarrow> drop_bit 16 (zi_external_attr info) AND 0xF000 = 0xA000"

text \<open>\<open>PureWindowsPath(name).drive\<close> is not empty: a letter and a colon, or two separators in front.\<close>

definition windows_sep :: "char \<Rightarrow> bool" where
  "windows_sep c \<longleftrightarrow> c = CHR ''/'' \<or> c = CHR 0x5C"

definition is_windows_drive_path :: "string \<Rightarrow> bool" where
  "is_windows_drive_path name \<longleftrightarrow>
     (case name of
       a # b # _ \<Rightarrow> (windows_sep a \<and> windows_sep b) \<or> (\<not> windows_sep a \<and> b = CHR '':'')
     | _ \<Rightarrow> False)"

text \<open>\<open>PurePosixPath(name)\<close>: its components; empty ones and dots go.\<close>

definition posix_parts :: "string \<Rightarrow> string list" where
  "posix_parts name = filter (\<lambda>p. p \<noteq> [] \<and> p \<noteq> ''.'') (str_split (CHR ''/'') name)"

definition to_slashes :: "string \<Rightarrow> string" where
  "to_slashes name = replace_char (CHR 0x5C) (CHR ''/'') name"

definition validate_member_path :: "string \<Rightarrow> exn + string list" where
  "validate_member_path name =
     (let normalized = to_slashes name; parts = posix_parts normalized
      in if starts_with normalized ''/'' \<or> is_windows_drive_path name
         then Inl (ZipValidationError (''zip entry uses an absolute path: '' @ name))
         else if ''..'' \<in> set parts
         then Inl (ZipValidationError (''zip entry escapes extraction root: '' @ name))
         else if parts = [] then Inl (ZipValidationError ''zip entry has an empty path'')
         else Inr parts)"

section \<open>Inspection\<close>

record zip_limits =
  zl_total :: int
  zl_count :: int
  zl_single :: int

fun inspect_members :: "zip_limits \<Rightarrow> zip_info list \<Rightarrow> int \<Rightarrow> int \<Rightarrow> exn + unit" where
  "inspect_members l [] file_count total_size = Inr ()"
| "inspect_members l (info # infos) file_count total_size =
     (if zi_is_dir info then inspect_members l infos file_count total_size
      else if zl_count l < file_count + 1 then Inl (ZipValidationError ''zip contains too many files'')
      else if zl_single l < zi_file_size info
      then Inl (ZipValidationError (''zip entry is too large: '' @ zi_filename info))
      else if zl_total l < total_size + zi_file_size info
      then Inl (ZipValidationError ''zip uncompressed size is too large'')
      else if is_symlink info
      then Inl (ZipValidationError (''zip entry is a symlink: '' @ zi_filename info))
      else bind_res (validate_member_path (zi_filename info)) (\<lambda>_.
           inspect_members l infos (file_count + 1) (total_size + zi_file_size info)))"

definition bad_zip :: "exn \<Rightarrow> exn \<Rightarrow> exn" where
  "bad_zip e' e = (case e of BadZipFile _ \<Rightarrow> e' | _ \<Rightarrow> e)"

definition rewrap :: "(exn \<Rightarrow> exn) \<Rightarrow> exn + 'a \<Rightarrow> exn + 'a" where
  "rewrap f r = (case r of Inl e \<Rightarrow> Inl (f e) | Inr x \<Rightarrow> Inr x)"

definition inspect_zip :: "zip_world \<Rightarrow> string \<Rightarrow> zip_limits \<Rightarrow> exn + unit" where
  "inspect_zip z content l =
     rewrap (bad_zip (ZipValidationError ''uploaded file is not a valid zip archive''))
       (bind_res (zw_infolist z content) (\<lambda>infos.
        bind_res (zw_testzip z content) (\<lambda>bad_file.
        case bad_file of
          Some name \<Rightarrow> Inl (ZipValidationError (''zip contains a corrupt file: '' @ name))
        | None \<Rightarrow> inspect_members l infos 0 0)))"

section \<open>Extraction\<close>

type_synonym file_system = "(string list \<times> string option) list"

definition fs_get :: "string list \<Rightarrow> file_system \<Rightarrow> string option option" where
  "fs_get p fs = map_option snd (row_get fst p fs)"

text \<open>\<open>mkdir(parents=True, exist_ok=True)\<close>, from the top down, and \<open>open("wb")\<close>.\<close>

definition path_prefixes :: "string list \<Rightarrow> string list list" where
  "path_prefixes p = map (\<lambda>n. take n p) [1..<Suc (length p)]"

fun make_dirs :: "string list list \<Rightarrow> file_system \<Rightarrow> exn + file_system" where
  "make_dirs [] fs = Inr fs"
| "make_dirs (d # ds) fs =
     (case fs_get d fs of
       None \<Rightarrow> make_dirs ds (row_put fst (d, None) fs)
     | Some None \<Rightarrow> make_dirs ds fs
     | Some (Some _) \<Rightarrow> Inl (OSError ''File exists''))"

definition write_file :: "string list \<Rightarrow> string \<Rightarrow> file_system \<Rightarrow> exn + file_system" where
  "write_file p bytes fs =
     (if fs_get p fs = Some None then Inl (OSError ''Is a directory'') else Inr (row_put fst (p, Some bytes) fs))"

text \<open>\<open>resolve()\<close> and \<open>is_relative_to\<close>.\<close>

fun resolve_from :: "string list \<Rightarrow> string list \<Rightarrow> string list" where
  "resolve_from acc [] = rev acc"
| "resolve_from acc (p # ps) = resolve_from (if p = ''..'' then tl acc else p # acc) ps"

definition is_relative_to :: "string list \<Rightarrow> string list \<Rightarrow> bool" where
  "is_relative_to p root \<longleftrightarrow> take (length root) p = root"

fun unzip_members :: "string list \<Rightarrow> zip_info list \<Rightarrow> file_system \<Rightarrow> exn + file_system" where
  "unzip_members root [] fs = Inr fs"
| "unzip_members root (info # infos) fs =
     bind_res (validate_member_path (zi_filename info)) (\<lambda>parts.
     let target = resolve_from (rev root) parts
     in if \<not> is_relative_to target root
        then Inl (ZipValidationError (''zip entry escapes extraction root: '' @ zi_filename info))
        else if zi_is_dir info
        then bind_res (make_dirs (path_prefixes target) fs) (unzip_members root infos)
        else bind_res (make_dirs (path_prefixes (butlast target)) fs) (\<lambda>fs.
             bind_res (zi_data info) (\<lambda>bytes.
             bind_res (write_file target bytes fs) (unzip_members root infos))))"

definition safe_unzip :: "zip_world \<Rightarrow> string \<Rightarrow> string list \<Rightarrow> file_system \<Rightarrow> exn + file_system" where
  "safe_unzip z content root fs =
     bind_res (zw_infolist z content) (\<lambda>infos. unzip_members root infos fs)"

section \<open>Finding the metadata\<close>

definition is_file :: "file_system \<Rightarrow> string list \<Rightarrow> bool" where
  "is_file fs p \<longleftrightarrow> (case fs_get p fs of Some (Some _) \<Rightarrow> True | _ \<Rightarrow> False)"

definition children :: "file_system \<Rightarrow> string list \<Rightarrow> string list list" where
  "children fs d = map fst (filter (\<lambda>e. fst e \<noteq> [] \<and> butlast (fst e) = d) fs)"

definition below :: "string list \<Rightarrow> string list \<Rightarrow> bool" where
  "below d p \<longleftrightarrow> is_relative_to p d \<and> p \<noteq> d"

definition find_metadata_yaml :: "file_system \<Rightarrow> string list \<Rightarrow> exn + string list" where
  "find_metadata_yaml fs d =
     (let root_metadata = d @ [''metadata.yaml''];
          cs = filter (\<lambda>c. last c \<noteq> ''__MACOSX'') (children fs d);
          dirs = filter (\<lambda>c. fs_get c fs = Some None) cs;
          files = filter (is_file fs) cs;
          matches = filter (\<lambda>p. below d p \<and> last p = ''metadata.yaml'') (map fst fs)
      in if is_file fs root_metadata then Inr root_metadata
         else if length dirs = 1 \<and> files = [] \<and> is_file fs (hd dirs @ [''metadata.yaml''])
         then Inr (hd dirs @ [''metadata.yaml''])
         else if length matches = 1
         then Inl (ZipValidationError ''metadata.yaml must be at zip root or single top-level folder'')
         else if 1 < length matches then Inl (ZipValidationError ''zip contains multiple metadata.yaml files'')
         else Inl (ZipValidationError ''metadata.yaml not found''))"

section \<open>Receiving an upload\<close>

text \<open>The body of the request comes in chunks.\<close>

fun receive_upload :: "int \<Rightarrow> string list \<Rightarrow> int \<Rightarrow> exn + string" where
  "receive_upload max_bytes [] total_bytes = Inr []"
| "receive_upload max_bytes (chunk # rest) total_bytes =
     (if max_bytes < total_bytes + int (length chunk) then Inl (HTTPException 413 ''Uploaded zip is too large'')
      else bind_res (receive_upload max_bytes rest (total_bytes + int (length chunk))) (\<lambda>s. Inr (chunk @ s)))"

definition zip_rejected :: "exn \<Rightarrow> exn" where
  "zip_rejected e = (case e of ZipValidationError s \<Rightarrow> HTTPException 400 s | _ \<Rightarrow> e)"

definition extracted_metadata :: "zip_world \<Rightarrow> git_world \<Rightarrow> string \<Rightarrow> string list \<Rightarrow> exn + plugin_metadata" where
  "extracted_metadata z g content d =
     bind_res (safe_unzip z content d (map (\<lambda>p. (p, None)) (path_prefixes d))) (\<lambda>fs.
     bind_res (find_metadata_yaml fs d) (\<lambda>p.
     case fs_get p fs of
       Some (Some bytes) \<Rightarrow> bind_res (zw_text z bytes) (parse_metadata_yaml_text g)
     | _ \<Rightarrow> Inl (OSError ''No such file or directory'')))"

definition process_uploaded_zip ::
  "env \<Rightarrow> zip_world \<Rightarrow> git_world \<Rightarrow> string list \<Rightarrow> string list \<Rightarrow> (plugin_metadata \<times> string) act" where
  "process_uploaded_zip env z g body workdir =
     bind_op (runtime_upload_limits env) (\<lambda>limits.
     bind_op (lift_res (receive_upload (max_upload_bytes_limit limits) body 0)) (\<lambda>content.
     bind_op (lift_res (rewrap zip_rejected (inspect_zip z content
       \<lparr>zl_total = max_unzip_bytes_limit limits, zl_count = max_zip_entries_limit limits,
        zl_single = max_single_file_bytes_limit limits\<rparr>))) (\<lambda>_.
     bind_op (lift_res (rewrap zip_rejected (extracted_metadata z g content (workdir @ [''extracted''])))) (\<lambda>metadata.
     ret (metadata, content)))))"

section \<open>Listing a stored archive\<close>

definition MAX_PREVIEW_BYTES :: nat where "MAX_PREVIEW_BYTES = 512 * 1024"

definition BINARY_EXTENSIONS :: "string list" where
  "BINARY_EXTENSIONS = [''.7z'', ''.bin'', ''.bmp'', ''.db'', ''.gif'', ''.ico'', ''.jpeg'', ''.jpg'', ''.mp3'', ''.mp4'',
     ''.pdf'', ''.png'', ''.pyc'', ''.rar'', ''.so'', ''.sqlite'', ''.webp'', ''.zip'']"

definition LANGUAGE_BY_EXTENSION :: "string dict" where
  "LANGUAGE_BY_EXTENSION = [(''.css'', ''css''), (''.env'', ''dotenv''), (''.html'', ''html''),
     (''.js'', ''javascript''), (''.json'', ''json''), (''.md'', ''markdown''), (''.py'', ''python''),
     (''.sh'', ''shell''), (''.toml'', ''toml''), (''.ts'', ''typescript''), (''.txt'', ''plaintext''),
     (''.vue'', ''vue''), (''.yaml'', ''yaml''), (''.yml'', ''yaml'')]"

definition as_posix :: "string list \<Rightarrow> string" where
  "as_posix parts = (if parts = [] then ''.'' else str_join ''/'' parts)"

definition path_name :: "string \<Rightarrow> string" where
  "path_name p = (let parts = posix_parts p in if parts = [] then [] else last parts)"

text \<open>\<open>PurePosixPath(path).suffix\<close>: from the last dot, when text stands before and after it.\<close>

definition path_suffix :: "string \<Rightarrow> string" where
  "path_suffix p =
     (let name = path_name p;
          ext = takeWhile (\<lambda>c. c \<noteq> CHR ''.'') (rev name)
      in if CHR ''.'' \<in> set name \<and> ext \<noteq> [] \<and> length ext + 1 < length name then CHR ''.'' # rev ext else [])"

definition normalize_member_path :: "string \<Rightarrow> exn + string" where
  "normalize_member_path name =
     (let normalized = strip_char (CHR ''/'') (to_slashes name)
      in if normalized = [] then Inr []
         else if starts_with normalized ''/'' \<or> is_windows_drive_path name \<or> ''..'' \<in> set (posix_parts normalized)
         then Inl (ArtifactError (''Unsafe artifact path: '' @ name))
         else Inr (as_posix (posix_parts normalized)))"

definition normalize_requested_path :: "string \<Rightarrow> exn + string" where
  "normalize_requested_path name =
     bind_res (normalize_member_path name) (\<lambda>p.
     if p = [] then Inl (ArtifactError ''Artifact file path is required'') else Inr p)"

record tree_entry =
  te_path :: string
  te_name :: string
  te_is_dir :: bool
  te_size :: "int option"

definition dir_entry :: "string \<Rightarrow> string \<Rightarrow> tree_entry" where
  "dir_entry p name = \<lparr>te_path = p, te_name = name, te_is_dir = True, te_size = None\<rparr>"

definition add_parent_dirs :: "string \<Rightarrow> tree_entry dict \<Rightarrow> tree_entry dict" where
  "add_parent_dirs p entries =
     (let parts = posix_parts p
      in fold (\<lambda>i es. let parent = str_join ''/'' (take i parts)
           in dict_setdefault parent (dir_entry parent (parts ! (i - 1))) es) [1..<length parts] entries)"

definition add_member :: "zip_info \<Rightarrow> string \<Rightarrow> tree_entry dict \<Rightarrow> tree_entry dict" where
  "add_member info p entries =
     (let entries = add_parent_dirs p entries
      in if zi_is_dir info then dict_setdefault p (dir_entry p (path_name p)) entries
         else dict_set p \<lparr>te_path = p, te_name = path_name p, te_is_dir = False, te_size = Some (zi_file_size info)\<rparr> entries)"

fun tree_members :: "zip_info list \<Rightarrow> tree_entry dict \<Rightarrow> exn + tree_entry dict" where
  "tree_members [] entries = Inr entries"
| "tree_members (info # infos) entries =
     bind_res (normalize_member_path (zi_filename info)) (\<lambda>p.
     tree_members infos (if p = [] then entries else add_member info p entries))"

definition tree_order :: "tree_entry \<Rightarrow> nat \<times> bool \<times> string" where
  "tree_order e = (length (filter (\<lambda>c. c = CHR ''/'') (te_path e)), \<not> te_is_dir e, str_lower (te_path e))"

definition read_artifact_tree :: "zip_world \<Rightarrow> string \<Rightarrow> exn + tree_entry list" where
  "read_artifact_tree z content =
     rewrap (bad_zip (ArtifactError ''Artifact is not a valid zip archive''))
       (bind_res (zw_infolist z content) (\<lambda>infos.
        bind_res (tree_members infos []) (\<lambda>entries.
        Inr (sort_key tree_order (map snd entries)))))"

section \<open>Previewing a member\<close>

record file_payload =
  fp_path :: string
  fp_name :: string
  fp_size :: int
  fp_language :: string
  fp_content :: "string option"
  fp_truncated :: bool
  fp_binary :: bool

definition language_for_path :: "string \<Rightarrow> string" where
  "language_for_path p = (case dict_get (str_lower (path_suffix p)) LANGUAGE_BY_EXTENSION of
     None \<Rightarrow> ''plaintext'' | Some l \<Rightarrow> l)"

definition file_payload :: "string \<Rightarrow> int \<Rightarrow> string \<Rightarrow> string option \<Rightarrow> bool \<Rightarrow> bool \<Rightarrow> file_payload" where
  "file_payload p n language content truncated binary =
     \<lparr>fp_path = p, fp_name = path_name p, fp_size = n, fp_language = language, fp_content = content,
      fp_truncated = truncated, fp_binary = binary\<rparr>"

fun find_member :: "zip_info list \<Rightarrow> string \<Rightarrow> exn + zip_info option" where
  "find_member [] requested = Inr None"
| "find_member (info # infos) requested =
     bind_res (normalize_member_path (zi_filename info)) (\<lambda>p.
     if p = requested then Inr (Some info) else find_member infos requested)"

definition preview_member :: "zip_world \<Rightarrow> string \<Rightarrow> zip_info \<Rightarrow> exn + file_payload" where
  "preview_member z p info =
     (let language = language_for_path p
      in if str_lower (path_suffix p) \<in> set BINARY_EXTENSIONS
         then Inr (file_payload p (zi_file_size info) language None False True)
         else
           bind_res (zi_data info) (\<lambda>bytes.
           let raw = take (MAX_PREVIEW_BYTES + 1) bytes;
               truncated = (MAX_PREVIEW_BYTES < length raw \<or> int MAX_PREVIEW_BYTES < zi_file_size info);
               raw = take MAX_PREVIEW_BYTES raw
           in if CHR 0x00 \<in> set raw
              then Inr (file_payload p (zi_file_size info) language None False True)
              else Inr (file_payload p (zi_file_size info) language (Some (zw_preview z raw)) truncated False)))"

definition read_artifact_file :: "zip_world \<Rightarrow> string \<Rightarrow> string \<Rightarrow> exn + file_payload" where
  "read_artifact_file z content file_path =
     bind_res (normalize_requested_path file_path) (\<lambda>requested.
     rewrap (bad_zip (ArtifactError ''Artifact is not a valid zip archive''))
       (bind_res (zw_infolist z content) (\<lambda>infos.
        bind_res (find_member infos requested) (\<lambda>found.
        case found of
          None \<Rightarrow> Inl (ArtifactError ''Artifact file not found'')
        | Some info \<Rightarrow>
            if zi_is_dir info then Inl (ArtifactError ''Artifact file not found'')
            else preview_member z requested info))))"

definition download_artifact :: "env \<Rightarrow> version \<Rightarrow> exn + string" where
  "download_artifact env v =
     (if \<not> truthy (v_s3_key v) then Inl (ArtifactError ''Version artifact is missing'')
      else (case e_s3_download env (or_str (v_s3_key v) []) of
          Inl e \<Rightarrow> Inl (ArtifactError (''Could not download artifact: '' @ exn_message e))
        | Inr content \<Rightarrow> Inr content))"

definition list_artifact_tree :: "env \<Rightarrow> zip_world \<Rightarrow> version \<Rightarrow> exn + tree_entry list" where
  "list_artifact_tree env z v = bind_res (download_artifact env v) (read_artifact_tree z)"

definition artifact_file_view :: "env \<Rightarrow> zip_world \<Rightarrow> version \<Rightarrow> string \<Rightarrow> exn + file_payload" where
  "artifact_file_view env z v file_path =
     bind_res (download_artifact env v) (\<lambda>content. read_artifact_file z content file_path)"

section \<open>What inspection accepts\<close>

definition member_files :: "zip_info list \<Rightarrow> zip_info list" where
  "member_files infos = filter (\<lambda>i. \<not> zi_is_dir i) infos"

definition members_size :: "zip_info list \<Rightarrow> int" where
  "members_size infos = sum_list (map zi_file_size (member_files infos))"

definition member_ok :: "zip_limits \<Rightarrow> zip_info \<Rightarrow> bool" where
  "member_ok l info \<longleftrightarrow> zi_file_size info \<le> zl_single l \<and> \<not> is_symlink info
   \<and> (\<exists>parts. validate_member_path (zi_filename info) = Inr parts)"

lemma member_files_simps [simp]:
  "member_files [] = []"
  "member_files (i # is) = (if zi_is_dir i then member_files is else i # member_files is)"
  by (simp_all add: member_files_def)

lemma members_size_simps [simp]:
  "members_size [] = 0"
  "members_size (i # is) = (if zi_is_dir i then 0 else zi_file_size i) + members_size is"
  by (simp_all add: members_size_def)

lemma members_size_nonneg: "\<forall>i \<in> set infos. 0 \<le> zi_file_size i \<Longrightarrow> 0 \<le> members_size infos"
  by (induction infos) auto

lemma inspect_members_iff:
  assumes "\<forall>i \<in> set infos. 0 \<le> zi_file_size i"
  shows "inspect_members l infos n s = Inr () \<longleftrightarrow>
    (\<forall>i \<in> set (member_files infos). member_ok l i)
    \<and> (member_files infos = [] \<or> (n + int (length (member_files infos)) \<le> zl_count l \<and> s + members_size infos \<le> zl_total l))"
  using assms
proof (induction infos arbitrary: n s)
  case (Cons i infos)
  from Cons.prems have nn: "0 \<le> members_size infos" by (simp add: members_size_nonneg)
  show ?case
  proof (cases "zi_is_dir i")
    case False
    have e: "members_size infos = 0" if "member_files infos = []" using that by (simp add: members_size_def)
    show ?thesis
      using False Cons.IH[of "n + 1" "s + zi_file_size i"] Cons.prems nn e
      by (auto simp: member_ok_def bind_res_Inr_iff)
  qed (use Cons in simp)
qed simp

lemma rewrap_Inr [simp]: "rewrap f r = Inr x \<longleftrightarrow> r = Inr x"
  by (cases r) (simp_all add: rewrap_def)

text \<open>C25 (bounds). Inspection accepts an archive exactly when the archive can be read, no member is corrupt, and its
  files are within the limits: their number, the size of each and of all together; none of them is a
  symbolic link and none has an absolute, escaping or empty path.\<close>

theorem inspect_zip_accepts_iff:
  assumes "\<And>infos i. zw_infolist z content = Inr infos \<Longrightarrow> i \<in> set infos \<Longrightarrow> 0 \<le> zi_file_size i"
  shows "inspect_zip z content l = Inr () \<longleftrightarrow>
    (\<exists>infos. zw_infolist z content = Inr infos \<and> zw_testzip z content = Inr None
      \<and> (\<forall>i \<in> set (member_files infos). member_ok l i)
      \<and> (member_files infos = [] \<or>
          (int (length (member_files infos)) \<le> zl_count l \<and> members_size infos \<le> zl_total l)))"
  using assms by (auto simp: inspect_zip_def bind_res_Inr_iff inspect_members_iff split: option.splits)

section \<open>Where an archive is extracted\<close>

lemma validate_member_path_clean:
  "validate_member_path name = Inr parts \<Longrightarrow> ''..'' \<notin> set parts \<and> parts \<noteq> []"
  by (auto simp: validate_member_path_def Let_def split: if_splits)

lemma resolve_clean: "''..'' \<notin> set parts \<Longrightarrow> resolve_from acc parts = rev acc @ parts"
  by (induction parts arbitrary: acc) auto

definition file_bytes :: "file_system \<Rightarrow> nat" where
  "file_bytes fs = sum_list (map (\<lambda>e. case snd e of None \<Rightarrow> 0 | Some b \<Rightarrow> length b) fs)"

definition file_count :: "file_system \<Rightarrow> nat" where
  "file_count fs = length (filter (\<lambda>e. snd e \<noteq> None) fs)"

text \<open>Each path is one that was there before, or lies below the root and does not climb.\<close>

definition contained :: "string list \<Rightarrow> file_system \<Rightarrow> file_system \<Rightarrow> bool" where
  "contained root fs0 fs \<longleftrightarrow> (\<forall>e \<in> set fs. e \<in> set fs0 \<or> (\<exists>parts. parts \<noteq> [] \<and> ''..'' \<notin> set parts \<and> fst e = root @ parts))"

lemma row_put_new: "fs_get p fs = None \<Longrightarrow> row_put fst (p, x) fs = fs @ [(p, x)]"
  by (auto simp: row_put_def fs_get_def)

lemma make_dirs_keeps:
  assumes "make_dirs ds fs = Inr fs'" "contained root fs0 fs"
    and "\<And>d. d \<in> set ds \<Longrightarrow> fs_get d fs \<noteq> None \<or> (\<exists>parts. parts \<noteq> [] \<and> ''..'' \<notin> set parts \<and> d = root @ parts)"
  shows "contained root fs0 fs' \<and> file_bytes fs' = file_bytes fs \<and> file_count fs' = file_count fs
    \<and> (\<forall>p. fs_get p fs \<noteq> None \<longrightarrow> fs_get p fs' \<noteq> None)"
  using assms
proof (induction ds fs arbitrary: fs' rule: make_dirs.induct)
  case (2 d ds fs)
  show ?case
  proof (cases "fs_get d fs")
    case None
    with 2(3-5) have m: "make_dirs ds (fs @ [(d, None)]) = Inr fs'" by (simp add: row_put_new)
    from None 2(5)[of d] obtain parts where "parts \<noteq> []" "''..'' \<notin> set parts" "d = root @ parts" by auto
    with 2(4) have c: "contained root fs0 (fs @ [(d, None)])" by (auto simp: contained_def)
    have g: "fs_get p (fs @ [(d, None)]) \<noteq> None" if "fs_get p fs \<noteq> None" for p
      using that by (auto simp: fs_get_def row_get_append)
    have "contained root fs0 fs' \<and> file_bytes fs' = file_bytes (fs @ [(d, None)]) \<and> file_count fs' = file_count (fs @ [(d, None)])
      \<and> (\<forall>p. fs_get p (fs @ [(d, None)]) \<noteq> None \<longrightarrow> fs_get p fs' \<noteq> None)"
      using 2(1)[OF None] m c 2(5) g None by (simp add: row_put_new) (metis (no_types, lifting))
    with g show ?thesis by (simp add: file_bytes_def file_count_def)
  next
    case (Some x)
    with 2 show ?thesis by (cases x) auto
  qed
qed simp

lemma make_dirs_distinct: "make_dirs ds fs = Inr fs' \<Longrightarrow> distinct (map fst fs) \<Longrightarrow> distinct (map fst fs')"
  by (induction ds fs arbitrary: fs' rule: make_dirs.induct) (auto simp: distinct_row_put split: option.splits)

lemma row_put_files:
  assumes "distinct (map fst fs)"
  shows "file_bytes (row_put fst (p, Some b) fs) \<le> file_bytes fs + length b"
    "file_count (row_put fst (p, Some b) fs) \<le> Suc (file_count fs)"
proof -
  let ?put = "map (\<lambda>x. if fst x = p then (p, Some b) else x)"
  have m: "file_bytes (?put fs) \<le> file_bytes fs + length b \<and> file_count (?put fs) \<le> Suc (file_count fs)"
    using assms
  proof (induction fs)
    case (Cons e fs)
    show ?case
    proof (cases "fst e = p")
      case True
      with Cons.prems have "?put fs = fs" by (intro map_idI) (auto simp: image_iff)
      with True show ?thesis by (auto simp: file_bytes_def file_count_def)
    next
      case False
      with Cons show ?thesis by (auto simp: file_bytes_def file_count_def)
    qed
  qed (simp add: file_bytes_def file_count_def)
  then show "file_bytes (row_put fst (p, Some b) fs) \<le> file_bytes fs + length b"
    "file_count (row_put fst (p, Some b) fs) \<le> Suc (file_count fs)"
    by (auto simp: row_put_def file_bytes_def file_count_def)
qed

lemma prefix_below:
  assumes "d \<in> set (path_prefixes (root @ parts))" "''..'' \<notin> set parts"
    and "\<And>r. r \<in> set (path_prefixes root) \<Longrightarrow> fs_get r fs \<noteq> None"
  shows "fs_get d fs \<noteq> None \<or> (\<exists>ps. ps \<noteq> [] \<and> ''..'' \<notin> set ps \<and> d = root @ ps)"
proof -
  from assms(1) obtain n where n: "1 \<le> n" "n \<le> length root + length parts" "d = take n (root @ parts)"
    by (auto simp: path_prefixes_def)
  show ?thesis
  proof (cases "n \<le> length root")
    case True
    with n have "d \<in> set (path_prefixes root)" by (auto simp: path_prefixes_def)
    with assms(3) show ?thesis by blast
  next
    case False
    with n have "d = root @ take (n - length root) parts" "take (n - length root) parts \<noteq> []" by auto
    with assms(2) show ?thesis by (metis in_set_takeD)
  qed
qed

lemma butlast_prefixes: "set (path_prefixes (butlast p)) \<subseteq> set (path_prefixes p)"
proof
  fix d assume "d \<in> set (path_prefixes (butlast p))"
  then obtain n where "1 \<le> n" "n \<le> length (butlast p)" "d = take n (butlast p)" by (auto simp: path_prefixes_def)
  moreover from this have "take n (butlast p) = take n p" by (simp add: take_butlast)
  ultimately show "d \<in> set (path_prefixes p)" by (auto simp: path_prefixes_def)
qed

lemma unzip_members_keeps:
  assumes "unzip_members root infos fs = Inr fs'" "contained root fs0 fs" "distinct (map fst fs)"
    and "\<And>r. r \<in> set (path_prefixes root) \<Longrightarrow> fs_get r fs \<noteq> None"
    and "\<And>i b. i \<in> set infos \<Longrightarrow> zi_data i = Inr b \<Longrightarrow> int (length b) \<le> zi_file_size i"
  shows "contained root fs0 fs' \<and> int (file_bytes fs') \<le> int (file_bytes fs) + members_size infos
    \<and> file_count fs' \<le> file_count fs + length (member_files infos)"
  using assms
proof (induction infos arbitrary: fs)
  case (Cons i infos)
  from Cons.prems(1) obtain parts where parts: "validate_member_path (zi_filename i) = Inr parts"
    by (auto simp: bind_res_Inr_iff)
  note clean = validate_member_path_clean[OF parts]
  have target: "resolve_from (rev root) parts = root @ parts" using clean by (simp add: resolve_clean)
  have rel: "is_relative_to (root @ parts) root" by (simp add: is_relative_to_def)
  have dirs: "fs_get d fs \<noteq> None \<or> (\<exists>ps. ps \<noteq> [] \<and> ''..'' \<notin> set ps \<and> d = root @ ps)"
    if "d \<in> set (path_prefixes (root @ parts))" for d
    using prefix_below[OF that _ Cons.prems(4)] clean by blast
  show ?case
  proof (cases "zi_is_dir i")
    case True
    with Cons.prems(1) parts target rel obtain fs1 where
      fs1: "make_dirs (path_prefixes (root @ parts)) fs = Inr fs1" and rest: "unzip_members root infos fs1 = Inr fs'"
      by (auto simp: bind_res_Inr_iff Let_def)
    note m = make_dirs_keeps[OF fs1 Cons.prems(2) dirs] make_dirs_distinct[OF fs1 Cons.prems(3)]
    have "contained root fs0 fs' \<and> int (file_bytes fs') \<le> int (file_bytes fs1) + members_size infos
        \<and> file_count fs' \<le> file_count fs1 + length (member_files infos)"
      by (rule Cons.IH[OF rest]) (use m Cons.prems(4,5) in auto)
    with m True show ?thesis by simp
  next
    case False
    with Cons.prems(1) parts target rel obtain fs1 b fs2 where
      fs1: "make_dirs (path_prefixes (butlast (root @ parts))) fs = Inr fs1" and b: "zi_data i = Inr b"
      and fs2: "write_file (root @ parts) b fs1 = Inr fs2" and rest: "unzip_members root infos fs2 = Inr fs'"
      by (auto simp: bind_res_Inr_iff Let_def)
    note m = make_dirs_keeps[OF fs1 Cons.prems(2) dirs[OF subsetD[OF butlast_prefixes]]] make_dirs_distinct[OF fs1 Cons.prems(3)]
    have put: "fs2 = row_put fst (root @ parts, Some b) fs1" using fs2 by (auto simp: write_file_def split: if_splits)
    have c: "contained root fs0 fs2" using m(1) clean by (auto simp: put contained_def set_row_put)
    have d: "distinct (map fst fs2)" using m(2) by (simp add: put distinct_row_put)
    have g: "fs_get r fs2 \<noteq> None" if "r \<in> set (path_prefixes root)" for r
      using m(1) Cons.prems(4)[OF that] by (auto simp: put fs_get_def row_get_put)
    have "contained root fs0 fs' \<and> int (file_bytes fs') \<le> int (file_bytes fs2) + members_size infos
        \<and> file_count fs' \<le> file_count fs2 + length (member_files infos)"
      by (rule Cons.IH[OF rest c d g]) (use Cons.prems(5) in auto)
    moreover have "int (length b) \<le> zi_file_size i" using Cons.prems(5)[OF _ b] by simp
    ultimately show ?thesis using m row_put_files[OF m(2), of "root @ parts" b] False by (simp add: put)
  qed
qed simp

text \<open>C24 (safety). An accepted upload unpacks inside its directory and within the limits: whatever the names in the
  archive, every path that extraction creates lies below the directory and does not climb, and the files
  it leaves are at most as many, and together at most as large, as the limits allow, provided that reading
  a member gives no more bytes than its entry announces.\<close>

theorem upload_is_contained:
  assumes "inspect_zip z content l = Inr ()" "zw_infolist z content = Inr infos"
    and "\<And>i. i \<in> set infos \<Longrightarrow> 0 \<le> zi_file_size i"
    and "\<And>i b. i \<in> set infos \<Longrightarrow> zi_data i = Inr b \<Longrightarrow> int (length b) \<le> zi_file_size i"
    and "safe_unzip z content root (map (\<lambda>p. (p, None)) (path_prefixes root)) = Inr fs"
    and "member_files infos \<noteq> []"
  shows "(\<forall>(p, x) \<in> set fs. p \<in> set (path_prefixes root) \<or> (below root p \<and> ''..'' \<notin> set (drop (length root) p)))
    \<and> int (file_count fs) \<le> zl_count l \<and> int (file_bytes fs) \<le> zl_total l"
proof -
  let ?fs0 = "map (\<lambda>p. (p, None)) (path_prefixes root) :: file_system"
  have ins: "int (length (member_files infos)) \<le> zl_count l" "members_size infos \<le> zl_total l"
    using assms(1,2,6) inspect_members_iff[of infos l 0 0] assms(3)
    by (auto simp: inspect_zip_def bind_res_Inr_iff split: option.splits)
  have run: "unzip_members root infos ?fs0 = Inr fs" using assms(2,5) by (simp add: safe_unzip_def)
  have "distinct (map fst ?fs0)"
  proof -
    have "inj_on (\<lambda>n. take n root) {1..<Suc (length root)}"
      by (rule inj_onI) (metis atLeastLessThan_iff length_take less_Suc_eq_le min.absorb2)
    then show ?thesis by (simp add: path_prefixes_def comp_def distinct_map del: upt_Suc)
  qed
  moreover have "fs_get r ?fs0 \<noteq> None" if "r \<in> set (path_prefixes root)" for r
    using that by (auto simp: fs_get_def row_get_None_iff image_iff)
  moreover have "contained root ?fs0 ?fs0" by (simp add: contained_def)
  ultimately have k: "contained root ?fs0 fs \<and> int (file_bytes fs) \<le> int (file_bytes ?fs0) + members_size infos
      \<and> file_count fs \<le> file_count ?fs0 + length (member_files infos)"
    using unzip_members_keeps[OF run, of ?fs0] assms(4) by blast
  have "file_bytes ?fs0 = 0" "file_count ?fs0 = 0" by (simp_all add: file_bytes_def file_count_def comp_def)
  with k ins have "int (file_count fs) \<le> zl_count l" "int (file_bytes fs) \<le> zl_total l" by linarith+
  moreover have "p \<in> set (path_prefixes root) \<or> (below root p \<and> ''..'' \<notin> set (drop (length root) p))"
    if "(p, x) \<in> set fs" for p x
    using k that by (fastforce simp: contained_def below_def is_relative_to_def)
  ultimately show ?thesis by blast
qed

section \<open>Samples\<close>

definition sample_member :: "string \<Rightarrow> string \<Rightarrow> zip_info" where
  "sample_member name bytes = \<lparr>zi_filename = name, zi_file_size = int (length bytes), zi_external_attr = 0x81A40000,
     zi_data = Inr bytes\<rparr>"

definition sample_zip :: "zip_info list \<Rightarrow> zip_world" where
  "sample_zip infos = \<lparr>zw_infolist = (\<lambda>c. Inr infos), zw_testzip = (\<lambda>c. Inr None), zw_text = Inr, zw_preview = (\<lambda>s. s)\<rparr>"

definition sample_members :: "zip_info list" where
  "sample_members = [sample_member ''weather/'' [], sample_member ''weather/metadata.yaml'' ''name: weather'',
     sample_member ''weather/main.py'' ''pass'']"

definition sample_limits :: zip_limits where
  "sample_limits = \<lparr>zl_total = 100, zl_count = 5, zl_single = 50\<rparr>"

lemma not_islE: "\<not> isl r \<Longrightarrow> (\<And>x. r = Inr x \<Longrightarrow> thesis) \<Longrightarrow> thesis"
  by (cases r) auto

lemma inspect_zip_accepts_iff_witness:
  "inspect_zip (sample_zip sample_members) ''PK'' sample_limits = Inr ()
   \<and> inspect_zip (sample_zip (sample_member ''../x'' ''y'' # sample_members)) ''PK'' sample_limits \<noteq> Inr ()"
proof
  have "inspect_zip (sample_zip sample_members) ''PK'' sample_limits = Inr () \<longleftrightarrow>
    (\<exists>infos. Inr sample_members = (Inr infos :: exn + zip_info list) \<and> (Inr None :: exn + string option) = Inr None
      \<and> (\<forall>i \<in> set (member_files infos). member_ok sample_limits i)
      \<and> (member_files infos = [] \<or> (int (length (member_files infos)) \<le> zl_count sample_limits
          \<and> members_size infos \<le> zl_total sample_limits)))"
    by (subst inspect_zip_accepts_iff) (auto simp: sample_zip_def sample_members_def sample_member_def)
  moreover have "list_all (\<lambda>i. zi_file_size i \<le> zl_single sample_limits \<and> \<not> is_symlink i
      \<and> \<not> isl (validate_member_path (zi_filename i))) (member_files sample_members)" by code_simp
  then have "\<forall>i \<in> set (member_files sample_members). member_ok sample_limits i"
    by (auto simp: list_all_iff member_ok_def) (metis isl_def sum.exhaust)
  moreover have "int (length (member_files sample_members)) \<le> zl_count sample_limits"
    "members_size sample_members \<le> zl_total sample_limits"
    by code_simp+
  ultimately show "inspect_zip (sample_zip sample_members) ''PK'' sample_limits = Inr ()" by blast
  show "inspect_zip (sample_zip (sample_member ''../x'' ''y'' # sample_members)) ''PK'' sample_limits \<noteq> Inr ()"
    by code_simp
qed

definition sample_root :: "string list" where
  "sample_root = [''tmp'', ''x'']"

lemma upload_is_contained_witness:
  "case safe_unzip (sample_zip sample_members) ''PK'' sample_root (map (\<lambda>p. (p, None)) (path_prefixes sample_root)) of
     Inl e \<Rightarrow> False
   | Inr fs \<Rightarrow> (\<forall>(p, x) \<in> set fs. p \<in> set (path_prefixes sample_root)
         \<or> (below sample_root p \<and> ''..'' \<notin> set (drop (length sample_root) p)))
       \<and> int (file_bytes fs) \<le> zl_total sample_limits"
proof -
  let ?z = "sample_zip sample_members"
  have i: "inspect_zip ?z ''PK'' sample_limits = Inr ()" by code_simp
  have l: "zw_infolist ?z ''PK'' = Inr sample_members" by (simp add: sample_zip_def)
  have s: "0 \<le> zi_file_size i" "\<And>b. zi_data i = Inr b \<Longrightarrow> int (length b) \<le> zi_file_size i"
    if "i \<in> set sample_members" for i
    using that by (auto simp: sample_members_def sample_member_def)
  have "\<not> isl (safe_unzip ?z ''PK'' sample_root (map (\<lambda>p. (p, None)) (path_prefixes sample_root)))" by code_simp
  then obtain fs where fs: "safe_unzip ?z ''PK'' sample_root (map (\<lambda>p. (p, None)) (path_prefixes sample_root)) = Inr fs"
    by (rule not_islE)
  have "member_files sample_members \<noteq> []" by code_simp
  from upload_is_contained[OF i l s fs this] show ?thesis unfolding fs sum.case by blast
qed

end
