(* ===== verification/ConfigService.thy ===== *)
theory ConfigService
  imports RegistryService
begin

text \<open>
  \<open>services/config_service.py\<close>: the configuration as administrators see and change it. Values of sensitive
  keys are shown only as set or not set. The bullet of the masks, code point 8226, lies outside the
  modelled range of characters; the character 149 stands for it.
\<close>

section \<open>Keys and defaults\<close>

definition SENSITIVE_CONFIG_KEYS :: "string list" where
  "SENSITIVE_CONFIG_KEYS = [''GITHUB_WEBHOOK_SECRET'', ''GIT_HTTP_PROXY'', ''GITHUB_TOKEN'', ''VIRUSTOTAL_API_KEY'',
     ''LLM_AGENT_API_KEY'']"

text \<open>A default with the text that \<open>str\<close> gives for it; its truth is that of the value.\<close>

datatype default_value = DStr string | DInt int | DBool bool

fun default_text :: "default_value \<Rightarrow> string" where
  "default_text (DStr s) = s"
| "default_text (DInt i) = str_int i"
| "default_text (DBool b) = str_bool b"

fun default_truthy :: "default_value \<Rightarrow> bool" where
  "default_truthy (DStr s) \<longleftrightarrow> s \<noteq> []"
| "default_truthy (DInt i) \<longleftrightarrow> i \<noteq> 0"
| "default_truthy (DBool b) \<longleftrightarrow> b"

definition EFFECTIVE_CONFIG_DEFAULTS :: "settings \<Rightarrow> default_value dict" where
  "EFFECTIVE_CONFIG_DEFAULTS S =
     [(''PUBLIC_CACHE_MAX_AGE'', DInt (public_cache_max_age S)),
      (''REDIS_CACHE_TTL'', DInt (redis_cache_ttl S)),
      (''S3_PUBLIC_URL'', DStr (s3_public_url S)),
      (''S3_PLUGINS_PREFIX'', DStr (s3_plugins_prefix S)),
      (''S3_UNKNOWN_AUTHOR'', DStr (s3_unknown_author S)),
      (''MAX_UPLOAD_BYTES'', DInt (max_upload_bytes S)),
      (''MAX_UNZIP_BYTES'', DInt (max_unzip_bytes S)),
      (''MAX_ZIP_ENTRIES'', DInt (max_zip_entries S)),
      (''MAX_SINGLE_FILE_BYTES'', DInt (max_single_file_bytes S)),
      (''MAX_RELEASE_ZIP_BYTES'', DInt (max_release_zip_bytes S)),
      (''GIT_ALLOWED_HOSTS'', DStr (str_join '','' (git_allowed_hosts S))),
      (''GIT_CLONE_TIMEOUT'', DInt (git_clone_timeout S)),
      (''GIT_PREFLIGHT_TIMEOUT'', DInt (git_preflight_timeout S)),
      (''GIT_MAX_REPO_SIZE_KB'', DInt (git_max_repo_size_kb S)),
      (''GIT_HTTP_PROXY'', DStr (git_http_proxy S)),
      (''GITHUB_TOKEN'', DStr (github_token S)),
      (''USER_REGISTRATION_MODE'', DStr (user_registration_mode S)),
      (''SCAN_ENABLED_PROVIDERS'', DStr (str_join '','' (scan_enabled_providers S))),
      (''SCAN_PASS_WHEN_UNCONFIGURED'', DBool (scan_pass_when_unconfigured S)),
      (''SCAN_UNCONFIGURED_MESSAGE'', DStr (scan_unconfigured_message S)),
      (''SCAN_REQUIRE_HUMAN_REVIEW'', DBool (scan_require_human_review S)),
      (''SCAN_AUTO_PUBLISH_ENABLED'', DBool (scan_auto_publish_enabled S)),
      (''VIRUSTOTAL_TIMEOUT_SECONDS'', DInt (virustotal_timeout_seconds S)),
      (''VIRUSTOTAL_POLL_INTERVAL_SECONDS'', DInt (virustotal_poll_interval_seconds S)),
      (''VIRUSTOTAL_MAX_POLL_INTERVAL_SECONDS'', DInt (virustotal_max_poll_interval_seconds S)),
      (''VIRUSTOTAL_MAX_POLL_ATTEMPTS'', DInt (virustotal_max_poll_attempts S)),
      (''VIRUSTOTAL_MAX_WAIT_SECONDS'', DInt (virustotal_max_wait_seconds S)),
      (''VIRUSTOTAL_MAX_DIRECT_UPLOAD_BYTES'', DInt (virustotal_max_direct_upload_bytes S)),
      (''CLAMAV_HOST'', DStr (clamav_host S)),
      (''CLAMAV_PORT'', DInt (clamav_port S)),
      (''CLAMAV_TIMEOUT_SECONDS'', DInt (clamav_timeout_seconds S)),
      (''CLAMAV_STREAM_CHUNK_BYTES'', DInt (clamav_stream_chunk_bytes S)),
      (''CLAMAV_MAX_STREAM_BYTES'', DInt (clamav_max_stream_bytes S)),
      (''LLM_AGENT_BASE_URL'', DStr (llm_agent_base_url S)),
      (''LLM_AGENT_MODEL'', DStr (llm_agent_model S)),
      (''LLM_AGENT_MAX_CONTEXT_CHARS'', DInt (llm_agent_max_context_chars S)),
      (''TASK_MAX_ATTEMPTS'', DInt (task_max_attempts S)),
      (''TASK_RETRY_DELAY_SECONDS'', DInt (task_retry_delay_seconds S)),
      (''WEBHOOK_AUTO_VERSION'', DStr (webhook_auto_version S)),
      (''GITHUB_WEBHOOK_SECRET'', DStr (github_webhook_secret S)),
      (''VIRUSTOTAL_API_KEY'', DStr (virustotal_api_key S)),
      (''LLM_AGENT_API_KEY'', DStr (llm_agent_api_key S))]"

section \<open>Masks\<close>

definition bullets :: "nat \<Rightarrow> string" where
  "bullets n = replicate n (CHR 0x95)"

definition mask_secret :: "string \<Rightarrow> string" where
  "mask_secret v =
     (if v = [] then []
      else if length v \<le> 2 then bullets 4
      else if length v \<le> 6 then [hd v] @ bullets 2 @ [last v]
      else take 3 v @ bullets 4 @ drop (length v - 2) v)"

definition mask_url_secret :: "string \<Rightarrow> string" where
  "mask_url_secret v =
     (if CHR ''@'' \<notin> set v then v
      else (case split_once ''://'' v of
          None \<Rightarrow> v
        | Some (scheme, rest) \<Rightarrow>
            (case split_once ''@'' rest of
              None \<Rightarrow> v
            | Some (credentials, host) \<Rightarrow>
                (case split_once '':'' credentials of
                  None \<Rightarrow> v
                | Some (username, _) \<Rightarrow> scheme @ ''://'' @ username @ '':'' @ bullets 4 @ ''@'' @ host))))"

definition deployment_values :: "settings \<Rightarrow> string dict" where
  "deployment_values S =
     [(''DEPLOYMENT_MODE'', deployment_mode S),
      (''DATABASE_URL'', mask_url_secret (database_url S)),
      (''REDIS_URL'', mask_url_secret (or_str (redis_url S) [])),
      (''S3_ENDPOINT'', s3_endpoint S),
      (''S3_ACCESS_KEY'', mask_secret (s3_access_key S)),
      (''S3_SECRET_KEY'', mask_secret (s3_secret_key S)),
      (''S3_BUCKET'', s3_bucket S),
      (''S3_REGION'', s3_region S),
      (''JWT_SECRET'', mask_secret (jwt_secret S)),
      (''JWT_ALGORITHM'', jwt_algorithm S),
      (''APP_HOST'', app_host S),
      (''APP_PORT'', str_int (app_port S)),
      (''APP_RELOAD'', str_bool (app_reload S)),
      (''DOCS_ENABLED'', str_bool (docs_enabled S)),
      (''TRUSTED_HOSTS'', str_join '','' (trusted_hosts S)),
      (''CORS_ALLOW_ORIGINS'', str_join '','' (cors_allow_origins S)),
      (''SECURITY_HEADERS_ENABLED'', str_bool (security_headers_enabled S)),
      (''HSTS_ENABLED'', str_bool (hsts_enabled S)),
      (''TRUST_PROXY_HEADERS'', str_bool (trust_proxy_headers S)),
      (''TRUSTED_PROXY_CIDRS'', str_join '','' (trusted_proxy_cidrs S)),
      (''BOOTSTRAP_API_ENABLED'', str_bool (bootstrap_api_enabled S)),
      (''GITHUB_WEBHOOK_REQUIRE_SECRET'', str_bool (github_webhook_require_secret S)),
      (''LOGIN_RATE_LIMIT_ENABLED'', str_bool (login_rate_limit_enabled S)),
      (''LOG_LEVEL'', log_level S)]"

section \<open>Reading\<close>

definition list_config :: "db \<Rightarrow> string dict" where
  "list_config D = dict_of (map (\<lambda>c. (c_key c, c_value c)) (configs D))"

record config_response =
  cr_values :: "string dict"
  cr_effective_values :: "string dict"
  cr_sensitive_status :: "bool dict"
  cr_sensitive_keys :: "string list"
  cr_deployment_values :: "string dict"

definition is_default_set :: "settings \<Rightarrow> string \<Rightarrow> bool" where
  "is_default_set S k = (case dict_get k (EFFECTIVE_CONFIG_DEFAULTS S) of None \<Rightarrow> False | Some d \<Rightarrow> default_truthy d)"

definition build_config_response :: "settings \<Rightarrow> string dict \<Rightarrow> config_response" where
  "build_config_response S values =
     \<lparr>cr_values = filter (\<lambda>kv. fst kv \<notin> set SENSITIVE_CONFIG_KEYS) values,
      cr_effective_values = map (\<lambda>(k, d). (k, case dict_get k values of None \<Rightarrow> default_text d | Some v \<Rightarrow> v))
        (filter (\<lambda>kd. fst kd \<notin> set SENSITIVE_CONFIG_KEYS) (EFFECTIVE_CONFIG_DEFAULTS S)),
      cr_sensitive_status = map (\<lambda>k. (k, truthy (dict_get k values) \<or> is_default_set S k)) SENSITIVE_CONFIG_KEYS,
      cr_sensitive_keys = sort SENSITIVE_CONFIG_KEYS,
      cr_deployment_values = deployment_values S\<rparr>"

definition list_config_response :: "env \<Rightarrow> config_response act" where
  "list_config_response env = query (\<lambda>D. build_config_response (e_settings env) (list_config D))"

section \<open>Writing\<close>

definition normalize_config_value :: "string \<Rightarrow> string \<Rightarrow> exn + string" where
  "normalize_config_value k v =
     (if k = ''USER_REGISTRATION_MODE'' \<and> v \<noteq> [] then
        (let normalized = normalize_registration_mode v
         in if normalized \<notin> set REGISTRATION_MODES \<or> normalized \<noteq> str_lower (str_strip v)
            then Inl (ConfigValidationError ''USER_REGISTRATION_MODE must be one of: disabled, invite, approval'')
            else Inr normalized)
      else Inr v)"

definition put_config :: "string \<Rightarrow> string \<Rightarrow> db \<Rightarrow> db" where
  "put_config k v D = D\<lparr>configs :=
     (if v = [] then row_del c_key k (configs D) else row_put c_key \<lparr>c_key = k, c_value = v\<rparr> (configs D))\<rparr>"

fun update_value :: "string \<times> string \<Rightarrow> unit act" where
  "update_value (k, v0) = bind_op (lift_res (normalize_config_value k v0)) (\<lambda>v. stage (put_config k v))"

definition update_config :: "env \<Rightarrow> string dict \<Rightarrow> config_response act" where
  "update_config env values =
     bind_op (foreach update_value values) (\<lambda>_.
     bind_op commit (\<lambda>_.
     bind_op clear_runtime_config_cache (\<lambda>_. list_config_response env)))"

section \<open>What an update writes is what is read\<close>

definition stored_value :: "string \<Rightarrow> db \<Rightarrow> string option" where
  "stored_value k D = map_option c_value (row_get c_key k (configs D))"

text \<open>What is stored under a key after the values of a request were written one after the other.\<close>

definition written :: "string \<Rightarrow> string dict \<Rightarrow> db \<Rightarrow> string option" where
  "written k vals D =
     (case dict_get k vals of
       None \<Rightarrow> stored_value k D
     | Some v0 \<Rightarrow> (case normalize_config_value k v0 of
         Inl _ \<Rightarrow> None
       | Inr v \<Rightarrow> if v = [] then None else Some v))"

lemma stored_put: "stored_value k (put_config j v D) =
    (if k = j then (if v = [] then None else Some v) else stored_value k D)"
  by (auto simp: stored_value_def put_config_def row_get_put row_get_del)

lemma update_loop:
  assumes "foreach update_value vals w
      = (Inr u, w')"
    and "distinct (map fst vals)"
  shows "w' = w\<lparr>sess := sess w'\<rparr> \<and> stored_value k (sess w') = written k vals (sess w)
    \<and> (\<forall>v0. dict_get k vals = Some v0 \<longrightarrow> isl (normalize_config_value k v0) = False)"
  using assms
proof (induction vals arbitrary: w)
  case Nil
  then show ?case by (simp add: written_def)
next
  case (Cons kv vals)
  obtain j v0 where kv: "kv = (j, v0)" by (cases kv)
  from Cons.prems kv obtain v where v: "normalize_config_value j v0 = Inr v"
    and rest: "foreach update_value vals
      (w\<lparr>sess := put_config j v (sess w)\<rparr>) = (Inr u, w')"
    by (auto simp: bind_op_def lift_res_def split: sum.splits prod.splits)
  have d: "distinct (map fst vals)" "j \<notin> fst ` set vals" using Cons.prems(2) kv by auto
  note IH = Cons.IH[OF rest d(1)]
  have "dict_get j vals = None" using d(2) by (simp add: dict_get_None_iff)
  then show ?case using IH kv v by (cases "k = j") (auto simp: written_def stored_put split: option.splits)
qed

lemma stored_value_rows:
  assumes "configs_ok D" shows "dict_get k (config_rows D) = stored_value k D"
proof -
  have m: "dict_get k (map (\<lambda>c. (c_key c, c_value c)) cs) = map_option c_value (row_get c_key k cs)" for cs
    by (induction cs) simp_all
  have "distinct (map c_key (configs D))" using assms by (simp add: configs_ok_def)
  then show ?thesis by (simp add: config_rows_def dict_get_dict_of comp_def stored_value_def m)
qed

lemma update_config_Inr:
  assumes "update_config env vals w = (Inr r, w')" "distinct (map fst vals)"
  shows "db_ok (sess w') \<and> committed w' = sess w' \<and> stored_value k (sess w') = written k vals (sess w)
    \<and> redis w' = map_option (\<lambda>rd. rd\<lparr>r_runtime_config := None\<rparr>) (redis w)
    \<and> r = build_config_response (e_settings env) (list_config (sess w'))
    \<and> (\<forall>v0. dict_get k vals = Some v0 \<longrightarrow> \<not> isl (normalize_config_value k v0))"
proof -
  obtain u v where loop: "foreach update_value
      vals w = (Inr u, v)" and ok: "db_ok (sess v)"
    and w': "w' = v\<lparr>committed := sess v, redis := map_option (\<lambda>rd. rd\<lparr>r_runtime_config := None\<rparr>) (redis v)\<rparr>"
    and r: "r = build_config_response (e_settings env) (list_config (sess v))"
    using assms(1)
    by (auto simp: update_config_def bind_op_def commit_def clear_runtime_config_cache_def list_config_response_def
        split: prod.splits sum.splits if_splits)
  from update_loop[OF loop assms(2), of k] ok w' r show ?thesis
    by (metis (no_types, lifting) world.select_convs world.simps world.update_convs world.surjective isl_def)
qed

text \<open>Reading with an empty cache.\<close>

lemma get_runtime_value_uncached:
  assumes "configs_ok (sess w)" "redis w = map_option (\<lambda>rd. rd\<lparr>r_runtime_config := None\<rparr>) rd0"
  shows "fst (get_runtime_value env k d c w) =
    (case stored_value k (sess w) of None \<Rightarrow> Inr d | Some v \<Rightarrow> if v = [] then Inr d else cast_runtime_value v d c)"
  using assms(2) stored_value_rows[OF assms(1), of k]
  by (auto simp: get_runtime_value_def get_runtime_values_def cached_config_def bind_op_def lift_res_def when_op_def
      split: option.splits)

text \<open>C20 (roundtrip). What an update writes is what every service reads from then on, whatever the cache held before: a key
  of the update has its new value, with the registration mode in its normal form; a key set to the empty
  text has its default again; every other key keeps what was stored.\<close>

theorem config_update_is_read:
  assumes "update_config env vals w = (Inr r, w')" "distinct (map fst vals)"
  shows "fst (get_runtime_value env' k d c w') =
    (case written k vals (sess w) of
      None \<Rightarrow> Inr d
    | Some v \<Rightarrow> if v = [] then Inr d else cast_runtime_value v d c)"
proof -
  note u = update_config_Inr[OF assms, of k]
  then have "configs_ok (sess w')" by (simp add: db_ok_def)
  moreover have "redis w' = map_option (\<lambda>rd. rd\<lparr>r_runtime_config := None\<rparr>) (redis w)" using u by blast
  ultimately show ?thesis using get_runtime_value_uncached[of w' "redis w" env' k d c] u by simp
qed

lemma config_update_is_read_witness:
  "fst (get_runtime_value sample_env ''USER_REGISTRATION_MODE'' (CStr ''disabled'') None
     (snd (update_config sample_env [(''USER_REGISTRATION_MODE'', '' Invite'')] (sample_world sample_db None))))
   = Inr (CStr ''invite'')"
proof -
  let ?w = "sample_world sample_db None"
  have n: "normalize_config_value ''USER_REGISTRATION_MODE'' '' Invite'' = Inr ''invite''" by code_simp
  have ok: "db_ok (put_config ''USER_REGISTRATION_MODE'' ''invite'' sample_db)"
    using db_ok_sample(1)
    by (simp add: db_ok_def table_defs put_config_def row_put_def sample_db_def empty_db_def fits_def)
  obtain r w' where u: "update_config sample_env [(''USER_REGISTRATION_MODE'', '' Invite'')] ?w = (Inr r, w')"
    using n ok by (simp add: update_config_def bind_op_def commit_ok clear_runtime_config_cache_def list_config_response_def)
  show ?thesis
    using config_update_is_read[OF u, of sample_env "''USER_REGISTRATION_MODE''" "CStr ''disabled''" None] n u
    by (simp add: written_def cast_runtime_value_def)
qed

section \<open>Secrets are not shown\<close>

text \<open>Two tables of values that differ at most in what their sensitive keys hold.\<close>

definition public_alike :: "string dict \<Rightarrow> string dict \<Rightarrow> bool" where
  "public_alike d e \<longleftrightarrow>
     filter (\<lambda>kv. fst kv \<notin> set SENSITIVE_CONFIG_KEYS) d = filter (\<lambda>kv. fst kv \<notin> set SENSITIVE_CONFIG_KEYS) e
   \<and> (\<forall>k \<in> set SENSITIVE_CONFIG_KEYS. truthy (dict_get k d) = truthy (dict_get k e))"

lemma dict_get_filter: "P k \<Longrightarrow> dict_get k (filter (\<lambda>kv. P (fst kv)) d) = dict_get k d"
  by (induction d) auto

lemma public_alike_get:
  "public_alike d e \<Longrightarrow> k \<notin> set SENSITIVE_CONFIG_KEYS \<Longrightarrow> dict_get k d = dict_get k e"
  using dict_get_filter[of "\<lambda>k. k \<notin> set SENSITIVE_CONFIG_KEYS" k d]
    dict_get_filter[of "\<lambda>k. k \<notin> set SENSITIVE_CONFIG_KEYS" k e]
  by (simp add: public_alike_def)

text \<open>Settings that differ at most in the five secrets, set in both or in neither.\<close>

definition settings_alike :: "settings \<Rightarrow> settings \<Rightarrow> bool" where
  "settings_alike S T \<longleftrightarrow>
     T = S\<lparr>github_webhook_secret := github_webhook_secret T, git_http_proxy := git_http_proxy T,
           github_token := github_token T, virustotal_api_key := virustotal_api_key T,
           llm_agent_api_key := llm_agent_api_key T\<rparr>
   \<and> (github_webhook_secret S = [] \<longleftrightarrow> github_webhook_secret T = [])
   \<and> (git_http_proxy S = [] \<longleftrightarrow> git_http_proxy T = [])
   \<and> (github_token S = [] \<longleftrightarrow> github_token T = [])
   \<and> (virustotal_api_key S = [] \<longleftrightarrow> virustotal_api_key T = [])
   \<and> (llm_agent_api_key S = [] \<longleftrightarrow> llm_agent_api_key T = [])"

lemma defaults_alike:
  assumes "settings_alike S T"
  shows "filter (\<lambda>kd. fst kd \<notin> set SENSITIVE_CONFIG_KEYS) (EFFECTIVE_CONFIG_DEFAULTS S)
    = filter (\<lambda>kd. fst kd \<notin> set SENSITIVE_CONFIG_KEYS) (EFFECTIVE_CONFIG_DEFAULTS T)"
    and "k \<in> set SENSITIVE_CONFIG_KEYS \<Longrightarrow> is_default_set S k = is_default_set T k"
    and "deployment_values S = deployment_values T"
proof -
  obtain a b c d e where T: "T = S\<lparr>github_webhook_secret := a, git_http_proxy := b, github_token := c,
      virustotal_api_key := d, llm_agent_api_key := e\<rparr>"
    and n: "github_webhook_secret S = [] \<longleftrightarrow> a = []" "git_http_proxy S = [] \<longleftrightarrow> b = []" "github_token S = [] \<longleftrightarrow> c = []"
      "virustotal_api_key S = [] \<longleftrightarrow> d = []" "llm_agent_api_key S = [] \<longleftrightarrow> e = []"
    using assms unfolding settings_alike_def by blast
  show "filter (\<lambda>kd. fst kd \<notin> set SENSITIVE_CONFIG_KEYS) (EFFECTIVE_CONFIG_DEFAULTS S)
    = filter (\<lambda>kd. fst kd \<notin> set SENSITIVE_CONFIG_KEYS) (EFFECTIVE_CONFIG_DEFAULTS T)"
    unfolding T by (simp add: SENSITIVE_CONFIG_KEYS_def EFFECTIVE_CONFIG_DEFAULTS_def)
  show "is_default_set S k = is_default_set T k" if "k \<in> set SENSITIVE_CONFIG_KEYS"
    using that n unfolding T
    by (auto simp: is_default_set_def SENSITIVE_CONFIG_KEYS_def EFFECTIVE_CONFIG_DEFAULTS_def)
  show "deployment_values S = deployment_values T" unfolding T by (simp add: deployment_values_def)
qed

text \<open>C39 (safety). The response for the configuration does not depend on the secrets beyond whether each is set: stored
  values and settings that differ only in what the sensitive keys hold give the same response.\<close>

theorem config_response_hides_secrets:
  assumes "public_alike (list_config D) (list_config E)" "settings_alike S T"
  shows "build_config_response S (list_config D) = build_config_response T (list_config E)"
proof -
  have "map (\<lambda>(k, d). (k, case dict_get k (list_config D) of None \<Rightarrow> default_text d | Some v \<Rightarrow> v)) kds
      = map (\<lambda>(k, d). (k, case dict_get k (list_config E) of None \<Rightarrow> default_text d | Some v \<Rightarrow> v)) kds"
    if "\<forall>kd \<in> set kds. fst kd \<notin> set SENSITIVE_CONFIG_KEYS" for kds
    using that public_alike_get[OF assms(1)] by (intro map_cong) auto
  note e = this[of "filter (\<lambda>kd. fst kd \<notin> set SENSITIVE_CONFIG_KEYS) (EFFECTIVE_CONFIG_DEFAULTS S)"]
  show ?thesis
    using assms(1) e
    by (simp add: build_config_response_def defaults_alike[OF assms(2)] public_alike_def cong: map_cong)
qed

text \<open>A password with the sign that separates it from the host shows its tail.\<close>

lemma split_once_plain:
  "c \<notin> set a \<Longrightarrow> split_once [c] (a @ c # b) = Some (a, b)"
  by (induction a) (auto simp: starts_with_def)

lemma url_mask_shows_tail:
  assumes "CHR '':'' \<notin> set user" "CHR ''@'' \<notin> set user" "CHR ''@'' \<notin> set p"
  shows "mask_url_secret (''redis://'' @ user @ '':'' @ p @ ''@'' @ tail @ ''@'' @ host)
    = ''redis://'' @ user @ '':'' @ bullets 4 @ ''@'' @ tail @ ''@'' @ host"
proof -
  let ?rest = "user @ '':'' @ p @ ''@'' @ tail @ ''@'' @ host"
  have "split_once ''://'' (''redis://'' @ ?rest) = Some (''redis'', ?rest)" by (simp add: starts_with_def)
  moreover have "split_once ''@'' ?rest = Some (user @ '':'' @ p, tail @ ''@'' @ host)"
    using split_once_plain[of "CHR ''@''" "user @ '':'' @ p" "tail @ ''@'' @ host"] assms by simp
  moreover have "split_once '':'' (user @ '':'' @ p) = Some (user, p)"
    using split_once_plain[of "CHR '':''" user p] assms by simp
  ultimately show ?thesis by (simp add: mask_url_secret_def)
qed

lemma config_response_hides_secrets_witness:
  "build_config_response default_settings
     (list_config (empty_db\<lparr>configs := [\<lparr>c_key = ''GITHUB_TOKEN'', c_value = ''one''\<rparr>]\<rparr>))
   = build_config_response default_settings
     (list_config (empty_db\<lparr>configs := [\<lparr>c_key = ''GITHUB_TOKEN'', c_value = ''two''\<rparr>]\<rparr>))"
  by (rule config_response_hides_secrets)
    (simp_all add: public_alike_def settings_alike_def list_config_def dict_of_def dict_set_def row_put_def
      SENSITIVE_CONFIG_KEYS_def)

end
