(* ===== verification/AdminViews.thy ===== *)
theory AdminViews
  imports PluginService TaskObservability
begin

text \<open>
  What the handlers of \<open>api/admin.py\<close> show of the rows: the summaries of plugins, versions and tasks, with
  the fields of the response classes of \<open>schemas/admin.py\<close>.
\<close>

fun review_status_str :: "review_status \<Rightarrow> string" where
  "review_status_str RPending = ''pending''"
| "review_status_str RApproved = ''approved''"
| "review_status_str RSkipped = ''skipped''"
| "review_status_str RRejected = ''rejected''"

fun version_status_str :: "version_status \<Rightarrow> string" where
  "version_status_str VDraft = ''draft''"
| "version_status_str VActive = ''active''"
| "version_status_str VDeprecated = ''deprecated''"
| "version_status_str VDeleted = ''deleted''"

record plugin_summary_fields =
  ps_id :: uuid
  ps_plugin_key :: string
  ps_display_name :: "string option"
  ps_author :: string
  ps_status :: string
  ps_review_status :: string
  ps_category :: "string option"
  ps_version_count :: nat
  ps_created_at :: time

definition plugin_summary :: "db \<Rightarrow> plugin \<Rightarrow> plugin_summary_fields" where
  "plugin_summary D p =
     \<lparr>ps_id = p_id p, ps_plugin_key = p_plugin_key p, ps_display_name = p_display_name p, ps_author = p_author p,
      ps_status = plugin_status_str (p_status p), ps_review_status = review_status_str (p_review_status p),
      ps_category = p_category p, ps_version_count = length (plugin_versions D (p_id p)),
      ps_created_at = p_created_at p\<rparr>"

record version_summary_fields =
  vs_id :: uuid
  vs_version :: string
  vs_source_type :: string
  vs_source_ref :: "string option"
  vs_commit_sha :: "string option"
  vs_changelog :: "string option"
  vs_build_status :: string
  vs_build_log :: "string option"
  vs_version_status :: string
  vs_is_latest :: bool
  vs_download_url :: "string option"
  vs_file_size :: "int option"
  vs_created_at :: time
  vs_scan :: "json dict option"

definition summary_scan :: "version_view \<Rightarrow> string list option \<Rightarrow> json dict option" where
  "summary_scan vv required =
     (let scan = version_scan_summary vv required
      in case required of
           None \<Rightarrow> scan
         | Some providers \<Rightarrow>
             (let d = (case scan of None \<Rightarrow> [(''scanned_at'', JNull)]
                       | Some d \<Rightarrow> if d = [] then [(''scanned_at'', JNull)] else d)
              in Some (dict_set ''required_providers'' (JList (map JStr providers)) d)))"

definition version_summary :: "version_view \<Rightarrow> string list option \<Rightarrow> version_summary_fields" where
  "version_summary vv required =
     (let v = vv_version vv in
      \<lparr>vs_id = v_id v, vs_version = v_version v, vs_source_type = source_type_str (v_source_type v),
       vs_source_ref = v_source_ref v, vs_commit_sha = v_commit_sha v, vs_changelog = v_changelog v,
       vs_build_status = build_status_str (effective_build_status vv required), vs_build_log = v_build_log v,
       vs_version_status = version_status_str (v_version_status v), vs_is_latest = v_is_latest v,
       vs_download_url = v_download_url v, vs_file_size = v_file_size v, vs_created_at = v_created_at v,
       vs_scan = summary_scan vv required\<rparr>)"

record plugin_detail_fields =
  pd_summary :: plugin_summary_fields
  pd_description :: "string option"
  pd_repo_url :: "string option"
  pd_social_link :: "string option"
  pd_tags :: "string list"
  pd_support_platforms :: "string list"
  pd_astrbot_version :: "string option"
  pd_versions :: "version_summary_fields list"

definition plugin_detail :: "db \<Rightarrow> string list \<Rightarrow> plugin \<Rightarrow> plugin_detail_fields" where
  "plugin_detail D required p =
     \<lparr>pd_summary = plugin_summary D p, pd_description = p_description p, pd_repo_url = p_repo_url p,
      pd_social_link = p_social_link p, pd_tags = plugin_tag_names D (p_id p),
      pd_support_platforms = (case p_support_platforms p of None \<Rightarrow> [] | Some xs \<Rightarrow> xs),
      pd_astrbot_version = p_astrbot_version p,
      pd_versions = map (\<lambda>v. version_summary (load_view D v) (Some required)) (plugin_versions D (p_id p))\<rparr>"

record task_summary =
  ts_id :: uuid
  ts_task_type :: string
  ts_status :: string
  ts_plugin_id :: "uuid option"
  ts_version_id :: "uuid option"
  ts_provider :: "string option"
  ts_payload_summary :: "json dict"
  ts_attempts :: int
  ts_max_attempts :: int
  ts_queued_at :: time
  ts_started_at :: "time option"
  ts_finished_at :: "time option"
  ts_next_run_at :: "time option"
  ts_worker_id :: "string option"
  ts_duration_ms :: "int option"
  ts_last_error :: "string option"
  ts_created_at :: time

definition task_to_dict :: "worker_task \<Rightarrow> task_summary" where
  "task_to_dict t =
     \<lparr>ts_id = t_id t, ts_task_type = t_task_type t, ts_status = task_status_str (t_status t),
      ts_plugin_id = t_plugin_id t, ts_version_id = t_version_id t, ts_provider = t_provider t,
      ts_payload_summary = payload_summary (t_payload t), ts_attempts = t_attempts t,
      ts_max_attempts = t_max_attempts t, ts_queued_at = t_queued_at t, ts_started_at = t_started_at t,
      ts_finished_at = t_finished_at t, ts_next_run_at = t_next_run_at t, ts_worker_id = t_worker_id t,
      ts_duration_ms = t_duration_ms t, ts_last_error = t_last_error t, ts_created_at = t_created_at t\<rparr>"

record page =
  pg_total :: nat
  pg_page :: int
  pg_page_size :: int

text \<open>\<open>page = max(page, 1)\<close> and \<open>page_size = min(max(page_size, 1), 100)\<close>.\<close>

definition page_info :: "int \<Rightarrow> int \<Rightarrow> nat \<Rightarrow> page" where
  "page_info page page_size n =
     \<lparr>pg_total = n, pg_page = max page 1, pg_page_size = min (max page_size 1) 100\<rparr>"

end
