(* ===== verification/Submissions.thy ===== *)
theory Submissions
  imports GitUtils Accounts
begin

text \<open>
  \<open>services/submission_service.py\<close> and \<open>api/submissions.py\<close>: a user asks for a repository to be taken into
  the registry, a reviewer decides once. A submission is pending until its decision, which is final.
\<close>

section \<open>The service\<close>

fun submission_status_str :: "submission_status \<Rightarrow> string" where
  "submission_status_str SPendingReview = ''pending_review''"
| "submission_status_str SAccepted = ''accepted''"
| "submission_status_str SRejected = ''rejected''"
| "submission_status_str SDuplicate = ''duplicate''"

fun ref_type_str :: "ref_type \<Rightarrow> string" where
  "ref_type_str RefDefault = ''default''"
| "ref_type_str RefBranch = ''branch''"
| "ref_type_str RefTag = ''tag''"
| "ref_type_str RefCommit = ''commit''"

record submission_response =
  sr_id :: uuid
  sr_user_id :: uuid
  sr_username :: "string option"
  sr_repo_url :: string
  sr_provider :: string
  sr_ref_type :: string
  sr_ref :: "string option"
  sr_status :: string
  sr_resolved_commit_sha :: "string option"
  sr_accepted_plugin_id :: "uuid option"
  sr_accepted_version_id :: "uuid option"
  sr_user_message :: "string option"
  sr_admin_message :: "string option"
  sr_accepted_by :: "uuid option"
  sr_accepted_at :: "time option"
  sr_created_at :: time

definition submission_to_dict :: "submission \<Rightarrow> string option \<Rightarrow> submission_response" where
  "submission_to_dict q username =
     \<lparr>sr_id = q_id q, sr_user_id = q_user_id q, sr_username = username, sr_repo_url = q_repo_url q,
      sr_provider = q_provider q, sr_ref_type = ref_type_str (q_ref_type q), sr_ref = q_ref q,
      sr_status = submission_status_str (q_status q), sr_resolved_commit_sha = q_resolved_commit_sha q,
      sr_accepted_plugin_id = q_accepted_plugin_id q, sr_accepted_version_id = q_accepted_version_id q,
      sr_user_message = q_user_message q, sr_admin_message = q_admin_message q,
      sr_accepted_by = q_accepted_by q, sr_accepted_at = q_accepted_at q, sr_created_at = q_created_at q\<rparr>"

text \<open>\<open>except ValueError as exc: raise SubmissionError(str(exc))\<close>.\<close>

definition submission_except :: "exn \<Rightarrow> 'a act" where
  "submission_except e = (case e of ValueError s \<Rightarrow> raise (SubmissionError s) | _ \<Rightarrow> raise e)"

definition submission_ref :: "ref_type \<Rightarrow> string option \<Rightarrow> string option" where
  "submission_ref ref_type ref =
     (if ref_type = RefDefault then None else if truthy ref then map_option str_strip ref else None)"

definition create_submission_request ::
  "env \<Rightarrow> user \<Rightarrow> string \<Rightarrow> ref_type \<Rightarrow> string option \<Rightarrow> string option \<Rightarrow> submission act" where
  "create_submission_request env u repo_url ref_type ref user_message =
     bind_op (try_op (lift_res (parse_github_url env repo_url None)) submission_except) (\<lambda>_.
     let normalized_ref = submission_ref ref_type ref in
     bind_op (guard_op (ref_type = RefDefault \<or> truthy normalized_ref)
       (SubmissionError ''ref is required when ref_type is not default'')) (\<lambda>_.
     bind_op (uuid4 env) (\<lambda>i.
     let q = \<lparr>q_id = i, q_user_id = u_id u, q_repo_url = str_strip repo_url, q_provider = ''github'',
              q_ref_type = ref_type, q_ref = normalized_ref, q_status = SPendingReview,
              q_resolved_commit_sha = None, q_accepted_plugin_id = None, q_accepted_version_id = None,
              q_user_message = user_message, q_admin_message = None, q_accepted_by = None,
              q_accepted_at = None, q_created_at = e_now env\<rparr>
     in
     bind_op (stage (\<lambda>D. D\<lparr>submissions := submissions D @ [q]\<rparr>)) (\<lambda>_.
     bind_op commit (\<lambda>_. ret q)))))"

text \<open>The join with \<open>users\<close>.\<close>

definition with_username :: "db \<Rightarrow> submission list \<Rightarrow> (submission \<times> string) list" where
  "with_username D qs = some_list (map (\<lambda>q. map_option (\<lambda>u. (q, u_username u)) (row_get u_id (q_user_id q) (users D))) qs)"

definition list_submission_requests ::
  "uuid option \<Rightarrow> string option \<Rightarrow> db \<Rightarrow> (submission \<times> string) list" where
  "list_submission_requests user_id status D =
     with_username D (sort_key (\<lambda>q. - q_created_at q)
       (filter (\<lambda>q. (user_id \<noteq> None \<longrightarrow> user_id = Some (q_user_id q))
          \<and> (truthy status \<longrightarrow> status = Some (submission_status_str (q_status q)))) (submissions D)))"

definition get_submission_request ::
  "uuid \<Rightarrow> uuid option \<Rightarrow> db \<Rightarrow> exn + (submission \<times> string) option" where
  "get_submission_request submission_id user_id D =
     scalar_one_or_none (with_username D
       (filter (\<lambda>q. q_id q = submission_id \<and> (user_id \<noteq> None \<longrightarrow> user_id = Some (q_user_id q))) (submissions D)))"

definition decided ::
  "env \<Rightarrow> submission_status \<Rightarrow> string option \<Rightarrow> uuid option \<Rightarrow> submission \<Rightarrow> submission" where
  "decided env status admin_message accepted_by q =
     (let q = q\<lparr>q_status := status, q_admin_message := admin_message\<rparr>
      in if status = SAccepted then q\<lparr>q_accepted_by := accepted_by, q_accepted_at := Some (e_now env)\<rparr> else q)"

definition mark_submission_decision ::
  "env \<Rightarrow> submission \<Rightarrow> submission_status \<Rightarrow> string option \<Rightarrow> uuid option \<Rightarrow> submission act" where
  "mark_submission_decision env q status admin_message accepted_by =
     bind_op (guard_op (q_status q = SPendingReview) (SubmissionError ''submission has already been processed'')) (\<lambda>_.
     bind_op (stage (\<lambda>D. D\<lparr>submissions := rows_update (\<lambda>r. q_id r = q_id q)
        (decided env status admin_message accepted_by) (submissions D)\<rparr>)) (\<lambda>_.
     bind_op commit (\<lambda>_. ret (decided env status admin_message accepted_by q))))"

section \<open>What users see of their submissions\<close>

text \<open>\<open>SubmissionCreate\<close>, whose field widths are checked before the handler runs.\<close>

record submission_create =
  sc_repo_url :: string
  sc_ref_type :: ref_type
  sc_ref :: "string option"
  sc_user_message :: "string option"

definition submission_create_ok :: "submission_create \<Rightarrow> bool" where
  "submission_create_ok d \<longleftrightarrow>
     1 \<le> length (sc_repo_url d) \<and> length (sc_repo_url d) \<le> 512
   \<and> (case sc_ref d of None \<Rightarrow> True | Some r \<Rightarrow> length r \<le> 255)
   \<and> (case sc_user_message d of None \<Rightarrow> True | Some m \<Rightarrow> length m \<le> 4000)"

text \<open>\<open>except SubmissionError as exc: raise HTTPException(400, str(exc))\<close>.\<close>

definition submission_rejected :: "exn \<Rightarrow> 'a api" where
  "submission_rejected e = (case e of SubmissionError s \<Rightarrow> http_error 400 s | _ \<Rightarrow> raise e)"

definition list_my_submissions :: "env \<Rightarrow> auth_env \<Rightarrow> string \<Rightarrow> submission_response list api" where
  "list_my_submissions env a token =
     bind_op (get_current_user env a token) (\<lambda>u.
     on_world (query (\<lambda>D. map (\<lambda>(q, username). submission_to_dict q (Some username))
       (list_submission_requests (Some (u_id u)) None D))))"

definition create_my_submission ::
  "env \<Rightarrow> auth_env \<Rightarrow> string \<Rightarrow> submission_create \<Rightarrow> submission_response api" where
  "create_my_submission env a token d =
     bind_op (get_current_user env a token) (\<lambda>u.
     bind_op (try_op (on_world (create_submission_request env u (sc_repo_url d) (sc_ref_type d) (sc_ref d)
        (sc_user_message d))) submission_rejected) (\<lambda>q.
     ret (submission_to_dict q (Some (u_username u)))))"

definition get_my_submission :: "env \<Rightarrow> auth_env \<Rightarrow> string \<Rightarrow> uuid \<Rightarrow> submission_response api" where
  "get_my_submission env a token submission_id =
     bind_op (get_current_user env a token) (\<lambda>u.
     bind_op (on_world (query (get_submission_request submission_id (Some (u_id u))))) (\<lambda>r.
     bind_op (lift_res r) (\<lambda>found.
     case found of
       None \<Rightarrow> http_error 404 ''Submission request not found''
     | Some (q, username) \<Rightarrow> ret (submission_to_dict q (Some username)))))"

end
