(* ===== verification/AdminApi.thy ===== *)
theory AdminApi
  imports AdminViews Submissions Worker Archives ConfigService
begin

text \<open>
  The handlers of \<open>api/admin.py\<close> for submissions, plugins, versions, scans, tasks and the configuration. A
  handler is the function that FastAPI calls once the request is parsed; it begins with the dependency that
  reads the token. Tasks go to the queue, or, without Redis, to \<open>background\<close>, to be run in this process
  after the response.
\<close>

section \<open>Tasks for the worker or for this process\<close>

text \<open>\<open>async with async_session() as db\<close> and the session of the dependency \<open>get_db\<close>.\<close>

definition api_session :: "'a api \<Rightarrow> 'a api" where
  "api_session m = (\<lambda>s.
     case m (s\<lparr>api_world := (api_world s)\<lparr>sess := committed (api_world s)\<rparr>\<rparr>) of
       (r, v) \<Rightarrow> (r, v\<lparr>api_world := (api_world v)\<lparr>sess := committed (api_world v)\<rparr>\<rparr>))"

definition api_uuid :: "string \<Rightarrow> uuid api" where
  "api_uuid s = lift_res (case parse_uuid s of
     None \<Rightarrow> Inl (ValueError ''badly formed hexadecimal UUID string'') | Some i \<Rightarrow> Inr i)"

definition json_opt :: "string option \<Rightarrow> json" where
  "json_opt x = (case x of None \<Rightarrow> JNull | Some s \<Rightarrow> JStr s)"

definition enqueue_or_fallback :: "env \<Rightarrow> string \<Rightarrow> json dict \<Rightarrow> unit api" where
  "enqueue_or_fallback env task_type payload =
     bind_op (on_world (enqueue_task env task_type payload True 0)) (\<lambda>queued.
     if truthy queued then ret ()
     else if task_type \<in> {''build'', ''scan'', ''submit''}
     then modify (\<lambda>s. s\<lparr>background := background s @ [(task_type, payload)]\<rparr>)
     else ret ())"

text \<open>The functions that a background task calls, each with a session of its own.\<close>

definition build_version_task :: "env \<Rightarrow> git_world \<Rightarrow> json dict \<Rightarrow> unit act" where
  "build_version_task env g payload = in_session
     (bind_op (lift_res (json_uuid (get_or_null ''plugin_id'' payload))) (\<lambda>pid.
      bind_op (query (get_plugin pid)) (\<lambda>found.
      case found of
        None \<Rightarrow> ret ()
      | Some p \<Rightarrow>
          bind_op (build_from_repo env g p (json_text (get_or_null ''version'' payload))
            (json_text (get_or_null ''ref'' payload)) (json_text (get_or_null ''credential_id'' payload))
            (json_text (get_or_null ''temporary_token'' payload)) (text_or (get_or_null ''changelog'' payload) [])
            (Some (text_or (get_or_null ''user_id'' payload) []))) (\<lambda>_. ret ()))))"

definition scan_version_task :: "env \<Rightarrow> json dict \<Rightarrow> unit act" where
  "scan_version_task env payload = in_session
     (bind_op (lift_res (json_uuid (get_or_null ''version_id'' payload))) (\<lambda>vid.
      bind_op (scan_version env vid None (json_texts (get_or_null ''providers'' payload))) (\<lambda>_. ret ())))"

definition submit_repo_task :: "env \<Rightarrow> git_world \<Rightarrow> json dict \<Rightarrow> unit act" where
  "submit_repo_task env g payload = in_session
     (submit_repo env g (text_or (get_or_null ''repo_url'' payload) []) (json_text (get_or_null ''version'' payload))
        (json_text (get_or_null ''ref'' payload)) (json_text (get_or_null ''credential_id'' payload))
        (json_text (get_or_null ''temporary_token'' payload)) (text_or (get_or_null ''changelog'' payload) [])
        (Some (text_or (get_or_null ''user_id'' payload) [])))"

definition run_background :: "env \<Rightarrow> git_world \<Rightarrow> string \<times> json dict \<Rightarrow> unit act" where
  "run_background env g task =
     (if fst task = ''build'' then build_version_task env g (snd task)
      else if fst task = ''scan'' then scan_version_task env (snd task)
      else submit_repo_task env g (snd task))"

section \<open>Submissions\<close>

definition list_submissions_endpoint ::
  "env \<Rightarrow> auth_env \<Rightarrow> string \<Rightarrow> string option \<Rightarrow> submission_response list api" where
  "list_submissions_endpoint env a token status =
     bind_op (get_current_reviewer env a token) (\<lambda>_.
     on_world (query (\<lambda>D. map (\<lambda>(q, username). submission_to_dict q (Some username))
       (list_submission_requests None status D))))"

definition find_submission :: "uuid \<Rightarrow> (submission \<times> string) api" where
  "find_submission submission_id =
     bind_op (on_world (query (get_submission_request submission_id None))) (\<lambda>r.
     bind_op (lift_res r) (\<lambda>found.
     case found of None \<Rightarrow> http_error 404 ''Submission request not found'' | Some x \<Rightarrow> ret x))"

definition get_submission_endpoint :: "env \<Rightarrow> auth_env \<Rightarrow> string \<Rightarrow> uuid \<Rightarrow> submission_response api" where
  "get_submission_endpoint env a token submission_id =
     bind_op (get_current_reviewer env a token) (\<lambda>_.
     bind_op (find_submission submission_id) (\<lambda>(q, username).
     ret (submission_to_dict q (Some username))))"

text \<open>Reading the submission and marking it, with a refusal turned into an answer.\<close>

definition decide_submission ::
  "env \<Rightarrow> uuid \<Rightarrow> submission_status \<Rightarrow> string option \<Rightarrow> uuid option \<Rightarrow> (submission \<times> string) api" where
  "decide_submission env submission_id status admin_message accepted_by =
     bind_op (find_submission submission_id) (\<lambda>(q, username).
     bind_op (try_op (on_world (mark_submission_decision env q status admin_message accepted_by)) submission_rejected)
       (\<lambda>q. ret (q, username)))"

definition submit_payload ::
  "string \<Rightarrow> string option \<Rightarrow> string option \<Rightarrow> string option \<Rightarrow> string option \<Rightarrow> string \<Rightarrow> uuid \<Rightarrow> json dict" where
  "submit_payload repo_url ver ref credential token changelog user_id =
     [(''repo_url'', JStr repo_url), (''version'', json_opt ver), (''ref'', json_opt ref),
      (''credential_id'', json_opt credential), (''temporary_token'', json_opt token),
      (''changelog'', JStr changelog), (''user_id'', JStr user_id)]"

definition accept_submission_endpoint ::
  "env \<Rightarrow> auth_env \<Rightarrow> string \<Rightarrow> uuid \<Rightarrow> string option \<Rightarrow> submission_response api" where
  "accept_submission_endpoint env a token submission_id admin_message =
     bind_op (get_current_reviewer env a token) (\<lambda>u.
     bind_op (decide_submission env submission_id SAccepted admin_message (Some (u_id u))) (\<lambda>(q, username).
     bind_op (enqueue_or_fallback env ''submit''
       (submit_payload (q_repo_url q) None (if q_ref_type q \<noteq> RefDefault then q_ref q else None) None None
          (or_str admin_message []) (u_id u))) (\<lambda>_.
     ret (submission_to_dict q (Some username)))))"

definition mark_submission_terminal ::
  "env \<Rightarrow> uuid \<Rightarrow> submission_status \<Rightarrow> string option \<Rightarrow> submission_response api" where
  "mark_submission_terminal env submission_id status admin_message =
     bind_op (decide_submission env submission_id status admin_message None) (\<lambda>(q, username).
     ret (submission_to_dict q (Some username)))"

definition reject_submission_endpoint ::
  "env \<Rightarrow> auth_env \<Rightarrow> string \<Rightarrow> uuid \<Rightarrow> string option \<Rightarrow> submission_response api" where
  "reject_submission_endpoint env a token submission_id admin_message =
     bind_op (get_current_reviewer env a token) (\<lambda>_.
     mark_submission_terminal env submission_id SRejected admin_message)"

definition duplicate_submission_endpoint ::
  "env \<Rightarrow> auth_env \<Rightarrow> string \<Rightarrow> uuid \<Rightarrow> string option \<Rightarrow> submission_response api" where
  "duplicate_submission_endpoint env a token submission_id admin_message =
     bind_op (get_current_reviewer env a token) (\<lambda>_.
     mark_submission_terminal env submission_id SDuplicate admin_message)"

section \<open>Plugins\<close>

text \<open>\<open>except (ValueError, GitError) as exc: raise HTTPException(400, str(exc))\<close>.\<close>

fun is_value_error :: "exn \<Rightarrow> bool" where
  "is_value_error (ValueError _) = True"
| "is_value_error (ConfigValidationError _) = True"
| "is_value_error (SubmissionError _) = True"
| "is_value_error (RegistrationError _) = True"
| "is_value_error (RegistrationClosedError _) = True"
| "is_value_error (ZipValidationError _) = True"
| "is_value_error _ = False"

fun is_git_error :: "exn \<Rightarrow> bool" where
  "is_git_error (GitError _) = True"
| "is_git_error _ = False"

fun is_artifact_error :: "exn \<Rightarrow> bool" where
  "is_artifact_error (ArtifactError _) = True"
| "is_artifact_error _ = False"

definition answer_400 :: "(exn \<Rightarrow> bool) \<Rightarrow> exn \<Rightarrow> 'a api" where
  "answer_400 caught e = (if caught e then http_error 400 (exn_message e) else raise e)"

record plugin_page =
  pp_items :: "plugin_summary_fields list"
  pp_page :: page

definition list_plugins_endpoint ::
  "env \<Rightarrow> auth_env \<Rightarrow> string \<Rightarrow> string option \<Rightarrow> string option \<Rightarrow> int \<Rightarrow> int \<Rightarrow> plugin_page api" where
  "list_plugins_endpoint env a token status q page page_size =
     bind_op (get_current_reviewer env a token) (\<lambda>_.
     on_world (query (\<lambda>D. case list_plugins status q page page_size D of
       (ps, n) \<Rightarrow> \<lparr>pp_items = map (plugin_summary D) ps, pp_page = page_info page page_size n\<rparr>)))"

record repo_request =
  rq_repo_url :: string
  rq_credential_id :: "string option"
  rq_temporary_token :: "string option"
  rq_ref_type :: "string option"
  rq_ref :: "string option"

definition inspect_plugin_repo_endpoint ::
  "env \<Rightarrow> auth_env \<Rightarrow> git_world \<Rightarrow> string \<Rightarrow> repo_request \<Rightarrow> bool \<Rightarrow> (inspected_repo \<times> repo_match) api" where
  "inspect_plugin_repo_endpoint env a g token r include_refs =
     bind_op (get_current_reviewer env a token) (\<lambda>_.
     try_op (on_world
       (bind_op (runtime_git_allowed_hosts env) (\<lambda>hosts.
        bind_op (runtime_git_http_proxy env) (\<lambda>proxy.
        bind_op (runtime_git_preflight_timeout env) (\<lambda>_.
        inspect_git_repo env g (rq_repo_url r) (rq_temporary_token r) (rq_credential_id r) (rq_ref_type r) (rq_ref r)
          include_refs (Some hosts) (Some proxy))))))
       (answer_400 (\<lambda>e. is_value_error e \<or> is_git_error e)))"

definition resolve_plugin_ref_endpoint ::
  "env \<Rightarrow> auth_env \<Rightarrow> git_world \<Rightarrow> string \<Rightarrow> repo_request \<Rightarrow> (resolved_ref \<times> repo_match) api" where
  "resolve_plugin_ref_endpoint env a g token r =
     bind_op (get_current_reviewer env a token) (\<lambda>_.
     try_op (on_world
       (bind_op (runtime_git_allowed_hosts env) (\<lambda>hosts.
        bind_op (runtime_git_http_proxy env) (\<lambda>proxy.
        bind_op (runtime_git_preflight_timeout env) (\<lambda>_.
        resolve_git_ref env g (rq_repo_url r) (rq_temporary_token r) (rq_credential_id r) (rq_ref_type r) (rq_ref r)
          (Some hosts) (Some proxy))))))
       (answer_400 (\<lambda>e. is_value_error e \<or> is_git_error e)))"

record submit_response =
  sb_plugin_id :: "string option"
  sb_version_id :: "string option"
  sb_version :: "string option"
  sb_status :: "string option"

record version_create =
  vc_version :: "string option"
  vc_changelog :: string
  vc_ref :: "string option"
  vc_credential_id :: "string option"
  vc_temporary_token :: "string option"

definition submit_plugin ::
  "env \<Rightarrow> auth_env \<Rightarrow> string \<Rightarrow> string \<Rightarrow> version_create \<Rightarrow> submit_response api" where
  "submit_plugin env a token repo_url d =
     bind_op (get_current_reviewer env a token) (\<lambda>u.
     bind_op (try_op (on_world
       (bind_op (runtime_git_allowed_hosts env) (\<lambda>hosts. lift_res (parse_github_url env repo_url (Some hosts)))))
       (answer_400 is_value_error)) (\<lambda>_.
     bind_op (enqueue_or_fallback env ''submit''
       (submit_payload repo_url (vc_version d) (vc_ref d) (vc_credential_id d) (vc_temporary_token d)
          (vc_changelog d) (u_id u))) (\<lambda>_.
     ret \<lparr>sb_plugin_id = None, sb_version_id = None, sb_version = vc_version d, sb_status = Some ''queued''\<rparr>)))"

definition upload_plugin ::
  "env \<Rightarrow> auth_env \<Rightarrow> zip_world \<Rightarrow> git_world \<Rightarrow> string list \<Rightarrow> string \<Rightarrow> string list \<Rightarrow> submit_response api" where
  "upload_plugin env a z g tmp token body =
     bind_op (get_current_reviewer env a token) (\<lambda>u.
     bind_op (on_world (process_uploaded_zip env z g body tmp)) (\<lambda>(metadata, content).
     bind_op (on_world (create_plugin env metadata (or_str (m_repo metadata) []))) (\<lambda>p.
     bind_op (on_world (create_version_from_upload env p metadata content (m_version metadata) [] (Some (u_id u)))) (\<lambda>v.
     bind_op (enqueue_or_fallback env ''scan'' [(''version_id'', JStr (v_id v))]) (\<lambda>_.
     ret \<lparr>sb_plugin_id = Some (p_id p), sb_version_id = Some (v_id v), sb_version = None, sb_status = None\<rparr>)))))"

definition pending_plugins :: "env \<Rightarrow> auth_env \<Rightarrow> string \<Rightarrow> plugin_summary_fields list api" where
  "pending_plugins env a token =
     bind_op (get_current_reviewer env a token) (\<lambda>_.
     on_world (query (\<lambda>D. map (plugin_summary D) (fst (list_plugins (Some ''pending'') None 1 100 D)))))"

text \<open>\<open>get_plugin\<close> by the text of the path, or 404.\<close>

definition find_plugin :: "string \<Rightarrow> plugin api" where
  "find_plugin plugin_id =
     bind_op (api_uuid plugin_id) (\<lambda>pid.
     bind_op (on_world (query (get_plugin pid))) (\<lambda>found.
     case found of None \<Rightarrow> http_error 404 ''Plugin not found'' | Some p \<Rightarrow> ret p))"

definition get_plugin_endpoint :: "env \<Rightarrow> auth_env \<Rightarrow> string \<Rightarrow> string \<Rightarrow> plugin_detail_fields api" where
  "get_plugin_endpoint env a token plugin_id =
     bind_op (get_current_reviewer env a token) (\<lambda>_.
     bind_op (find_plugin plugin_id) (\<lambda>p.
     bind_op (on_world (runtime_scan_enabled_providers env)) (\<lambda>required.
     on_world (query (\<lambda>D. plugin_detail D required p)))))"

text \<open>\<open>PluginUpdate(**data)\<close>: the fields that are set, each a text that fits, a list of texts, or null.\<close>

definition text_field :: "nat option \<Rightarrow> json \<Rightarrow> exn + string option" where
  "text_field max_length j =
     (case j of
       JNull \<Rightarrow> Inr None
     | JStr s \<Rightarrow> if (case max_length of None \<Rightarrow> True | Some n \<Rightarrow> length s \<le> n) then Inr (Some s)
               else Inl (ValueError ''String should have at most max_length characters'')
     | _ \<Rightarrow> Inl (ValueError ''Input should be a valid string''))"

definition texts_field :: "json \<Rightarrow> exn + string list option" where
  "texts_field j =
     (case j of
       JNull \<Rightarrow> Inr None
     | JList xs \<Rightarrow>
         if list_all (\<lambda>x. json_text x \<noteq> None) xs then Inr (json_texts j)
         else Inl (ValueError ''Input should be a valid string'')
     | _ \<Rightarrow> Inl (ValueError ''Input should be a valid list''))"

definition field_update ::
  "json dict \<Rightarrow> string \<Rightarrow> (json \<Rightarrow> exn + 'x) \<Rightarrow> ('x \<Rightarrow> plugin_update) \<Rightarrow> exn + plugin_update list" where
  "field_update data k parse upd =
     (case dict_get k data of None \<Rightarrow> Inr [] | Some j \<Rightarrow> bind_res (parse j) (\<lambda>x. Inr [upd x]))"

definition parse_plugin_update :: "json dict \<Rightarrow> exn + plugin_update list" where
  "parse_plugin_update data =
     bind_res (map_res id
       [field_update data ''display_name'' (text_field (Some 255)) UpdDisplayName,
        field_update data ''description'' (text_field None) UpdDescription,
        field_update data ''category'' (text_field (Some 100)) UpdCategory,
        field_update data ''tags'' texts_field UpdTags,
        field_update data ''support_platforms'' texts_field UpdSupportPlatforms,
        field_update data ''astrbot_version'' (text_field (Some 100)) UpdAstrbotVersion])
       (\<lambda>us. Inr (concat us))"

definition update_plugin_endpoint ::
  "env \<Rightarrow> auth_env \<Rightarrow> string \<Rightarrow> string \<Rightarrow> json dict \<Rightarrow> (uuid \<times> string) api" where
  "update_plugin_endpoint env a token plugin_id data =
     bind_op (get_current_reviewer env a token) (\<lambda>_.
     bind_op (find_plugin plugin_id) (\<lambda>p.
     bind_op (lift_res (parse_plugin_update data)) (\<lambda>upd.
     bind_op (on_world (update_plugin env (p_id p) upd)) (\<lambda>_. ret (p_id p, p_plugin_key p)))))"

definition delete_plugin_endpoint :: "env \<Rightarrow> auth_env \<Rightarrow> string \<Rightarrow> string \<Rightarrow> string api" where
  "delete_plugin_endpoint env a token plugin_id =
     bind_op (get_current_admin env a token) (\<lambda>_.
     bind_op (api_uuid plugin_id) (\<lambda>pid.
     bind_op (on_world (delete_plugin env pid)) (\<lambda>_. ret ''deleted'')))"

definition update_plugin_status ::
  "env \<Rightarrow> auth_env \<Rightarrow> string \<Rightarrow> string \<Rightarrow> plugin_status \<Rightarrow> review_status option \<Rightarrow> string api" where
  "update_plugin_status env a token plugin_id status review =
     bind_op (get_current_admin env a token) (\<lambda>_.
     bind_op (api_uuid plugin_id) (\<lambda>pid.
     bind_op (on_world (set_plugin_status env pid status review)) (\<lambda>_. ret ''updated'')))"

section \<open>Versions\<close>

definition list_versions_endpoint :: "env \<Rightarrow> auth_env \<Rightarrow> string \<Rightarrow> string \<Rightarrow> version_summary_fields list api" where
  "list_versions_endpoint env a token plugin_id =
     bind_op (get_current_reviewer env a token) (\<lambda>_.
     bind_op (api_uuid plugin_id) (\<lambda>pid.
     bind_op (on_world (query (list_versions pid))) (\<lambda>vs.
     bind_op (on_world (runtime_scan_enabled_providers env)) (\<lambda>required.
     ret (map (\<lambda>vv. version_summary vv (Some required)) vs)))))"

definition delete_version_endpoint :: "env \<Rightarrow> auth_env \<Rightarrow> string \<Rightarrow> string \<Rightarrow> string \<Rightarrow> string api" where
  "delete_version_endpoint env a token plugin_id version_id =
     bind_op (get_current_admin env a token) (\<lambda>_.
     bind_op (api_uuid plugin_id) (\<lambda>pid.
     bind_op (api_uuid version_id) (\<lambda>vid.
     bind_op (on_world (delete_version env pid vid)) (\<lambda>_. ret ''deleted''))))"

definition build_payload :: "string \<Rightarrow> version_create \<Rightarrow> uuid \<Rightarrow> json dict" where
  "build_payload plugin_id d user_id =
     [(''plugin_id'', JStr plugin_id), (''version'', json_opt (vc_version d)), (''ref'', json_opt (vc_ref d)),
      (''credential_id'', json_opt (vc_credential_id d)), (''temporary_token'', json_opt (vc_temporary_token d)),
      (''changelog'', JStr (vc_changelog d)), (''user_id'', JStr user_id)]"

definition create_version_from_repo ::
  "env \<Rightarrow> auth_env \<Rightarrow> string \<Rightarrow> string \<Rightarrow> version_create \<Rightarrow> submit_response api" where
  "create_version_from_repo env a token plugin_id d =
     bind_op (get_current_reviewer env a token) (\<lambda>u.
     bind_op (find_plugin plugin_id) (\<lambda>_.
     bind_op (enqueue_or_fallback env ''build'' (build_payload plugin_id d (u_id u))) (\<lambda>_.
     ret \<lparr>sb_plugin_id = Some plugin_id, sb_version_id = None, sb_version = vc_version d,
          sb_status = Some ''queued''\<rparr>)))"

definition trigger_build :: "env \<Rightarrow> auth_env \<Rightarrow> string \<Rightarrow> string \<Rightarrow> version_create \<Rightarrow> string api" where
  "trigger_build env a token plugin_id d =
     bind_op (get_current_reviewer env a token) (\<lambda>u.
     bind_op (find_plugin plugin_id) (\<lambda>_.
     bind_op (enqueue_or_fallback env ''build'' (build_payload plugin_id d (u_id u))) (\<lambda>_. ret ''queued'')))"

definition upload_version ::
  "env \<Rightarrow> auth_env \<Rightarrow> zip_world \<Rightarrow> git_world \<Rightarrow> string list \<Rightarrow> string \<Rightarrow> string \<Rightarrow> string \<Rightarrow> string \<Rightarrow> string list \<Rightarrow>
   submit_response api" where
  "upload_version env a z g tmp token plugin_id ver changelog body =
     bind_op (get_current_reviewer env a token) (\<lambda>u.
     bind_op (find_plugin plugin_id) (\<lambda>p.
     bind_op (on_world (process_uploaded_zip env z g body tmp)) (\<lambda>(metadata, content).
     bind_op (on_world (create_version_from_upload env p metadata content (or_str (Some ver) (m_version metadata))
        changelog (Some (u_id u)))) (\<lambda>v.
     bind_op (enqueue_or_fallback env ''scan'' [(''version_id'', JStr (v_id v))]) (\<lambda>_.
     ret \<lparr>sb_plugin_id = None, sb_version_id = Some (v_id v), sb_version = None, sb_status = None\<rparr>)))))"

definition set_latest :: "env \<Rightarrow> auth_env \<Rightarrow> string \<Rightarrow> string \<Rightarrow> string \<Rightarrow> bool \<Rightarrow> string api" where
  "set_latest env a token plugin_id version_id is_latest =
     bind_op (get_current_reviewer env a token) (\<lambda>_.
     if \<not> is_latest then http_error 400 ''Setting is_latest=false is not supported''
     else
       bind_op (api_uuid plugin_id) (\<lambda>pid.
       bind_op (api_uuid version_id) (\<lambda>vid.
       bind_op (on_world (set_latest_version env pid vid)) (\<lambda>_. ret ''updated''))))"

definition publish_version :: "env \<Rightarrow> auth_env \<Rightarrow> string \<Rightarrow> string \<Rightarrow> string \<Rightarrow> review_status \<Rightarrow> string api" where
  "publish_version env a token plugin_id version_id review =
     bind_op (get_current_admin env a token) (\<lambda>_.
     bind_op (api_uuid plugin_id) (\<lambda>pid.
     bind_op (api_uuid version_id) (\<lambda>vid.
     bind_op (on_world (publish_plugin_version env pid vid review)) (\<lambda>_. ret ''published''))))"

definition update_version_status ::
  "env \<Rightarrow> auth_env \<Rightarrow> string \<Rightarrow> string \<Rightarrow> string \<Rightarrow> version_status \<Rightarrow> string api" where
  "update_version_status env a token plugin_id version_id status =
     bind_op (get_current_reviewer env a token) (\<lambda>_.
     bind_op (api_uuid version_id) (\<lambda>vid.
     bind_op (on_world (set_version_status env vid status)) (\<lambda>_. ret ''updated'')))"

definition get_plugin_version :: "string \<Rightarrow> string \<Rightarrow> version api" where
  "get_plugin_version plugin_id version_id =
     bind_op (api_uuid version_id) (\<lambda>vid.
     bind_op (api_uuid plugin_id) (\<lambda>pid.
     bind_op (on_world (query (\<lambda>D. filter (\<lambda>v. v_id v = vid \<and> v_plugin_id v = pid) (versions D)))) (\<lambda>vs.
     case vs of [] \<Rightarrow> http_error 404 ''Version not found'' | v # _ \<Rightarrow> ret v)))"

definition artifact_tree ::
  "env \<Rightarrow> auth_env \<Rightarrow> zip_world \<Rightarrow> string \<Rightarrow> string \<Rightarrow> string \<Rightarrow> tree_entry list api" where
  "artifact_tree env a z token plugin_id version_id =
     bind_op (get_current_reviewer env a token) (\<lambda>_.
     bind_op (get_plugin_version plugin_id version_id) (\<lambda>v.
     try_op (lift_res (list_artifact_tree env z v)) (answer_400 is_artifact_error)))"

definition artifact_file ::
  "env \<Rightarrow> auth_env \<Rightarrow> zip_world \<Rightarrow> string \<Rightarrow> string \<Rightarrow> string \<Rightarrow> string \<Rightarrow> file_payload api" where
  "artifact_file env a z token plugin_id version_id file_path =
     bind_op (get_current_reviewer env a token) (\<lambda>_.
     bind_op (get_plugin_version plugin_id version_id) (\<lambda>v.
     try_op (lift_res (artifact_file_view env z v file_path)) (answer_400 is_artifact_error)))"

section \<open>Scans\<close>

definition scan_providers :: "env \<Rightarrow> string \<Rightarrow> string list api" where
  "scan_providers env provider =
     bind_op (on_world (runtime_scan_enabled_providers env)) (\<lambda>enabled.
     if provider = ''all'' then ret enabled
     else if provider \<in> set enabled then ret [provider]
     else if provider \<in> set (registry_names scan_registry) then http_error 400 ''Scan provider is disabled''
     else http_error 400 ''Invalid scan provider'')"

definition queue_scan :: "env \<Rightarrow> string \<Rightarrow> string list \<Rightarrow> string api" where
  "queue_scan env version_id providers =
     bind_op (api_uuid version_id) (\<lambda>vid.
     bind_op (on_world (mark_scan_pending env vid (Some providers))) (\<lambda>_.
     bind_op (enqueue_or_fallback env ''scan''
       [(''version_id'', JStr version_id), (''providers'', JList (map JStr providers))]) (\<lambda>_. ret ''queued'')))"

definition trigger_scan :: "env \<Rightarrow> auth_env \<Rightarrow> string \<Rightarrow> string \<Rightarrow> string \<Rightarrow> string api" where
  "trigger_scan env a token plugin_id version_id =
     bind_op (get_current_reviewer env a token) (\<lambda>_.
     bind_op (on_world (runtime_scan_enabled_providers env)) (\<lambda>providers.
     queue_scan env version_id providers))"

definition trigger_scan_provider :: "env \<Rightarrow> auth_env \<Rightarrow> string \<Rightarrow> string \<Rightarrow> string \<Rightarrow> string \<Rightarrow> string api" where
  "trigger_scan_provider env a token plugin_id version_id provider =
     bind_op (get_current_reviewer env a token) (\<lambda>_.
     bind_op (scan_providers env provider) (\<lambda>providers.
     queue_scan env version_id providers))"

definition skip_scan_provider :: "env \<Rightarrow> auth_env \<Rightarrow> string \<Rightarrow> string \<Rightarrow> string \<Rightarrow> string \<Rightarrow> string api" where
  "skip_scan_provider env a token plugin_id version_id provider =
     bind_op (get_current_reviewer env a token) (\<lambda>_.
     bind_op (api_uuid version_id) (\<lambda>vid.
     bind_op (scan_providers env provider) (\<lambda>providers.
     bind_op (on_world (mark_scan_skipped env vid (Some providers))) (\<lambda>_. ret ''skipped''))))"

section \<open>Tasks, statistics and configuration\<close>

record admin_stats_response =
  as_total_plugins :: nat
  as_pending_plugins :: nat

definition admin_stats :: "env \<Rightarrow> auth_env \<Rightarrow> string \<Rightarrow> admin_stats_response api" where
  "admin_stats env a token =
     bind_op (get_current_admin env a token) (\<lambda>_.
     on_world (query (\<lambda>D. \<lparr>as_total_plugins = length (plugins D),
       as_pending_plugins = length (filter (\<lambda>p. p_status p = PPending) (plugins D))\<rparr>)))"

record task_page =
  tp_items :: "task_summary list"
  tp_page :: page

definition list_tasks_endpoint ::
  "env \<Rightarrow> auth_env \<Rightarrow> string \<Rightarrow> string option \<Rightarrow> string option \<Rightarrow> string option \<Rightarrow> string option \<Rightarrow> int \<Rightarrow> int \<Rightarrow>
   task_page api" where
  "list_tasks_endpoint env a token status task_type plugin_id version_id page page_size =
     bind_op (get_current_reviewer env a token) (\<lambda>_.
     bind_op (on_world (query (\<lambda>D. list_worker_tasks D status task_type plugin_id version_id page page_size))) (\<lambda>r.
     bind_op (lift_res r) (\<lambda>(ts, n).
     ret \<lparr>tp_items = map task_to_dict ts, tp_page = page_info page page_size n\<rparr>)))"

definition find_task :: "uuid \<Rightarrow> worker_task api" where
  "find_task task_id =
     bind_op (on_world (query (\<lambda>D. row_get t_id task_id (tasks D)))) (\<lambda>found.
     case found of None \<Rightarrow> http_error 404 ''Task not found'' | Some t \<Rightarrow> ret t)"

definition get_task_endpoint :: "env \<Rightarrow> auth_env \<Rightarrow> string \<Rightarrow> uuid \<Rightarrow> task_summary api" where
  "get_task_endpoint env a token task_id =
     bind_op (get_current_reviewer env a token) (\<lambda>_.
     bind_op (find_task task_id) (\<lambda>t. ret (task_to_dict t)))"

definition retry_task_endpoint :: "env \<Rightarrow> auth_env \<Rightarrow> string \<Rightarrow> uuid \<Rightarrow> (string \<times> string) api" where
  "retry_task_endpoint env a token task_id =
     bind_op (get_current_admin env a token) (\<lambda>_.
     bind_op (find_task task_id) (\<lambda>t.
     if t_status t = TRunning then http_error 409 ''Running tasks cannot be retried''
     else
       bind_op (on_world (enqueue_task env (t_task_type t) (t_payload t) True 0)) (\<lambda>new_task_id.
       case new_task_id of
         None \<Rightarrow> http_error 503 ''Redis task queue is unavailable''
       | Some i \<Rightarrow> ret (''queued'', i))))"

definition worker_status_endpoint :: "env \<Rightarrow> auth_env \<Rightarrow> string \<Rightarrow> worker_status api" where
  "worker_status_endpoint env a token =
     bind_op (get_current_reviewer env a token) (\<lambda>_. on_world (worker_runtime_status env))"

definition get_config_endpoint :: "env \<Rightarrow> auth_env \<Rightarrow> string \<Rightarrow> config_response api" where
  "get_config_endpoint env a token =
     bind_op (get_current_admin env a token) (\<lambda>_. on_world (list_config_response env))"

fun is_config_error :: "exn \<Rightarrow> bool" where
  "is_config_error (ConfigValidationError _) = True"
| "is_config_error _ = False"

definition update_config_endpoint :: "env \<Rightarrow> auth_env \<Rightarrow> string \<Rightarrow> string dict \<Rightarrow> config_response api" where
  "update_config_endpoint env a token vals =
     bind_op (get_current_admin env a token) (\<lambda>_.
     try_op (on_world (update_config env vals)) (answer_400 is_config_error))"

definition refresh_cache_endpoint :: "env \<Rightarrow> auth_env \<Rightarrow> string \<Rightarrow> string api" where
  "refresh_cache_endpoint env a token =
     bind_op (get_current_admin env a token) (\<lambda>_.
     bind_op (on_world (refresh_cache env)) (\<lambda>_. ret ''refreshed''))"

section \<open>A decision is final\<close>

definition username_of :: "db \<Rightarrow> submission \<Rightarrow> string" where
  "username_of D q = (case row_get u_id (q_user_id q) (users D) of None \<Rightarrow> [] | Some u \<Rightarrow> u_username u)"

lemma get_submission_ok:
  assumes "db_ok D"
  shows "get_submission_request i None D =
    Inr (map_option (\<lambda>q. (q, username_of D q)) (row_get q_id i (submissions D)))"
proof -
  have d: "distinct (map q_id (submissions D))"
    and u: "q \<in> set (submissions D) \<Longrightarrow> q_user_id q \<in> u_id ` set (users D)" for q
    using assms by (auto simp: db_ok_def submissions_ok_def list_all_iff)
  show ?thesis
  proof (cases "row_get q_id i (submissions D)")
    case (Some q)
    then have "q_user_id q \<in> u_id ` set (users D)" using u row_get_SomeD by metis
    then obtain x where "row_get u_id (q_user_id q) (users D) = Some x" by (metis row_get_None_iff option.exhaust)
    with Some show ?thesis
      by (simp add: get_submission_request_def filter_key[OF d] with_username_def some_list_def username_of_def
          scalar_one_or_none_def)
  qed (simp add: get_submission_request_def filter_key[OF d] with_username_def some_list_def scalar_one_or_none_def)
qed

definition decide_rows :: "env \<Rightarrow> uuid \<Rightarrow> submission_status \<Rightarrow> string option \<Rightarrow> uuid option \<Rightarrow> db \<Rightarrow> db" where
  "decide_rows env i status admin_message accepted_by D =
     D\<lparr>submissions := rows_update (\<lambda>r. q_id r = i) (decided env status admin_message accepted_by) (submissions D)\<rparr>"

lemma decided_id [simp]: "q_id (decided env st m u q) = q_id q"
  by (simp add: decided_def Let_def)

lemma decided_row:
  "q_user_id (decided env st m u q) = q_user_id q" "q_status (decided env st m u q) = st"
  "submission_row_ok (decided env st m u q) = submission_row_ok q"
  "q_accepted_plugin_id (decided env st m u q) = q_accepted_plugin_id q"
  "q_accepted_version_id (decided env st m u q) = q_accepted_version_id q"
  "q_accepted_by (decided env st m u q) = (if st = SAccepted then u else q_accepted_by q)"
  by (simp_all add: decided_def Let_def submission_row_ok_def)

lemma decide_rows_ok:
  assumes "db_ok D" "ref_ok u (map u_id (users D))"
  shows "db_ok (decide_rows env i st m u D)"
proof -
  have "submissions_ok (decide_rows env i st m u D)"
    using assms by (auto simp: db_ok_def submissions_ok_def decide_rows_def list_all_iff set_rows_update decided_row
        map_key_update rows_update_def comp_def if_distrib cong: if_cong)
  with assms(1) show ?thesis
    by (simp add: db_ok_def table_defs decide_rows_def)
qed

lemma find_submission_apply:
  assumes "db_ok (sess (api_world s))"
  shows "find_submission i s =
    (case row_get q_id i (submissions (sess (api_world s))) of
       None \<Rightarrow> (Inl (HTTPException 404 ''Submission request not found''), s)
     | Some q \<Rightarrow> (Inr (q, username_of (sess (api_world s)) q), s))"
  by (simp add: find_submission_def bind_op_def on_world_apply get_submission_ok[OF assms] split: option.splits)

lemma decide_apply:
  assumes "db_ok (sess (api_world s))" "ref_ok u (map u_id (users (sess (api_world s))))"
  shows "decide_submission env i st m u s =
    (case row_get q_id i (submissions (sess (api_world s))) of
       None \<Rightarrow> (Inl (HTTPException 404 ''Submission request not found''), s)
     | Some q \<Rightarrow>
         if q_status q \<noteq> SPendingReview
         then (Inl (HTTPException 400 ''submission has already been processed''), s)
         else (let E = decide_rows env i st m u (sess (api_world s)) in
           (Inr (decided env st m u q, username_of (sess (api_world s)) q),
            s\<lparr>api_world := (api_world s)\<lparr>sess := E, committed := E\<rparr>\<rparr>)))"
  using decide_rows_ok[OF assms]
  by (auto simp: decide_submission_def find_submission_apply[OF assms(1)] mark_submission_decision_def bind_op_def
      try_op_def on_world_apply submission_rejected_def commit_def decide_rows_def Let_def
      split: option.splits dest: row_get_SomeD)

text \<open>C15 (safety). A submission is decided once: a decision is taken exactly when the submission exists and is pending, it
  changes the row of that submission and nothing else, and from then on, for as long as that row is as the
  decision left it, every further decision on it, of whatever kind and by whomever, is refused and changes
  nothing.\<close>

theorem decision_is_final:
  assumes "db_ok (sess (api_world s))" "ref_ok u (map u_id (users (sess (api_world s))))"
    and "decide_submission env i st m u s = (r, s')" "st \<noteq> SPendingReview"
  shows "case row_get q_id i (submissions (sess (api_world s))) of
      None \<Rightarrow> r = Inl (HTTPException 404 ''Submission request not found'') \<and> s' = s
    | Some q \<Rightarrow>
        if q_status q \<noteq> SPendingReview
        then r = Inl (HTTPException 400 ''submission has already been processed'') \<and> s' = s
        else (\<exists>name. r = Inr (decided env st m u q, name))
          \<and> committed (api_world s') = decide_rows env i st m u (sess (api_world s))
          \<and> (\<forall>t env2 st2 m2 u2. db_ok (sess (api_world t)) \<and> ref_ok u2 (map u_id (users (sess (api_world t))))
              \<and> row_get q_id i (submissions (sess (api_world t))) = row_get q_id i (submissions (committed (api_world s'))) \<longrightarrow>
              decide_submission env2 i st2 m2 u2 t
                = (Inl (HTTPException 400 ''submission has already been processed''), t))"
proof (cases "row_get q_id i (submissions (sess (api_world s)))")
  case None
  with assms(3) show ?thesis by (simp add: decide_apply[OF assms(1,2)])
next
  case (Some q)
  have "row_get q_id i (submissions (decide_rows env i st m u (sess (api_world s)))) = Some (decided env st m u q)"
    using Some by (simp add: decide_rows_def row_get_update row_get_SomeD[OF Some])
  with Some assms(3,4) show ?thesis
    by (auto simp: decide_apply[OF assms(1,2)] decide_apply decided_row Let_def)
qed

definition sample_submission :: submission where
  "sample_submission = \<lparr>q_id = ''q1'', q_user_id = u_id sample_user, q_repo_url = ''https://github.com/alice/weather'',
     q_provider = ''github'', q_ref_type = RefDefault, q_ref = None, q_status = SPendingReview,
     q_resolved_commit_sha = None, q_accepted_plugin_id = None, q_accepted_version_id = None, q_user_message = None,
     q_admin_message = None, q_accepted_by = None, q_accepted_at = None, q_created_at = 0\<rparr>"

definition sample_submitted :: api_state where
  "sample_submitted = sample_api (empty_db\<lparr>users := [sample_user], submissions := [sample_submission]\<rparr>) None"

lemma decision_is_final_witness:
  "\<exists>r s'. decide_submission sample_env ''q1'' SRejected None None sample_submitted = (Inr r, s')
    \<and> decide_submission sample_env ''q1'' SAccepted None None s'
        = (Inl (HTTPException 400 ''submission has already been processed''), s')"
proof -
  let ?D = "empty_db\<lparr>users := [sample_user], submissions := [sample_submission]\<rparr>"
  have ok: "db_ok (sess (api_world sample_submitted))"
    by (simp add: sample_submitted_def sample_api_def db_ok_def table_defs empty_db_def sample_user_def sample_submission_def
        submission_row_ok_def fits_def fits_opt_def some_list_def ref_ok_def commit_index_def)
  obtain r s' where run: "decide_submission sample_env ''q1'' SRejected None None sample_submitted = (r, s')"
    by (cases "decide_submission sample_env ''q1'' SRejected None None sample_submitted")
  have row: "row_get q_id ''q1'' (submissions (sess (api_world sample_submitted))) = Some sample_submission"
    "q_status sample_submission = SPendingReview"
    by (simp_all add: sample_submitted_def sample_api_def sample_submission_def)
  note f = decision_is_final[OF ok _ run]
  have s': "sess (api_world s') = committed (api_world s')" "db_ok (sess (api_world s'))"
    using run row decide_rows_ok[OF ok, of None] by (auto simp: decide_apply[OF ok] ref_ok_def Let_def)
  with f row run show ?thesis by (auto simp: ref_ok_def)
qed

section \<open>A typed update fits the columns\<close>

text \<open>What an update does to the row of its plugin, tags aside, and when its value fits the column.\<close>

fun edit_by :: "plugin_update \<Rightarrow> plugin \<Rightarrow> plugin" where
  "edit_by (UpdDisplayName x) p = p\<lparr>p_display_name := x\<rparr>"
| "edit_by (UpdDescription x) p = p\<lparr>p_description := x\<rparr>"
| "edit_by (UpdCategory x) p = p\<lparr>p_category := x\<rparr>"
| "edit_by (UpdTags x) p = p"
| "edit_by (UpdSupportPlatforms x) p = p\<lparr>p_support_platforms := x\<rparr>"
| "edit_by (UpdAstrbotVersion x) p = p\<lparr>p_astrbot_version := x\<rparr>"

fun typed_update :: "plugin_update \<Rightarrow> bool" where
  "typed_update (UpdDisplayName x) = fits_opt 255 x"
| "typed_update (UpdCategory x) = fits_opt 100 x"
| "typed_update (UpdAstrbotVersion x) = fits_opt 100 x"
| "typed_update (UpdTags x) = (x = None)"
| "typed_update _ = True"

lemma text_field_fits: "text_field (Some n) j = Inr x \<Longrightarrow> fits_opt n x"
  by (auto simp: text_field_def fits_opt_def fits_def split: json.splits if_splits)

lemma field_update_eq:
  "field_update data k parse upd = Inr us \<longleftrightarrow>
    (case dict_get k data of None \<Rightarrow> us = [] | Some j \<Rightarrow> (\<exists>x. parse j = Inr x \<and> us = [upd x]))"
  by (auto simp: field_update_def bind_res_Inr_iff split: option.splits)

lemma edit_by_id [simp]: "p_id (edit_by u p) = p_id p" "p_plugin_key (edit_by u p) = p_plugin_key p"
  by (cases u; simp)+

lemma parse_plugin_update_typed:
  assumes "parse_plugin_update data = Inr us" "dict_get ''tags'' data \<in> {None, Some JNull}"
  shows "list_all typed_update us"
    and "plugin_row_ok p \<Longrightarrow> plugin_row_ok (fold edit_by us p) \<longleftrightarrow> dict_get ''description'' data \<noteq> Some JNull"
proof -
  from assms(1) obtain a b c d e f where us: "us = a @ b @ c @ d @ e @ f"
    and A: "field_update data ''display_name'' (text_field (Some 255)) UpdDisplayName = Inr a"
    and B: "field_update data ''description'' (text_field None) UpdDescription = Inr b"
    and C: "field_update data ''category'' (text_field (Some 100)) UpdCategory = Inr c"
    and D: "field_update data ''tags'' texts_field UpdTags = Inr d"
    and E: "field_update data ''support_platforms'' texts_field UpdSupportPlatforms = Inr e"
    and F: "field_update data ''astrbot_version'' (text_field (Some 100)) UpdAstrbotVersion = Inr f"
    by (auto simp: parse_plugin_update_def bind_res_Inr_iff)
  have a: "a = [] \<or> (\<exists>x. a = [UpdDisplayName x] \<and> fits_opt 255 x)"
    using A by (auto simp: field_update_eq text_field_fits split: option.splits)
  have b: "b = [] \<and> dict_get ''description'' data \<noteq> Some JNull
      \<or> (\<exists>x. b = [UpdDescription x] \<and> (x = None \<longleftrightarrow> dict_get ''description'' data = Some JNull))"
    using B by (auto simp: field_update_eq text_field_def split: option.splits json.splits)
  have c: "c = [] \<or> (\<exists>x. c = [UpdCategory x] \<and> fits_opt 100 x)"
    using C by (auto simp: field_update_eq text_field_fits split: option.splits)
  have d: "d = [] \<or> d = [UpdTags None]"
    using D assms(2) by (auto simp: field_update_eq texts_field_def)
  have e: "e = [] \<or> (\<exists>x. e = [UpdSupportPlatforms x])"
    using E by (auto simp: field_update_eq split: option.splits)
  have f: "f = [] \<or> (\<exists>x. f = [UpdAstrbotVersion x] \<and> fits_opt 100 x)"
    using F by (auto simp: field_update_eq text_field_fits split: option.splits)
  show "list_all typed_update us" using a b c d e f by (auto simp: us)
  show "plugin_row_ok (fold edit_by us p) \<longleftrightarrow> dict_get ''description'' data \<noteq> Some JNull" if "plugin_row_ok p"
    using that a b c d e f unfolding us plugin_row_ok_def by (elim disjE exE conjE; simp)
qed

lemma apply_updates:
  assumes "list_all typed_update us"
  shows "foreach (apply_update pid) us w = (Inr (), w\<lparr>sess := edit_plugin pid (fold edit_by us) (sess w)\<rparr>)"
  using assms
proof (induction us arbitrary: w)
  case Nil
  then show ?case by (simp add: edit_plugin_def rows_update_def)
next
  case (Cons u us)
  have "apply_update pid u w = (Inr (), w\<lparr>sess := edit_plugin pid (edit_by u) (sess w)\<rparr>)"
    using Cons.prems by (cases u) (auto simp: edit_plugin_def rows_update_def cong: if_cong)
  moreover have "edit_plugin pid (fold edit_by us) (edit_plugin pid (edit_by u) D) = edit_plugin pid (fold edit_by (u # us)) D" for D
    by (auto simp: edit_plugin_def rows_update_def)
  ultimately show ?case using Cons by (simp add: bind_op_def comp_def)
qed



end
