(* ===== verification/StatsService.thy ===== *)
theory StatsService
  imports Samples
begin

text \<open>
  \<open>services/stats_service.py\<close>: downloads and installs counted per version and day. On PostgreSQL one
  statement inserts the row or adds to it; on other databases the row is read first. The day is that of
  the clock in UTC, the time zone the service runs in.
\<close>

datatype counter = Downloads | Installs

definition stat_key :: "stat \<Rightarrow> uuid \<times> int" where
  "stat_key z = (z_version_id z, z_date z)"

definition new_stat :: "counter \<Rightarrow> uuid \<Rightarrow> int \<Rightarrow> stat" where
  "new_stat c vid stat_date =
     \<lparr>z_version_id = vid, z_date = stat_date,
      z_download_count = (if c = Downloads then 1 else 0), z_install_count = (if c = Installs then 1 else 0)\<rparr>"

definition add_one :: "counter \<Rightarrow> stat \<Rightarrow> stat" where
  "add_one c z = (case c of
     Downloads \<Rightarrow> z\<lparr>z_download_count := z_download_count z + 1\<rparr>
   | Installs \<Rightarrow> z\<lparr>z_install_count := z_install_count z + 1\<rparr>)"

definition add_stat :: "stat \<Rightarrow> db \<Rightarrow> db" where
  "add_stat z D = D\<lparr>stats := stats D @ [z]\<rparr>"

definition edit_stat :: "uuid \<Rightarrow> int \<Rightarrow> (stat \<Rightarrow> stat) \<Rightarrow> db \<Rightarrow> db" where
  "edit_stat vid stat_date f D = D\<lparr>stats := rows_update (\<lambda>z. stat_key z = (vid, stat_date)) f (stats D)\<rparr>"

text \<open>\<open>INSERT ... ON CONFLICT ... DO UPDATE\<close>; the statement itself is refused when a constraint fails.\<close>

definition upsert_stat :: "counter \<Rightarrow> uuid \<Rightarrow> int \<Rightarrow> unit act" where
  "upsert_stat c vid stat_date =
     bind_op (stage (\<lambda>D.
       if (vid, stat_date) \<in> stat_key ` set (stats D) then edit_stat vid stat_date (add_one c) D
       else add_stat (new_stat c vid stat_date) D)) (\<lambda>_. flush)"

definition read_and_add :: "counter \<Rightarrow> uuid \<Rightarrow> int \<Rightarrow> unit act" where
  "read_and_add c vid stat_date =
     bind_op (query (\<lambda>D. scalar_one_or_none (filter (\<lambda>z. stat_key z = (vid, stat_date)) (stats D)))) (\<lambda>r.
     bind_op (lift_res r) (\<lambda>found.
     case found of
       None \<Rightarrow> stage (add_stat (new_stat c vid stat_date))
     | Some _ \<Rightarrow> stage (edit_stat vid stat_date (add_one c))))"

definition date_today :: "env \<Rightarrow> int" where
  "date_today env = e_now env div (86400 * us_per_second)"

definition increment_count :: "env \<Rightarrow> bool \<Rightarrow> counter \<Rightarrow> uuid \<Rightarrow> int option \<Rightarrow> unit act" where
  "increment_count env postgresql c vid stat_date =
     (let stat_date = (case stat_date of None \<Rightarrow> date_today env | Some d \<Rightarrow> d) in
     bind_op (if postgresql then upsert_stat c vid stat_date else read_and_add c vid stat_date) (\<lambda>_. commit))"

definition increment_download_count :: "env \<Rightarrow> bool \<Rightarrow> uuid \<Rightarrow> int option \<Rightarrow> unit act" where
  "increment_download_count env postgresql = increment_count env postgresql Downloads"

definition increment_install_count :: "env \<Rightarrow> bool \<Rightarrow> uuid \<Rightarrow> int option \<Rightarrow> unit act" where
  "increment_install_count env postgresql = increment_count env postgresql Installs"

section \<open>What is counted\<close>

definition count_of :: "counter \<Rightarrow> stat \<Rightarrow> int" where
  "count_of c z = (case c of Downloads \<Rightarrow> z_download_count z | Installs \<Rightarrow> z_install_count z)"

text \<open>All that was counted for a version on a day.\<close>

definition counted_on :: "counter \<Rightarrow> uuid \<Rightarrow> int \<Rightarrow> db \<Rightarrow> int" where
  "counted_on c vid stat_date D =
     sum_list (map (count_of c) (filter (\<lambda>z. stat_key z = (vid, stat_date)) (stats D)))"

text \<open>What counting does to the table, in either dialect.\<close>

definition count_up :: "counter \<Rightarrow> uuid \<Rightarrow> int \<Rightarrow> db \<Rightarrow> db" where
  "count_up c vid stat_date D =
     (if (vid, stat_date) \<in> stat_key ` set (stats D) then edit_stat vid stat_date (add_one c) D
      else add_stat (new_stat c vid stat_date) D)"

lemma stat_key_add_one [simp]: "stat_key (add_one c z) = stat_key z"
  by (cases c) (simp_all add: stat_key_def add_one_def)

lemma count_of_add_one [simp]: "count_of d (add_one c z) = count_of d z + (if c = d then 1 else 0)"
  by (cases c; cases d) (simp_all add: count_of_def add_one_def)

lemma count_of_new [simp]: "count_of d (new_stat c vid t) = (if c = d then 1 else 0)"
  by (cases c; cases d) (simp_all add: count_of_def new_stat_def)

lemma stat_key_new [simp]: "stat_key (new_stat c vid t) = (vid, t)"
  by (simp add: stat_key_def new_stat_def)

lemma filter_update_same_key:
  "filter (\<lambda>z. stat_key z = k) (rows_update P (add_one c) zs) = rows_update P (add_one c) (filter (\<lambda>z. stat_key z = k) zs)"
  by (induction zs) (auto simp: rows_update_def)

lemma counted_count_up:
  assumes "distinct (map stat_key (stats D))"
  shows "counted_on d v t (count_up c vid day D)
    = counted_on d v t D + (if d = c \<and> v = vid \<and> t = day then 1 else 0)"
proof (cases "(vid, day) \<in> stat_key ` set (stats D)")
  case True
  note e = filter_update_same_key
  show ?thesis
  proof (cases "(v, t) = (vid, day)")
    case True
    from \<open>(vid, day) \<in> _\<close> obtain z where "row_get stat_key (vid, day) (stats D) = Some z"
      by (metis row_get_None_iff not_None_eq)
    then have "stat_key z = (vid, day)" "filter (\<lambda>z. stat_key z = (vid, day)) (stats D) = [z]"
      by (auto simp: filter_key[OF assms] dest: row_get_SomeD)
    with True \<open>(vid, day) \<in> _\<close> show ?thesis
      by (simp add: counted_on_def count_up_def edit_stat_def e)
        (simp add: rows_update_def)
  next
    case False
    then have "rows_update (\<lambda>z. stat_key z = (vid, day)) (add_one c) (filter (\<lambda>z. stat_key z = (v, t)) (stats D))
        = filter (\<lambda>z. stat_key z = (v, t)) (stats D)"
      by (intro rows_update_id) auto
    with False \<open>(vid, day) \<in> _\<close> show ?thesis
      by (simp add: counted_on_def count_up_def edit_stat_def e)
  qed
next
  case False
  then show ?thesis by (auto simp: counted_on_def count_up_def add_stat_def)
qed

lemma stats_distinct: "db_ok D \<Longrightarrow> distinct (map stat_key (stats D))"
  by (simp add: db_ok_def stats_ok_def stat_key_def [abs_def] comp_def)

lemma increment_apply:
  assumes "db_ok (sess w)"
  shows "increment_count env postgresql c vid day w =
    (let E = count_up c vid (case day of None \<Rightarrow> date_today env | Some d \<Rightarrow> d) (sess w)
     in if db_ok E then (Inr (), w\<lparr>sess := E, committed := E\<rparr>)
        else (Inl integrity_error, w\<lparr>sess := committed w\<rparr>))"
proof -
  define d where "d = (case day of None \<Rightarrow> date_today env | Some d \<Rightarrow> d)"
  have s: "scalar_one_or_none (filter (\<lambda>z. stat_key z = (vid, d)) (stats (sess w))) =
      Inr (row_get stat_key (vid, d) (stats (sess w)))"
    by (rule scalar_one_or_none_distinct[OF stats_distinct[OF assms]])
  show ?thesis
  proof (cases "(vid, d) \<in> stat_key ` set (stats (sess w))")
    case True
    then obtain z where z: "row_get stat_key (vid, d) (stats (sess w)) = Some z"
      by (metis row_get_None_iff not_None_eq)
    with True s show ?thesis
      unfolding increment_count_def d_def[symmetric]
      by (simp add: upsert_stat_def read_and_add_def count_up_def flush_def commit_def bind_op_def Let_def)
  next
    case False
    then have z: "row_get stat_key (vid, d) (stats (sess w)) = None" by (simp add: row_get_None_iff)
    with False s show ?thesis
      unfolding increment_count_def d_def[symmetric]
      by (simp add: upsert_stat_def read_and_add_def count_up_def flush_def commit_def bind_op_def Let_def)
  qed
qed

text \<open>C38 (equivalence). Both ways of counting, the single statement on PostgreSQL and the read followed by a write, do the
  same; a count that succeeds adds exactly one to the counter of that version and day and leaves every
  other counter as it was, and one that fails leaves the database as it was.\<close>

theorem counting_is_exact:
  assumes "db_ok (sess w)" "increment_count env True c vid (Some day) w = (r, w')"
  shows "increment_count env False c vid (Some day) w = (r, w')
    \<and> (case r of
        Inr _ \<Rightarrow> \<forall>d v t. counted_on d v t (committed w')
            = counted_on d v t (sess w) + (if d = c \<and> v = vid \<and> t = day then 1 else 0)
      | Inl _ \<Rightarrow> committed w' = committed w)"
  using assms(2)
  by (auto simp: increment_apply[OF assms(1)] Let_def counted_count_up[OF stats_distinct[OF assms(1)]]
      split: if_splits)

lemma counting_is_exact_witness:
  "fst (increment_count sample_env False Downloads (v_id sample_version) (Some 0) (sample_world sample_db None))
   = fst (increment_count sample_env True Downloads (v_id sample_version) (Some 0) (sample_world sample_db None))"
  using counting_is_exact[of "sample_world sample_db None" sample_env Downloads "v_id sample_version" 0]
  by (metis db_ok_sample(1) prod.collapse sample_world_fields(2) fst_conv)

end
