(* ===== verification/PublicApi.thy ===== *)
theory PublicApi
  imports AdminApi StatsService
begin

text \<open>
  \<open>api/public.py\<close>: what anybody may ask for. The list of plugins carries an ETag, the MD5 of its canonical
  text; a download is counted before it is redirected to the object store.
\<close>

section \<open>The document\<close>

record plugins_response =
  pl_content :: json
  pl_etag :: string
  pl_cache_control :: string

definition quoted :: "string \<Rightarrow> string" where
  "quoted s = CHR 0x22 # s @ [CHR 0x22]"

definition list_plugins_public :: "env \<Rightarrow> plugins_response act" where
  "list_plugins_public env =
     bind_op (generate_registry_json env) (\<lambda>registry.
     let md5 = e_md5 env (canonical_registry_json registry) in
     bind_op (runtime_public_cache_max_age env) (\<lambda>max_age.
     ret \<lparr>pl_content = registry, pl_etag = quoted md5,
          pl_cache_control = ''public, max-age='' @ str_int max_age\<rparr>))"

definition registry_md5 :: "env \<Rightarrow> string act" where
  "registry_md5 env = get_registry_md5 env"

text \<open>\<open>registry[plugin_key]\<close>, or 404.\<close>

definition get_plugin_public :: "env \<Rightarrow> string \<Rightarrow> json act" where
  "get_plugin_public env plugin_key =
     bind_op (generate_registry_json env) (\<lambda>registry.
     case registry of
       JObj d \<Rightarrow> (case dict_get plugin_key d of
           None \<Rightarrow> raise (HTTPException 404 ''Plugin not found'') | Some entry \<Rightarrow> ret entry)
     | _ \<Rightarrow> raise (HTTPException 404 ''Plugin not found''))"

section \<open>Logos, downloads and installs\<close>

definition plugin_by_key :: "string \<Rightarrow> plugin option act" where
  "plugin_by_key plugin_key = bind_op (query (get_plugin_by_key plugin_key)) lift_res"

definition build_public_url :: "settings \<Rightarrow> string \<Rightarrow> string" where
  "build_public_url S key = build_public_url_with_base key (s3_public_url S)"

definition get_plugin_logo :: "env \<Rightarrow> string \<Rightarrow> string act" where
  "get_plugin_logo env plugin_key =
     bind_op (plugin_by_key plugin_key) (\<lambda>found.
     case found of
       None \<Rightarrow> raise (HTTPException 404 ''Logo not found'')
     | Some p \<Rightarrow>
         if \<not> truthy (p_logo_s3_key p) then raise (HTTPException 404 ''Logo not found'')
         else ret (build_public_url (e_settings env) (or_str (p_logo_s3_key p) [])))"

definition download_plugin :: "env \<Rightarrow> bool \<Rightarrow> string \<Rightarrow> string act" where
  "download_plugin env postgresql plugin_key =
     bind_op (plugin_by_key plugin_key) (\<lambda>found.
     case found of
       None \<Rightarrow> raise (HTTPException 404 ''Plugin not found'')
     | Some p \<Rightarrow>
         bind_op (get_latest_version env (p_id p)) (\<lambda>latest.
         case latest of
           None \<Rightarrow> raise (HTTPException 404 ''No active version available'')
         | Some v \<Rightarrow>
             if \<not> truthy (v_download_url v) then raise (HTTPException 404 ''No active version available'')
             else bind_op (increment_download_count env postgresql (v_id v) None) (\<lambda>_.
               ret (or_str (v_download_url v) []))))"

definition record_install :: "env \<Rightarrow> bool \<Rightarrow> string \<Rightarrow> string act" where
  "record_install env postgresql plugin_key =
     bind_op (plugin_by_key plugin_key) (\<lambda>found.
     case found of
       None \<Rightarrow> raise (HTTPException 404 ''Plugin not found'')
     | Some p \<Rightarrow>
         bind_op (get_latest_version env (p_id p)) (\<lambda>latest.
         case latest of
           None \<Rightarrow> raise (HTTPException 404 ''No active version available'')
         | Some v \<Rightarrow>
             bind_op (increment_install_count env postgresql (v_id v) None) (\<lambda>_. ret ''recorded'')))"

section \<open>Search\<close>

record search_item =
  si_plugin_key :: string
  si_display_name :: "string option"
  si_desc :: "string option"
  si_author :: string
  si_category :: "string option"
  si_tags :: "string list"

record search_response =
  se_q :: "string option"
  se_tags :: "string list option"
  se_category :: "string option"
  se_page :: int
  se_size :: int
  se_total :: nat
  se_items :: "search_item list"

definition search_item :: "db \<Rightarrow> plugin \<Rightarrow> search_item" where
  "search_item D p =
     \<lparr>si_plugin_key = p_plugin_key p, si_display_name = p_display_name p, si_desc = p_description p,
      si_author = p_author p, si_category = p_category p, si_tags = plugin_tag_names D (p_id p)\<rparr>"

definition search_match :: "string option \<Rightarrow> string option \<Rightarrow> plugin \<Rightarrow> bool" where
  "search_match q category p \<longleftrightarrow>
     p_status p = PActive
   \<and> (truthy q \<longrightarrow>
        (let pat = ''%'' @ or_str q [] @ ''%''
         in ilike (Some (p_plugin_key p)) pat \<or> ilike (p_display_name p) pat \<or> ilike (p_description p) pat))
   \<and> (truthy category \<longrightarrow> p_category p = category)"

definition tag_match :: "db \<Rightarrow> string list \<Rightarrow> plugin \<Rightarrow> bool" where
  "tag_match D wanted p \<longleftrightarrow>
     list_ex (\<lambda>t. str_lower t \<in> set (map str_lower wanted)) (plugin_tag_names D (p_id p))"

definition search_plugins ::
  "string option \<Rightarrow> string list option \<Rightarrow> string option \<Rightarrow> int \<Rightarrow> int \<Rightarrow> db \<Rightarrow> search_response" where
  "search_plugins q wanted category page n D =
     (let found = filter (search_match q category) (plugins D);
          found = (case wanted of None \<Rightarrow> found | Some [] \<Rightarrow> found | Some ts \<Rightarrow> filter (tag_match D ts) found)
      in \<lparr>se_q = q, se_tags = wanted, se_category = category, se_page = page, se_size = n,
          se_total = length found, se_items = map (search_item D) (page_of page n found)\<rparr>)"

definition registry_stats_public :: "registry_stats act" where
  "registry_stats_public = query get_stats"

section \<open>Every endpoint gives the same document\<close>

lemma commit_and_refresh_md5:
  assumes "commit_and_refresh env w = (Inr (), v)" "redis w \<noteq> None"
    and "e_md5 env (canonical_registry_json (registry_of env w)) \<noteq> []"
  shows "get_registry_md5 env v = (Inr (e_md5 env (canonical_registry_json (registry_of env w))), v)"
proof -
  let ?w = "w\<lparr>committed := sess w\<rparr>"
  from assms(1) have r: "refresh_cache env ?w = (Inr (), v)"
    by (auto simp: commit_and_refresh_def bind_op_eq_Inr_iff commit_Inr_iff)
  from assms(2) obtain rd where rd: "redis ?w = Some rd" by auto
  from r have "\<exists>ttl. cache_ttl env ?w = Inr ttl \<and> 0 < ttl"
    using refresh_cache_Inr_iff[of env ?w] assms(2) by simp
  then obtain ttl where "cache_ttl env ?w = Inr ttl" "0 < ttl" by blast
  from refresh_cache_result[OF rd this] r assms(3) show ?thesis by (auto simp: get_registry_md5_def bind_op_def)
qed



end
