(* ===== verification/Webhooks.thy ===== *)
theory Webhooks
  imports AdminApi
begin

text \<open>
  The GitHub webhook of \<open>api/admin.py\<close>: a push event is believed when its body is signed with the shared
  secret, recorded, and turned into a build of the plugin whose repository it names.
\<close>

unbundle bit_operations_syntax

section \<open>The signature\<close>

text \<open>\<open>hmac.new(key, msg, sha256).hexdigest()\<close>.\<close>

definition xor_pad :: "nat \<Rightarrow> string \<Rightarrow> string" where
  "xor_pad n s = map (\<lambda>c. char_of ((of_char c :: nat) XOR n)) s"

definition hmac_sha256 :: "env \<Rightarrow> string \<Rightarrow> string \<Rightarrow> string" where
  "hmac_sha256 env key msg =
     (let key = (if 64 < length key then unhex (e_sha256 env key) else key);
          block = key @ replicate (64 - length key) (CHR 0x00)
      in e_sha256 env (xor_pad 0x5C block @ unhex (e_sha256 env (xor_pad 0x36 block @ msg))))"

text \<open>\<open>hmac.compare_digest\<close> on texts takes ASCII only.\<close>

definition compare_digest :: "string \<Rightarrow> string \<Rightarrow> exn + bool" where
  "compare_digest x y =
     (if list_all (\<lambda>c. (of_char c :: nat) < 128) (x @ y) then Inr (x = y)
      else Inl (TypeError ''comparing strings with non-ASCII characters is not supported''))"

definition webhook_signature :: "env \<Rightarrow> string \<Rightarrow> string \<Rightarrow> string" where
  "webhook_signature env secret body = ''sha256='' @ hmac_sha256 env (utf8 secret) body"

definition check_signature :: "env \<Rightarrow> string \<Rightarrow> request \<Rightarrow> string \<Rightarrow> unit api" where
  "check_signature env secret req body =
     (if secret = [] then ret ()
      else
        bind_op (lift_res (compare_digest (or_str (dict_get ''x-hub-signature-256'' (req_headers req)) [])
          (webhook_signature env secret body))) (\<lambda>same.
        if same then ret () else http_error 401 ''Invalid webhook signature''))"

section \<open>The event\<close>

text \<open>\<open>json.loads(body.decode("utf-8"))\<close>; only the error of the parser is an answer of its own.\<close>

definition webhook_payload :: "env \<Rightarrow> zip_world \<Rightarrow> string \<Rightarrow> json api" where
  "webhook_payload env z body =
     bind_op (lift_res (zw_text z body)) (\<lambda>text.
     try_op (lift_res (e_json_loads env text))
       (\<lambda>e. case e of ValueError _ \<Rightarrow> http_error 400 ''Invalid webhook payload'' | _ \<Rightarrow> raise e))"

text \<open>\<open>payload.get(key, default)\<close>.\<close>

fun json_get_default :: "string \<Rightarrow> json \<Rightarrow> json \<Rightarrow> exn + json" where
  "json_get_default k dflt (JObj d) = Inr (case dict_get k d of None \<Rightarrow> dflt | Some v \<Rightarrow> v)"
| "json_get_default k dflt _ = Inl (AttributeError ''object has no attribute get'')"

fun pushed_branch :: "json \<Rightarrow> exn + string" where
  "pushed_branch (JStr s) = Inr (str_replace ''refs/heads/'' [] s)"
| "pushed_branch _ = Inl (AttributeError ''object has no attribute replace'')"

definition pushed_ref :: "json \<Rightarrow> exn + (json \<times> string)" where
  "pushed_ref payload =
     bind_res (json_get_default ''repository'' (JObj []) payload) (\<lambda>repository.
     bind_res (json_get ''html_url'' repository) (\<lambda>repo_url.
     bind_res (json_get_default ''ref'' (JStr []) payload) (\<lambda>ref0.
     bind_res (pushed_branch ref0) (\<lambda>ref. Inr (repo_url, ref)))))"

definition add_webhook_event ::
  "env \<Rightarrow> uuid option \<Rightarrow> json \<Rightarrow> webhook_status \<Rightarrow> string option \<Rightarrow> unit act" where
  "add_webhook_event env plugin_id payload status error_message = in_session
     (bind_op (uuid4 env) (\<lambda>i.
      bind_op (stage (\<lambda>D. D\<lparr>webhooks := webhooks D @
        [\<lparr>w_id = i, w_plugin_id = plugin_id, w_event_type = WPush, w_payload = Some payload,
          w_triggered_version_id = None, w_status = status, w_error_message = error_message,
          w_created_at = e_now env\<rparr>]\<rparr>)) (\<lambda>_. commit)))"

definition plugin_of_repo :: "json \<Rightarrow> plugin option act" where
  "plugin_of_repo repo_url =
     (case repo_url of
       JStr url \<Rightarrow> in_session
         (bind_op (query (\<lambda>D. scalar_one_or_none (filter (\<lambda>p. p_repo_url p = Some url) (plugins D)))) lift_res)
     | _ \<Rightarrow> raise (DBAPIError ''invalid input for query argument''))"

definition webhook_build_payload :: "uuid \<Rightarrow> string \<Rightarrow> string \<Rightarrow> json dict" where
  "webhook_build_payload plugin_id ver ref =
     [(''plugin_id'', JStr plugin_id), (''version'', JStr ver), (''ref'', JStr ref), (''changelog'', JStr []),
      (''user_id'', JStr [])]"

definition handle_push :: "env \<Rightarrow> string \<Rightarrow> json \<Rightarrow> string api" where
  "handle_push env auto_version payload =
     bind_op (lift_res (pushed_ref payload)) (\<lambda>(repo_url, ref).
     if \<not> json_truthy repo_url \<or> ref = [] then
       bind_op (on_world (add_webhook_event env None payload WIgnored
         (Some ''missing repository html_url or ref''))) (\<lambda>_. ret ''ignored'')
     else
       bind_op (on_world (plugin_of_repo repo_url)) (\<lambda>found.
       case found of
         None \<Rightarrow>
           bind_op (on_world (add_webhook_event env None payload WIgnored
             (Some (''repository is not registered: '' @ py_str repo_url)))) (\<lambda>_. ret ''ignored'')
       | Some p \<Rightarrow>
           bind_op (on_world (add_webhook_event env (Some (p_id p)) payload WSuccess None)) (\<lambda>_.
           bind_op (api_session (enqueue_or_fallback env ''build''
             (webhook_build_payload (p_id p) auto_version ref))) (\<lambda>_. ret ''queued''))))"

definition webhook_settings :: "env \<Rightarrow> (string \<times> string) act" where
  "webhook_settings env = in_session
     (bind_op (runtime_webhook_secret env) (\<lambda>secret.
      bind_op (runtime_webhook_auto_version env) (\<lambda>auto_version. ret (secret, auto_version))))"

definition github_webhook :: "env \<Rightarrow> zip_world \<Rightarrow> request \<Rightarrow> string \<Rightarrow> string api" where
  "github_webhook env z req body =
     bind_op (on_world (webhook_settings env)) (\<lambda>(secret, auto_version).
     if github_webhook_require_secret (e_settings env) \<and> secret = []
     then http_error 503 ''GitHub webhook secret is not configured''
     else
       bind_op (check_signature env secret req body) (\<lambda>_.
       bind_op (webhook_payload env z body) (\<lambda>payload.
       handle_push env auto_version payload)))"

section \<open>Only signed events count\<close>

definition webhook_secret_of :: "env \<Rightarrow> world \<Rightarrow> string" where
  "webhook_secret_of env w = cfg_str env w ''GITHUB_WEBHOOK_SECRET'' (github_webhook_secret (e_settings env))"

definition signature_of :: "request \<Rightarrow> string" where
  "signature_of req = or_str (dict_get ''x-hub-signature-256'' (req_headers req)) []"

lemma cfg_sess_committed:
  "sess w = committed w \<Longrightarrow> w\<lparr>sess := committed w\<rparr> = w"
  by (cases w) simp

text \<open>C16 (safety). An event that is not signed with the configured secret is refused, and so is every event while a secret is
  demanded and none is configured: apart from the cached configuration that reading the secret may fill,
  nothing has changed, no event is recorded and no build is queued.\<close>

theorem unsigned_event_changes_nothing:
  assumes "sess (api_world s) = committed (api_world s)"
    and "webhook_secret_of env (api_world s) \<noteq> [] \<or> github_webhook_require_secret (e_settings env)"
    and "webhook_secret_of env (api_world s) = []
      \<or> signature_of req \<noteq> webhook_signature env (webhook_secret_of env (api_world s)) body"
  shows "(\<exists>e. fst (github_webhook env z req body s) = Inl e)
    \<and> snd (github_webhook env z req body s) = s\<lparr>api_world := fill_config env (api_world s)\<rparr>"
proof -
  let ?w = "api_world s" and ?f = "fill_config env (api_world s)"
  have f: "sess ?f = committed ?f" using assms(1) by (simp add: fill_config_def split: option.splits)
  have r: "on_world (webhook_settings env) s
      = (Inr (webhook_secret_of env ?w, cfg_str env ?f ''WEBHOOK_AUTO_VERSION'' (webhook_auto_version (e_settings env))),
         s\<lparr>api_world := ?f\<rparr>)"
    using cfg_sess_committed[OF assms(1)] cfg_sess_committed[OF f]
    by (simp add: on_world_apply webhook_settings_def in_session_def runtime_webhook_secret_def
        runtime_webhook_auto_version_def runtime_get_apply bind_op_def webhook_secret_of_def)
  show ?thesis
    using assms(2,3)
    by (auto simp: github_webhook_def bind_op_def r check_signature_def compare_digest_def signature_of_def[symmetric]
        lift_res_def split: if_splits)
qed

lemma unsigned_event_changes_nothing_witness:
  "snd (github_webhook sample_env (sample_zip []) (sample_request ''198.51.100.1'') ''body'' (sample_api sample_db None))
   = (sample_api sample_db None)\<lparr>api_world := fill_config sample_env (api_world (sample_api sample_db None))\<rparr>"
  by (rule unsigned_event_changes_nothing[THEN conjunct2])
    (auto simp: sample_api_def webhook_secret_of_def default_settings_def cfg_str_def cfg_raw_def runtime_values_def
      sample_db_def empty_db_def config_rows_def dict_of_def or_str_def)

text \<open>The build of an event is given \<open>WEBHOOK_AUTO_VERSION\<close> as its version; a version given to a build replaces
  that of the metadata.\<close>

lemma given_version_replaces_metadata:
  assumes "read_checkout g p (Some ver) = Inr co" "ver \<noteq> []"
  shows "co_version co = ver"
  using assms
  by (auto simp: read_checkout_def Let_def bind_res_Inr_iff or_opt_def or_str_def split: if_splits option.splits)

end
