(* ===== verification/Startup.thy ===== *)
theory Startup
  imports Accounts
begin

text \<open>
  \<open>main.py\<close>: starting the service, the answer to an exception, and what the middlewares add. The migrations
  and the creation of the bucket are calls of other programs; whether they succeed is given.
\<close>

section \<open>Starting\<close>

definition lifespan :: "env \<Rightarrow> auth_env \<Rightarrow> exn + unit \<Rightarrow> exn + unit \<Rightarrow> unit api" where
  "lifespan env a migrations bucket =
     bind_op (lift_res (validate_security_settings (e_settings env))) (\<lambda>_.
     bind_op (lift_res migrations) (\<lambda>_.
     bind_op (bootstrap_admin_user env a) (\<lambda>_.
     when_op (s3_auto_create_bucket (e_settings env)) (lift_res bucket))))"

section \<open>Answers\<close>

text \<open>The status and detail of the answer to an exception: those of \<open>HTTPException\<close>, those of a
  \<open>RegistryError\<close>, and otherwise an internal error.\<close>

definition answer_of :: "exn \<Rightarrow> nat \<times> string" where
  "answer_of e =
     (case e of
       HTTPException code detail \<Rightarrow> (code, detail)
     | _ \<Rightarrow> if is_registry_error e then (error_status_code e, exn_message e)
           else (500, ''Internal Server Error''))"

section \<open>Middlewares\<close>

definition allowed_hosts :: "settings \<Rightarrow> string list option" where
  "allowed_hosts S =
     (let hosts = filter (\<lambda>h. h \<noteq> []) (trusted_hosts S)
      in if hosts \<noteq> [] \<and> ''*'' \<notin> set hosts then Some hosts else None)"

definition cors_origins :: "settings \<Rightarrow> string list option" where
  "cors_origins S =
     (let origins = filter (\<lambda>h. h \<noteq> []) (cors_allow_origins S)
      in if origins \<noteq> [] then Some origins else None)"

definition security_headers :: "settings \<Rightarrow> string dict \<Rightarrow> string dict" where
  "security_headers S headers =
     (if \<not> security_headers_enabled S then headers
      else
        (let h = dict_setdefault ''X-Content-Type-Options'' ''nosniff'' headers;
             h = dict_setdefault ''X-Frame-Options'' ''DENY'' h;
             h = dict_setdefault ''Referrer-Policy'' ''no-referrer'' h;
             h = dict_setdefault ''Permissions-Policy'' ''camera=(), microphone=(), geolocation=()'' h;
             h = dict_setdefault ''Content-Security-Policy'' (''frame-ancestors '' @ [CHR 0x27] @ ''none'' @ [CHR 0x27]) h
         in if hsts_enabled S
            then dict_setdefault ''Strict-Transport-Security''
                   (''max-age='' @ str_int (hsts_max_age_seconds S) @ ''; includeSubDomains'') h
            else h))"

section \<open>A production service starts only when it is safe\<close>

text \<open>What a started production service has.\<close>

definition safe_settings :: "settings \<Rightarrow> bool" where
  "safe_settings S \<longleftrightarrow>
     32 \<le> length (jwt_secret S) \<and> jwt_secret S \<noteq> DEFAULT_JWT_SECRET
   \<and> trusted_hosts S \<noteq> [] \<and> ''*'' \<notin> set (trusted_hosts S) \<and> ''*'' \<notin> set (cors_allow_origins S)
   \<and> \<not> docs_enabled S \<and> \<not> bootstrap_api_enabled S \<and> github_webhook_require_secret S
   \<and> 16 \<le> length (s3_secret_key S) \<and> s3_secret_key S \<noteq> DEFAULT_S3_SECRET_KEY
   \<and> s3_access_key S \<noteq> DEFAULT_S3_ACCESS_KEY
   \<and> (bootstrap_admin_username S = [] \<and> bootstrap_admin_password S = []
      \<or> 12 \<le> length (bootstrap_admin_password S) \<and> bootstrap_admin_password S \<noteq> DEFAULT_BOOTSTRAP_PASSWORD)"

lemma validate_iff:
  "validate_security_settings S = Inr () \<longleftrightarrow> \<not> is_production S \<or> safe_settings S"
  by (auto simp: validate_security_settings_def security_errors_def safe_settings_def is_weak_secret_def
      contains_wildcard_def not_less)

text \<open>C21 (safety). A production service starts only with safe settings: secrets of their own and long enough, no wildcard among
  hosts and origins, no documentation pages, no open bootstrap, signed webhooks. With other settings the
  start fails before anything is done, and no account is created.\<close>

theorem production_starts_safely:
  assumes "is_production (e_settings env)"
  shows "safe_settings (e_settings env)
    \<or> ((\<exists>e. fst (lifespan env a migrations bucket s) = Inl (SecurityConfigurationError e)) \<and> snd (lifespan env a migrations bucket s) = s)"
proof (cases "safe_settings (e_settings env)")
  case False
  with assms have "validate_security_settings (e_settings env) \<noteq> Inr ()" by (simp add: validate_iff)
  then obtain e where "validate_security_settings (e_settings env) = Inl (SecurityConfigurationError e)"
    using assms by (auto simp: validate_security_settings_def split: if_splits)
  then show ?thesis by (simp add: lifespan_def bind_op_def)
qed simp

lemma production_starts_safely_witness:
  "snd (lifespan (sample_env\<lparr>e_settings := default_settings\<lparr>deployment_mode := ''production''\<rparr>\<rparr>) sample_auth (Inr ()) (Inr ())
     (sample_api empty_db None)) = sample_api empty_db None"
proof -
  have "is_production (default_settings\<lparr>deployment_mode := ''production''\<rparr>)" by code_simp
  moreover have "\<not> safe_settings (default_settings\<lparr>deployment_mode := ''production''\<rparr>)"
    by (simp add: safe_settings_def default_settings_def DEFAULT_JWT_SECRET_def)
  ultimately show ?thesis
    using production_starts_safely[of "sample_env\<lparr>e_settings := default_settings\<lparr>deployment_mode := ''production''\<rparr>\<rparr>"
      sample_auth "Inr ()" "Inr ()" "sample_api empty_db None"] by simp
qed

end
