(* ===== verification/HttpApi.thy ===== *)
theory HttpApi
  imports PublicApi Webhooks Startup
begin

text \<open>
  The routers of \<open>api/*.py\<close> together: every request of the service as a value, the handler that answers it,
  and whom the handler is for. A request runs in the session of its dependency \<open>get_db\<close>, which ends without
  a commit of its own, and the exception of a handler becomes a status code; the background task of a request
  runs after its answer.
\<close>

section \<open>Requests\<close>

record service =
  sv_env :: env
  sv_auth :: auth_env
  sv_zip :: zip_world
  sv_git :: git_world
  sv_tmp :: "string list"
  sv_postgresql :: bool

datatype public_call =
    Health
  | Plugins
  | PluginsMd5
  | PluginLogo string
  | DownloadPlugin string
  | RecordInstall string
  | SearchPlugins "string option" "string list option" "string option" int int
  | RegistryStats
  | GetPluginEntry string

datatype account_call =
    Login request string string
  | RegisterConfig
  | Me
  | RegisterChallenge request
  | Register request register_request
  | BootstrapUser user_create
  | CreateUser user_create
  | ListUsers "string option" "string option"
  | ApproveUser uuid
  | DisableUser uuid
  | ListInvites
  | CreateInvite invite_create
  | DisableInvite uuid

datatype submission_call =
    ListMySubmissions
  | CreateMySubmission submission_create
  | GetMySubmission uuid
  | ListSubmissions "string option"
  | GetSubmission uuid
  | AcceptSubmission uuid "string option"
  | RejectSubmission uuid "string option"
  | DuplicateSubmission uuid "string option"

datatype plugin_call =
    ListPlugins "string option" "string option" int int
  | InspectRepo repo_request bool
  | ResolveRef repo_request
  | SubmitPlugin string version_create
  | UploadPlugin "string list"
  | PendingPlugins
  | GetPlugin string
  | UpdatePlugin string "json dict"
  | DeletePlugin string
  | UpdatePluginStatus string plugin_status "review_status option"

datatype version_call =
    ListVersions string
  | DeleteVersion string string
  | CreateVersion string version_create
  | UploadVersion string string string "string list"
  | SetLatest string string bool
  | PublishVersion string string review_status
  | ArtifactTree string string
  | ArtifactFile string string string
  | UpdateVersionStatus string string version_status
  | TriggerBuild string version_create
  | TriggerScan string string
  | TriggerScanProvider string string string
  | SkipScanProvider string string string

datatype operation_call =
    AdminStats
  | ListTasks "string option" "string option" "string option" "string option" int int
  | GetTask uuid
  | RetryTask uuid
  | WorkerStatus
  | GetConfig
  | UpdateConfig "string dict"
  | RefreshCache
  | GithubWebhook request string

datatype api_call =
    Public public_call
  | Account account_call
  | Submission submission_call
  | PluginCall plugin_call
  | VersionCall version_call
  | Operation operation_call

section \<open>Handlers\<close>

definition void :: "'a api \<Rightarrow> unit api" where
  "void m = bind_op m (\<lambda>_. ret ())"

primrec public_handler :: "public_call \<Rightarrow> service \<Rightarrow> unit api" where
  "public_handler Health V = ret ()"
| "public_handler Plugins V = void (on_world (list_plugins_public (sv_env V)))"
| "public_handler PluginsMd5 V = void (on_world (registry_md5 (sv_env V)))"
| "public_handler (PluginLogo k) V = void (on_world (get_plugin_logo (sv_env V) k))"
| "public_handler (DownloadPlugin k) V = void (on_world (download_plugin (sv_env V) (sv_postgresql V) k))"
| "public_handler (RecordInstall k) V = void (on_world (record_install (sv_env V) (sv_postgresql V) k))"
| "public_handler (SearchPlugins q ts cat page n) V = void (on_world (query (search_plugins q ts cat page n)))"
| "public_handler RegistryStats V = void (on_world registry_stats_public)"
| "public_handler (GetPluginEntry k) V = void (on_world (get_plugin_public (sv_env V) k))"

primrec account_handler :: "account_call \<Rightarrow> service \<Rightarrow> string \<Rightarrow> unit api" where
  "account_handler (Login req un pw) V tok = void (login (sv_env V) (sv_auth V) req un pw)"
| "account_handler RegisterConfig V tok = void (register_config (sv_env V))"
| "account_handler Me V tok = void (current_user (sv_env V) (sv_auth V) tok)"
| "account_handler (RegisterChallenge req) V tok = void (register_challenge (sv_env V) (sv_auth V) req)"
| "account_handler (Register req d) V tok = void (register (sv_env V) (sv_auth V) req d)"
| "account_handler (BootstrapUser d) V tok = void (bootstrap_user (sv_env V) (sv_auth V) d)"
| "account_handler (CreateUser d) V tok = void (create_user_endpoint (sv_env V) (sv_auth V) tok d)"
| "account_handler (ListUsers r st) V tok = void (list_users_endpoint (sv_env V) (sv_auth V) tok r st)"
| "account_handler (ApproveUser i) V tok = void (approve_user_endpoint (sv_env V) (sv_auth V) tok i)"
| "account_handler (DisableUser i) V tok = void (disable_user_endpoint (sv_env V) (sv_auth V) tok i)"
| "account_handler ListInvites V tok = void (list_invites_endpoint (sv_env V) (sv_auth V) tok)"
| "account_handler (CreateInvite d) V tok = void (create_invite_endpoint (sv_env V) (sv_auth V) tok d)"
| "account_handler (DisableInvite i) V tok = void (disable_invite_endpoint (sv_env V) (sv_auth V) tok i)"

primrec submission_handler :: "submission_call \<Rightarrow> service \<Rightarrow> string \<Rightarrow> unit api" where
  "submission_handler ListMySubmissions V tok = void (list_my_submissions (sv_env V) (sv_auth V) tok)"
| "submission_handler (CreateMySubmission d) V tok = void (create_my_submission (sv_env V) (sv_auth V) tok d)"
| "submission_handler (GetMySubmission i) V tok = void (get_my_submission (sv_env V) (sv_auth V) tok i)"
| "submission_handler (ListSubmissions st) V tok = void (list_submissions_endpoint (sv_env V) (sv_auth V) tok st)"
| "submission_handler (GetSubmission i) V tok = void (get_submission_endpoint (sv_env V) (sv_auth V) tok i)"
| "submission_handler (AcceptSubmission i m) V tok = void (accept_submission_endpoint (sv_env V) (sv_auth V) tok i m)"
| "submission_handler (RejectSubmission i m) V tok = void (reject_submission_endpoint (sv_env V) (sv_auth V) tok i m)"
| "submission_handler (DuplicateSubmission i m) V tok = void (duplicate_submission_endpoint (sv_env V) (sv_auth V) tok i m)"

primrec plugin_handler :: "plugin_call \<Rightarrow> service \<Rightarrow> string \<Rightarrow> unit api" where
  "plugin_handler (ListPlugins st q page n) V tok = void (list_plugins_endpoint (sv_env V) (sv_auth V) tok st q page n)"
| "plugin_handler (InspectRepo r b) V tok = void (inspect_plugin_repo_endpoint (sv_env V) (sv_auth V) (sv_git V) tok r b)"
| "plugin_handler (ResolveRef r) V tok = void (resolve_plugin_ref_endpoint (sv_env V) (sv_auth V) (sv_git V) tok r)"
| "plugin_handler (SubmitPlugin url d) V tok = void (submit_plugin (sv_env V) (sv_auth V) tok url d)"
| "plugin_handler (UploadPlugin body) V tok =
     void (upload_plugin (sv_env V) (sv_auth V) (sv_zip V) (sv_git V) (sv_tmp V) tok body)"
| "plugin_handler PendingPlugins V tok = void (pending_plugins (sv_env V) (sv_auth V) tok)"
| "plugin_handler (GetPlugin pid) V tok = void (get_plugin_endpoint (sv_env V) (sv_auth V) tok pid)"
| "plugin_handler (UpdatePlugin pid d) V tok = void (update_plugin_endpoint (sv_env V) (sv_auth V) tok pid d)"
| "plugin_handler (DeletePlugin pid) V tok = void (delete_plugin_endpoint (sv_env V) (sv_auth V) tok pid)"
| "plugin_handler (UpdatePluginStatus pid st r) V tok = void (update_plugin_status (sv_env V) (sv_auth V) tok pid st r)"

primrec version_handler :: "version_call \<Rightarrow> service \<Rightarrow> string \<Rightarrow> unit api" where
  "version_handler (ListVersions pid) V tok = void (list_versions_endpoint (sv_env V) (sv_auth V) tok pid)"
| "version_handler (DeleteVersion pid vid) V tok = void (delete_version_endpoint (sv_env V) (sv_auth V) tok pid vid)"
| "version_handler (CreateVersion pid d) V tok = void (create_version_from_repo (sv_env V) (sv_auth V) tok pid d)"
| "version_handler (UploadVersion pid ver cl body) V tok =
     void (upload_version (sv_env V) (sv_auth V) (sv_zip V) (sv_git V) (sv_tmp V) tok pid ver cl body)"
| "version_handler (SetLatest pid vid b) V tok = void (set_latest (sv_env V) (sv_auth V) tok pid vid b)"
| "version_handler (PublishVersion pid vid r) V tok = void (publish_version (sv_env V) (sv_auth V) tok pid vid r)"
| "version_handler (ArtifactTree pid vid) V tok = void (artifact_tree (sv_env V) (sv_auth V) (sv_zip V) tok pid vid)"
| "version_handler (ArtifactFile pid vid f) V tok = void (artifact_file (sv_env V) (sv_auth V) (sv_zip V) tok pid vid f)"
| "version_handler (UpdateVersionStatus pid vid st) V tok =
     void (update_version_status (sv_env V) (sv_auth V) tok pid vid st)"
| "version_handler (TriggerBuild pid d) V tok = void (trigger_build (sv_env V) (sv_auth V) tok pid d)"
| "version_handler (TriggerScan pid vid) V tok = void (trigger_scan (sv_env V) (sv_auth V) tok pid vid)"
| "version_handler (TriggerScanProvider pid vid p) V tok =
     void (trigger_scan_provider (sv_env V) (sv_auth V) tok pid vid p)"
| "version_handler (SkipScanProvider pid vid p) V tok = void (skip_scan_provider (sv_env V) (sv_auth V) tok pid vid p)"

primrec operation_handler :: "operation_call \<Rightarrow> service \<Rightarrow> string \<Rightarrow> unit api" where
  "operation_handler AdminStats V tok = void (admin_stats (sv_env V) (sv_auth V) tok)"
| "operation_handler (ListTasks st tt pid vid page n) V tok =
     void (list_tasks_endpoint (sv_env V) (sv_auth V) tok st tt pid vid page n)"
| "operation_handler (GetTask i) V tok = void (get_task_endpoint (sv_env V) (sv_auth V) tok i)"
| "operation_handler (RetryTask i) V tok = void (retry_task_endpoint (sv_env V) (sv_auth V) tok i)"
| "operation_handler WorkerStatus V tok = void (worker_status_endpoint (sv_env V) (sv_auth V) tok)"
| "operation_handler GetConfig V tok = void (get_config_endpoint (sv_env V) (sv_auth V) tok)"
| "operation_handler (UpdateConfig d) V tok = void (update_config_endpoint (sv_env V) (sv_auth V) tok d)"
| "operation_handler RefreshCache V tok = void (refresh_cache_endpoint (sv_env V) (sv_auth V) tok)"
| "operation_handler (GithubWebhook req body) V tok = void (github_webhook (sv_env V) (sv_zip V) req body)"

primrec handler :: "api_call \<Rightarrow> service \<Rightarrow> string \<Rightarrow> unit api" where
  "handler (Public c) V tok = public_handler c V"
| "handler (Account c) V tok = account_handler c V tok"
| "handler (Submission c) V tok = submission_handler c V tok"
| "handler (PluginCall c) V tok = plugin_handler c V tok"
| "handler (VersionCall c) V tok = version_handler c V tok"
| "handler (Operation c) V tok = operation_handler c V tok"

section \<open>Serving\<close>

fun success_code :: "api_call \<Rightarrow> nat" where
  "success_code (Public (PluginLogo _)) = 307"
| "success_code (Public (DownloadPlugin _)) = 307"
| "success_code _ = 200"

definition serve :: "service \<Rightarrow> string \<Rightarrow> api_call \<Rightarrow> api_state \<Rightarrow> nat \<times> api_state" where
  "serve V tok c s =
     (case api_session (handler c V tok) s of
       (Inl e, s') \<Rightarrow> (fst (answer_of e), s')
     | (Inr _, s') \<Rightarrow> (success_code c, s'))"

text \<open>The background tasks of a request, after its answer; one that raises ends them.\<close>

definition finish_request :: "service \<Rightarrow> api_state \<Rightarrow> api_state" where
  "finish_request V s =
     s\<lparr>api_world := snd (foreach (run_background (sv_env V) (sv_git V)) (background s) (api_world s)), background := []\<rparr>"

end
