(* ===== verification/Authorization.thy ===== *)
theory Authorization
  imports HttpApi
begin

text \<open>
  Who may do what. \<open>access\<close> gives for every request whom it is for, \<open>permitted\<close> says of a token whether it
  belongs to such a user; a request that is not permitted is refused and changes nothing.
\<close>

section \<open>The rule\<close>

datatype access = Anybody | LoggedIn | Reviewers | Admins

fun account_access :: "account_call \<Rightarrow> access" where
  "account_access (Login _ _ _) = Anybody"
| "account_access RegisterConfig = Anybody"
| "account_access (RegisterChallenge _) = Anybody"
| "account_access (Register _ _) = Anybody"
| "account_access (BootstrapUser _) = Anybody"
| "account_access Me = LoggedIn"
| "account_access _ = Admins"

fun submission_access :: "submission_call \<Rightarrow> access" where
  "submission_access ListMySubmissions = LoggedIn"
| "submission_access (CreateMySubmission _) = LoggedIn"
| "submission_access (GetMySubmission _) = LoggedIn"
| "submission_access _ = Reviewers"

fun plugin_access :: "plugin_call \<Rightarrow> access" where
  "plugin_access (DeletePlugin _) = Admins"
| "plugin_access (UpdatePluginStatus _ _ _) = Admins"
| "plugin_access _ = Reviewers"

fun version_access :: "version_call \<Rightarrow> access" where
  "version_access (DeleteVersion _ _) = Admins"
| "version_access (PublishVersion _ _ _) = Admins"
| "version_access _ = Reviewers"

fun operation_access :: "operation_call \<Rightarrow> access" where
  "operation_access (ListTasks _ _ _ _ _ _) = Reviewers"
| "operation_access (GetTask _) = Reviewers"
| "operation_access WorkerStatus = Reviewers"
| "operation_access (GithubWebhook _ _) = Anybody"
| "operation_access _ = Admins"

fun access_of :: "api_call \<Rightarrow> access" where
  "access_of (Public _) = Anybody"
| "access_of (Account c) = account_access c"
| "access_of (Submission c) = submission_access c"
| "access_of (PluginCall c) = plugin_access c"
| "access_of (VersionCall c) = version_access c"
| "access_of (Operation c) = operation_access c"

fun role_in :: "access \<Rightarrow> user_role \<Rightarrow> bool" where
  "role_in Anybody r = True"
| "role_in LoggedIn r = True"
| "role_in Reviewers r = (r \<in> {RoleAdmin, RoleReviewer})"
| "role_in Admins r = (r = RoleAdmin)"

definition permitted :: "service \<Rightarrow> access \<Rightarrow> string \<Rightarrow> db \<Rightarrow> bool" where
  "permitted V acc tok D \<longleftrightarrow>
     acc = Anybody \<or>
     (\<exists>i u. decode_token (sv_env V) (sv_auth V) tok = Inr (Some i) \<and> row_get u_id i (users D) = Some u
       \<and> u_is_active u \<and> u_status u = UActive \<and> role_in acc (u_role u))"

text \<open>The kinds of access are ordered: whoever is permitted more is permitted less.\<close>

fun access_rank :: "access \<Rightarrow> nat" where
  "access_rank Anybody = 0"
| "access_rank LoggedIn = 1"
| "access_rank Reviewers = 2"
| "access_rank Admins = 3"

lemma access_rank_inject: "access_rank x = access_rank y \<longleftrightarrow> x = y"
  by (cases x; cases y) simp_all

instantiation access :: linorder
begin

definition less_eq_access :: "access \<Rightarrow> access \<Rightarrow> bool" where
  "less_eq_access x y \<longleftrightarrow> access_rank x \<le> access_rank y"

definition less_access :: "access \<Rightarrow> access \<Rightarrow> bool" where
  "less_access x y \<longleftrightarrow> access_rank x < access_rank y"

instance
  by standard (auto simp: less_eq_access_def less_access_def access_rank_inject[symmetric])

end

lemma permitted_mono:
  "acc \<le> acc' \<Longrightarrow> permitted V acc' tok D \<Longrightarrow> permitted V acc tok D"
  by (cases acc; cases acc') (auto simp: permitted_def less_eq_access_def)

section \<open>The dependencies decide\<close>

definition refused :: "service \<Rightarrow> string \<Rightarrow> exn \<Rightarrow> bool" where
  "refused V tok e \<longleftrightarrow> fst (answer_of e) \<in> {401, 403} \<or> decode_token (sv_env V) (sv_auth V) tok = Inl e"

lemma current_user_cases:
  "get_current_user env a tok s =
    (case decode_token env a tok of
       Inl e \<Rightarrow> (Inl e, s)
     | Inr None \<Rightarrow> (Inl (HTTPException 401 ''Invalid authentication credentials''), s)
     | Inr (Some i) \<Rightarrow>
         (case row_get u_id i (users (sess (api_world s))) of
           None \<Rightarrow> (Inl (HTTPException 401 ''User not found''), s)
         | Some u \<Rightarrow> if u_is_active u \<and> u_status u = UActive then (Inr u, s)
             else (Inl (HTTPException 401 ''User not found''), s)))"
  by (auto simp: get_current_user_def get_user_by_id_def on_world_apply bind_op_def split: sum.splits option.splits)

lemma not_permitted:
  assumes "\<not> permitted V acc tok (sess (api_world s))"
  shows "acc = LoggedIn \<Longrightarrow> \<exists>e. get_current_user (sv_env V) (sv_auth V) tok s = (Inl e, s) \<and> refused V tok e"
    and "acc = Reviewers \<Longrightarrow> \<exists>e. get_current_reviewer (sv_env V) (sv_auth V) tok s = (Inl e, s) \<and> refused V tok e"
    and "acc = Admins \<Longrightarrow> \<exists>e. get_current_admin (sv_env V) (sv_auth V) tok s = (Inl e, s) \<and> refused V tok e"
  using assms
  by (auto simp: get_current_reviewer_def get_current_admin_def current_user_cases bind_op_def permitted_def
      refused_def answer_of_def split: sum.splits option.splits)

lemma refusal_propagates:
  assumes "m s = (Inl e, s)"
  shows "bind_op m f s = (Inl e, s)" "void m s = (Inl e, s)" "void (bind_op m f) s = (Inl e, s)"
  using assms by (simp_all add: void_def bind_op_def)

lemmas user_handlers = current_user_def list_my_submissions_def create_my_submission_def get_my_submission_def

lemmas reviewer_handlers = list_submissions_endpoint_def get_submission_endpoint_def accept_submission_endpoint_def
  reject_submission_endpoint_def duplicate_submission_endpoint_def list_plugins_endpoint_def
  inspect_plugin_repo_endpoint_def resolve_plugin_ref_endpoint_def submit_plugin_def upload_plugin_def
  pending_plugins_def get_plugin_endpoint_def update_plugin_endpoint_def list_versions_endpoint_def
  create_version_from_repo_def upload_version_def set_latest_def artifact_tree_def artifact_file_def
  update_version_status_def trigger_build_def trigger_scan_def trigger_scan_provider_def skip_scan_provider_def
  list_tasks_endpoint_def get_task_endpoint_def worker_status_endpoint_def

lemmas admin_handlers = create_user_endpoint_def list_users_endpoint_def approve_user_endpoint_def
  disable_user_endpoint_def set_user_def list_invites_endpoint_def create_invite_endpoint_def
  disable_invite_endpoint_def delete_plugin_endpoint_def update_plugin_status_def delete_version_endpoint_def
  publish_version_def admin_stats_def retry_task_endpoint_def get_config_endpoint_def update_config_endpoint_def
  refresh_cache_endpoint_def

lemma user_refuses:
  assumes "get_current_user (sv_env V) (sv_auth V) tok s = (Inl e, s)"
  shows "account_access c = LoggedIn \<Longrightarrow> account_handler c V tok s = (Inl e, s)"
    and "submission_access d = LoggedIn \<Longrightarrow> submission_handler d V tok s = (Inl e, s)"
proof -
  note r = refusal_propagates[where m = "get_current_user (sv_env V) (sv_auth V) tok", OF assms]
  show "account_access c = LoggedIn \<Longrightarrow> account_handler c V tok s = (Inl e, s)"
    by (cases c) (simp_all add: user_handlers r)
  show "submission_access d = LoggedIn \<Longrightarrow> submission_handler d V tok s = (Inl e, s)"
    by (cases d) (simp_all add: user_handlers r)
qed

lemma reviewer_refuses:
  assumes "get_current_reviewer (sv_env V) (sv_auth V) tok s = (Inl e, s)"
  shows "submission_access d = Reviewers \<Longrightarrow> submission_handler d V tok s = (Inl e, s)"
    and "plugin_access p = Reviewers \<Longrightarrow> plugin_handler p V tok s = (Inl e, s)"
    and "version_access v = Reviewers \<Longrightarrow> version_handler v V tok s = (Inl e, s)"
    and "operation_access q = Reviewers \<Longrightarrow> operation_handler q V tok s = (Inl e, s)"
proof -
  note r = refusal_propagates[where m = "get_current_reviewer (sv_env V) (sv_auth V) tok", OF assms]
  show "submission_access d = Reviewers \<Longrightarrow> submission_handler d V tok s = (Inl e, s)"
    by (cases d) (simp_all add: reviewer_handlers r)
  show "plugin_access p = Reviewers \<Longrightarrow> plugin_handler p V tok s = (Inl e, s)"
    by (cases p) (simp_all add: reviewer_handlers r)
  show "version_access v = Reviewers \<Longrightarrow> version_handler v V tok s = (Inl e, s)"
    by (cases v) (simp_all add: reviewer_handlers r)
  show "operation_access q = Reviewers \<Longrightarrow> operation_handler q V tok s = (Inl e, s)"
    by (cases q) (simp_all add: reviewer_handlers r)
qed

lemma admin_refuses:
  assumes "get_current_admin (sv_env V) (sv_auth V) tok s = (Inl e, s)"
  shows "account_access c = Admins \<Longrightarrow> account_handler c V tok s = (Inl e, s)"
    and "plugin_access p = Admins \<Longrightarrow> plugin_handler p V tok s = (Inl e, s)"
    and "version_access v = Admins \<Longrightarrow> version_handler v V tok s = (Inl e, s)"
    and "operation_access q = Admins \<Longrightarrow> operation_handler q V tok s = (Inl e, s)"
proof -
  note r = refusal_propagates[where m = "get_current_admin (sv_env V) (sv_auth V) tok", OF assms]
  show "account_access c = Admins \<Longrightarrow> account_handler c V tok s = (Inl e, s)"
    by (cases c) (simp_all add: admin_handlers r)
  show "plugin_access p = Admins \<Longrightarrow> plugin_handler p V tok s = (Inl e, s)"
    by (cases p) (simp_all add: admin_handlers r)
  show "version_access v = Admins \<Longrightarrow> version_handler v V tok s = (Inl e, s)"
    by (cases v) (simp_all add: admin_handlers r)
  show "operation_access q = Admins \<Longrightarrow> operation_handler q V tok s = (Inl e, s)"
    by (cases q) (simp_all add: admin_handlers r)
qed

lemma groups_without [simp]:
  "account_access c \<noteq> Reviewers" "submission_access d \<noteq> Admins" "submission_access d \<noteq> Anybody"
  "plugin_access p \<noteq> LoggedIn" "plugin_access p \<noteq> Anybody" "version_access v \<noteq> LoggedIn"
  "version_access v \<noteq> Anybody" "operation_access q \<noteq> LoggedIn"
proof -
  show "account_access c \<noteq> Reviewers" by (cases c) simp_all
  show "submission_access d \<noteq> Admins" by (cases d) simp_all
  show "submission_access d \<noteq> Anybody" by (cases d) simp_all
  show "plugin_access p \<noteq> LoggedIn" by (cases p) simp_all
  show "plugin_access p \<noteq> Anybody" by (cases p) simp_all
  show "version_access v \<noteq> LoggedIn" by (cases v) simp_all
  show "version_access v \<noteq> Anybody" by (cases v) simp_all
  show "operation_access q \<noteq> LoggedIn" by (cases q) simp_all
qed

lemma handler_refuses:
  assumes "\<not> permitted V (access_of c) tok (sess (api_world s))"
  shows "\<exists>e. handler c V tok s = (Inl e, s) \<and> refused V tok e"
proof (cases "access_of c")
  case Anybody
  with assms show ?thesis by (simp add: permitted_def)
next
  case LoggedIn
  then show ?thesis using not_permitted(1)[OF assms] user_refuses[of V tok s] by (cases c) auto
next
  case Reviewers
  then show ?thesis using not_permitted(2)[OF assms] reviewer_refuses[of V tok s] by (cases c) auto
next
  case Admins
  then show ?thesis using not_permitted(3)[OF assms] admin_refuses[of V tok s] by (cases c) auto
qed

lemma unauthorised_changes_nothing_state:
  assumes "\<not> permitted V (access_of c) tok (committed (api_world s))" "sess (api_world s) = committed (api_world s)"
  shows "\<exists>e. serve V tok c s = (fst (answer_of e), s) \<and> refused V tok e"
proof -
  have u: "s\<lparr>api_world := (api_world s)\<lparr>sess := committed (api_world s)\<rparr>\<rparr> = s" using assms(2) by (cases s) simp
  obtain e where "handler c V tok s = (Inl e, s)" "refused V tok e"
    using handler_refuses[of V c tok s] assms by auto
  with u show ?thesis by (auto simp: serve_def api_session_def)
qed

text \<open>C3 (safety). A request whose token does not belong to an active user with the role that the request is for is
  refused, with 401 or 403 when the token can be read at all, and changes nothing: neither the database,
  the queue, the object store, the limiters, nor the tasks of the process.\<close>

theorem unauthorised_changes_nothing:
  assumes "\<not> permitted V (access_of c) tok (committed (api_world s))" "sess (api_world s) = committed (api_world s)"
  shows "snd (serve V tok c s) = s
    \<and> (fst (serve V tok c s) \<in> {401, 403} \<or> (\<exists>e. decode_token (sv_env V) (sv_auth V) tok = Inl e))"
  using unauthorised_changes_nothing_state[OF assms] by (auto simp: refused_def)

definition sample_service :: service where
  "sample_service = \<lparr>sv_env = sample_env, sv_auth = sample_auth, sv_zip = sample_zip [], sv_git = sample_git,
     sv_tmp = [''tmp''], sv_postgresql = True\<rparr>"

lemma unauthorised_changes_nothing_witness:
  "snd (serve sample_service (u_id sample_user) (VersionCall (PublishVersion [] [] RApproved))
     (sample_api (empty_db\<lparr>users := [sample_user]\<rparr>) None)) = sample_api (empty_db\<lparr>users := [sample_user]\<rparr>) None"
  by (rule unauthorised_changes_nothing[THEN conjunct1])
    (auto simp: permitted_def sample_api_def sample_user_def empty_db_def)

end
