(* ===== verification/ApiInvariants.thy ===== *)
theory ApiInvariants
  imports Authorization
begin

text \<open>
  What every request keeps. The contract \<open>api_invariant\<close> extends the one of the services by the rows of the
  configuration; the lemmas go handler by handler, leaving out the two that may name a new latest version.
\<close>

section \<open>From the services to the handlers\<close>

definition on_api :: "(world \<Rightarrow> bool) \<Rightarrow> api_state \<Rightarrow> bool" where
  "on_api I s \<longleftrightarrow> I (api_world s)"

lemma keeps_on_world [keeps_intros]: "keeps I m \<Longrightarrow> keeps (on_api I) (on_world m)"
  by (simp add: keeps_def on_api_def on_world_apply)

lemma keeps_process_state [keeps_intros]:
  "keeps (on_api I) (draw f)" "keeps (on_api I) (http_error c m)"
  "keeps (on_api I) (modify (login_limiter_update h))" "keeps (on_api I) (modify (challenge_limiter_update h))"
  "keeps (on_api I) (modify (submit_limiter_update h))" "keeps (on_api I) (cleanup_memory_challenges now)"
  "keeps (on_api I) (modify (\<lambda>s. s\<lparr>memory_challenges := g s\<rparr>))" "keeps (on_api I) (modify (\<lambda>s. s\<lparr>background := b s\<rparr>))"
  "keeps (on_api I) (retry_after_op login_limiter login_limiter_update now k)"
  "keeps (on_api I) (retry_after_op challenge_limiter challenge_limiter_update now k)"
  "keeps (on_api I) (retry_after_op submit_limiter submit_limiter_update now k)"
  by (simp_all add: keeps_def on_api_def retry_after_op_def cleanup_memory_challenges_def)

lemma keeps_max_retry_after [keeps_intros]:
  "keeps (on_api I) (max_retry_after login_limiter login_limiter_update now ks)"
  "keeps (on_api I) (max_retry_after submit_limiter submit_limiter_update now ks)"
  by (induction ks) (auto intro!: keeps_intros)

lemma keeps_answers [keeps_intros]:
  "keeps (on_api I) (answer_400 caught e)" "keeps (on_api I) (submission_rejected e)"
  by (auto simp: answer_400_def submission_rejected_def intro!: keeps_intros split: exn.split)

lemma keeps_void [keeps_intros]: "keeps (on_api I) m \<Longrightarrow> keeps (on_api I) (void m)"
  unfolding void_def by (intro keeps_intros)

text \<open>The two requests that name a latest version.\<close>

definition latest_call :: "api_call \<Rightarrow> bool" where
  "latest_call c \<longleftrightarrow> (case c of VersionCall v \<Rightarrow> (case v of SetLatest _ _ _ \<Rightarrow> True | PublishVersion _ _ _ \<Rightarrow> True | _ \<Rightarrow> False)
     | _ \<Rightarrow> False)"

locale api_invariant = latest_invariant +
  assumes config_rows: "I w \<Longrightarrow> I (w\<lparr>sess := (sess w)\<lparr>configs := cs\<rparr>\<rparr>)"
    and cache_cleared: "I w \<Longrightarrow> I (w\<lparr>redis := map_option (\<lambda>rd. rd\<lparr>r_runtime_config := None\<rparr>) (redis w)\<rparr>)"
begin

lemma reads: "keeps I (runtime_scan_enabled_providers env)" "keeps I (runtime_git_allowed_hosts env)"
  "keeps I (runtime_git_http_proxy env)" "keeps I (runtime_git_preflight_timeout env)"
  "keeps I (runtime_registration_mode env)" "keeps I (runtime_webhook_secret env)"
  "keeps I (runtime_webhook_auto_version env)" "keeps I (runtime_public_cache_max_age env)"
  "keeps I (runtime_upload_limits env)" "keeps I (effective_token env tok)"
  unfolding getter_defs runtime_scan_enabled_providers_def runtime_registration_mode_def runtime_webhook_secret_def
    runtime_webhook_auto_version_def runtime_public_cache_max_age_def runtime_upload_limits_def effective_token_def Let_def
  by (intro keeps_intros basic)+

lemma own_sessions: "keeps I m \<Longrightarrow> keeps I (in_session m)"
  using rolls_back by (auto simp: keeps_def in_session_def split: prod.splits) (metis snd_conv)

lemma api_sessions: "keeps (on_api I) m \<Longrightarrow> keeps (on_api I) (api_session m)"
  using rolls_back by (auto simp: keeps_def on_api_def api_session_def split: prod.splits)
    (metis api_state.select_convs(1) api_state.surjective api_state.update_convs(1) snd_conv)

lemma other_rows: "keeps I (stage (add_user u))" "keeps I (stage (edit_user i f))" "keeps I (stage (edit_invite i g))"
  "keeps I (stage (\<lambda>D. D\<lparr>invites := invites D @ [n]\<rparr>))" "keeps I (stage (add_stat z))" "keeps I (stage (edit_stat i d h))"
  "keeps I (stage (\<lambda>D. D\<lparr>submissions := k D\<rparr>))" "keeps I (stage (\<lambda>D. D\<lparr>webhooks := l D\<rparr>))"
  by (rule rows; simp add: add_user_def edit_user_def edit_invite_def add_stat_def edit_stat_def)+

lemma tokens: "keeps (on_api I) (get_current_user env a tok)" "keeps (on_api I) (get_current_reviewer env a tok)"
  "keeps (on_api I) (get_current_admin env a tok)"
  unfolding get_current_reviewer_def get_current_admin_def get_current_user_def get_user_by_id_def
  by (intro keeps_intros basic)+

lemma enqueues: "keeps (on_api I) (enqueue_or_fallback env tt p)"
  unfolding enqueue_or_fallback_def by (intro keeps_intros queues)

lemmas api_intros = keeps_intros basic reads own_sessions api_sessions other_rows tokens enqueues queues
  plugin_operations version_operations scan_marks commit_and_refresh refresh uploads


lemma challenge_rows: "config_blind env (put_challenge k x)"
  by (simp add: config_blind_def cached_config_def put_challenge_def split: option.split)

lemma documents: "keeps I (generate_registry_json env)" "keeps I (get_registry_md5 env)"
proof -
  show g: "keeps I (generate_registry_json env)"
    unfolding generate_registry_json_def runtime_s3_public_url_def runtime_redis_cache_ttl_def Let_def
    by (intro keeps_intros basic reads set_ex) (simp_all add: config_blind_puts)
  show "keeps I (get_registry_md5 env)"
    unfolding get_registry_md5_def runtime_redis_cache_ttl_def Let_def
    by (intro keeps_intros basic reads set_ex g) (simp_all add: config_blind_puts)
qed

lemma counts: "keeps I (increment_count env pg c vid d)"
proof -
  have "keeps I (stage (\<lambda>D. if P D then edit_stat i day f D else add_stat z D))" for P i day f z
    by (rule rows) (simp_all add: edit_stat_def add_stat_def)
  then show ?thesis
    unfolding increment_count_def upsert_stat_def read_and_add_def Let_def by (intro api_intros)
qed

lemma case_object: "keeps I (case x of JObj d \<Rightarrow> f d | _ \<Rightarrow> raise e)" if "\<And>d. keeps I (f d)"
  using that by (cases x) (simp_all add: keeps_raise)

lemma public_keeps:
  assumes e: "sv_env V = env"
  shows "keeps (on_api I) (public_handler c V)"
  by (cases c; simp only: public_handler.simps e list_plugins_public_def registry_md5_def get_plugin_logo_def
    download_plugin_def record_install_def registry_stats_public_def get_plugin_public_def plugin_by_key_def
    get_latest_version_def increment_download_count_def increment_install_count_def Let_def;
    intro api_intros documents counts case_object)

lemma challenges: "keeps (on_api I) (create_pow_challenge env a)" "keeps (on_api I) (consume_pow_challenge env i n)"
proof -
  show "keeps (on_api I) (create_pow_challenge env a)"
    unfolding create_pow_challenge_def Let_def by (intro api_intros set_ex) (rule challenge_rows)
  have "keeps (on_api I) (pop_challenge env i)"
    unfolding pop_challenge_def Let_def by (intro api_intros) (rule challenge_rows)
  then show "keeps (on_api I) (consume_pow_challenge env i n)"
    unfolding consume_pow_challenge_def by (intro api_intros)
qed

lemma accounts: "keeps (on_api I) (create_user env a d)" "keeps (on_api I) (register_user env a un em pw code)"
  "keeps (on_api I) (create_invite env a by' code m x nt)" "keeps (on_api I) (set_user env a tok i f)"
  "keeps (on_api I) (bootstrap_admin_user env a)"
  unfolding create_user_def register_user_def create_invite_def set_user_def get_password_hash_def
    ensure_user_unique_def get_usable_invite_def get_user_by_id_def bootstrap_admin_user_def Let_def
  by (intro api_intros)+

lemma registration_failures: "keeps (on_api I) (registration_except env a ks e)"
  unfolding registration_except_def record_registration_failure_def
  by (cases e) (auto intro!: api_intros)

lemma account_keeps:
  assumes e: "sv_env V = env"
  shows "keeps (on_api I) (account_handler c V tok)"
  by (cases c; simp only: account_handler.simps e login_def register_config_def current_user_def register_challenge_def
    register_def bootstrap_user_def create_user_endpoint_def list_users_endpoint_def approve_user_endpoint_def
    disable_user_endpoint_def list_invites_endpoint_def create_invite_endpoint_def disable_invite_endpoint_def
    authenticate_user_def Let_def;
    intro api_intros challenges accounts registration_failures)

lemma decisions: "keeps (on_api I) (find_submission i)" "keeps (on_api I) (decide_submission env i st m u)"
proof -
  show f: "keeps (on_api I) (find_submission i)" for i
    unfolding find_submission_def by (intro api_intros)
  show "keeps (on_api I) (decide_submission env i st m u)"
    unfolding decide_submission_def mark_submission_decision_def by (intro api_intros f)
qed

lemma submission_keeps:
  assumes e: "sv_env V = env"
  shows "keeps (on_api I) (submission_handler c V tok)"
proof -
  have x: "keeps I (submission_except e)" for e :: exn
    by (cases e) (simp_all add: submission_except_def)
  show ?thesis
    by (cases c; simp only: submission_handler.simps e list_my_submissions_def create_my_submission_def
      create_submission_request_def get_my_submission_def list_submissions_endpoint_def get_submission_endpoint_def
      accept_submission_endpoint_def reject_submission_endpoint_def duplicate_submission_endpoint_def
      mark_submission_terminal_def Let_def;
      intro api_intros decisions x)
qed

lemma finders: "keeps (on_api I) (find_plugin p)" "keeps (on_api I) (get_plugin_version p v)"
  "keeps (on_api I) (api_uuid x)" "keeps (on_api I) (scan_providers env q)"
proof -
  show u: "keeps (on_api I) (api_uuid x)" for x unfolding api_uuid_def by (intro api_intros)
  have c: "keeps (on_api I) (case vs of [] \<Rightarrow> http_error n m | v # vs' \<Rightarrow> ret v)" for vs :: "version list" and n m
    by (cases vs) (simp_all add: keeps_process_state)
  show "keeps (on_api I) (find_plugin p)" unfolding find_plugin_def by (intro api_intros u)
  show "keeps (on_api I) (get_plugin_version p v)" unfolding get_plugin_version_def by (intro api_intros u c)
  show "keeps (on_api I) (scan_providers env q)" unfolding scan_providers_def by (intro api_intros)
qed

lemma repositories: "keeps I (inspect_git_repo env g u t c rt r b hs px)" "keeps I (resolve_git_ref env g u t c rt r hs px)"
  "keeps I (process_uploaded_zip env z g body d)"
  unfolding inspect_git_repo_def resolve_git_ref_def process_uploaded_zip_def
  by (intro api_intros)+

lemma plugin_keeps:
  assumes e: "sv_env V = env"
  shows "keeps (on_api I) (plugin_handler c V tok)"
  by (cases c; simp only: plugin_handler.simps e list_plugins_endpoint_def inspect_plugin_repo_endpoint_def
    resolve_plugin_ref_endpoint_def submit_plugin_def upload_plugin_def pending_plugins_def get_plugin_endpoint_def
    update_plugin_endpoint_def delete_plugin_endpoint_def update_plugin_status_def Let_def;
    intro api_intros finders repositories)

lemma version_keeps:
  assumes e: "sv_env V = env" and "\<not> latest_call (VersionCall c)"
  shows "keeps (on_api I) (version_handler c V tok)"
  using assms(2)
  by (cases c; simp only: latest_call_def api_call.case version_call.case simp_thms version_handler.simps e
    list_versions_endpoint_def delete_version_endpoint_def create_version_from_repo_def upload_version_def
    artifact_tree_def artifact_file_def update_version_status_def trigger_build_def trigger_scan_def
    trigger_scan_provider_def skip_scan_provider_def queue_scan_def Let_def;
    intro api_intros finders repositories)

lemma updates_config: "keeps I (update_config env vals)"
proof -
  have "keeps I (stage (put_config k v))" for k v
    by (simp add: keeps_def put_config_def config_rows)
  then have "keeps I (update_value kv)" for kv
    by (cases kv) (auto intro!: keeps_intros)
  moreover have "keeps I clear_runtime_config_cache"
    by (simp add: keeps_def clear_runtime_config_cache_def cache_cleared)
  ultimately show ?thesis
    unfolding update_config_def list_config_response_def by (intro api_intros)
qed

lemma webhook_keeps: "keeps (on_api I) (github_webhook env z req body)"
proof -
  have p: "keeps (on_api I) (webhook_payload env z body)"
  proof -
    have "keeps (on_api I) (case e of ValueError s \<Rightarrow> http_error n m | _ \<Rightarrow> raise e)" for e n m
      by (cases e) (simp_all add: keeps_process_state)
    then show ?thesis unfolding webhook_payload_def by (intro api_intros)
  qed
  have r: "keeps I (plugin_of_repo j)" for j
    by (cases j) (simp_all add: plugin_of_repo_def, intro api_intros)
  show ?thesis
    unfolding github_webhook_def webhook_settings_def handle_push_def check_signature_def add_webhook_event_def
    by (intro api_intros p r)
qed

lemma operation_keeps:
  assumes e: "sv_env V = env"
  shows "keeps (on_api I) (operation_handler c V tok)"
proof -
  have f: "keeps (on_api I) (find_task i)" for i unfolding find_task_def by (intro api_intros)
  show ?thesis
    by (cases c; simp only: operation_handler.simps e admin_stats_def list_tasks_endpoint_def get_task_endpoint_def
      retry_task_endpoint_def worker_status_endpoint_def worker_runtime_status_def get_config_endpoint_def
      list_config_response_def update_config_endpoint_def refresh_cache_endpoint_def;
      intro api_intros f updates_config webhook_keeps)
qed

lemma requests:
  assumes "sv_env V = env" "\<not> latest_call c"
  shows "keeps (on_api I) (handler c V tok)"
  using assms public_keeps account_keeps submission_keeps plugin_keeps version_keeps operation_keeps
  by (cases c) simp_all

lemma served:
  assumes "sv_env V = env" "\<not> latest_call c" "on_api I s"
  shows "on_api I (snd (serve V tok c s))"
proof -
  have "on_api I (snd (api_session (handler c V tok) s))"
    using api_sessions[OF requests[OF assms(1,2)]] assms(3) by (simp add: keeps_def)
  then show ?thesis by (auto simp: serve_def split: prod.splits sum.splits)
qed

end

section \<open>Only publishing requests name a latest version\<close>

definition few_latest :: "uuid set \<Rightarrow> world \<Rightarrow> bool" where
  "few_latest L w \<longleftrightarrow> latest_ids (sess w) \<subseteq> L \<and> latest_ids (committed w) \<subseteq> L"

lemma fill_config_dbs [simp]: "sess (fill_config env w) = sess w" "committed (fill_config env w) = committed w"
  by (simp_all add: fill_config_def split: option.splits)

interpretation few: api_invariant env "few_latest L" for env L
  by unfold_locales (auto simp: few_latest_def no_new_latest_def latest_ids_def)



section \<open>Every request keeps the constraints of the database\<close>

locale blind_api = api_invariant + blind_invariant
begin

lemma all_requests:
  assumes e: "sv_env V = env"
  shows "keeps (on_api I) (handler c V tok)"
proof (cases "latest_call c")
  case False
  with e show ?thesis by (simp add: requests)
next
  case True
  have g: "keeps I (set_latest_version env p v)" for p v
    unfolding set_latest_version_def by (intro api_intros gate any_stage)
  from True obtain v where c: "c = VersionCall v" and v: "(\<exists>p q b. v = SetLatest p q b) \<or> (\<exists>p q r. v = PublishVersion p q r)"
    by (auto simp: latest_call_def split: api_call.splits version_call.splits)
  have "keeps (on_api I) (set_latest env a tok p q b)" "keeps (on_api I) (publish_version env a tok p q r)" for a p q b r
    unfolding set_latest_def publish_version_def by (intro api_intros finders g publish)+
  with c v e show ?thesis by (auto intro!: keeps_intros)
qed

lemma background_tasks: "keeps I (run_background env g x)"
  unfolding run_background_def build_version_task_def scan_version_task_def submit_repo_task_def
  by (intro api_intros builds scans submits)

lemma served_and_finished:
  assumes e: "sv_env V = env" and "on_api I s"
  shows "on_api I (snd (serve V tok c s))" "on_api I (finish_request V s)"
proof -
  have "on_api I (snd (api_session (handler c V tok) s))"
    using api_sessions[OF all_requests[OF e]] assms(2) by (simp add: keeps_def)
  then show "on_api I (snd (serve V tok c s))" by (auto simp: serve_def split: prod.splits sum.splits)
  have "keeps I (foreach (run_background env (sv_git V)) (background s))"
    by (intro keeps_foreach background_tasks)
  with assms show "on_api I (finish_request V s)" by (simp add: finish_request_def on_api_def keeps_def)
qed

end

interpretation sound: blind_api env world_ok
  by unfold_locales (auto simp: world_ok_def)

text \<open>Requests one after the other, each at its own time and with its own outside services, with the background
  tasks of each before the next.\<close>

fun run_requests :: "(service \<times> string \<times> api_call) list \<Rightarrow> api_state \<Rightarrow> api_state" where
  "run_requests [] s = s"
| "run_requests ((V, tok, c) # rs) s = run_requests rs (finish_request V (snd (serve V tok c s)))"



end
