(* ===== verification/Migrations.thy ===== *)
theory Migrations
  imports ScanGate
begin

text \<open>
  \<open>alembic/versions/*.py\<close> and \<open>services/migration_service.py\<close>: from the first schema to the present one and back. A
  value of \<^typ>\<open>db\<close> stands for a database of any revision; the columns and tables that a revision does not
  have yet are not looked at before the revision that adds them, which sets them. A revision is given by
  its number. All revisions of one upgrade run in one transaction, so that a failing one undoes all.
\<close>

section \<open>The first schema\<close>

definition users_0001 :: "db \<Rightarrow> bool" where
  "users_0001 D \<longleftrightarrow>
     list_all (\<lambda>u. fits 100 (u_username u) \<and> fits 255 (u_password_hash u) \<and> u_role u \<in> {RoleAdmin, RoleReviewer})
       (users D)
   \<and> distinct (map u_id (users D)) \<and> distinct (map u_username (users D))"

definition version_row_0001 :: "version \<Rightarrow> bool" where
  "version_row_0001 v \<longleftrightarrow>
     latest_ok v \<and> artifact_ok v
   \<and> (case v_file_size v of None \<Rightarrow> True | Some n \<Rightarrow> 0 \<le> n \<and> int8 n)
   \<and> fits 50 (v_version v) \<and> fits_opt 64 (v_commit_sha v)
   \<and> fits_opt 512 (v_download_url v) \<and> fits_opt 512 (v_s3_key v)"

definition versions_0001 :: "db \<Rightarrow> bool" where
  "versions_0001 D \<longleftrightarrow>
     list_all version_row_0001 (versions D)
   \<and> distinct (map v_id (versions D))
   \<and> distinct (map (\<lambda>v. (v_plugin_id v, v_version v)) (versions D))
   \<and> distinct (map v_plugin_id (filter v_is_latest (versions D)))
   \<and> list_all (\<lambda>v. v_plugin_id v \<in> set (map p_id (plugins D))) (versions D)
   \<and> list_all (\<lambda>v. ref_ok (v_created_by v) (map u_id (users D))) (versions D)"

definition scans_0001 :: "db \<Rightarrow> bool" where
  "scans_0001 D \<longleftrightarrow> distinct (map s_version_id (scans D))
   \<and> list_all (\<lambda>s. s_version_id s \<in> set (map v_id (versions D))) (scans D)"

definition schema_0001 :: "db \<Rightarrow> bool" where
  "schema_0001 D \<longleftrightarrow> users_0001 D \<and> plugins_ok D \<and> tags_ok D \<and> configs_ok D \<and> versions_0001 D \<and> i18ns_ok D
   \<and> scans_0001 D \<and> stats_ok D \<and> webhooks_ok D"

section \<open>The revisions\<close>

definition upgrade_0002 :: "db \<Rightarrow> db" where
  "upgrade_0002 D = D\<lparr>scans := map (\<lambda>s. s\<lparr>s_virustotal_analysis_id := None, s_virustotal_file_sha256 := None,
     s_virustotal_submitted_at := None, s_virustotal_deadline_at := None, s_virustotal_next_poll_at := None,
     s_virustotal_poll_attempts := 0\<rparr>) (scans D)\<rparr>"

text \<open>\<open>CASE WHEN mode IN ('real', 'skipped', 'error') THEN scanned_at ELSE NULL END\<close>.\<close>

definition completed_at :: "scan_mode \<Rightarrow> time \<Rightarrow> time option" where
  "completed_at mode scanned_at = (if mode \<in> {MReal, MSkipped, MError} then Some scanned_at else None)"

definition virustotal_row :: "scan \<Rightarrow> provider_result" where
  "virustotal_row s =
     \<lparr>pr_version_id = s_version_id s, pr_provider = ''virustotal'', pr_kind = KScan,
      pr_passed = s_virustotal_pass s, pr_message = s_virustotal_msg s, pr_mode = s_virustotal_mode s,
      pr_details_json = None, pr_external_id = s_virustotal_analysis_id s,
      pr_submitted_at = s_virustotal_submitted_at s, pr_deadline_at = s_virustotal_deadline_at s,
      pr_next_poll_at = s_virustotal_next_poll_at s, pr_attempts = s_virustotal_poll_attempts s,
      pr_completed_at = completed_at (s_virustotal_mode s) (s_scanned_at s), pr_updated_at = s_scanned_at s\<rparr>"

definition llm_agent_row :: "scan \<Rightarrow> provider_result" where
  "llm_agent_row s =
     \<lparr>pr_version_id = s_version_id s, pr_provider = ''llm_agent'', pr_kind = KScan,
      pr_passed = s_llm_agent_pass s, pr_message = s_llm_agent_msg s, pr_mode = s_llm_agent_mode s,
      pr_details_json = None, pr_external_id = None, pr_submitted_at = None, pr_deadline_at = None,
      pr_next_poll_at = None, pr_attempts = 0,
      pr_completed_at = completed_at (s_llm_agent_mode s) (s_scanned_at s), pr_updated_at = s_scanned_at s\<rparr>"

text \<open>\<open>INSERT INTO ... SELECT ... ON CONFLICT (version_id, provider) DO NOTHING\<close>.\<close>

definition insert_result :: "provider_result \<Rightarrow> provider_result list \<Rightarrow> provider_result list" where
  "insert_result r rs = (if result_key r \<in> result_key ` set rs then rs else rs @ [r])"

definition insert_select :: "(scan \<Rightarrow> provider_result) \<Rightarrow> db \<Rightarrow> db" where
  "insert_select row D = D\<lparr>results := fold (\<lambda>s. insert_result (row s)) (scans D) (results D)\<rparr>"

definition upgrade_0003 :: "db \<Rightarrow> db" where
  "upgrade_0003 D = insert_select llm_agent_row (insert_select virustotal_row (D\<lparr>results := []\<rparr>))"

definition upgrade_0004 :: "db \<Rightarrow> db" where
  "upgrade_0004 D = D\<lparr>tasks := []\<rparr>"

definition upgrade_0005 :: "db \<Rightarrow> exn + db" where
  "upgrade_0005 D =
     (let D = D\<lparr>versions := map (\<lambda>v. v\<lparr>v_source_ref := None\<rparr>) (versions D)\<rparr>
      in if distinct (commit_index (versions D)) then Inr D else Inl integrity_error)"

definition upgrade_0006 :: "db \<Rightarrow> db" where
  "upgrade_0006 D = D\<lparr>users := map (\<lambda>u. u\<lparr>u_email := None, u_status := UActive\<rparr>) (users D), invites := []\<rparr>"

definition upgrade_0007 :: "db \<Rightarrow> db" where
  "upgrade_0007 D = D\<lparr>submissions := []\<rparr>"

text \<open>The revisions after the first, in their order, and the upgrade to the newest one.\<close>

definition revisions :: "(db \<Rightarrow> exn + db) list" where
  "revisions = [Inr \<circ> upgrade_0002, Inr \<circ> upgrade_0003, Inr \<circ> upgrade_0004, upgrade_0005,
     Inr \<circ> upgrade_0006, Inr \<circ> upgrade_0007]"

fun run_revisions :: "(db \<Rightarrow> exn + db) list \<Rightarrow> db \<Rightarrow> exn + db" where
  "run_revisions [] D = Inr D"
| "run_revisions (m # ms) D = bind_res (m D) (run_revisions ms)"

definition upgrade_head :: "nat \<times> db \<Rightarrow> exn + nat \<times> db" where
  "upgrade_head nD = (case nD of (n, D) \<Rightarrow>
     bind_res (run_revisions (drop (n - 1) revisions) D) (\<lambda>E. Inr (max n (1 + length revisions), E)))"

definition run_database_migrations :: "settings \<Rightarrow> nat \<times> db \<Rightarrow> exn + nat \<times> db" where
  "run_database_migrations S nD = (if \<not> database_auto_migrate S then Inr nD else upgrade_head nD)"

section \<open>What an upgrade does\<close>

text \<open>The database after the revisions of the first schema, when they succeed.\<close>

definition upgraded :: "db \<Rightarrow> db" where
  "upgraded D = upgrade_0007 (upgrade_0006 ((upgrade_0004 (upgrade_0003 (upgrade_0002 D)))
     \<lparr>versions := map (\<lambda>v. v\<lparr>v_source_ref := None\<rparr>) (versions D)\<rparr>))"

lemma commit_index_source_ref: "commit_index (map (\<lambda>v. v\<lparr>v_source_ref := None\<rparr>) vs) = commit_index vs"
  by (auto simp: commit_index_def comp_def intro!: arg_cong[of _ _ concat] split: option.splits)

lemma upgrade_head_first:
  "upgrade_head (Suc 0, D) =
     (if distinct (commit_index (versions D)) then Inr (7, upgraded D) else Inl integrity_error)"
  by (simp add: upgrade_head_def revisions_def upgraded_def upgrade_0005_def upgrade_0004_def upgrade_0003_def
      upgrade_0002_def insert_select_def commit_index_source_ref)

lemma insert_fresh:
  assumes "distinct (map (\<lambda>s. result_key (row s)) ss)" "\<And>s. s \<in> set ss \<Longrightarrow> result_key (row s) \<notin> result_key ` set rs"
  shows "fold (\<lambda>s. insert_result (row s)) ss rs = rs @ map row ss"
  using assms
proof (induction ss arbitrary: rs)
  case (Cons s ss)
  have "insert_result (row s) rs = rs @ [row s]" using Cons.prems(2) by (simp add: insert_result_def)
  moreover have "fold (\<lambda>s. insert_result (row s)) ss (rs @ [row s]) = (rs @ [row s]) @ map row ss"
    using Cons.prems by (intro Cons.IH) (auto simp: image_iff)
  ultimately show ?case by simp
qed simp

lemma row_keys [simp]:
  "result_key (virustotal_row s) = (s_version_id s, ''virustotal'')"
  "result_key (llm_agent_row s) = (s_version_id s, ''llm_agent'')"
  "pr_version_id (virustotal_row s) = s_version_id s" "pr_version_id (llm_agent_row s) = s_version_id s"
  by (simp_all add: virustotal_row_def llm_agent_row_def result_key_def)

text \<open>The rows that revision 3 makes of the scans.\<close>

lemma backfilled:
  assumes "distinct (map s_version_id (scans D))"
  shows "results (upgrade_0003 D) = map virustotal_row (scans D) @ map llm_agent_row (scans D)"
proof -
  have k: "distinct (map (\<lambda>s. (s_version_id s, x :: string)) (scans D))" for x
    using assms by (auto simp: distinct_map inj_on_def)
  show ?thesis
    using insert_fresh[of virustotal_row "scans D" "[]"] insert_fresh[of llm_agent_row "scans D" "map virustotal_row (scans D)"] k
    by (simp add: upgrade_0003_def insert_select_def image_iff)
qed

lemma upgraded_tables:
  "plugins (upgraded D) = plugins D" "tags (upgraded D) = tags D" "plugin_tags (upgraded D) = plugin_tags D"
  "i18ns (upgraded D) = i18ns D" "configs (upgraded D) = configs D" "stats (upgraded D) = stats D"
  "webhooks (upgraded D) = webhooks D" "tasks (upgraded D) = []" "invites (upgraded D) = []"
  "submissions (upgraded D) = []" "scans (upgraded D) = scans (upgrade_0002 D)"
  "results (upgraded D) = results (upgrade_0003 (upgrade_0002 D))"
  "versions (upgraded D) = map (\<lambda>v. v\<lparr>v_source_ref := None\<rparr>) (versions D)"
  "users (upgraded D) = map (\<lambda>u. u\<lparr>u_email := None, u_status := UActive\<rparr>) (users D)"
  by (simp_all add: upgraded_def upgrade_0007_def upgrade_0006_def upgrade_0005_def upgrade_0004_def
      upgrade_0003_def upgrade_0002_def insert_select_def)

lemma scans_0002:
  "map s_version_id (scans (upgrade_0002 D)) = map s_version_id (scans D)"
  "s \<in> set (scans (upgrade_0002 D)) \<Longrightarrow> scan_row_ok s \<and> s_virustotal_poll_attempts s = 0"
  by (auto simp: upgrade_0002_def comp_def scan_row_ok_def fits_opt_def int4_def)

lemma results_of_upgraded:
  assumes "distinct (map s_version_id (scans D))"
  shows "results (upgraded D) =
    map virustotal_row (scans (upgrade_0002 D)) @ map llm_agent_row (scans (upgrade_0002 D))"
  using backfilled[of "upgrade_0002 D"] assms by (simp add: upgraded_tables scans_0002)

lemma users_of_upgraded:
  "map u_id (users (upgraded D)) = map u_id (users D)" "map u_username (users (upgraded D)) = map u_username (users D)"
  by (simp_all add: upgraded_tables comp_def)

lemma concat_nothing: "concat (map (\<lambda>x. []) xs) = []"
  by simp

lemma results_ok_upgraded:
  assumes "distinct (map s_version_id (scans D))" "s_version_id ` set (scans D) \<subseteq> v_id ` set (versions D)"
  shows "results_ok (upgraded D)"
proof -
  let ?ss = "scans (upgrade_0002 D)"
  have d: "distinct (map s_version_id ?ss)" using assms(1) by (simp add: scans_0002)
  have k: "distinct (map (\<lambda>s. (s_version_id s, x :: string)) ?ss)" for x
    using d by (auto simp: distinct_map inj_on_def)
  have v: "s \<in> set ?ss \<Longrightarrow> s_version_id s \<in> v_id ` set (versions (upgraded D))" for s
  proof -
    assume "s \<in> set ?ss"
    then have "s_version_id s \<in> s_version_id ` set (scans D)" using scans_0002(1)[of D] by (metis imageI list.set_map)
    with assms(2) show ?thesis by (auto simp: upgraded_tables image_image)
  qed
  have "result_row_ok (virustotal_row s) \<and> result_row_ok (llm_agent_row s)" if "s \<in> set ?ss" for s
    using scans_0002(2)[OF that] by (simp add: result_row_ok_def virustotal_row_def llm_agent_row_def fits_def int4_def)
  with k v show ?thesis
    unfolding results_ok_def results_of_upgraded[OF assms(1)] by (auto simp: list_all_iff comp_def)
qed

lemma scans_ok_upgraded:
  assumes "distinct (map s_version_id (scans D))" "s_version_id ` set (scans D) \<subseteq> v_id ` set (versions D)"
  shows "scans_ok (upgraded D)"
proof -
  have "s_version_id ` set (scans (upgraded D)) \<subseteq> v_id ` set (versions (upgraded D))"
    using assms(2) scans_0002(1)[of D] by (simp add: upgraded_tables image_image) (metis list.set_map)
  with assms(1) show ?thesis
    unfolding scans_ok_def list_all_iff upgraded_tables(11) scans_0002(1) using scans_0002(2)[where D = D] by auto
qed

lemma versions_ok_upgraded:
  assumes "versions_0001 D" "distinct (commit_index (versions D))"
  shows "versions_ok (upgraded D)"
proof -
  let ?f = "\<lambda>v. v\<lparr>v_source_ref := None\<rparr>"
  have row: "version_row_ok (?f v)" if "version_row_0001 v" for v
    using that by (simp add: version_row_0001_def version_row_ok_def latest_ok_def artifact_ok_def fits_opt_def[of 255])
  have us: "set (map u_id (users (upgraded D))) = set (map u_id (users D))" by (simp only: users_of_upgraded)
  have ref: "ref_ok r (map u_id (users (upgraded D))) = ref_ok r (map u_id (users D))" for r
    by (simp only: ref_ok_def us)
  have l: "map v_plugin_id (filter v_is_latest (map ?f vs)) = map v_plugin_id (filter v_is_latest vs)" for vs
    by (induction vs) simp_all
  have i: "map v_id (map ?f vs) = map v_id vs" for vs by simp
  show ?thesis
    using assms row
    unfolding versions_ok_def upgraded_tables(1,13) l i commit_index_source_ref ref versions_0001_def
    by (simp add: list_all_iff)
qed

lemma upgraded_ok:
  assumes S: "schema_0001 D" and c: "distinct (commit_index (versions D))"
  shows "db_ok (upgraded D)"
proof -
  let ?E = "upgraded D"
  note s = S[unfolded schema_0001_def]
  have ids: "map v_id (versions ?E) = map v_id (versions D)" by (simp add: upgraded_tables comp_def)
  have vs: "v_id ` set (versions ?E) = v_id ` set (versions D)" using ids by (metis list.set_map)
  have us: "u_id ` set (users ?E) = u_id ` set (users D)" by (metis users_of_upgraded(1) list.set_map)
  have "users_ok ?E" using s users_of_upgraded[of D]
    by (auto simp: users_ok_def users_0001_def upgraded_tables list_all_iff fits_opt_def some_list_def comp_def concat_nothing)
  moreover have "versions_ok ?E" using s c by (intro versions_ok_upgraded) simp_all
  moreover have "scans_ok ?E" using s by (intro scans_ok_upgraded) (simp_all add: scans_0001_def list_all_iff image_subset_iff)
  moreover have "results_ok ?E" using s by (intro results_ok_upgraded) (auto simp: scans_0001_def list_all_iff)
  moreover have "plugins_ok ?E" "tags_ok ?E" "configs_ok ?E" "i18ns_ok ?E" "stats_ok ?E" "webhooks_ok ?E"
    using s vs by (simp_all add: table_defs upgraded_tables comp_def)
  moreover have "tasks_ok ?E" "invites_ok ?E" "submissions_ok ?E"
    by (simp_all add: table_defs upgraded_tables)
  ultimately show ?thesis by (simp add: db_ok_def)
qed

text \<open>C22 (functional). What upgrading a database of the first schema does: it fails exactly when a plugin has two versions built
  from one commit, which the first schema allows and revision 5 forbids, and otherwise ends at the newest
  revision with a database that satisfies every constraint of the models. A database at the newest
  revision is left as it is, and so is every database when upgrading is switched off.\<close>

theorem upgrade_succeeds_iff:
  assumes "schema_0001 D"
  shows "(case run_database_migrations S (1, D) of
      Inl e \<Rightarrow> database_auto_migrate S \<and> e = integrity_error \<and> \<not> distinct (commit_index (versions D))
    | Inr (n, E) \<Rightarrow>
        if database_auto_migrate S
        then n = 7 \<and> distinct (commit_index (versions D)) \<and> db_ok E
        else (n, E) = (1, D))
    \<and> run_database_migrations S (7, E') = Inr (7, E')"
  using upgraded_ok[OF assms]
  by (simp add: run_database_migrations_def upgrade_head_first) (simp add: upgrade_head_def revisions_def)

text \<open>Two versions of one plugin, built from the same commit under different numbers.\<close>

definition sample_commit_twice :: db where
  "sample_commit_twice = empty_db\<lparr>plugins := [sample_plugin],
     versions := [sample_version\<lparr>v_source_type := GitAuto, v_commit_sha := Some (replicate 40 CHR ''a'')\<rparr>,
                  sample_version\<lparr>v_id := ''v2'', v_version := ''1.0.1'', v_source_type := GitAuto,
                    v_commit_sha := Some (replicate 40 CHR ''a'')\<rparr>]\<rparr>"

lemma upgrade_succeeds_iff_witness:
  "run_database_migrations default_settings (1, sample_commit_twice) = Inl integrity_error"
proof -
  let ?D = sample_commit_twice
  have S: "schema_0001 ?D"
    by (simp add: sample_commit_twice_def schema_0001_def users_0001_def versions_0001_def version_row_0001_def
        scans_0001_def table_defs empty_db_def sample_plugin_def sample_version_def plugin_row_ok_def latest_ok_def
        artifact_ok_def fits_def fits_opt_def int4_def int8_def ref_ok_def)
  have "is_commit_hash (replicate 40 CHR ''a'')" by (simp add: is_commit_hash_def list_all_iff is_hex_char_def)
  then have "\<not> distinct (commit_index (versions ?D))"
    by (simp add: sample_commit_twice_def commit_index_def sample_version_def)
  with upgrade_succeeds_iff[OF S, of default_settings undefined] show ?thesis
    by (simp add: default_settings_def split: sum.splits prod.splits if_splits)
qed

text \<open>What the columns of the first schema say of a version, read as the service does before it has provider
  results.\<close>

definition legacy_view :: "db \<Rightarrow> version \<Rightarrow> version_view" where
  "legacy_view D v = load_view (D\<lparr>results := []\<rparr>) v"

lemma row_get_map: "(\<And>s. key (f s) = key s) \<Longrightarrow> row_get key k (map f rs) = map_option f (row_get key k rs)"
  by (induction rs) auto

lemma upgraded_view:
  assumes "distinct (map s_version_id (scans D))"
  shows "load_view (upgraded D) v =
    (case row_get s_version_id (v_id v) (scans (upgrade_0002 D)) of
       None \<Rightarrow> \<lparr>vv_version = v, vv_scan = None, vv_results = []\<rparr>
     | Some s \<Rightarrow> \<lparr>vv_version = v, vv_scan = Some s, vv_results = [virustotal_row s, llm_agent_row s]\<rparr>)"
proof -
  have "distinct (map s_version_id (scans (upgrade_0002 D)))" using assms by (simp add: scans_0002)
  note f = filter_key[OF this, of "v_id v"]
  have "filter (\<lambda>r. pr_version_id r = v_id v) (map virustotal_row ss) =
      map virustotal_row (filter (\<lambda>s. s_version_id s = v_id v) ss)"
    "filter (\<lambda>r. pr_version_id r = v_id v) (map llm_agent_row ss) =
      map llm_agent_row (filter (\<lambda>s. s_version_id s = v_id v) ss)" for ss
    by (simp_all add: filter_map comp_def)
  then show ?thesis
    by (simp add: load_view_def results_of_upgraded[OF assms] upgraded_tables(11) f split: option.splits)
qed

lemma upgraded_results:
  assumes "distinct (map s_version_id (scans D))" "v_id v' = v_id v"
  shows "dict_get p (scan_provider_results (load_view (upgraded D) v') ps)
    = dict_get p (scan_provider_results (legacy_view D v) ps)"
proof -
  let ?f = "\<lambda>s. s\<lparr>s_virustotal_analysis_id := None, s_virustotal_file_sha256 := None,
     s_virustotal_submitted_at := None, s_virustotal_deadline_at := None, s_virustotal_next_poll_at := None,
     s_virustotal_poll_attempts := 0\<rparr>"
  have g: "row_get s_version_id i (scans (upgrade_0002 D)) = map_option ?f (row_get s_version_id i (scans D))" for i
    by (simp add: upgrade_0002_def row_get_map)
  have l: "legacy_results (?f s) = legacy_results s" for s by (simp add: legacy_results_def)
  show ?thesis
  proof (cases "row_get s_version_id (v_id v) (scans D)")
    case None
    then have e: "legacy_view D v = \<lparr>vv_version = v, vv_scan = None, vv_results = []\<rparr>"
      by (simp add: legacy_view_def load_view_def)
    from None g have "load_view (upgraded D) v' = \<lparr>vv_version = v', vv_scan = None, vv_results = []\<rparr>"
      using assms(2) by (simp add: upgraded_view[OF assms(1)])
    with e show ?thesis by (simp add: scan_provider_results_get row_results_def dict_of_def)
  next
    case (Some s)
    have d: "distinct (map pr_provider [virustotal_row (?f s), llm_agent_row (?f s)])"
      by (simp add: virustotal_row_def llm_agent_row_def)
    from Some g have v: "load_view (upgraded D) v' =
        \<lparr>vv_version = v', vv_scan = Some (?f s), vv_results = [virustotal_row (?f s), llm_agent_row (?f s)]\<rparr>"
      using assms(2) by (simp add: upgraded_view[OF assms(1)])
    have e: "legacy_view D v = \<lparr>vv_version = v, vv_scan = Some s, vv_results = []\<rparr>"
      using Some by (simp add: legacy_view_def load_view_def)
    let ?W = "\<lparr>vv_version = v', vv_scan = Some (?f s), vv_results = [virustotal_row (?f s), llm_agent_row (?f s)]\<rparr>"
    have rows: "dict_get p (row_results ?W ps) = (if selects ps p then dict_get p (legacy_results s) else None)"
      using row_results_get[of ?W p ps] d
      by (simp add: legacy_results_def provider_result_payload_def virustotal_row_def llm_agent_row_def)
    have none: "dict_get p (row_results \<lparr>vv_version = v, vv_scan = Some s, vv_results = []\<rparr> ps) = None"
      by (simp add: row_results_def dict_of_def)
    show ?thesis
      unfolding v e scan_provider_results_get rows none by (simp add: l split: option.splits)
  qed
qed

text \<open>C23 (equivalence). An upgrade loses no scan result: for every version the service reads, from the rows that revision 3 makes
  of the old columns, for every provider what it read from the columns before, so that the gate is open
  for the same versions. The same users with the same roles may log in.\<close>

theorem upgrade_keeps_results:
  assumes "schema_0001 D" "upgrade_head (1, D) = Inr (n, E)" "v \<in> set (versions D)"
  shows "\<exists>v' \<in> set (versions E). v_id v' = v_id v
    \<and> (\<forall>p ps. dict_get p (scan_provider_results (load_view E v') ps) = dict_get p (scan_provider_results (legacy_view D v) ps))
    \<and> (\<forall>ps. scan_passed (load_view E v') (Some ps) \<longleftrightarrow> scan_passed (legacy_view D v) (Some ps))
    \<and> map (\<lambda>u. (u_id u, u_username u, u_role u, u_is_active u \<and> u_status u = UActive)) (users E)
        = map (\<lambda>u. (u_id u, u_username u, u_role u, u_is_active u)) (users D)"
proof -
  let ?v = "v\<lparr>v_source_ref := None\<rparr>"
  have E: "E = upgraded D" using assms(2) by (simp add: upgrade_head_first split: if_splits)
  have d: "distinct (map s_version_id (scans D))" using assms(1) by (simp add: schema_0001_def scans_0001_def)
  note r = upgraded_results[OF d, of ?v v]
  have "?v \<in> set (versions E)" using assms(3) by (simp add: E upgraded_tables)
  moreover have "scan_passed (load_view E ?v) (Some ps) \<longleftrightarrow> scan_passed (legacy_view D v) (Some ps)" for ps
    by (simp add: scan_passed_def scan_gate_iff E r)
  ultimately show ?thesis using r by (intro bexI[of _ ?v]) (simp_all add: E upgraded_tables)
qed

definition sample_first_schema :: db where
  "sample_first_schema = empty_db\<lparr>plugins := [sample_plugin], versions := [sample_version], scans := [sample_scan]\<rparr>"

lemma upgrade_keeps_results_witness:
  "\<exists>v. v_id v = ''v1'' \<and> scan_passed (load_view (upgraded sample_first_schema) v) (Some [''virustotal'', ''llm_agent''])"
proof -
  let ?D = sample_first_schema
  have S: "schema_0001 ?D"
    by (simp add: sample_first_schema_def schema_0001_def users_0001_def versions_0001_def version_row_0001_def
        scans_0001_def table_defs empty_db_def sample_plugin_def sample_version_def sample_scan_def new_scan_def
        plugin_row_ok_def latest_ok_def artifact_ok_def fits_def fits_opt_def int4_def int8_def ref_ok_def)
  have u: "upgrade_head (1, ?D) = Inr (7, upgraded ?D)"
    by (simp add: upgrade_head_first sample_first_schema_def commit_index_def sample_version_def)
  have "scan_passed (legacy_view ?D sample_version) (Some [''virustotal'', ''llm_agent''])"
    by (simp add: scan_passed_def scan_gate_iff legacy_view_def load_view_def scan_provider_results_get row_results_def
        sample_first_schema_def empty_db_def sample_version_def sample_scan_def new_scan_def legacy_results_def
        payload_ok_def dict_of_def selects_def)
  moreover have "sample_version \<in> set (versions ?D)" by (simp add: sample_first_schema_def)
  ultimately obtain v' where "v_id v' = v_id sample_version"
    "scan_passed (load_view (upgraded ?D) v') (Some [''virustotal'', ''llm_agent''])"
    using upgrade_keeps_results[OF S u] by blast
  then show ?thesis by (auto simp: sample_version_def)
qed

section \<open>The way back\<close>

text \<open>The downgrades. A column or table that is dropped is not looked at in the revision below; the constraints that
  a downgrade creates again are checked.\<close>

definition downgrade_0007 :: "db \<Rightarrow> db" where
  "downgrade_0007 D = D\<lparr>submissions := []\<rparr>"

definition downgrade_0006 :: "db \<Rightarrow> exn + db" where
  "downgrade_0006 D =
     (if list_all (\<lambda>u. u_role u \<in> {RoleAdmin, RoleReviewer}) (users D) then Inr (D\<lparr>invites := []\<rparr>)
      else Inl integrity_error)"

definition downgrade_0005 :: "db \<Rightarrow> exn + db" where
  "downgrade_0005 D =
     (if distinct (map (\<lambda>v. (v_plugin_id v, v_version v)) (versions D)) then Inr D else Inl integrity_error)"

definition downgrade_0004 :: "db \<Rightarrow> db" where
  "downgrade_0004 D = D\<lparr>tasks := []\<rparr>"

definition downgrade_0003 :: "db \<Rightarrow> db" where
  "downgrade_0003 D = D\<lparr>results := []\<rparr>"

definition downgrade_0002 :: "db \<Rightarrow> db" where
  "downgrade_0002 D = D"

definition downgrade_0001 :: "db \<Rightarrow> db" where
  "downgrade_0001 D = empty_db"

text \<open>From the newest revision back to the first.\<close>

definition downgrade_first :: "db \<Rightarrow> exn + db" where
  "downgrade_first = run_revisions [Inr \<circ> downgrade_0007, downgrade_0006, downgrade_0005, Inr \<circ> downgrade_0004,
     Inr \<circ> downgrade_0003, Inr \<circ> downgrade_0002]"

lemma downgrade_first_eq:
  "downgrade_first E =
    (if list_all (\<lambda>u. u_role u \<in> {RoleAdmin, RoleReviewer}) (users E)
        \<and> distinct (map (\<lambda>v. (v_plugin_id v, v_version v)) (versions E))
     then Inr (E\<lparr>submissions := [], invites := [], tasks := [], results := []\<rparr>) else Inl integrity_error)"
  by (simp add: downgrade_first_def downgrade_0007_def downgrade_0006_def downgrade_0005_def downgrade_0004_def
      downgrade_0003_def downgrade_0002_def)

text \<open>An upgrade can be undone: the downgrade of what it made succeeds, the result is a database of the first schema
  again, and what that schema holds of versions, users and scan results is what it was.\<close>

theorem downgrade_undoes_upgrade:
  assumes S: "schema_0001 D" and up: "upgrade_head (1, D) = Inr (n, E)"
  shows "\<exists>D'. downgrade_first E = Inr D' \<and> schema_0001 D'
    \<and> map (\<lambda>v. v\<lparr>v_source_ref := None\<rparr>) (versions D') = map (\<lambda>v. v\<lparr>v_source_ref := None\<rparr>) (versions D)
    \<and> map (\<lambda>u. (u_id u, u_username u, u_password_hash u, u_role u, u_is_active u)) (users D')
        = map (\<lambda>u. (u_id u, u_username u, u_password_hash u, u_role u, u_is_active u)) (users D)
    \<and> map (\<lambda>s. (s_version_id s, legacy_results s, s_scanned_at s)) (scans D')
        = map (\<lambda>s. (s_version_id s, legacy_results s, s_scanned_at s)) (scans D)"
proof -
  let ?E = "upgraded D" let ?D = "?E\<lparr>submissions := [], invites := [], tasks := [], results := []\<rparr>"
  have E: "E = ?E" using up by (simp add: upgrade_head_first split: if_splits)
  note s = S[unfolded schema_0001_def]
  have vs: "v_id ` set (versions ?E) = v_id ` set (versions D)" by (simp add: upgraded_tables image_image)
  have us: "u_id ` set (users ?E) = u_id ` set (users D)" by (simp add: upgraded_tables image_image)
  have roles: "list_all (\<lambda>u. u_role u \<in> {RoleAdmin, RoleReviewer}) (users ?E)"
    using s by (auto simp: users_0001_def upgraded_tables list_all_iff)
  have numbers: "map (\<lambda>v. (v_plugin_id v, v_version v)) (versions ?E) = map (\<lambda>v. (v_plugin_id v, v_version v)) (versions D)"
    by (simp add: upgraded_tables comp_def)
  have "users_0001 ?D" using s by (auto simp: users_0001_def upgraded_tables list_all_iff comp_def)
  moreover have "versions_0001 ?D"
    using s us by (auto simp: versions_0001_def version_row_0001_def latest_ok_def artifact_ok_def upgraded_tables
        list_all_iff comp_def filter_map ref_ok_def split: option.splits)
  moreover have "scans_0001 ?D" using s by (auto simp: scans_0001_def upgraded_tables upgrade_0002_def list_all_iff comp_def image_iff)
  moreover have "plugins_ok ?D" "tags_ok ?D" "configs_ok ?D" "i18ns_ok ?D" "stats_ok ?D" "webhooks_ok ?D"
    using s vs by (simp_all add: table_defs upgraded_tables comp_def)
  ultimately have "schema_0001 ?D" by (simp add: schema_0001_def)
  moreover have "downgrade_first E = Inr ?D"
    using roles numbers s by (simp add: E downgrade_first_eq versions_0001_def)
  moreover have "map (\<lambda>s. (s_version_id s, legacy_results s, s_scanned_at s)) (scans ?D)
      = map (\<lambda>s. (s_version_id s, legacy_results s, s_scanned_at s)) (scans D)"
    by (simp add: upgraded_tables upgrade_0002_def comp_def legacy_results_def)
  ultimately show ?thesis by (intro exI[of _ ?D]) (simp add: upgraded_tables comp_def)
qed

end
