(* ===== verification/Spec2Isabelle.thy ===== *)
theory Spec2Isabelle
  imports Lifecycle GitUtils Accounts Worker Archives ConfigService ApiInvariants Migrations
begin

text \<open>
  A model of the registry service of the AstrBot community plugin registry
  (\<open>registry/src/astrbot_registry/\<close>, Python), translated function by function.

  \<^bold>\<open>The program.\<close> Authors submit plugins; the service clones or receives an archive, stores it in an object
  store, scans it with several providers, lets a reviewer publish it, and serves a JSON document of the
  published plugins from a Redis cache. The API and a worker share a PostgreSQL database and a Redis queue.

  \<^bold>\<open>Theories and sources.\<close>
  \<^item> \<open>Prelude\<close>, \<open>PyStrings\<close>, \<open>Rows\<close>, \<open>Json\<close>: operations on a state that may raise (\<open>bind_op\<close>, \<open>try_op\<close>),
    the exceptions of \<open>services/errors.py\<close>, what the code uses of Python's strings, numbers and
    dictionaries, tables as lists of rows under a key, and JSON values with the writer \<open>json.dumps\<close>.
  \<^item> \<open>Models\<close>: the tables of \<open>models/*.py\<close> as records and their constraints as \<open>db_ok\<close>;
    \<open>Settings\<close>: \<open>config.py\<close>; \<open>World\<close>: the session, the commit, Redis and the outside services;
    \<open>Samples\<close>: concrete rows and states.
  \<^item> \<open>RuntimeConfig\<close>: \<open>services/runtime_config.py\<close>, settings kept in the database behind a cache.
  \<^item> \<open>ScanBase\<close>, \<open>VirusTotal\<close>, \<open>ClamAV\<close>, \<open>LlmAgent\<close>, \<open>ScanRegistry\<close>:
    \<open>services/scan_providers/*.py\<close>; \<open>ScanGate\<close> and \<open>ScanService\<close>: \<open>services/scan_service.py\<close>.
  \<^item> \<open>RegistryService\<close>: \<open>services/registry_service.py\<close> and the keys of \<open>services/s3_service.py\<close>;
    \<open>PluginService\<close>: \<open>services/plugin_service.py\<close>; \<open>MetadataParser\<close>: \<open>utils/metadata_parser.py\<close>.
  \<^item> \<open>TaskObservability\<close>, \<open>TaskQueue\<close>: \<open>services/task_observability.py\<close>, \<open>services/task_queue.py\<close> and
    \<open>worker.pop_task\<close>.
  \<^item> \<open>GitUtils\<close>: \<open>utils/git_utils.py\<close>; \<open>GitProviders\<close>: \<open>services/git_providers/*.py\<close>;
    \<open>BuildService\<close>: \<open>services/build_service.py\<close>, \<open>submit_service.py\<close> and
    \<open>repo_inspection_service.py\<close>.
  \<^item> \<open>Worker\<close>: \<open>worker.py\<close>; \<open>Archives\<close>: \<open>utils/zip_utils.py\<close>, \<open>services/artifact_service.py\<close> and the upload
    handling of \<open>api/admin.py\<close>.
  \<^item> \<open>IpAddress\<close>: what the code uses of Python's \<open>ipaddress\<close>; \<open>Security\<close>: \<open>services/security_service.py\<close>;
    \<open>Accounts\<close>: \<open>services/auth_service.py\<close>, \<open>registration_service.py\<close>, \<open>bootstrap_service.py\<close>,
    \<open>api/auth.py\<close>, \<open>api/deps.py\<close> and the user and invite handlers of \<open>api/admin.py\<close>.
  \<^item> \<open>ConfigService\<close>: \<open>services/config_service.py\<close>; \<open>StatsService\<close>: \<open>services/stats_service.py\<close>;
    \<open>Submissions\<close>: \<open>services/submission_service.py\<close> and \<open>api/submissions.py\<close>.
  \<^item> \<open>AdminViews\<close>, \<open>AdminApi\<close>, \<open>Webhooks\<close>: the responses, the handlers and the GitHub webhook of \<open>api/admin.py\<close>;
    \<open>PublicApi\<close>: \<open>api/public.py\<close>; \<open>Startup\<close>: \<open>main.py\<close>; \<open>HttpApi\<close>: all requests of the routers as one datatype
    with the handler that answers each.
  \<^item> \<open>Migrations\<close>: \<open>alembic/versions/*.py\<close> and \<open>services/migration_service.py\<close>.
  \<^item> \<open>Invariants\<close>: the laws under which every operation of a session keeps a predicate, as locales.
  \<^item> \<open>Lifecycle\<close>: operations as steps of the whole service, and what holds at every reachable state;
    \<open>Authorization\<close>: whom each request is for; \<open>ApiInvariants\<close>: what every request keeps.

  \<^bold>\<open>What the lemmas show.\<close> A service operation has a lemma that gives its value and its
  state branch by branch (\<open>..._apply\<close>), lemmas \<open>keeps I op\<close> that it keeps an
  invariant, and properties built on these: who may publish and what publishing changes, that the gate is what
  its rule says, that a scan records what each provider answered, that polling and retrying end, that the queue
  loses no task, that the served document lists exactly the published versions, and that from the empty database
  no sequence of requests, failed ones included, gets a version published past the gate. At the level of
  requests: a request of somebody it is not for is refused and changes nothing, only two requests, of reviewers
  and admins, can name a new latest version, every request and its background tasks keep the constraints of the
  database, the endpoints of the registry agree, a submission is decided once, an unsigned webhook event does
  nothing, what a configuration update writes is what is read, and secrets do not show. An upgrade of the
  database fails exactly when its revision 5 cannot be applied, loses no scan result and can be undone. The
  interfaces are locales: \<open>keyed_store\<close> (rows under a key), \<open>task_broker\<close> (the queue),
  \<open>session_invariant\<close>, \<open>scan_invariant\<close> and \<open>latest_invariant\<close>
  (predicates kept by every operation), \<open>api_invariant\<close> and \<open>blind_api\<close> (predicates
  kept by every request), each interpreted on the model.

  \<^bold>\<open>Modelling decisions.\<close>
  \<^item> A session is a working copy of the committed database; a flush or commit checks every constraint
    (\<open>db_ok\<close>) and rolls back when one fails. A constraint that PostgreSQL would reject at an autoflush is
    reported at the next flush or commit.
  \<^item> The clock is read once per operation (\<open>e_now\<close>), identifiers come from a stream, and hash functions, HTTP
    answers, the clamd socket, the object store, the archive reader and \<open>json.loads\<close> are functions in \<open>env\<close>;
    git, the GitHub API and the file system are functions in \<open>git_world\<close>, bcrypt, token signing and the random
    generator in \<open>auth_env\<close>, the reader of zip archives in \<open>zip_world\<close>. Nothing is assumed of them except where
    a theorem says so.
  \<^item> Text is its code points below 256, dates are unbounded counts of microseconds, JSON numbers are
    integers, file sizes stay below \<open>2 ^ 53\<close>. Redis values are kept decoded.
  \<^item> Recursion is structural throughout, so every operation of the model ends; there is no fuel.
  \<^item> Columns nobody reads (surrogate keys, some \<open>updated_at\<close>) are dropped.
  \<^item> The providers of one scan run concurrently in the code and in the order of the registry here; the
    first exception in that order is the one raised.

  \<^item> The monotonic clock of the limiters counts microseconds from a moment before the process started.
    \<open>fromisoformat\<close> is defined on the texts that \<open>isoformat\<close> writes. A worker that ends with an exception is
    started again by its supervisor, which is a further iteration of \<open>run_iterations\<close>.

  \<^item> A request is one session, which ends without a commit of its own; its background tasks run after its answer.
    Responses are records, request bodies the values that FastAPI has parsed, and a path or query value that
    FastAPI does not parse is a text. A day of the download statistics is a day in UTC, \<open>e_md5\<close> is the digest of
    the encoded text, and whether the migrations and the creation of the bucket succeed at the start is given.
  \<^item> A database of an earlier revision is a value of the present type whose later columns are not looked at.

  \<^bold>\<open>Not modelled.\<close> The parsing of requests by FastAPI and pydantic and the wire form of the
  responses (framework code), the Redis and database clients, the environment of the migrations, logging, the
  test hooks that replace the provider registry, the dashboard (TypeScript), \<open>acprctl\<close> (Go) and
  deployment files. Overlap of two sessions in time is not modelled: the steps of \<open>Lifecycle\<close> are
  whole sessions.
\<close>

end
